(* ===== verification/Prelude.thy ===== *)
theory Prelude
  imports Main "HOL-Library.Char_ord" "HOL-Library.List_Lexorder" "HOL-Library.Sublist"
begin

text \<open>
  The shared vocabulary of the development: Go strings and byte slices, errors as values with
  their gRPC status codes, the results of fallible calls, and the generic facts on strictly
  ordered key/value sequences (what a database cursor walks) that the storage components share.

  Go strings and \<open>[]byte\<close> are both \<^typ>\<open>string\<close>: a list of bytes, ordered byte-wise, which is the
  order \<open>bytes.Compare\<close> and the storage engine use.
\<close>

section \<open>Bytes, errors and results\<close>

type_synonym bytes = string

text \<open>The gRPC status codes the sources name.\<close>

datatype code = OK | NotFound | InvalidArgument | FailedPrecondition | AlreadyExists
  | Unknown | Internal | Unimplemented

text \<open>
  Errors. \<open>AErr\<close> is a \<open>cerr.NewAsertoError\<close> value of the sources (identifier, status code,
  message); \<open>DErr\<close> is one of the error constants of the go-directory and go-authorizer modules,
  by name and with the message the call site attaches; \<open>ExtErr\<close> is an error a third-party call
  returned (storage engine, codec, validator, model cache); \<open>PlainErr\<close> is \<open>errors.New\<close> and
  \<open>WrapErr\<close> is \<open>errors.Wrapf\<close> or \<open>fmt.Errorf\<close> with \<open>%w\<close>; \<open>JoinErr\<close> is \<open>errors.Join\<close>. \<open>Panic\<close> is a
  Go panic, which ends the call without a result.
\<close>

datatype derror =
    AErr string code string
  | DErr string string
  | ExtErr string
  | PlainErr string
  | WrapErr string derror
  | JoinErr "derror list"
  | Panic string

text \<open>The panic of dereferencing a nil pointer or calling a nil function.\<close>

definition nil_deref :: derror where
  "nil_deref = Panic ''invalid memory address or nil pointer dereference''"

text \<open>\<open>status.Code\<close>: the code an error carries; an error without one is \<open>codes.Unknown\<close>.\<close>

fun status_code :: "derror \<Rightarrow> code" where
  "status_code (AErr _ c _) = c"
| "status_code (WrapErr _ e) = status_code e"
| "status_code _ = Unknown"

type_synonym 'a result = "derror + 'a"

text \<open>The error half of a result, as the \<open>error\<close> value a Go function returns next to its result.\<close>

definition err_of :: "'a result \<Rightarrow> derror option" where
  "err_of r = (case r of Inl e \<Rightarrow> Some e | Inr _ \<Rightarrow> None)"

lemma err_of_simps [simp]: "err_of (Inl e) = Some e" "err_of (Inr x) = None"
  by (simp_all add: err_of_def)

section \<open>Blank strings\<close>

text \<open>
  \<open>strings.TrimSpace(s) == ""\<close>: the string consists of white space only, that is of the ASCII
  spaces and of the UTF-8 encodings of the other code points \<open>unicode.IsSpace\<close> accepts.
\<close>

definition ascii_space :: "char \<Rightarrow> bool" where
  "ascii_space c \<longleftrightarrow> c \<in> set [CHR 0x09, CHR 0x0A, CHR 0x0B, CHR 0x0C, CHR 0x0D, CHR 0x20]"

definition space2 :: "char \<Rightarrow> char \<Rightarrow> bool" where
  "space2 a b \<longleftrightarrow> a = CHR 0xC2 \<and> b \<in> set [CHR 0x85, CHR 0xA0]"

definition space3 :: "char \<Rightarrow> char \<Rightarrow> char \<Rightarrow> bool" where
  "space3 a b c \<longleftrightarrow>
     a = CHR 0xE1 \<and> b = CHR 0x9A \<and> c = CHR 0x80 \<or>
     a = CHR 0xE2 \<and> b = CHR 0x80 \<and> c \<in> set [CHR 0x80, CHR 0x81, CHR 0x82, CHR 0x83, CHR 0x84,
       CHR 0x85, CHR 0x86, CHR 0x87, CHR 0x88, CHR 0x89, CHR 0x8A, CHR 0xA8, CHR 0xA9, CHR 0xAF] \<or>
     a = CHR 0xE2 \<and> b = CHR 0x81 \<and> c = CHR 0x9F \<or>
     a = CHR 0xE3 \<and> b = CHR 0x80 \<and> c = CHR 0x80"

fun blank :: "string \<Rightarrow> bool" where
  "blank [] = True"
| "blank (a # s) =
     (if ascii_space a then blank s
      else case s of
        b # s' \<Rightarrow> if space2 a b then blank s'
          else (case s' of c # s'' \<Rightarrow> space3 a b c \<and> blank s'' | [] \<Rightarrow> False)
      | [] \<Rightarrow> False)"

lemma not_blank_nonempty: "\<not> blank s \<Longrightarrow> s \<noteq> []"
  by auto

section \<open>Joining strings\<close>

text \<open>\<open>strings.Join\<close>.\<close>

fun join :: "string \<Rightarrow> string list \<Rightarrow> string" where
  "join sep [] = []"
| "join sep [s] = s"
| "join sep (s # t # ss) = s @ sep @ join sep (t # ss)"

section \<open>Lemma collections\<close>

named_theorems engine_simps \<open>what the storage engine's operations return\<close>
named_theorems handler_defs \<open>definitions of the request handlers\<close>
named_theorems wf_simps \<open>well-formedness of identifiers\<close>

section \<open>Byte order and prefixes\<close>

lemma prefix_imp_le: "prefix p k \<Longrightarrow> p \<le> k" for p k :: "'a :: linorder list"
proof (induction p arbitrary: k)
  case (Cons a p)
  then show ?case by (cases k) auto
qed simp

lemma prefix_between:
  "p \<le> k \<Longrightarrow> k \<le> k' \<Longrightarrow> prefix p k' \<Longrightarrow> prefix p k" for p k :: "'a :: linorder list"
proof (induction p arbitrary: k k')
  case (Cons a p)
  from Cons.prems(3) obtain r where k': "k' = a # r" and r: "prefix p r"
    by (cases k') auto
  from Cons.prems(1) obtain b s where k: "k = b # s"
    by (cases k) auto
  from Cons.prems(1,2) k k' have "a = b" and "p \<le> s" "s \<le> r" by auto
  with Cons.IH r k show ?case by auto
qed simp

section \<open>Strictly ordered key/value sequences\<close>

abbreviation ordered :: "('k :: linorder \<times> 'v) list \<Rightarrow> bool" where
  "ordered es \<equiv> sorted_wrt (<) (map fst es)"

lemma ordered_distinct: "ordered es \<Longrightarrow> distinct (map fst es)"
  by (induction es) auto

lemma ordered_filter: "ordered es \<Longrightarrow> ordered (filter P es)"
  by (induction es) auto

lemma ordered_dropWhile: "ordered es \<Longrightarrow> ordered (dropWhile P es)"
  by (induction es) auto

lemma dropWhile_ordered_eq_filter:
  "ordered es \<Longrightarrow> dropWhile (\<lambda>e. fst e < k) es = filter (\<lambda>e. k \<le> fst e) es"
proof (induction es)
  case (Cons e es)
  show ?case
  proof (cases "fst e < k")
    case False
    with Cons.prems have "\<forall>e' \<in> set es. k \<le> fst e'" by fastforce
    with False show ?thesis by (simp add: not_less)
  qed (use Cons in auto)
qed simp

lemma takeWhile_prefix_ordered:
  fixes es :: "('k :: linorder list \<times> 'v) list"
  assumes "ordered es" and "\<forall>e \<in> set es. p \<le> fst e"
  shows "takeWhile (\<lambda>e. prefix p (fst e)) es = filter (\<lambda>e. prefix p (fst e)) es"
  using assms
proof (induction es)
  case (Cons e es)
  show ?case
  proof (cases "prefix p (fst e)")
    case False
    have "\<not> prefix p (fst e')" if "e' \<in> set es" for e'
      using Cons.prems False that prefix_between [of p "fst e" "fst e'"] by (auto dest: less_imp_le)
    with False show ?thesis by (auto simp: filter_empty_conv)
  qed (use Cons in auto)
qed simp

text \<open>
  The prefix scan every component uses: seek to the prefix, then step while the key still has it.
  On an ordered sequence this is exactly the sub-sequence of the entries with that prefix.
\<close>

lemma prefix_scan:
  fixes es :: "('k :: linorder list \<times> 'v) list"
  assumes "ordered es"
  shows "takeWhile (\<lambda>e. prefix p (fst e)) (dropWhile (\<lambda>e. fst e < p) es)
       = filter (\<lambda>e. prefix p (fst e)) es"
proof -
  have "takeWhile (\<lambda>e. prefix p (fst e)) (dropWhile (\<lambda>e. fst e < p) es)
      = filter (\<lambda>e. prefix p (fst e)) (filter (\<lambda>e. p \<le> fst e) es)"
    using assms by (simp add: dropWhile_ordered_eq_filter takeWhile_prefix_ordered ordered_filter)
  also have "\<dots> = filter (\<lambda>e. prefix p (fst e)) es"
    by (auto intro!: filter_cong dest: prefix_imp_le)
  finally show ?thesis .
qed

lemma filter_ge_nth_drop:
  "ordered es \<Longrightarrow> j < length es \<Longrightarrow> filter (\<lambda>e. fst (es ! j) \<le> fst e) es = drop j es"
proof (induction es arbitrary: j)
  case (Cons e es)
  show ?case
  proof (cases j)
    case 0
    with Cons.prems show ?thesis by (auto simp: filter_id_conv intro: less_imp_le)
  next
    case (Suc i)
    with Cons.prems have "fst e < fst (es ! i)" by simp
    then have "\<not> fst (es ! i) \<le> fst e" by (simp add: not_le)
    with Suc Cons show ?thesis by simp
  qed
qed simp

lemma takeWhile_prefix_from:
  fixes es :: "('k :: linorder list \<times> 'v) list" and p :: "'k list"
  defines "fs \<equiv> filter (\<lambda>e. prefix p (fst e)) es"
  assumes "ordered es" and "j < length (fs)"
  shows "takeWhile (\<lambda>e. prefix p (fst e)) (dropWhile (\<lambda>e. fst e < fst (fs ! j)) es)
       = drop j (fs)"
proof -
  let ?k = "fst (fs ! j)"
  have "p \<le> ?k"
    using nth_mem [OF assms(3)] unfolding fs_def by (auto intro: prefix_imp_le)
  then have "\<forall>e \<in> set (filter (\<lambda>e. ?k \<le> fst e) es). p \<le> fst e" by auto
  then have "takeWhile (\<lambda>e. prefix p (fst e)) (dropWhile (\<lambda>e. fst e < ?k) es)
      = filter (\<lambda>e. ?k \<le> fst e) (fs)"
    using assms(2) unfolding fs_def
    by (simp add: dropWhile_ordered_eq_filter takeWhile_prefix_ordered ordered_filter conj_commute)
  also have "\<dots> = drop j (fs)"
    using assms(2,3) unfolding fs_def by (intro filter_ge_nth_drop ordered_filter)
  finally show ?thesis .
qed

lemma set_ordered_iff: "ordered es \<Longrightarrow> (k, v) \<in> set es \<longleftrightarrow> map_of es k = Some v"
  by (simp add: ordered_distinct)

lemma ordered_map_of_eq:
  assumes "ordered es" "ordered fs" "map_of es = map_of fs"
  shows "es = fs"
proof -
  have "set es = set fs"
    using assms by (auto simp: set_ordered_iff)
  moreover have "inj_on fst (set es)"
    using ordered_distinct [OF assms(1)] by (simp add: distinct_map)
  ultimately show ?thesis
    using assms by (intro map_sorted_distinct_set_unique [of fst]) (auto simp: strict_sorted_iff)
qed

end
