(* ===== verification/Utf8.thy ===== *)
theory Utf8
  imports Prelude
begin

text \<open>
  UTF-8 as package \<open>unicode/utf8\<close> of the Go standard library reads it: the length of the encoded
  code point at the head of a byte string, valid strings, and the encoding of a code point. The
  text fields of a request are valid UTF-8 (the wire format guarantees it), and a text column of
  Postgres holds valid UTF-8 without NUL bytes.
\<close>

section \<open>Code points in a byte string\<close>

definition byte_in :: "nat \<Rightarrow> nat \<Rightarrow> char \<Rightarrow> bool" where
  "byte_in lo hi c \<longleftrightarrow> lo \<le> of_char c \<and> of_char c \<le> hi"

text \<open>
  \<open>utf8.DecodeRune\<close>: the number of bytes of the code point at the head, 0 where the Go function
  reports an invalid encoding. The first byte fixes the length and the range of the second one
  (which rules out overlong forms, surrogates and values above U+10FFFF).
\<close>

definition lead :: "char \<Rightarrow> nat" where
  "lead a = (if byte_in 0 127 a then 1 else if byte_in 194 223 a then 2
     else if byte_in 224 239 a then 3 else if byte_in 240 244 a then 4 else 0)"

definition second_ok :: "char \<Rightarrow> char \<Rightarrow> bool" where
  "second_ok a b \<longleftrightarrow>
     byte_in (if a = CHR 0xE0 then 160 else if a = CHR 0xF0 then 144 else 128)
       (if a = CHR 0xED then 159 else if a = CHR 0xF4 then 143 else 191) b"

fun rune_size :: "bytes \<Rightarrow> nat" where
  "rune_size [] = 0"
| "rune_size (a # s) =
     (let n = lead a in
      if n \<le> 1 then n
      else if n \<le> Suc (length s) \<and> second_ok a (s ! 0) \<and>
        list_all (byte_in 128 191) (take (n - 2) (drop 1 s))
      then n else 0)"

declare rune_size.simps(2) [simp del]

lemma rune_size_le: "rune_size s \<le> length s"
  by (cases s) (auto simp: rune_size.simps Let_def)

lemma rune_size_ascii [simp]: "byte_in 0 127 a \<Longrightarrow> rune_size (a # s) = 1"
  by (simp add: rune_size.simps lead_def)

lemma rune_size_head:
  assumes "rune_size s = n" "0 < n"
  shows "rune_size (take n s @ t) = n"
proof (cases s)
  case (Cons a r)
  with assms have n: "lead a = n" by (auto simp: rune_size.simps Let_def split: if_splits)
  show ?thesis
  proof (cases "n \<le> 1")
    case False
    then obtain m where m: "n = Suc (Suc m)" by (metis One_nat_def Suc_le_mono not0_implies_Suc zero_le)
    with assms Cons n have *: "n \<le> Suc (length r)" "second_ok a (r ! 0)"
        "list_all (byte_in 128 191) (take m (drop 1 r))"
      by (auto simp: rune_size.simps(2) Let_def split: if_splits)
    with m obtain b q where r: "r = b # q" "m \<le> length q" by (cases r) auto
    with * m n Cons show ?thesis by (simp add: rune_size.simps(2))
  next
    case True
    with assms(2) have "n = 1" by simp
    with n Cons show ?thesis by (simp add: rune_size.simps(2))
  qed
qed (use assms in simp)

text \<open>\<open>utf8.Valid\<close>.\<close>

function utf8_valid :: "bytes \<Rightarrow> bool" where
  "utf8_valid s = (if s = [] then True else if rune_size s = 0 then False
     else utf8_valid (drop (rune_size s) s))"
  by auto
termination by (relation "measure length") auto

declare utf8_valid.simps [simp del]

lemma utf8_valid_Nil [simp]: "utf8_valid []"
  by (subst utf8_valid.simps) simp

lemma utf8_valid_ascii [simp]: "byte_in 0 127 a \<Longrightarrow> utf8_valid (a # s) = utf8_valid s"
  by (subst utf8_valid.simps) simp

text \<open>Text that every backend can hold.\<close>

definition text_ok :: "string \<Rightarrow> bool" where
  "text_ok s \<longleftrightarrow> utf8_valid s \<and> CHR 0x00 \<notin> set s"

lemma text_ok_Nil [simp]: "text_ok []"
  by (simp add: text_ok_def)

section \<open>Encoding a code point\<close>

text \<open>\<open>utf8.EncodeRune\<close>; surrogates and values out of range encode as U+FFFD.\<close>

definition replacement :: bytes where
  "replacement = [CHR 0xEF, CHR 0xBF, CHR 0xBD]"

definition encode_rune :: "nat \<Rightarrow> bytes" where
  "encode_rune r =
     (if r < 0x80 then [char_of r]
      else if r < 0x800 then [char_of (0xC0 + r div 64), char_of (0x80 + r mod 64)]
      else if 0xD800 \<le> r \<and> r < 0xE000 \<or> 0x10FFFF < r then replacement
      else if r < 0x10000
      then [char_of (0xE0 + r div 4096), char_of (0x80 + r div 64 mod 64), char_of (0x80 + r mod 64)]
      else [char_of (0xF0 + r div 262144), char_of (0x80 + r div 4096 mod 64),
            char_of (0x80 + r div 64 mod 64), char_of (0x80 + r mod 64)])"

end
