(* ===== verification/Messages.thy ===== *)
theory Messages
  imports Utf8 "HOL-Library.Word"
begin

text \<open>
  The directory's messages: objects, relations and their identifiers, property bags, timestamps
  and manifests, with the fields the sources read and write. A pointer that the code tests
  against \<open>nil\<close> is an \<open>option\<close>; a generated getter is nil-safe and returns the zero value of its
  field on a nil message, which the readers below write out.
\<close>

section \<open>Timestamps and property bags\<close>

record timestamp =
  secs :: int
  nanos :: int

text \<open>\<open>GetSeconds\<close> and \<open>GetNanos\<close> of a possibly nil timestamp.\<close>

definition ts_secs :: "timestamp option \<Rightarrow> int" where
  "ts_secs t = (case t of None \<Rightarrow> 0 | Some x \<Rightarrow> secs x)"

definition ts_nanos :: "timestamp option \<Rightarrow> int" where
  "ts_nanos t = (case t of None \<Rightarrow> 0 | Some x \<Rightarrow> nanos x)"

text \<open>\<open>structpb.Value\<close>; a number is kept as the bits of its \<open>float64\<close>.\<close>

datatype pbval =
    PNull
  | PNum "64 word"
  | PStr string
  | PBool bool
  | PStruct "string \<Rightarrow> pbval option"
  | PList "pbval list"

text \<open>\<open>structpb.Struct\<close> behind a pointer: \<open>None\<close> is the nil pointer.\<close>

type_synonym pbstruct = "(string \<rightharpoonup> pbval) option"

text \<open>\<open>GetFields\<close>: the fields of a possibly nil struct.\<close>

definition pb_fields :: "pbstruct \<Rightarrow> (string \<rightharpoonup> pbval)" where
  "pb_fields s = (case s of None \<Rightarrow> Map.empty | Some m \<Rightarrow> m)"

text \<open>\<open>GetStringValue\<close> of a possibly nil value: the empty string unless it holds a string.\<close>

definition pb_string :: "pbval option \<Rightarrow> string" where
  "pb_string v = (case v of Some (PStr s) \<Rightarrow> s | _ \<Rightarrow> [])"

lemma pb_fields_simps [simp]: "pb_fields None = Map.empty" "pb_fields (Some m) = m"
  by (simp_all add: pb_fields_def)

lemma pb_string_simps [simp]:
  "pb_string None = []" "pb_string (Some (PStr s)) = s"
  by (simp_all add: pb_string_def)

section \<open>Objects\<close>

text \<open>\<open>dsc.Object\<close>.\<close>

record object =
  o_type :: string
  o_id :: string
  o_display :: string
  o_props :: pbstruct
  o_created :: "timestamp option"
  o_updated :: "timestamp option"
  o_etag :: string

definition zero_object :: object where
  "zero_object = \<lparr>o_type = [], o_id = [], o_display = [], o_props = None,
     o_created = None, o_updated = None, o_etag = []\<rparr>"

text \<open>What the getters read from a possibly nil object.\<close>

definition obj0 :: "object option \<Rightarrow> object" where
  "obj0 p = (case p of None \<Rightarrow> zero_object | Some x \<Rightarrow> x)"

lemma obj0_simps [simp]: "obj0 None = zero_object" "obj0 (Some x) = x"
  by (simp_all add: obj0_def)

type_synonym obj_id = "string \<times> string"

definition object_ident :: "object \<Rightarrow> obj_id" where
  "object_ident x = (o_type x, o_id x)"

section \<open>Relations\<close>

text \<open>\<open>dsc.RelationIdentifier\<close>.\<close>

record rel_ident =
  i_otype :: string
  i_oid :: string
  i_rel :: string
  i_stype :: string
  i_sid :: string
  i_srel :: string

text \<open>\<open>dsc.Relation\<close>: the six identifying fields and the metadata.\<close>

record relation = rel_ident +
  r_created :: "timestamp option"
  r_updated :: "timestamp option"
  r_etag :: string

text \<open>
  The identifier of a relation, the literal \<open>&dsc.RelationIdentifier{...}\<close> the sources build
  from a relation's six fields.
\<close>

definition ident_of :: "relation \<Rightarrow> rel_ident" where
  "ident_of r = rel_ident.truncate r"

lemma ident_of_fields [simp]:
  "i_otype (ident_of r) = i_otype r" "i_oid (ident_of r) = i_oid r"
  "i_rel (ident_of r) = i_rel r" "i_stype (ident_of r) = i_stype r"
  "i_sid (ident_of r) = i_sid r" "i_srel (ident_of r) = i_srel r"
  by (simp_all add: ident_of_def rel_ident.truncate_def)

lemma ident_of_update [simp]:
  "ident_of (r\<lparr>r_created := c\<rparr>) = ident_of r"
  "ident_of (r\<lparr>r_updated := c\<rparr>) = ident_of r"
  "ident_of (r\<lparr>r_etag := s\<rparr>) = ident_of r"
  by (simp_all add: ident_of_def rel_ident.truncate_def)

lemma object_ident_update [simp]:
  "object_ident (x\<lparr>o_created := c\<rparr>) = object_ident x"
  "object_ident (x\<lparr>o_updated := c\<rparr>) = object_ident x"
  "object_ident (x\<lparr>o_etag := s\<rparr>) = object_ident x"
  by (simp_all add: object_ident_def)

definition zero_relation :: relation where
  "zero_relation = \<lparr>i_otype = [], i_oid = [], i_rel = [], i_stype = [], i_sid = [], i_srel = [],
     r_created = None, r_updated = None, r_etag = []\<rparr>"

definition rel0 :: "relation option \<Rightarrow> relation" where
  "rel0 p = (case p of None \<Rightarrow> zero_relation | Some x \<Rightarrow> x)"

lemma rel0_simps [simp]: "rel0 None = zero_relation" "rel0 (Some x) = x"
  by (simp_all add: rel0_def)

section \<open>Well-formed identifiers\<close>

text \<open>
  \<open>ds.IsSet\<close> and its copy \<open>isSet\<close> in \<open>bdb\<close>: a field is set when it is not blank. The keys of the
  stores join fields with \<open>:\<close> and \<open>|\<close>; an identifier is well-formed when its fields are text that
  every backend can hold, are set and do not contain the separator that ends them.
\<close>

definition IsSet :: "string \<Rightarrow> bool" where
  "IsSet s \<longleftrightarrow> \<not> blank s"

lemma IsSet_nonempty [simp]: "\<not> IsSet []"
  by (simp add: IsSet_def)

definition wf_oid :: "obj_id \<Rightarrow> bool" where
  "wf_oid k \<longleftrightarrow> IsSet (fst k) \<and> IsSet (snd k) \<and> CHR '':'' \<notin> set (fst k) \<and>
     text_ok (fst k) \<and> text_ok (snd k)"

definition wf_side :: "obj_id \<Rightarrow> bool" where
  "wf_side k \<longleftrightarrow> wf_oid k \<and> CHR ''|'' \<notin> set (snd k)"

definition wf_rid :: "'z rel_ident_scheme \<Rightarrow> bool" where
  "wf_rid i \<longleftrightarrow> wf_side (i_otype i, i_oid i) \<and> wf_side (i_stype i, i_sid i) \<and>
     IsSet (i_rel i) \<and> CHR ''|'' \<notin> set (i_rel i) \<and> text_ok (i_rel i) \<and> text_ok (i_srel i)"

lemma wf_rid_ident_of [simp]: "wf_rid (ident_of r) = wf_rid r"
  by (simp add: wf_rid_def)

section \<open>Manifests\<close>

text \<open>\<open>dsm.Metadata\<close> and \<open>dsm.Body\<close>.\<close>

record metadata =
  md_updated :: "timestamp option"
  md_etag :: string

definition zero_metadata :: metadata where
  "zero_metadata = \<lparr>md_updated = None, md_etag = []\<rparr>"

record body =
  b_data :: bytes

definition zero_body :: body where
  "zero_body = \<lparr>b_data = []\<rparr>"

end
