(* ===== verification/Store.thy ===== *)
theory Store
  imports Messages "HOL-Library.Multiset"
begin

text \<open>
  The storage-agnostic transaction interface of \<open>internal/eds/pkg/store\<close>: scan directions and
  filters, row iterators and \<open>Page\<close>, the operations of a transaction (the Go interface
  \<open>store.Tx\<close>, a record of functions over the transaction's state), and the managed transactions
  \<open>View\<close>, \<open>Update\<close> and \<open>Batch\<close>.
\<close>

section \<open>Errors\<close>

text \<open>The errors of the \<open>bdb\<close> package, which the domain layer and the services also return.\<close>

definition ErrPathNotFound :: derror where
  "ErrPathNotFound = AErr ''E20050'' NotFound ''path not found''"

definition ErrKeyNotFound :: derror where
  "ErrKeyNotFound = AErr ''E20051'' NotFound ''key not found''"

definition ErrMultipleResults :: derror where
  "ErrMultipleResults =
     AErr ''E20053'' FailedPrecondition ''multiple results for singleton request''"

definition ErrKeyExists :: derror where
  "ErrKeyExists = AErr ''E20052'' AlreadyExists ''key already exists''"

section \<open>Directions and filters\<close>

datatype direction = ByObject | BySubject

record rel_filter =
  f_otype :: string
  f_oid :: string
  f_rel :: string
  f_stype :: string
  f_sid :: string
  f_srel :: string
  f_has_srel :: bool

definition empty_filter :: rel_filter where
  "empty_filter = \<lparr>f_otype = [], f_oid = [], f_rel = [], f_stype = [], f_sid = [], f_srel = [],
     f_has_srel = False\<rparr>"

definition ObjectOnlyFilter :: "direction \<Rightarrow> string \<Rightarrow> string \<Rightarrow> rel_filter" where
  "ObjectOnlyFilter dir objectType objectID =
     (if dir = BySubject then empty_filter\<lparr>f_stype := objectType, f_sid := objectID\<rparr>
      else empty_filter\<lparr>f_otype := objectType, f_oid := objectID\<rparr>)"

text \<open>The filters whose fields every backend can compare with.\<close>

definition filter_ok :: "rel_filter \<Rightarrow> bool" where
  "filter_ok f \<longleftrightarrow> text_ok (f_otype f) \<and> text_ok (f_oid f) \<and> text_ok (f_rel f) \<and>
     text_ok (f_stype f) \<and> text_ok (f_sid f) \<and> text_ok (f_srel f)"

lemma filter_ok_empty [simp]: "filter_ok empty_filter"
  by (simp add: filter_ok_def empty_filter_def)

lemma filter_ok_ObjectOnly [simp]:
  "filter_ok (ObjectOnlyFilter dir ty oid) \<longleftrightarrow> text_ok ty \<and> text_ok oid"
  by (auto simp: filter_ok_def ObjectOnlyFilter_def empty_filter_def)

section \<open>Iterators and pages\<close>

text \<open>
  An iterator moves forward over a finite decoded sequence of rows: \<open>it_rest\<close> are the rows its
  \<open>Next\<close> will still step to, \<open>it_cur\<close> is the row it stands on. A row is its value (a pointer,
  nil when the stored bytes do not decode) and its token.
\<close>

type_synonym 'a row = "'a option \<times> string"

record 'a iter =
  it_cur :: "'a row option"
  it_rest :: "'a row list"

definition new_iter :: "'a row list \<Rightarrow> 'a iter" where
  "new_iter rows = \<lparr>it_cur = None, it_rest = rows\<rparr>"

definition it_Next :: "'a iter \<Rightarrow> bool \<times> 'a iter" where
  "it_Next it = (case it_rest it of
       [] \<Rightarrow> (False, it\<lparr>it_cur := None\<rparr>)
     | r # rs \<Rightarrow> (True, it\<lparr>it_cur := Some r, it_rest := rs\<rparr>))"

definition it_Value :: "'a iter \<Rightarrow> 'a option" where
  "it_Value it = (case it_cur it of None \<Rightarrow> None | Some (v, _) \<Rightarrow> v)"

definition it_Token :: "'a iter \<Rightarrow> string" where
  "it_Token it = (case it_cur it of None \<Rightarrow> [] | Some (_, t) \<Rightarrow> t)"

text \<open>
  The loop \<open>for it.Next()\<close> of \<open>Page\<close>, over the rows still ahead: append the value; when the page
  is full, peek one row further for the continuation token and stop.
\<close>

fun page_loop :: "'a row list \<Rightarrow> int \<Rightarrow> 'a option list \<Rightarrow> 'a option list \<times> string" where
  "page_loop [] pageSize items = (items, [])"
| "page_loop (r # rs) pageSize items =
     (let items' = items @ [fst r] in
      if int (length items') = pageSize
      then (case rs of [] \<Rightarrow> (items', []) | r' # _ \<Rightarrow> (items', snd r'))
      else page_loop rs pageSize items')"

definition Page :: "'a iter \<Rightarrow> int \<Rightarrow> 'a option list \<times> string" where
  "Page it pageSize = page_loop (it_rest it) pageSize []"

text \<open>Draining an iterator: \<open>for iter.Next() { xs = append(xs, iter.Value()) }\<close>.\<close>

definition drain :: "'a iter \<Rightarrow> 'a option list" where
  "drain it = map fst (it_rest it)"

lemma drain_new_iter [simp]: "drain (new_iter rows) = map fst rows"
  by (simp add: drain_def new_iter_def)

lemma page_loop_eq:
  "page_loop rows n items =
     (let k = nat (n - int (length items)) in
      if int (length items) < n \<and> k \<le> length rows
      then (items @ map fst (take k rows), if k < length rows then snd (rows ! k) else [])
      else (items @ map fst rows, []))"
proof (induction rows arbitrary: items)
  case (Cons r rs)
  let ?i = "int (length items)"
  consider "?i + 1 = n" | "?i + 1 < n" | "n \<le> ?i" by linarith
  then show ?case
  proof cases
    case 1
    then have "nat (n - ?i) = 1" by linarith
    with 1 show ?thesis by (cases rs) (auto simp: Let_def)
  next
    case 2
    then have "nat (n - ?i) = Suc (nat (n - int (length (items @ [fst r]))))" by simp
    with 2 show ?thesis using Cons.IH [of "items @ [fst r]"]
      by (auto simp: Let_def)
  next
    case 3
    then show ?thesis using Cons.IH [of "items @ [fst r]"] by (simp add: Let_def)
  qed
qed (auto simp: Let_def)

text \<open>
  A client that follows the continuation tokens: it asks for the page after \<open>tok\<close> until the token
  it gets is empty. When every page is a non-empty run of the remaining rows with the token of the
  next row, this visits every row exactly once, in order, and \<open>n\<close> requests are enough for \<open>n\<close>
  rows.
\<close>

fun follow_pages :: "nat \<Rightarrow> (string \<Rightarrow> 'b list \<times> string) \<Rightarrow> string \<Rightarrow> 'b list" where
  "follow_pages 0 page tok = []"
| "follow_pages (Suc n) page tok = (case page tok of (items, next) \<Rightarrow>
     items @ (if next = [] then [] else follow_pages n page next))"

definition page_run :: "('a row list \<Rightarrow> 'b list) \<Rightarrow> 'a row list \<Rightarrow> 'b list \<times> string \<Rightarrow> bool" where
  "page_run g rows p \<longleftrightarrow> (\<exists>k. 0 < k \<and> k \<le> length rows \<and>
     p = (g (take k rows), if k < length rows then snd (rows ! k) else []))"

lemma follow_pages_all:
  assumes "\<And>xs ys. g (xs @ ys) = g xs @ g ys"
    and "\<And>j. j < length rows \<Longrightarrow> snd (rows ! j) \<noteq> []"
    and "\<And>j. 0 < j \<Longrightarrow> j < length rows \<Longrightarrow> page_run g (drop j rows) (page (snd (rows ! j)))"
    and "j < length rows" "page_run g (drop j rows) (page tok)" "length rows - j \<le> n"
  shows "follow_pages n page tok = g (drop j rows)"
  using assms(4-6)
proof (induction n arbitrary: j tok)
  case (Suc n)
  obtain k where k: "0 < k" "k \<le> length rows - j"
    "page tok = (g (take k (drop j rows)), if k < length rows - j then snd (rows ! (j + k)) else [])"
    using Suc.prems(1,2) by (auto simp: page_run_def)
  have split: "g (drop j rows) = g (take k (drop j rows)) @ g (drop (j + k) rows)"
    by (metis add.commute append_take_drop_id assms(1) drop_drop)
  show ?case
  proof (cases "k < length rows - j")
    case True
    then have j': "0 < j + k" "j + k < length rows" using k(1) by simp_all
    have "follow_pages n page (snd (rows ! (j + k))) = g (drop (j + k) rows)"
      using Suc.IH [OF j'(2) assms(3) [OF j']] Suc.prems(3) k(1) by simp
    with True k(3) split assms(2) [OF j'(2)] show ?thesis by simp
  next
    case False
    with k(2) have "drop (j + k) rows = []" by simp
    moreover have "g [] = []" using assms(1) [of "[]" "[]"] by simp
    moreover have "follow_pages (Suc n) page tok = g (take k (drop j rows))"
      using False by (simp add: k(3))
    ultimately show ?thesis using split by (metis append_Nil2)
  qed
qed simp

lemma Page_run:
  "0 < n \<Longrightarrow> rows \<noteq> [] \<Longrightarrow> page_run (map fst) rows (Page (new_iter rows) n)"
  unfolding page_run_def
  by (rule exI [of _ "min (nat n) (length rows)"])
    (auto simp: Page_def new_iter_def page_loop_eq Let_def min_def)

section \<open>Transactions\<close>

text \<open>
  The Go interface \<open>store.Tx\<close>: the operations a storage backend gives inside one transaction, as
  functions over the state \<open>'tx\<close> of that transaction. An operation that writes returns the state it
  leaves, also when it fails: a write that went through before the failure is part of it. The last
  three fields are the outcome of beginning a transaction (writable or not), of committing it and
  of ending a read-only one.
\<close>

record ('tx, 'model) Tx =
  tx_GetObject :: "'tx \<Rightarrow> string \<Rightarrow> string \<Rightarrow> object result"
  tx_SetObject :: "'tx \<Rightarrow> object \<Rightarrow> object result \<times> 'tx"
  tx_DeleteObject :: "'tx \<Rightarrow> string \<Rightarrow> string \<Rightarrow> derror option \<times> 'tx"
  tx_ScanObjects :: "'tx \<Rightarrow> string \<Rightarrow> string \<Rightarrow> object iter result"
  tx_GetRelationExact :: "'tx \<Rightarrow> rel_ident \<Rightarrow> relation result"
  tx_SetRelation :: "'tx \<Rightarrow> relation \<Rightarrow> relation result \<times> 'tx"
  tx_DeleteRelation :: "'tx \<Rightarrow> rel_ident \<Rightarrow> derror option \<times> 'tx"
  tx_ScanRelations :: "'tx \<Rightarrow> direction \<Rightarrow> rel_filter \<Rightarrow> string \<Rightarrow> relation iter result"
  tx_ScanRelationsFiltered :: "'tx \<Rightarrow> direction \<Rightarrow> rel_filter \<Rightarrow> (rel_ident \<Rightarrow> bool) option
    \<Rightarrow> rel_ident list \<Rightarrow> rel_ident list result"
  tx_RelationsExistForObject :: "'tx \<Rightarrow> direction \<Rightarrow> string \<Rightarrow> string \<Rightarrow> bool result"
  tx_ManifestExists :: "'tx \<Rightarrow> bool result"
  tx_GetManifestMetadata :: "'tx \<Rightarrow> metadata result"
  tx_GetManifestBody :: "'tx \<Rightarrow> body result"
  tx_GetManifestModel :: "'tx \<Rightarrow> 'model result"
  tx_SetManifest :: "'tx \<Rightarrow> metadata \<Rightarrow> body \<Rightarrow> derror option \<times> 'tx"
  tx_SetManifestModel :: "'tx \<Rightarrow> 'model \<Rightarrow> derror option \<times> 'tx"
  tx_DeleteManifest :: "'tx \<Rightarrow> derror option \<times> 'tx"
  tx_begin :: "bool \<Rightarrow> 'tx \<Rightarrow> derror option"
  tx_commit :: "'tx \<Rightarrow> derror option"
  tx_end_view :: "'tx \<Rightarrow> derror option"

section \<open>Managed transactions\<close>

text \<open>
  The Go interface \<open>store.Store\<close>. The closure \<open>fn\<close> returns its error, the response it filled in and
  the state it leaves; the response variable lives outside the transaction, so the caller sees it
  also after a failure (\<open>r0\<close> when the transaction did not begin). \<open>View\<close> never keeps the state,
  \<open>Update\<close> and \<open>Batch\<close> keep it when the closure and the commit succeed.
\<close>

definition View :: "('tx, 'model, 'z) Tx_scheme \<Rightarrow> 'r \<Rightarrow> ('tx \<Rightarrow> derror option \<times> 'r) \<Rightarrow> 'tx
    \<Rightarrow> derror option \<times> 'r" where
  "View T r0 fn t = (case tx_begin T False t of
      Some e \<Rightarrow> (Some e, r0)
    | None \<Rightarrow> (case fn t of
          (Some e, r) \<Rightarrow> (Some e, r)
        | (None, r) \<Rightarrow> (tx_end_view T t, r)))"

definition Update :: "('tx, 'model, 'z) Tx_scheme \<Rightarrow> 'r \<Rightarrow> ('tx \<Rightarrow> derror option \<times> 'r \<times> 'tx) \<Rightarrow> 'tx
    \<Rightarrow> derror option \<times> 'r \<times> 'tx" where
  "Update T r0 fn t = (case tx_begin T True t of
      Some e \<Rightarrow> (Some e, r0, t)
    | None \<Rightarrow> (case fn t of
          (Some e, r, _) \<Rightarrow> (Some e, r, t)
        | (None, r, t') \<Rightarrow> (case tx_commit T t' of
              Some e \<Rightarrow> (Some e, r, t)
            | None \<Rightarrow> (None, r, t'))))"

text \<open>
  \<open>Batch\<close> runs one closure in one read-write transaction. (bbolt may also combine closures of
  concurrent callers and run one again after another failed; a single caller's closure runs once.)
\<close>

definition Batch :: "('tx, 'model, 'z) Tx_scheme \<Rightarrow> 'r \<Rightarrow> ('tx \<Rightarrow> derror option \<times> 'r \<times> 'tx) \<Rightarrow> 'tx
    \<Rightarrow> derror option \<times> 'r \<times> 'tx" where
  "Batch T r0 fn t = Update T r0 fn t"

lemma Update_cases:
  "Update T r0 fn t = (err, r, t') \<Longrightarrow>
     (err = None \<and> tx_begin T True t = None \<and> fn t = (None, r, t') \<and> tx_commit T t' = None) \<or>
     (err \<noteq> None \<and> t' = t)"
  by (auto simp: Update_def split: option.splits prod.splits)

lemma Update_ok:
  "fn t = (None, r, t') \<Longrightarrow> tx_begin T True t = None \<Longrightarrow> tx_commit T t' = None \<Longrightarrow>
     Update T r0 fn t = (None, r, t')"
  by (simp add: Update_def)

lemma Update_fn_err:
  "fn t = (Some e, r, t') \<Longrightarrow> tx_begin T True t = None \<Longrightarrow> Update T r0 fn t = (Some e, r, t)"
  by (simp add: Update_def)

lemma View_ok: "fn t = (None, r) \<Longrightarrow> tx_begin T False t = None \<Longrightarrow> tx_end_view T t = None \<Longrightarrow>
     View T r0 fn t = (None, r)"
  by (simp add: View_def)

lemma View_cases:
  "View T r0 fn t = (err, r) \<Longrightarrow>
     err = None \<and> fn t = (None, r) \<or> err \<noteq> None"
  by (auto simp: View_def split: option.splits prod.splits)

section \<open>What a store promises\<close>

text \<open>The object a relation names on the side a scan is anchored on, and the relations that match
  the populated fields of a filter.\<close>

definition side :: "direction \<Rightarrow> 'z rel_ident_scheme \<Rightarrow> obj_id" where
  "side dir i = (if dir = BySubject then (i_stype i, i_sid i) else (i_otype i, i_oid i))"

lemma side_ident_of [simp]: "side dir (ident_of r) = side dir r"
  by (simp add: side_def)

definition rf_match :: "rel_filter \<Rightarrow> 'z rel_ident_scheme \<Rightarrow> bool" where
  "rf_match f i \<longleftrightarrow>
     (f_otype f \<noteq> [] \<longrightarrow> i_otype i = f_otype f) \<and> (f_oid f \<noteq> [] \<longrightarrow> i_oid i = f_oid f) \<and>
     (f_rel f \<noteq> [] \<longrightarrow> i_rel i = f_rel f) \<and>
     (f_stype f \<noteq> [] \<longrightarrow> i_stype i = f_stype f) \<and> (f_sid f \<noteq> [] \<longrightarrow> i_sid i = f_sid f) \<and>
     (f_has_srel f \<longrightarrow> i_srel i = f_srel f)"

lemma rf_match_ident_of [simp]: "rf_match f (ident_of r) = rf_match f r"
  by (simp add: rf_match_def)

text \<open>
  The contract of a transaction's object and relation operations: the state is an invariant
  \<open>inv\<close>, a table of objects and a table of relations, and a rest \<open>rest\<close> that they do not touch;
  \<open>okO\<close> and \<open>okR\<close> say which messages the backend can store; \<open>orows\<close> and \<open>rrows\<close> are the rows of
  a scan from its start. A relation scan contains every relation that matches its filter, and one
  anchored on an object contains exactly the relations of that object.
\<close>

locale tx_store =
  fixes T :: "('tx, 'model, 'z) Tx_scheme"
    and inv :: "'tx \<Rightarrow> bool"
    and objs :: "'tx \<Rightarrow> obj_id \<Rightarrow> object option"
    and rels :: "'tx \<Rightarrow> rel_ident \<Rightarrow> relation option"
    and rest :: "'tx \<Rightarrow> 'rest"
    and okO :: "'tx \<Rightarrow> object \<Rightarrow> bool"
    and okR :: "'tx \<Rightarrow> relation \<Rightarrow> bool"
    and orows :: "'tx \<Rightarrow> string \<Rightarrow> object row list"
    and rrows :: "'tx \<Rightarrow> direction \<Rightarrow> rel_filter \<Rightarrow> relation row list"
  assumes objs_wf: "inv t \<Longrightarrow> objs t k = Some x \<Longrightarrow> object_ident x = k \<and> wf_oid k"
    and rels_wf: "inv t \<Longrightarrow> rels t i = Some r \<Longrightarrow> ident_of r = i \<and> wf_rid i"
    and GetObject_hit: "inv t \<Longrightarrow> objs t (ty, oid) = Some x \<Longrightarrow> tx_GetObject T t ty oid = Inr x"
    and GetObject_miss: "inv t \<Longrightarrow> wf_oid (ty, oid) \<Longrightarrow> objs t (ty, oid) = None \<Longrightarrow>
      \<exists>e. tx_GetObject T t ty oid = Inl e \<and> status_code e = NotFound"
    and SetObject_post: "inv t \<Longrightarrow> wf_oid (object_ident x) \<Longrightarrow> tx_SetObject T t x = (Inr y, t') \<Longrightarrow>
      y = x \<and> inv t' \<and> objs t' = (objs t)(object_ident x \<mapsto> x) \<and> rels t' = rels t \<and> rest t' = rest t"
    and SetObject_ok: "inv t \<Longrightarrow> wf_oid (object_ident x) \<Longrightarrow> okO t x \<Longrightarrow>
      \<exists>t'. tx_SetObject T t x = (Inr x, t')"
    and DeleteObject_post: "inv t \<Longrightarrow> wf_oid (ty, oid) \<Longrightarrow>
      \<exists>t'. tx_DeleteObject T t ty oid = (None, t') \<and> inv t' \<and> objs t' = (objs t)((ty, oid) := None) \<and>
        rels t' = rels t \<and> rest t' = rest t"
    and ScanObjects_start: "inv t \<Longrightarrow> text_ok ty \<Longrightarrow> tx_ScanObjects T t ty [] = Inr (new_iter (orows t ty))"
    and ScanObjects_token: "inv t \<Longrightarrow> text_ok ty \<Longrightarrow> j < length (orows t ty) \<Longrightarrow>
      snd (orows t ty ! j) \<noteq> [] \<and>
      tx_ScanObjects T t ty (snd (orows t ty ! j)) = Inr (new_iter (drop j (orows t ty)))"
    and orows_distinct: "inv t \<Longrightarrow> distinct (map fst (orows t ty))"
    and orows_set: "inv t \<Longrightarrow> text_ok ty \<Longrightarrow> CHR '':'' \<notin> set ty \<Longrightarrow>
      set (map fst (orows t ty)) = {Some x | x k. objs t k = Some x \<and> (ty \<noteq> [] \<longrightarrow> fst k = ty)}"
    and GetRelationExact_hit: "inv t \<Longrightarrow> rels t i = Some r \<Longrightarrow> tx_GetRelationExact T t i = Inr r"
    and GetRelationExact_miss: "inv t \<Longrightarrow> wf_rid i \<Longrightarrow> rels t i = None \<Longrightarrow>
      \<exists>e. tx_GetRelationExact T t i = Inl e \<and> status_code e = NotFound"
    and SetRelation_post: "inv t \<Longrightarrow> wf_rid r \<Longrightarrow> tx_SetRelation T t r = (Inr s, t') \<Longrightarrow>
      s = r \<and> inv t' \<and> rels t' = (rels t)(ident_of r \<mapsto> r) \<and> objs t' = objs t \<and> rest t' = rest t"
    and SetRelation_ok: "inv t \<Longrightarrow> wf_rid r \<Longrightarrow> okR t r \<Longrightarrow>
      \<exists>t'. tx_SetRelation T t r = (Inr r, t')"
    and DeleteRelation_post: "inv t \<Longrightarrow> wf_rid i \<Longrightarrow>
      \<exists>t'. tx_DeleteRelation T t i = (None, t') \<and> inv t' \<and> rels t' = (rels t)(i := None) \<and>
        objs t' = objs t \<and> rest t' = rest t"
    and ScanRelations_start: "inv t \<Longrightarrow> filter_ok f \<Longrightarrow>
      tx_ScanRelations T t dir f [] = Inr (new_iter (rrows t dir f))"
    and ScanRelations_token: "inv t \<Longrightarrow> filter_ok f \<Longrightarrow> j < length (rrows t dir f) \<Longrightarrow>
      snd (rrows t dir f ! j) \<noteq> [] \<and>
      tx_ScanRelations T t dir f (snd (rrows t dir f ! j)) = Inr (new_iter (drop j (rrows t dir f)))"
    and rrows_distinct: "inv t \<Longrightarrow> distinct (map fst (rrows t dir f))"
    and rrows_sound: "inv t \<Longrightarrow> w \<in> set (rrows t dir f) \<Longrightarrow>
      \<exists>r. fst w = Some r \<and> rels t (ident_of r) = Some r"
    and rrows_complete: "inv t \<Longrightarrow> filter_ok f \<Longrightarrow> rels t i = Some r \<Longrightarrow> rf_match f i \<Longrightarrow>
      Some r \<in> set (map fst (rrows t dir f))"
    and rrows_anchored: "inv t \<Longrightarrow> wf_side (ty, oid) \<Longrightarrow>
      Some r \<in> set (map fst (rrows t dir (ObjectOnlyFilter dir ty oid))) \<Longrightarrow> side dir r = (ty, oid)"
    and ScanRelationsFiltered_rows: "inv t \<Longrightarrow> filter_ok f \<Longrightarrow>
      \<exists>is. tx_ScanRelationsFiltered T t dir f (Some p) out = Inr (out @ filter p is) \<and>
      mset is = mset (map (ident_of \<circ> the \<circ> fst) (rrows t dir f))"
    and RelationsExistForObject_iff: "inv t \<Longrightarrow> wf_side (ty, oid) \<Longrightarrow>
      tx_RelationsExistForObject T t dir ty oid = Inr (\<exists>i \<in> dom (rels t). side dir i = (ty, oid))"

text \<open>
  The manifest side of a transaction: metadata, body and the compiled model are read back as they
  were written, and \<open>DeleteManifest\<close> empties the manifest and both tables.
\<close>

locale tx_manifest = tx_store T inv objs rels rest okO okR orows rrows
  for T :: "('tx, 'model, 'z) Tx_scheme" and inv :: "'tx \<Rightarrow> bool"
    and objs :: "'tx \<Rightarrow> obj_id \<Rightarrow> object option" and rels :: "'tx \<Rightarrow> rel_ident \<Rightarrow> relation option"
    and rest :: "'tx \<Rightarrow> 'rest" and okO okR
    and orows :: "'tx \<Rightarrow> string \<Rightarrow> object row list"
    and rrows :: "'tx \<Rightarrow> direction \<Rightarrow> rel_filter \<Rightarrow> relation row list" +
  fixes mmd :: "'rest \<Rightarrow> metadata option"
    and mbody :: "'rest \<Rightarrow> body option"
    and mmodel :: "'rest \<Rightarrow> 'model option"
  assumes ManifestExists_hit: "inv t \<Longrightarrow> mmd (rest t) = Some m \<Longrightarrow> tx_ManifestExists T t = Inr True"
    and GetManifestMetadata_hit: "inv t \<Longrightarrow> mmd (rest t) = Some m \<Longrightarrow>
      tx_GetManifestMetadata T t = Inr m"
    and GetManifestMetadata_miss: "inv t \<Longrightarrow> mmd (rest t) = None \<Longrightarrow>
      \<exists>e. tx_GetManifestMetadata T t = Inl e"
    and GetManifestBody_hit: "inv t \<Longrightarrow> mbody (rest t) = Some b \<Longrightarrow> tx_GetManifestBody T t = Inr b"
    and GetManifestModel_hit: "inv t \<Longrightarrow> mmodel (rest t) = Some mdl \<Longrightarrow>
      tx_GetManifestModel T t = Inr mdl"
    and SetManifest_post: "inv t \<Longrightarrow> tx_SetManifest T t m b = (None, t') \<Longrightarrow>
      inv t' \<and> objs t' = objs t \<and> rels t' = rels t \<and> mmd (rest t') = Some m \<and>
      mbody (rest t') = Some b"
    and SetManifestModel_post: "inv t \<Longrightarrow> tx_SetManifestModel T t mdl = (None, t') \<Longrightarrow>
      inv t' \<and> objs t' = objs t \<and> rels t' = rels t \<and> mmd (rest t') = mmd (rest t) \<and>
      mbody (rest t') = mbody (rest t) \<and> mmodel (rest t') = Some mdl"
    and DeleteManifest_post: "inv t \<Longrightarrow> tx_DeleteManifest T t = (None, t') \<Longrightarrow>
      inv t' \<and> objs t' = Map.empty \<and> rels t' = Map.empty \<and> mmd (rest t') = None \<and>
      mbody (rest t') = None \<and> mmodel (rest t') = None"

end
