(* ===== verification/Keys.thy ===== *)
theory Keys
  imports Store
begin

text \<open>
  The keys of the BoltDB store (\<open>bdb/keys.go\<close> and the first half of \<open>bdb/relation_store.go\<close>) and
  their twins in \<open>ds/object.go\<close> and \<open>ds/relation.go\<close>. A key joins the fields of an identifier;
  on well-formed identifiers it determines them, and the prefix of a filter selects the keys it
  is meant to.
\<close>

section \<open>Building keys\<close>

definition typeIDSeparator :: char where "typeIDSeparator = CHR '':''"
definition instanceSeparator :: char where "instanceSeparator = CHR ''|''"

lemmas separators = typeIDSeparator_def instanceSeparator_def

definition objectKey :: "string \<Rightarrow> string \<Rightarrow> bytes" where
  "objectKey objectType objectID = objectType @ [typeIDSeparator] @ objectID"

text \<open>A \<open>bytes.Buffer\<close> is the bytes written to it so far.\<close>

definition writeObjKey :: "bytes \<Rightarrow> 'z rel_ident_scheme \<Rightarrow> bytes" where
  "writeObjKey buf r =
     (let buf = buf @ i_otype r @ [typeIDSeparator] @ i_oid r @ [instanceSeparator] @ i_rel r @
            [instanceSeparator] @ i_stype r @ [typeIDSeparator] @ i_sid r
      in if i_srel r \<noteq> [] then buf @ [instanceSeparator] @ i_srel r else buf)"

definition writeSubKey :: "bytes \<Rightarrow> 'z rel_ident_scheme \<Rightarrow> bytes" where
  "writeSubKey buf r =
     (let buf = buf @ i_stype r @ [typeIDSeparator] @ i_sid r @ [instanceSeparator] @ i_rel r @
            [instanceSeparator] @ i_otype r @ [typeIDSeparator] @ i_oid r
      in if i_srel r \<noteq> [] then buf @ [instanceSeparator] @ i_srel r else buf)"

definition objKeyOf :: "'z rel_ident_scheme \<Rightarrow> bytes" where
  "objKeyOf r = writeObjKey [] r"

definition subKeyOf :: "'z rel_ident_scheme \<Rightarrow> bytes" where
  "subKeyOf r = writeSubKey [] r"

section \<open>Building filters\<close>

definition writeObjFilter :: "bytes \<Rightarrow> rel_filter \<Rightarrow> bytes" where
  "writeObjFilter buf f =
     (if \<not> IsSet (f_otype f) \<or> \<not> IsSet (f_oid f) then buf else
      let buf = buf @ f_otype f @ [typeIDSeparator] @ f_oid f @ [instanceSeparator] in
      if \<not> IsSet (f_rel f) then buf else
      let buf = buf @ f_rel f @ [instanceSeparator] in
      if \<not> IsSet (f_stype f) then buf else
      let buf = buf @ f_stype f @ [typeIDSeparator] in
      if \<not> IsSet (f_sid f) then buf else buf @ f_sid f)"

definition writeSubFilter :: "bytes \<Rightarrow> rel_filter \<Rightarrow> bytes" where
  "writeSubFilter buf f =
     (if \<not> IsSet (f_stype f) \<or> \<not> IsSet (f_sid f) then buf else
      let buf = buf @ f_stype f @ [typeIDSeparator] @ f_sid f @ [instanceSeparator] in
      if \<not> IsSet (f_rel f) then buf else
      let buf = buf @ f_rel f @ [instanceSeparator] in
      if \<not> IsSet (f_otype f) then buf else
      let buf = buf @ f_otype f @ [typeIDSeparator] in
      if \<not> IsSet (f_oid f) then buf else buf @ f_oid f)"

section \<open>Separated fields\<close>

lemma prefix_sep [wf_simps]:
  "c \<notin> set a \<Longrightarrow> c \<notin> set a' \<Longrightarrow> prefix (a @ c # b) (a' @ c # b') \<longleftrightarrow> a = a' \<and> prefix b b'"
proof (induction a arbitrary: a')
  case Nil
  then show ?case by (cases a') auto
next
  case (Cons x a)
  then show ?case by (cases a') auto
qed

lemma eq_sep [wf_simps]:
  "c \<notin> set a \<Longrightarrow> c \<notin> set a' \<Longrightarrow> a @ c # b = a' @ c # b' \<longleftrightarrow> a = a' \<and> b = b'"
  by (metis prefix_sep prefix_order.eq_iff)

definition tail :: "string \<Rightarrow> string" where
  "tail srel = (if srel = [] then [] else instanceSeparator # srel)"

lemma eq_tail [wf_simps]:
  assumes "instanceSeparator \<notin> set a" "instanceSeparator \<notin> set a'"
  shows "a @ tail s = a' @ tail s' \<longleftrightarrow> a = a' \<and> s = s'"
  using assms eq_sep [OF assms, of s s']
  by (auto simp: tail_def)

lemma objKeyOf_eq:
  "objKeyOf r = i_otype r @ typeIDSeparator # i_oid r @ instanceSeparator # i_rel r @
     instanceSeparator # i_stype r @ typeIDSeparator # i_sid r @ tail (i_srel r)"
  by (simp add: objKeyOf_def writeObjKey_def tail_def)

lemma subKeyOf_eq:
  "subKeyOf r = i_stype r @ typeIDSeparator # i_sid r @ instanceSeparator # i_rel r @
     instanceSeparator # i_otype r @ typeIDSeparator # i_oid r @ tail (i_srel r)"
  by (simp add: subKeyOf_def writeSubKey_def tail_def)

lemma key_ident_of [simp]: "objKeyOf (ident_of r) = objKeyOf r" "subKeyOf (ident_of r) = subKeyOf r"
  by (simp_all add: objKeyOf_eq subKeyOf_eq)

section \<open>Keys determine identifiers\<close>

lemmas wf_defs = wf_oid_def wf_side_def wf_rid_def

lemma objectKey_inj:
  "wf_oid (a, b) \<Longrightarrow> wf_oid (c, d) \<Longrightarrow> objectKey a b = objectKey c d \<longleftrightarrow> a = c \<and> b = d"
  by (simp add: objectKey_def wf_defs wf_simps separators)

lemma objKeyOf_inj:
  "wf_rid r \<Longrightarrow> wf_rid s \<Longrightarrow> objKeyOf r = objKeyOf s \<longleftrightarrow> r = s" for r s :: rel_ident
  by (cases r, cases s) (simp add: objKeyOf_eq wf_defs wf_simps separators eq_tail [unfolded separators])

lemma subKeyOf_inj:
  "wf_rid r \<Longrightarrow> wf_rid s \<Longrightarrow> subKeyOf r = subKeyOf s \<longleftrightarrow> r = s" for r s :: rel_ident
  by (cases r, cases s)
    (auto simp: subKeyOf_eq wf_defs wf_simps separators eq_tail [unfolded separators])

lemma keys_nonempty [simp]: "objectKey a b \<noteq> []" "objKeyOf r \<noteq> []" "subKeyOf r \<noteq> []"
    "[] \<noteq> objectKey a b"
  by (simp_all add: objectKey_def objKeyOf_eq subKeyOf_eq)

section \<open>Filters select by prefix\<close>

lemma objectKey_prefix:
  "typeIDSeparator \<notin> set ty \<Longrightarrow> wf_oid (a, b) \<Longrightarrow> prefix (objectKey ty []) (objectKey a b) \<longleftrightarrow> a = ty"
  by (auto simp: objectKey_def wf_defs wf_simps separators)

lemma rf_match_set:
  assumes "rf_match f i"
  shows "IsSet (f_otype f) \<Longrightarrow> i_otype i = f_otype f" "IsSet (f_oid f) \<Longrightarrow> i_oid i = f_oid f"
    "IsSet (f_rel f) \<Longrightarrow> i_rel i = f_rel f" "IsSet (f_stype f) \<Longrightarrow> i_stype i = f_stype f"
    "IsSet (f_sid f) \<Longrightarrow> i_sid i = f_sid f"
  using assms unfolding rf_match_def by fastforce+

lemma writeObjFilter_complete: "rf_match f i \<Longrightarrow> prefix (writeObjFilter [] f) (objKeyOf i)"
  by (simp add: writeObjFilter_def objKeyOf_eq Let_def rf_match_set)

lemma writeSubFilter_complete: "rf_match f i \<Longrightarrow> prefix (writeSubFilter [] f) (subKeyOf i)"
  by (simp add: writeSubFilter_def subKeyOf_eq Let_def rf_match_set)

lemma writeObjFilter_anchored:
  "wf_rid i \<Longrightarrow> wf_side (ty, oid) \<Longrightarrow>
     prefix (writeObjFilter [] (ObjectOnlyFilter ByObject ty oid)) (objKeyOf i)
       \<longleftrightarrow> side ByObject i = (ty, oid)"
  by (auto simp: writeObjFilter_def ObjectOnlyFilter_def empty_filter_def objKeyOf_eq side_def
      wf_defs wf_simps separators)

lemma writeSubFilter_anchored:
  "wf_rid i \<Longrightarrow> wf_side (ty, oid) \<Longrightarrow>
     prefix (writeSubFilter [] (ObjectOnlyFilter BySubject ty oid)) (subKeyOf i)
       \<longleftrightarrow> side BySubject i = (ty, oid)"
  by (auto simp: writeSubFilter_def ObjectOnlyFilter_def empty_filter_def subKeyOf_eq side_def
      wf_defs wf_simps separators)

end
