(* ===== verification/Bolt.thy ===== *)
theory Bolt
  imports Store
begin

text \<open>
  The key/value layer of \<open>internal/eds/pkg/bdb\<close>: bucket paths (\<open>path.go\<close>), bucket and key
  operations (\<open>boltdb.go\<close>), the generic typed accessors (\<open>generic.go\<close>) and the scanners
  (\<open>scanner.go\<close>).

  The bbolt engine is not part of the repository. It is the parameter \<open>B\<close> of every definition
  here: a record of the engine's calls over an abstract transaction state \<open>'db\<close>. A bucket handle
  is the path of bucket names that leads to it, and a cursor is the sequence of entries that its
  \<open>First\<close> or \<open>Seek\<close> and then repeated \<open>Next\<close> calls return (the buckets that the code walks hold
  no nested buckets, which a cursor would show with a nil value). The marshalled values are an opaque
  type \<open>'v\<close>. What the code relies on is the locale \<open>bolt_engine\<close>.
\<close>

section \<open>The engine\<close>

type_synonym path = "string list"

record ('db, 'v) bolt =
  bolt_valid :: "'db \<Rightarrow> bool"
  bolt_fits :: "'v \<Rightarrow> bool"
  bolt_has :: "'db \<Rightarrow> path \<Rightarrow> bool"
  bolt_create :: "'db \<Rightarrow> path \<Rightarrow> string \<Rightarrow> derror + 'db"
  bolt_drop :: "'db \<Rightarrow> path \<Rightarrow> string \<Rightarrow> derror + 'db"
  bolt_get :: "'db \<Rightarrow> path \<Rightarrow> bytes \<Rightarrow> 'v option"
  bolt_put :: "'db \<Rightarrow> path \<Rightarrow> bytes \<Rightarrow> 'v \<Rightarrow> derror + 'db"
  bolt_del :: "'db \<Rightarrow> path \<Rightarrow> bytes \<Rightarrow> derror + 'db"
  bolt_entries :: "'db \<Rightarrow> path \<Rightarrow> (bytes \<times> 'v) list"
  bolt_seek :: "'db \<Rightarrow> path \<Rightarrow> bytes \<Rightarrow> (bytes \<times> 'v) list"
  bolt_children :: "'db \<Rightarrow> path \<Rightarrow> string list"
  bolt_begin :: "bool \<Rightarrow> 'db \<Rightarrow> derror option"
  bolt_commit :: "'db \<Rightarrow> derror option"
  bolt_rollback :: "'db \<Rightarrow> derror option"

text \<open>\<open>berr.ErrBucketNotFound\<close>, and bbolt's limit on the size of a key.\<close>

definition ErrBucketNotFound :: derror where
  "ErrBucketNotFound = ExtErr ''bucket not found''"

definition MaxKeySize :: nat where
  "MaxKeySize = 32768"

text \<open>
  The documented behaviour of the engine: cursors walk a bucket in byte order, \<open>Get\<close> reads what
  the cursor walks, \<open>Seek\<close> moves to the first key not below its argument; \<open>Put\<close> and \<open>Delete\<close>
  change one key of one bucket; a bucket is created empty and deleted with what is below it.
\<close>

locale bolt_engine =
  fixes B :: "('db, 'v, 'z) bolt_scheme"
  assumes entries_ordered: "bolt_valid B db \<Longrightarrow> ordered (bolt_entries B db p)"
    and get_entries: "bolt_valid B db \<Longrightarrow> bolt_get B db p k = map_of (bolt_entries B db p) k"
    and seek_entries: "bolt_valid B db \<Longrightarrow>
      bolt_seek B db p k = dropWhile (\<lambda>e. fst e < k) (bolt_entries B db p)"
    and has_parent: "bolt_valid B db \<Longrightarrow> bolt_has B db (p @ [n]) \<Longrightarrow> p = [] \<or> bolt_has B db p"
    and put_valid: "bolt_valid B db \<Longrightarrow> bolt_has B db p \<Longrightarrow> bolt_put B db p k v = Inr db' \<Longrightarrow>
      bolt_valid B db'"
    and put_has: "bolt_valid B db \<Longrightarrow> bolt_has B db p \<Longrightarrow> bolt_put B db p k v = Inr db' \<Longrightarrow>
      bolt_has B db' q = bolt_has B db q"
    and put_entries: "bolt_valid B db \<Longrightarrow> bolt_has B db p \<Longrightarrow> bolt_put B db p k v = Inr db' \<Longrightarrow>
      map_of (bolt_entries B db' q) =
        (if q = p then (map_of (bolt_entries B db p))(k \<mapsto> v) else map_of (bolt_entries B db q))"
    and put_ok: "bolt_valid B db \<Longrightarrow> bolt_has B db p \<Longrightarrow> k \<noteq> [] \<Longrightarrow> length k \<le> MaxKeySize \<Longrightarrow>
      bolt_fits B v \<Longrightarrow> \<not> bolt_has B db (p @ [k]) \<Longrightarrow> \<exists>db'. bolt_put B db p k v = Inr db'"
    and del_valid: "bolt_valid B db \<Longrightarrow> bolt_has B db p \<Longrightarrow> bolt_del B db p k = Inr db' \<Longrightarrow>
      bolt_valid B db'"
    and del_has: "bolt_valid B db \<Longrightarrow> bolt_has B db p \<Longrightarrow> bolt_del B db p k = Inr db' \<Longrightarrow>
      bolt_has B db' q = bolt_has B db q"
    and del_entries: "bolt_valid B db \<Longrightarrow> bolt_has B db p \<Longrightarrow> bolt_del B db p k = Inr db' \<Longrightarrow>
      map_of (bolt_entries B db' q) =
        (if q = p then (map_of (bolt_entries B db p))(k := None) else map_of (bolt_entries B db q))"
    and del_ok: "bolt_valid B db \<Longrightarrow> bolt_has B db p \<Longrightarrow> \<not> bolt_has B db (p @ [k]) \<Longrightarrow>
      \<exists>db'. bolt_del B db p k = Inr db'"
    and create_valid: "bolt_valid B db \<Longrightarrow> bolt_create B db p n = Inr db' \<Longrightarrow> bolt_valid B db'"
    and create_has: "bolt_valid B db \<Longrightarrow> bolt_create B db p n = Inr db' \<Longrightarrow>
      bolt_has B db' q \<longleftrightarrow> q = p @ [n] \<or> bolt_has B db q"
    and create_entries: "bolt_valid B db \<Longrightarrow> bolt_create B db p n = Inr db' \<Longrightarrow>
      bolt_entries B db' q =
        (if q = p @ [n] \<and> \<not> bolt_has B db q then [] else bolt_entries B db q)"
    and create_ok: "bolt_valid B db \<Longrightarrow> p = [] \<or> bolt_has B db p \<Longrightarrow> n \<noteq> [] \<Longrightarrow>
      bolt_get B db p n = None \<Longrightarrow> \<exists>db'. bolt_create B db p n = Inr db'"
    and drop_missing: "bolt_valid B db \<Longrightarrow> \<not> bolt_has B db (p @ [n]) \<Longrightarrow>
      bolt_drop B db p n = Inl ErrBucketNotFound"
    and drop_valid: "bolt_valid B db \<Longrightarrow> bolt_drop B db p n = Inr db' \<Longrightarrow> bolt_valid B db'"
    and drop_has: "bolt_valid B db \<Longrightarrow> bolt_drop B db p n = Inr db' \<Longrightarrow>
      bolt_has B db' q \<longleftrightarrow> bolt_has B db q \<and> \<not> prefix (p @ [n]) q"
    and drop_entries: "bolt_valid B db \<Longrightarrow> bolt_drop B db p n = Inr db' \<Longrightarrow>
      \<not> prefix (p @ [n]) q \<Longrightarrow> bolt_entries B db' q = bolt_entries B db q"
    and drop_ok: "bolt_valid B db \<Longrightarrow> bolt_has B db (p @ [n]) \<Longrightarrow>
      \<exists>db'. bolt_drop B db p n = Inr db'"

section \<open>Paths\<close>

definition SystemPath :: path where "SystemPath = [''_system'']"
definition ManifestPathV1 :: path where "ManifestPathV1 = [''_manifest'', ''default'', ''0.0.1'']"
definition ManifestPathV2 :: path where "ManifestPathV2 = [''_manifest'', ''default'']"
definition ManifestPath :: path where "ManifestPath = ManifestPathV2"
definition ObjectsPath :: path where "ObjectsPath = [''objects'']"
definition RelationsSubPath :: path where "RelationsSubPath = [''relations_sub'']"
definition RelationsObjPath :: path where "RelationsObjPath = [''relations_obj'']"
definition MetadataKey :: bytes where "MetadataKey = ''metadata''"
definition BodyKey :: bytes where "BodyKey = ''body''"
definition ModelKey :: bytes where "ModelKey = ''model''"

lemmas path_defs = SystemPath_def ManifestPathV1_def ManifestPathV2_def ManifestPath_def
  ObjectsPath_def RelationsSubPath_def RelationsObjPath_def MetadataKey_def BodyKey_def ModelKey_def

section \<open>Buckets\<close>

fun SetBucket_loop :: "('db, 'v, 'z) bolt_scheme \<Rightarrow> 'db \<Rightarrow> path \<Rightarrow> path \<Rightarrow> path result" where
  "SetBucket_loop B db b [] = (if b = [] then Inl ErrPathNotFound else Inr b)"
| "SetBucket_loop B db b (p # ps) =
     (if bolt_has B db (b @ [p]) then SetBucket_loop B db (b @ [p]) ps else Inl ErrPathNotFound)"

definition SetBucket :: "('db, 'v, 'z) bolt_scheme \<Rightarrow> 'db \<Rightarrow> path \<Rightarrow> path result" where
  "SetBucket B db path = SetBucket_loop B db [] path"

fun CreateBucket_loop ::
  "('db, 'v, 'z) bolt_scheme \<Rightarrow> 'db \<Rightarrow> path \<Rightarrow> path \<Rightarrow> path result \<times> 'db" where
  "CreateBucket_loop B db b [] = (Inr b, db)"
| "CreateBucket_loop B db b (p # ps) =
     (case bolt_create B db b p of
        Inl e \<Rightarrow> (Inl e, db)
      | Inr db' \<Rightarrow> CreateBucket_loop B db' (b @ [p]) ps)"

definition CreateBucket :: "('db, 'v, 'z) bolt_scheme \<Rightarrow> 'db \<Rightarrow> path \<Rightarrow> path result \<times> 'db" where
  "CreateBucket B db path = CreateBucket_loop B db [] path"

text \<open>The error switch at the end of \<open>DeleteBucket\<close>: a bucket that is not there is not an error.\<close>

definition drop_result :: "'db \<Rightarrow> derror + 'db \<Rightarrow> derror option \<times> 'db" where
  "drop_result db r = (case r of
      Inl e \<Rightarrow> (if e = ErrBucketNotFound then (None, db) else (Some e, db))
    | Inr db' \<Rightarrow> (None, db'))"

definition DeleteBucket ::
  "('db, 'v, 'z) bolt_scheme \<Rightarrow> 'db \<Rightarrow> path \<Rightarrow> derror option \<times> 'db" where
  "DeleteBucket B db path =
     (if path = [] then (Some (Panic ''slice bounds out of range''), db)
      else if length path = 1 then drop_result db (bolt_drop B db [] (hd path))
      else (case SetBucket B db (butlast path) of
          Inl _ \<Rightarrow> (None, db)
        | Inr b \<Rightarrow> drop_result db (bolt_drop B db b (last path))))"

definition BucketExists :: "('db, 'v, 'z) bolt_scheme \<Rightarrow> 'db \<Rightarrow> path \<Rightarrow> bool result" where
  "BucketExists B db path = (case SetBucket B db path of
      Inl e \<Rightarrow> (if e = ErrPathNotFound then Inr False else Inl e)
    | Inr _ \<Rightarrow> Inr True)"

definition ListBuckets :: "('db, 'v, 'z) bolt_scheme \<Rightarrow> 'db \<Rightarrow> path \<Rightarrow> string list result" where
  "ListBuckets B db path = (case SetBucket B db path of
      Inl e \<Rightarrow> Inl e
    | Inr b \<Rightarrow> Inr (bolt_children B db b))"

section \<open>Keys\<close>

definition SetKey ::
  "('db, 'v, 'z) bolt_scheme \<Rightarrow> 'db \<Rightarrow> path \<Rightarrow> bytes \<Rightarrow> 'v \<Rightarrow> derror option \<times> 'db" where
  "SetKey B db path key val = (case SetBucket B db path of
      Inl e \<Rightarrow> (Some e, db)
    | Inr b \<Rightarrow> (case bolt_put B db b key val of Inl e \<Rightarrow> (Some e, db) | Inr db' \<Rightarrow> (None, db')))"

definition DeleteKey ::
  "('db, 'v, 'z) bolt_scheme \<Rightarrow> 'db \<Rightarrow> path \<Rightarrow> bytes \<Rightarrow> derror option \<times> 'db" where
  "DeleteKey B db path key = (case SetBucket B db path of
      Inl e \<Rightarrow> (Some e, db)
    | Inr b \<Rightarrow> (case bolt_del B db b key of Inl e \<Rightarrow> (Some e, db) | Inr db' \<Rightarrow> (None, db')))"

definition GetKey :: "('db, 'v, 'z) bolt_scheme \<Rightarrow> 'db \<Rightarrow> path \<Rightarrow> bytes \<Rightarrow> 'v result" where
  "GetKey B db path key = (case SetBucket B db path of
      Inl e \<Rightarrow> Inl e
    | Inr b \<Rightarrow> (case bolt_get B db b key of None \<Rightarrow> Inl ErrKeyNotFound | Some v \<Rightarrow> Inr v))"

definition KeyExists :: "('db, 'v, 'z) bolt_scheme \<Rightarrow> 'db \<Rightarrow> path \<Rightarrow> bytes \<Rightarrow> bool result" where
  "KeyExists B db path key = (case SetBucket B db path of
      Inl e \<Rightarrow> Inl e
    | Inr b \<Rightarrow> Inr (bolt_get B db b key \<noteq> None))"

section \<open>Typed access\<close>

text \<open>
  \<open>Get\<close>, \<open>Set\<close> and their kin marshal and unmarshal a message type; \<open>enc\<close> and \<open>dec\<close> are that
  type's \<open>marshal\<close> and \<open>unmarshal\<close>. \<open>GetAny\<close> and \<open>SetAny\<close> do the same with the JSON codec.
\<close>

definition Get ::
  "('db, 'v, 'z) bolt_scheme \<Rightarrow> ('v \<Rightarrow> 'm result) \<Rightarrow> 'db \<Rightarrow> path \<Rightarrow> bytes \<Rightarrow> 'm result" where
  "Get B dec db path key = (case GetKey B db path key of Inl e \<Rightarrow> Inl e | Inr buf \<Rightarrow> dec buf)"

fun List_loop :: "('v \<Rightarrow> 'm result) \<Rightarrow> (bytes \<times> 'v) list \<Rightarrow> 'm list \<Rightarrow> 'm list result" where
  "List_loop dec [] res = Inr res"
| "List_loop dec ((k, v) # es) res =
     (case dec v of Inl e \<Rightarrow> Inl e | Inr i \<Rightarrow> List_loop dec es (res @ [i]))"

definition List ::
  "('db, 'v, 'z) bolt_scheme \<Rightarrow> ('v \<Rightarrow> 'm result) \<Rightarrow> 'db \<Rightarrow> path \<Rightarrow> 'm list result" where
  "List B dec db path = (case SetBucket B db path of
      Inl e \<Rightarrow> Inl e
    | Inr b \<Rightarrow> List_loop dec (bolt_entries B db b) [])"

definition Set ::
  "('db, 'v, 'z) bolt_scheme \<Rightarrow> ('m \<Rightarrow> 'v result) \<Rightarrow> 'db \<Rightarrow> path \<Rightarrow> bytes \<Rightarrow> 'm
     \<Rightarrow> 'm result \<times> 'db" where
  "Set B enc db path key t = (case enc t of
      Inl e \<Rightarrow> (Inl e, db)
    | Inr buf \<Rightarrow> (case SetKey B db path key buf of
          (Some e, db') \<Rightarrow> (Inl e, db')
        | (None, db') \<Rightarrow> (Inr t, db')))"

definition Delete ::
  "('db, 'v, 'z) bolt_scheme \<Rightarrow> 'db \<Rightarrow> path \<Rightarrow> bytes \<Rightarrow> derror option \<times> 'db" where
  "Delete B db path key = DeleteKey B db path key"

definition GetAny ::
  "('db, 'v, 'z) bolt_scheme \<Rightarrow> ('v \<Rightarrow> 'm result) \<Rightarrow> 'db \<Rightarrow> path \<Rightarrow> bytes \<Rightarrow> 'm result" where
  "GetAny B dec db path key = (case GetKey B db path key of Inl e \<Rightarrow> Inl e | Inr buf \<Rightarrow> dec buf)"

definition SetAny ::
  "('db, 'v, 'z) bolt_scheme \<Rightarrow> ('m \<Rightarrow> 'v result) \<Rightarrow> 'db \<Rightarrow> path \<Rightarrow> bytes \<Rightarrow> 'm
     \<Rightarrow> 'm result \<times> 'db" where
  "SetAny B enc db path key t = (case enc t of
      Inl e \<Rightarrow> (Inl e, db)
    | Inr buf \<Rightarrow> (case SetKey B db path key buf of
          (Some e, db') \<Rightarrow> (Inl e, db')
        | (None, db') \<Rightarrow> (Inr t, db')))"

section \<open>Scanners\<close>

text \<open>The options of a scan; nil and the empty key filter are the same to \<open>bytes.HasPrefix\<close>.\<close>

record ScanArgs =
  startToken :: "bytes option"
  keyFilter :: bytes

datatype ScanOption = WithPageToken string | WithKeyFilter bytes

fun apply_ScanOption :: "ScanOption \<Rightarrow> ScanArgs \<Rightarrow> ScanArgs" where
  "apply_ScanOption (WithPageToken token) a = a\<lparr>startToken := Some token\<rparr>"
| "apply_ScanOption (WithKeyFilter flt) a = a\<lparr>keyFilter := flt\<rparr>"

record 'v ScanIterator =
  si_bucket :: path
  si_args :: ScanArgs
  si_init :: bool
  si_key :: "bytes option"
  si_value :: "'v option"
  si_ahead :: "(bytes \<times> 'v) list"

text \<open>The message of \<open>errors.Wrapf(ErrPathNotFound, "path [%s]", path)\<close>.\<close>

definition wrap_path :: "path \<Rightarrow> derror" where
  "wrap_path path = WrapErr (''path [['' @ join '' '' path @ '']]'') ErrPathNotFound"

definition NewScanIterator ::
  "('db, 'v, 'z) bolt_scheme \<Rightarrow> 'db \<Rightarrow> path \<Rightarrow> ScanOption list \<Rightarrow> 'v ScanIterator result" where
  "NewScanIterator B db path opts =
     (let args0 = fold apply_ScanOption opts \<lparr>startToken = None, keyFilter = []\<rparr>;
          args = (if (case startToken args0 of None \<Rightarrow> True | Some t \<Rightarrow> t = [])
                     \<and> keyFilter args0 \<noteq> []
                  then args0\<lparr>startToken := Some (keyFilter args0)\<rparr> else args0)
      in case SetBucket B db path of
           Inl _ \<Rightarrow> Inl (wrap_path path)
         | Inr b \<Rightarrow> Inr \<lparr>si_bucket = b, si_args = args, si_init = False, si_key = None,
                        si_value = None, si_ahead = []\<rparr>)"

text \<open>The cursor moves onto the first of the entries ahead of it, or onto the nil key.\<close>

definition si_move :: "'v ScanIterator \<Rightarrow> (bytes \<times> 'v) list \<Rightarrow> 'v ScanIterator" where
  "si_move s es = (case es of
      [] \<Rightarrow> s\<lparr>si_init := True, si_key := None, si_value := None, si_ahead := []\<rparr>
    | (k, v) # es' \<Rightarrow> s\<lparr>si_init := True, si_key := Some k, si_value := Some v, si_ahead := es'\<rparr>)"

definition ScanIterator_Next ::
  "('db, 'v, 'z) bolt_scheme \<Rightarrow> 'db \<Rightarrow> 'v ScanIterator \<Rightarrow> bool \<times> 'v ScanIterator" where
  "ScanIterator_Next B db s =
     (let s' = si_move s
        (if si_init s then si_ahead s
         else (case startToken (si_args s) of
             None \<Rightarrow> bolt_entries B db (si_bucket s)
           | Some t \<Rightarrow> bolt_seek B db (si_bucket s) t))
      in (case si_key s' of None \<Rightarrow> False | Some k \<Rightarrow> prefix (keyFilter (si_args s')) k, s'))"

definition ScanIterator_RawKey :: "'v ScanIterator \<Rightarrow> bytes" where
  "ScanIterator_RawKey s = (case si_key s of None \<Rightarrow> [] | Some k \<Rightarrow> k)"

definition ScanIterator_RawValue :: "'v ScanIterator \<Rightarrow> 'v option" where
  "ScanIterator_RawValue s = si_value s"

text \<open>
  \<open>Value\<close> decodes the current entry; bytes that do not decode give the nil message. Past the end
  the value is nil, which decodes to the zero message.
\<close>

definition ScanIterator_Value ::
  "('v \<Rightarrow> 'm result) \<Rightarrow> 'm \<Rightarrow> 'v ScanIterator \<Rightarrow> 'm option" where
  "ScanIterator_Value dec zero s = (case si_value s of
      None \<Rightarrow> Some zero
    | Some v \<Rightarrow> (case dec v of Inl _ \<Rightarrow> None | Inr m \<Rightarrow> Some m))"

definition ScanIterator_Delete ::
  "('db, 'v, 'z) bolt_scheme \<Rightarrow> 'db \<Rightarrow> 'v ScanIterator \<Rightarrow> derror option \<times> 'db" where
  "ScanIterator_Delete B db s = (case si_key s of
      None \<Rightarrow> (None, db)
    | Some k \<Rightarrow> (case bolt_del B db (si_bucket s) k of
          Inl e \<Rightarrow> (Some e, db) | Inr db' \<Rightarrow> (None, db')))"

fun Scan_loop ::
  "('v \<Rightarrow> 'm result) \<Rightarrow> bytes \<Rightarrow> (bytes \<times> 'v) list \<Rightarrow> 'm list \<Rightarrow> 'm list result" where
  "Scan_loop dec flt [] results = Inr results"
| "Scan_loop dec flt ((k, v) # es) results =
     (if prefix flt k
      then (case dec v of Inl e \<Rightarrow> Inl e | Inr m \<Rightarrow> Scan_loop dec flt es (results @ [m]))
      else Inr results)"

definition Scan ::
  "('db, 'v, 'z) bolt_scheme \<Rightarrow> ('v \<Rightarrow> 'm result) \<Rightarrow> 'db \<Rightarrow> path \<Rightarrow> bytes \<Rightarrow> 'm list result" where
  "Scan B dec db path flt = (case SetBucket B db path of
      Inl _ \<Rightarrow> Inl (wrap_path path)
    | Inr b \<Rightarrow> Scan_loop dec flt (bolt_seek B db b flt) [])"

fun ScanWithFilter_loop ::
  "('v \<Rightarrow> 'm result) \<Rightarrow> bytes \<Rightarrow> ('m \<Rightarrow> bool) \<Rightarrow> (bytes \<times> 'v) list \<Rightarrow> 'm list \<Rightarrow> 'm list result" where
  "ScanWithFilter_loop dec flt valueFilter [] results = Inr results"
| "ScanWithFilter_loop dec flt valueFilter ((k, v) # es) results =
     (if prefix flt k
      then (case dec v of
          Inl e \<Rightarrow> Inl e
        | Inr m \<Rightarrow> ScanWithFilter_loop dec flt valueFilter es
                     (if valueFilter m then results @ [m] else results))
      else Inr results)"

text \<open>The slot \<open>out\<close> is the slice the caller passes in; on an error it is left as it was.\<close>

definition ScanWithFilter ::
  "('db, 'v, 'z) bolt_scheme \<Rightarrow> ('v \<Rightarrow> 'm result) \<Rightarrow> 'db \<Rightarrow> path \<Rightarrow> bytes
     \<Rightarrow> ('m \<Rightarrow> bool) option \<Rightarrow> 'm list \<Rightarrow> 'm list result" where
  "ScanWithFilter B dec db path flt valueFilter out = (case SetBucket B db path of
      Inl _ \<Rightarrow> Inl (wrap_path path)
    | Inr b \<Rightarrow> ScanWithFilter_loop dec flt
        (case valueFilter of None \<Rightarrow> (\<lambda>_. True) | Some f \<Rightarrow> f) (bolt_seek B db b flt) out)"

definition KeyPrefixExists ::
  "('db, 'v, 'z) bolt_scheme \<Rightarrow> 'db \<Rightarrow> path \<Rightarrow> bytes \<Rightarrow> bool result" where
  "KeyPrefixExists B db path flt = (case SetBucket B db path of
      Inl _ \<Rightarrow> Inl (wrap_path path)
    | Inr b \<Rightarrow> (case bolt_seek B db b flt of
          [] \<Rightarrow> Inr False
        | (k, _) # _ \<Rightarrow> Inr (prefix flt k)))"

section \<open>What the operations return on a valid engine\<close>

lemma Next_ahead:
  "ScanIterator_Next B db s = (True, s') \<Longrightarrow> si_init s' \<and> si_bucket s' = si_bucket s \<and>
     si_args s' = si_args s \<and>
     (if si_init s then length (si_ahead s') < length (si_ahead s)
      else length (si_ahead s') < length (case startToken (si_args s) of
             None \<Rightarrow> bolt_entries B db (si_bucket s) | Some t \<Rightarrow> bolt_seek B db (si_bucket s) t))"
  by (auto simp: ScanIterator_Next_def si_move_def Let_def split: list.splits option.splits if_splits)

text \<open>
  A scan iterator run to its end, \<open>for iter.Next()\<close>: the rows are the values and the keys (the
  tokens) it shows after each step.
\<close>

function scan_rows ::
  "('db, 'v, 'z) bolt_scheme \<Rightarrow> ('v \<Rightarrow> 'm result) \<Rightarrow> 'm \<Rightarrow> 'db \<Rightarrow> 'v ScanIterator \<Rightarrow> 'm row list" where
  "scan_rows B dec zero db s = (case ScanIterator_Next B db s of
      (False, _) \<Rightarrow> []
    | (True, s') \<Rightarrow>
        (ScanIterator_Value dec zero s', ScanIterator_RawKey s') # scan_rows B dec zero db s')"
  by pat_completeness auto
termination
  by (relation "measure (\<lambda>(B, dec, zero, db, s). if si_init s then length (si_ahead s)
        else Suc (length (case startToken (si_args s) of
             None \<Rightarrow> bolt_entries B db (si_bucket s) | Some t \<Rightarrow> bolt_seek B db (si_bucket s) t)))")
    (auto dest!: Next_ahead [OF sym])

declare scan_rows.simps [simp del]

definition row_of :: "('v \<Rightarrow> 'm result) \<Rightarrow> bytes \<times> 'v \<Rightarrow> 'm row" where
  "row_of dec e = (case dec (snd e) of Inl _ \<Rightarrow> None | Inr m \<Rightarrow> Some m, fst e)"

lemma scan_rows_init:
  "si_init s \<Longrightarrow> scan_rows B dec zero db s
     = map (row_of dec) (takeWhile (\<lambda>e. prefix (keyFilter (si_args s)) (fst e)) (si_ahead s))"
proof (induction "si_ahead s" arbitrary: s)
  case Nil
  then show ?case
    by (simp add: scan_rows.simps [of B dec zero db s] ScanIterator_Next_def si_move_def)
next
  case (Cons e es)
  let ?s = "s\<lparr>si_init := True, si_key := Some (fst e), si_value := Some (snd e), si_ahead := es\<rparr>"
  have "scan_rows B dec zero db ?s
      = map (row_of dec) (takeWhile (\<lambda>e. prefix (keyFilter (si_args s)) (fst e)) es)"
    using Cons.hyps(1) [of ?s] by simp
  then show ?case
    using Cons.prems Cons.hyps(2) [symmetric]
    by (cases e) (simp add: scan_rows.simps [of B dec zero db s] ScanIterator_Next_def si_move_def
        row_of_def ScanIterator_Value_def ScanIterator_RawKey_def)
qed

lemma scan_rows_start:
  "\<not> si_init s \<Longrightarrow> scan_rows B dec zero db s
     = map (row_of dec) (takeWhile (\<lambda>e. prefix (keyFilter (si_args s)) (fst e))
         (case startToken (si_args s) of
            None \<Rightarrow> bolt_entries B db (si_bucket s) | Some t \<Rightarrow> bolt_seek B db (si_bucket s) t))"
  by (subst scan_rows.simps)
    (auto simp: ScanIterator_Next_def si_move_def scan_rows_init Let_def row_of_def
      ScanIterator_Value_def ScanIterator_RawKey_def split: prod.split list.split option.split)

lemma takeWhile_all [simp]: "takeWhile (\<lambda>_. True) xs = xs"
  by (induction xs) auto

lemma Scan_loop_eq:
  "Scan_loop dec flt es acc =
     List_loop dec (takeWhile (\<lambda>e. prefix flt (fst e)) es) acc"
  by (induction es arbitrary: acc) (auto split: sum.split)

lemma List_loop_ok:
  "\<forall>e \<in> set es. dec (snd e) = Inr (f (snd e)) \<Longrightarrow>
     List_loop dec es acc = Inr (acc @ map (f \<circ> snd) es)"
  by (induction es arbitrary: acc) auto

lemma ScanWithFilter_loop_ok:
  "\<forall>e \<in> set es. dec (snd e) = Inr (f (snd e)) \<Longrightarrow>
     ScanWithFilter_loop dec flt P es acc
       = Inr (acc @ filter P (map (f \<circ> snd) (takeWhile (\<lambda>e. prefix flt (fst e)) es)))"
  by (induction es arbitrary: acc) auto

context bolt_engine
begin

lemma SetBucket_loop_eq:
  assumes "bolt_valid B db"
  shows "SetBucket_loop B db b ps = (if b @ ps \<noteq> [] \<and> (ps = [] \<or> bolt_has B db (b @ ps))
     then Inr (b @ ps) else Inl ErrPathNotFound)"
proof (induction ps arbitrary: b)
  case (Cons p ps)
  have "bolt_has B db (b @ [p])" if "bolt_has B db ((b @ [p]) @ ps)"
    using that
  proof (induction ps rule: rev_induct)
    case (snoc q ps)
    then show ?case using has_parent [OF assms, of "(b @ [p]) @ ps" q] by auto
  qed simp
  with Cons.IH [of "b @ [p]"] show ?case by auto
qed simp

lemma SetBucket_eq [engine_simps]:
  "bolt_valid B db \<Longrightarrow> SetBucket B db p
     = (if p \<noteq> [] \<and> bolt_has B db p then Inr p else Inl ErrPathNotFound)"
  by (auto simp: SetBucket_def SetBucket_loop_eq)

lemma seek_prefix:
  "bolt_valid B db \<Longrightarrow> takeWhile (\<lambda>e. prefix flt (fst e)) (bolt_seek B db p flt)
     = filter (\<lambda>e. prefix flt (fst e)) (bolt_entries B db p)"
  by (simp add: seek_entries prefix_scan entries_ordered)

lemma GetKey_eq [engine_simps]:
  "bolt_valid B db \<Longrightarrow> p \<noteq> [] \<Longrightarrow> bolt_has B db p \<Longrightarrow>
     GetKey B db p k = (case map_of (bolt_entries B db p) k of
        None \<Rightarrow> Inl ErrKeyNotFound | Some v \<Rightarrow> Inr v)"
  by (simp add: GetKey_def SetBucket_eq get_entries)

lemma KeyPrefixExists_eq [engine_simps]:
  assumes "bolt_valid B db" "p \<noteq> []" "bolt_has B db p"
  shows "KeyPrefixExists B db p flt = Inr (\<exists>e \<in> set (bolt_entries B db p). prefix flt (fst e))"
proof -
  let ?m = "filter (\<lambda>e. prefix flt (fst e)) (bolt_entries B db p)"
  have eq: "takeWhile (\<lambda>e. prefix flt (fst e)) (bolt_seek B db p flt) = ?m"
    by (rule seek_prefix [OF assms(1)])
  have ex: "(\<exists>e \<in> set (bolt_entries B db p). prefix flt (fst e)) \<longleftrightarrow> ?m \<noteq> []"
    by (simp add: filter_empty_conv)
  show ?thesis
    unfolding ex eq [symmetric] using assms
    by (auto simp: KeyPrefixExists_def SetBucket_eq split: list.split)
qed

text \<open>A scan yields exactly the entries under its key filter, from the start token on.\<close>

lemma NewScanIterator_start:
  assumes "bolt_valid B db" "p \<noteq> []" "bolt_has B db p" "opts = [] \<and> flt = [] \<or> opts = [WithKeyFilter flt]"
  shows "\<exists>it. NewScanIterator B db p opts = Inr it \<and>
     scan_rows B dec zero db it
       = map (row_of dec) (filter (\<lambda>e. prefix flt (fst e)) (bolt_entries B db p))"
  using assms(4)
proof (elim disjE conjE)
  assume "opts = []" "flt = []"
  with assms(1-3) show ?thesis
    by (simp add: NewScanIterator_def SetBucket_eq scan_rows_start)
next
  assume "opts = [WithKeyFilter flt]"
  with assms(1-3) seek_prefix [OF assms(1), of flt p] show ?thesis
    by (cases "flt = []") (simp_all add: NewScanIterator_def SetBucket_eq Let_def scan_rows_start)
qed

lemma NewScanIterator_token:
  assumes "bolt_valid B db" "p \<noteq> []" "bolt_has B db p" "tok \<noteq> []"
    and "opts = [] \<and> flt = [] \<or> opts = [WithKeyFilter flt]"
    and "j < length (filter (\<lambda>e. prefix flt (fst e)) (bolt_entries B db p))"
    and "tok = fst (filter (\<lambda>e. prefix flt (fst e)) (bolt_entries B db p) ! j)"
  shows "\<exists>it. NewScanIterator B db p (opts @ [WithPageToken tok]) = Inr it \<and>
     scan_rows B dec zero db it
       = map (row_of dec) (drop j (filter (\<lambda>e. prefix flt (fst e)) (bolt_entries B db p)))"
proof -
  let ?es = "bolt_entries B db p" and ?P = "\<lambda>e. prefix flt (fst e)"
  have "takeWhile ?P (dropWhile (\<lambda>e. fst e < tok) ?es) = drop j (filter ?P ?es)"
    using takeWhile_prefix_from [OF entries_ordered [OF assms(1)] assms(6)] assms(7) by simp
  with assms show ?thesis
    by (elim disjE) (auto simp: NewScanIterator_def SetBucket_eq Let_def scan_rows_start seek_entries)
qed

text \<open>What creating and deleting a bucket path does to the buckets and their entries.\<close>

lemma CreateBucket_loop_post:
  assumes "bolt_valid B db" "CreateBucket_loop B db b ps = (Inr q, db')"
  shows "bolt_valid B db' \<and> (\<forall>r. bolt_has B db' r \<longleftrightarrow>
      bolt_has B db r \<or> (\<exists>qs. qs \<noteq> [] \<and> prefix qs ps \<and> r = b @ qs)) \<and>
    (\<forall>r. bolt_entries B db' r =
      (if bolt_has B db' r \<and> \<not> bolt_has B db r then [] else bolt_entries B db r))"
  using assms
proof (induction ps arbitrary: db b)
  case (Cons p ps)
  then obtain db1 where db1: "bolt_create B db b p = Inr db1"
    "CreateBucket_loop B db1 (b @ [p]) ps = (Inr q, db')"
    by (auto split: sum.splits)
  note c = create_valid [OF Cons.prems(1) db1(1)] create_has [OF Cons.prems(1) db1(1)]
    create_entries [OF Cons.prems(1) db1(1)]
  have new: "(\<exists>qs. qs \<noteq> [] \<and> prefix qs (p # ps) \<and> r = b @ qs) \<longleftrightarrow>
      r = b @ [p] \<or> (\<exists>qs. qs \<noteq> [] \<and> prefix qs ps \<and> r = (b @ [p]) @ qs)" for r
  proof
    assume "\<exists>qs. qs \<noteq> [] \<and> prefix qs (p # ps) \<and> r = b @ qs"
    then show "r = b @ [p] \<or> (\<exists>qs. qs \<noteq> [] \<and> prefix qs ps \<and> r = (b @ [p]) @ qs)"
      by (auto simp: prefix_Cons)
  next
    assume "r = b @ [p] \<or> (\<exists>qs. qs \<noteq> [] \<and> prefix qs ps \<and> r = (b @ [p]) @ qs)"
    then obtain qs where "prefix qs ps" "r = b @ p # qs" by fastforce
    then show "\<exists>qs. qs \<noteq> [] \<and> prefix qs (p # ps) \<and> r = b @ qs"
      by (intro exI [of _ "p # qs"]) simp
  qed
  note ih = Cons.IH [OF c(1) db1(2)]
  have has: "bolt_has B db' r \<longleftrightarrow>
      bolt_has B db r \<or> (\<exists>qs. qs \<noteq> [] \<and> prefix qs (p # ps) \<and> r = b @ qs)" for r
    using ih c(2) [of r] unfolding new by blast
  have "bolt_entries B db' r =
      (if bolt_has B db' r \<and> \<not> bolt_has B db r then [] else bolt_entries B db r)" for r
  proof (cases "r = b @ [p]")
    case True
    then have "bolt_has B db' r" using ih c(2) by blast
    with True ih c(2,3) show ?thesis by simp
  next
    case False
    moreover have "bolt_entries B db' r =
        (if bolt_has B db' r \<and> \<not> bolt_has B db1 r then [] else bolt_entries B db1 r)"
      using ih by blast
    ultimately show ?thesis using c(2,3) [of r] by simp
  qed
  with ih has show ?case by blast
qed simp

lemma CreateBucket_post:
  assumes "bolt_valid B db" "CreateBucket B db p = (Inr q, db')"
  shows "bolt_valid B db'"
    and "bolt_has B db' r \<longleftrightarrow> bolt_has B db r \<or> r \<noteq> [] \<and> prefix r p"
    and "bolt_entries B db' r =
      (if r \<noteq> [] \<and> prefix r p \<and> \<not> bolt_has B db r then [] else bolt_entries B db r)"
  using CreateBucket_loop_post [OF assms [unfolded CreateBucket_def]] by auto

lemma has_prefix:
  "bolt_valid B db \<Longrightarrow> bolt_has B db (p @ qs) \<Longrightarrow> p \<noteq> [] \<Longrightarrow> bolt_has B db p"
proof (induction qs rule: rev_induct)
  case (snoc x xs)
  then show ?case using has_parent [of db "p @ xs" x] by auto
qed simp

lemma DeleteBucket_post:
  assumes "bolt_valid B db" "p \<noteq> []"
  shows "\<exists>db'. DeleteBucket B db p = (None, db') \<and> bolt_valid B db' \<and>
    (\<forall>q. bolt_has B db' q \<longleftrightarrow> bolt_has B db q \<and> \<not> prefix p q) \<and>
    (\<forall>q. \<not> prefix p q \<longrightarrow> bolt_entries B db' q = bolt_entries B db q)"
proof -
  have p: "butlast p @ [last p] = p" using assms(2) by simp
  have eq: "DeleteBucket B db p = drop_result db (bolt_drop B db (butlast p) (last p))"
    if "butlast p = [] \<or> bolt_has B db (butlast p)"
  proof (cases "butlast p = []")
    case True
    then obtain n where "p = [n]" using p by (metis append_Nil)
    then show ?thesis by (simp add: DeleteBucket_def)
  next
    case False
    then have "length p \<noteq> 1" by (cases p) auto
    with False that show ?thesis by (simp add: DeleteBucket_def SetBucket_eq [OF assms(1)] assms(2))
  qed
  show ?thesis
  proof (cases "bolt_has B db p")
    case True
    then have "butlast p = [] \<or> bolt_has B db (butlast p)"
      using has_parent [OF assms(1), of "butlast p" "last p"] p by simp
    moreover obtain db' where db': "bolt_drop B db (butlast p) (last p) = Inr db'"
      using drop_ok [OF assms(1), of "butlast p" "last p"] True p by auto
    ultimately show ?thesis
      using eq drop_valid [OF assms(1) db'] drop_has [OF assms(1) db'] drop_entries [OF assms(1) db'] p
      by (simp add: drop_result_def)
  next
    case False
    then have none: "bolt_has B db q \<Longrightarrow> \<not> prefix p q" for q
      using has_prefix [OF assms(1)] assms(2) by (auto simp: prefix_def)
    have "DeleteBucket B db p = (None, db)"
    proof (cases "butlast p = [] \<or> bolt_has B db (butlast p)")
      case True
      with eq drop_missing [OF assms(1), of "butlast p" "last p"] False p show ?thesis
        by (simp add: drop_result_def)
    next
      case no: False
      then have "length p \<noteq> 1" by (cases p) auto
      with no show ?thesis by (simp add: DeleteBucket_def SetBucket_eq [OF assms(1)] assms(2))
    qed
    with none assms(1) show ?thesis by blast
  qed
qed

end

end
