(* ===== verification/MemBolt.thy ===== *)
theory MemBolt
  imports Bolt "HOL-Library.AList"
begin

text \<open>
  An in-memory storage engine: buckets by path, each an ordered sequence of entries. It has the
  whole interface of the engine parameter and satisfies the laws of \<open>bolt_engine\<close>, so that they
  are consistent and every operation of the store can be run on concrete databases.
\<close>

type_synonym 'v mem_db = "(path \<times> (bytes \<times> 'v) list) list"

definition mem_has :: "'v mem_db \<Rightarrow> path \<Rightarrow> bool" where
  "mem_has db p \<longleftrightarrow> p \<in> set (map fst db)"

definition mem_entries :: "'v mem_db \<Rightarrow> path \<Rightarrow> (bytes \<times> 'v) list" where
  "mem_entries db p = (case map_of db p of None \<Rightarrow> [] | Some es \<Rightarrow> es)"

definition mem_valid :: "'v mem_db \<Rightarrow> bool" where
  "mem_valid db \<longleftrightarrow> distinct (map fst db) \<and>
     list_all (\<lambda>(p, es). ordered es \<and> (butlast p = [] \<or> mem_has db (butlast p))) db"

fun ins_entry :: "bytes \<Rightarrow> 'v \<Rightarrow> (bytes \<times> 'v) list \<Rightarrow> (bytes \<times> 'v) list" where
  "ins_entry k v [] = [(k, v)]"
| "ins_entry k v ((a, b) # es) =
     (if k < a then (k, v) # (a, b) # es
      else if k = a then (k, v) # es else (a, b) # ins_entry k v es)"

definition mem_put :: "'v mem_db \<Rightarrow> path \<Rightarrow> bytes \<Rightarrow> 'v \<Rightarrow> derror + 'v mem_db" where
  "mem_put db p k v =
     (if k = [] then Inl (ExtErr ''key required'')
      else if MaxKeySize < length k then Inl (ExtErr ''key too large'')
      else if mem_has db (p @ [k]) then Inl (ExtErr ''incompatible value'')
      else Inr (AList.update p (ins_entry k v (mem_entries db p)) db))"

definition mem_del :: "'v mem_db \<Rightarrow> path \<Rightarrow> bytes \<Rightarrow> derror + 'v mem_db" where
  "mem_del db p k =
     (if mem_has db (p @ [k]) then Inl (ExtErr ''incompatible value'')
      else Inr (AList.update p (filter (\<lambda>e. fst e \<noteq> k) (mem_entries db p)) db))"

definition mem_create :: "'v mem_db \<Rightarrow> path \<Rightarrow> string \<Rightarrow> derror + 'v mem_db" where
  "mem_create db p n =
     (if n = [] then Inl (ExtErr ''bucket name required'')
      else if p \<noteq> [] \<and> \<not> mem_has db p then Inl (ExtErr ''bucket not found'')
      else if mem_has db (p @ [n]) then Inr db
      else if map_of (mem_entries db p) n \<noteq> None then Inl (ExtErr ''incompatible value'')
      else Inr ((p @ [n], []) # db))"

definition mem_drop :: "'v mem_db \<Rightarrow> path \<Rightarrow> string \<Rightarrow> derror + 'v mem_db" where
  "mem_drop db p n =
     (if mem_has db (p @ [n]) then Inr (filter (\<lambda>b. \<not> prefix (p @ [n]) (fst b)) db)
      else Inl ErrBucketNotFound)"

definition mem_bolt :: "('v mem_db, 'v) bolt" where
  "mem_bolt = \<lparr>bolt_valid = mem_valid, bolt_fits = (\<lambda>_. True), bolt_has = mem_has,
     bolt_create = mem_create, bolt_drop = mem_drop,
     bolt_get = (\<lambda>db p k. map_of (mem_entries db p) k), bolt_put = mem_put, bolt_del = mem_del,
     bolt_entries = mem_entries,
     bolt_seek = (\<lambda>db p k. dropWhile (\<lambda>e. fst e < k) (mem_entries db p)),
     bolt_children = (\<lambda>db p. map last
       (filter (\<lambda>q. q \<noteq> [] \<and> butlast q = p) (map fst db))),
     bolt_begin = (\<lambda>_ _. None), bolt_commit = (\<lambda>_. None), bolt_rollback = (\<lambda>_. None)\<rparr>"

lemma mem_bolt_sel [simp]:
  "bolt_valid mem_bolt = mem_valid" "bolt_fits mem_bolt = (\<lambda>_. True)"
  "bolt_has mem_bolt = mem_has" "bolt_create mem_bolt = mem_create"
  "bolt_drop mem_bolt = mem_drop" "bolt_get mem_bolt db p k = map_of (mem_entries db p) k"
  "bolt_put mem_bolt = mem_put" "bolt_del mem_bolt = mem_del"
  "bolt_entries mem_bolt = mem_entries"
  "bolt_seek mem_bolt db p k = dropWhile (\<lambda>e. fst e < k) (mem_entries db p)"
  "bolt_begin mem_bolt w db = None" "bolt_commit mem_bolt db = None"
  "bolt_rollback mem_bolt db = None"
  by (simp_all add: mem_bolt_def)

lemma map_of_ins_entry: "map_of (ins_entry k v es) = (map_of es)(k \<mapsto> v)"
  by (induction es rule: ins_entry.induct) (auto simp: fun_eq_iff)

lemma set_ins_entry: "fst ` set (ins_entry k v es) = insert k (fst ` set es)"
  by (induction k v es rule: ins_entry.induct) auto

lemma ordered_ins_entry: "ordered es \<Longrightarrow> ordered (ins_entry k v es)"
proof (induction k v es rule: ins_entry.induct)
  case (2 k v a b es)
  have "\<forall>x \<in> fst ` set (ins_entry k v es). a < x" if "a < k"
    using 2 that by (simp add: set_ins_entry)
  with 2 show ?case by (auto simp: not_less_iff_gr_or_eq)
qed simp

lemma map_of_del_entry: "map_of (filter (\<lambda>e. fst e \<noteq> k) es) = (map_of es)(k := None)"
  by (induction es) (auto simp: fun_eq_iff)

lemma map_of_filter_key: "map_of (filter (\<lambda>b. P (fst b)) al) k = (if P k then map_of al k else None)"
  by (induction al) auto

lemma mem_has_map_of: "mem_has db p \<longleftrightarrow> map_of db p \<noteq> None"
  by (auto simp: mem_has_def map_of_eq_None_iff)

lemma mem_entries_ordered: "mem_valid db \<Longrightarrow> ordered (mem_entries db p)"
  by (auto simp: mem_valid_def mem_entries_def list_all_iff split: option.splits dest!: map_of_SomeD)

lemma mem_valid_iff:
  "mem_valid db \<longleftrightarrow> distinct (map fst db) \<and> (\<forall>p. ordered (mem_entries db p)) \<and>
     (\<forall>p. mem_has db p \<longrightarrow> butlast p = [] \<or> mem_has db (butlast p))"
proof
  assume "mem_valid db"
  then show "distinct (map fst db) \<and> (\<forall>p. ordered (mem_entries db p)) \<and>
     (\<forall>p. mem_has db p \<longrightarrow> butlast p = [] \<or> mem_has db (butlast p))"
    by (auto simp: mem_entries_ordered) (auto simp: mem_valid_def list_all_iff mem_has_def)
next
  assume a: "distinct (map fst db) \<and> (\<forall>p. ordered (mem_entries db p)) \<and>
     (\<forall>p. mem_has db p \<longrightarrow> butlast p = [] \<or> mem_has db (butlast p))"
  have "ordered es" if "(p, es) \<in> set db" for p es
    using a that by (auto simp: mem_entries_def dest!: spec [of _ p])
  moreover have "butlast p = [] \<or> mem_has db (butlast p)" if "(p, es) \<in> set db" for p es
    using a that by (force simp: mem_has_def)
  ultimately show "mem_valid db" using a by (auto simp: mem_valid_def list_all_iff)
qed

lemma mem_update:
  assumes "mem_valid db" "mem_has db p" "ordered es"
  shows "mem_valid (AList.update p es db)"
    and "mem_has (AList.update p es db) q = mem_has db q"
    and "mem_entries (AList.update p es db) q = (if q = p then es else mem_entries db q)"
proof -
  show has: "mem_has (AList.update p es db) q = mem_has db q" for q
    using assms(2) by (auto simp: mem_has_map_of update_conv')
  show ent: "mem_entries (AList.update p es db) q = (if q = p then es else mem_entries db q)" for q
    by (simp add: mem_entries_def update_conv')
  show "mem_valid (AList.update p es db)"
    using assms by (simp add: mem_valid_iff has ent distinct_update)
qed

lemma mem_new:
  assumes "mem_valid db" "p = [] \<or> mem_has db p" "\<not> mem_has db (p @ [n])"
  shows "mem_valid ((p @ [n], []) # db)"
    and "mem_has ((p @ [n], []) # db) q \<longleftrightarrow> q = p @ [n] \<or> mem_has db q"
    and "mem_entries ((p @ [n], []) # db) q = (if q = p @ [n] then [] else mem_entries db q)"
proof -
  show has: "mem_has ((p @ [n], []) # db) q \<longleftrightarrow> q = p @ [n] \<or> mem_has db q" for q
    by (simp add: mem_has_def)
  show ent: "mem_entries ((p @ [n], []) # db) q = (if q = p @ [n] then [] else mem_entries db q)"
    for q by (simp add: mem_entries_def)
  have "p @ [n] \<notin> fst ` set db" using assms(3) by (simp add: mem_has_def)
  then show "mem_valid ((p @ [n], []) # db)"
    using assms by (auto simp: mem_valid_iff has ent)
qed

lemma mem_restrict:
  fixes r :: path
  assumes "mem_valid db"
  defines "db' \<equiv> filter (\<lambda>b. \<not> prefix r (fst b)) db"
  shows "mem_valid db'"
    and "mem_has db' q \<longleftrightarrow> mem_has db q \<and> \<not> prefix r q"
    and "\<not> prefix r q \<Longrightarrow> mem_entries db' q = mem_entries db q"
proof -
  have get: "map_of db' q = (if \<not> prefix r q then map_of db q else None)" for q
    unfolding db'_def by (rule map_of_filter_key)
  show has: "mem_has db' q \<longleftrightarrow> mem_has db q \<and> \<not> prefix r q" for q
    by (simp add: mem_has_map_of get)
  show "\<not> prefix r q \<Longrightarrow> mem_entries db' q = mem_entries db q"
    by (simp add: mem_entries_def get)
  have "ordered (mem_entries db' q)" for q
    using mem_entries_ordered [OF assms(1), of q] by (simp add: mem_entries_def get)
  moreover have "distinct (map fst db')"
    using assms(1) unfolding db'_def mem_valid_def by (simp add: distinct_map_filter)
  moreover have "\<not> prefix r q \<Longrightarrow> \<not> prefix r (butlast q)" for q
    using prefix_order.trans [OF _ prefixeq_butlast] by blast
  ultimately show "mem_valid db'"
    using assms(1) by (auto simp: mem_valid_iff has)
qed

interpretation mem: bolt_engine "mem_bolt :: ('v mem_db, 'v) bolt"
proof (unfold_locales, goal_cases)
  case (4 db p n)
  then show ?case by (auto simp: mem_valid_iff dest!: spec [of _ "p @ [n]"])
qed (auto simp: mem_put_def mem_del_def mem_create_def mem_drop_def mem_update mem_entries_ordered
    mem_new mem_new [of _ "[]", simplified] mem_restrict map_of_ins_entry map_of_del_entry ordered_ins_entry ordered_filter
    split: if_splits)

end
