(* ===== verification/BdbStore.thy ===== *)
theory BdbStore
  imports Keys MemBolt
begin

text \<open>
  The BoltDB implementation of the transaction interface: \<open>bdb/object_store.go\<close>,
  \<open>bdb/relation_store.go\<close>, \<open>bdb/manifest_store.go\<close> and \<open>bdb/tx.go\<close>. The environment \<open>E\<close> is the
  storage engine together with the codecs of the stored messages (protobuf, and JSON for the
  model). The invariant \<open>bdb_inv\<close> says that the object bucket holds each object under its key and
  that the two relation buckets index the same relations. On it the store keeps the contract
  \<open>tx_store\<close>.
\<close>

section \<open>The environment\<close>

record ('db, 'v, 'model) bdb_env = "('db, 'v) bolt" +
  enc_obj :: "object \<Rightarrow> 'v result"
  dec_obj :: "'v \<Rightarrow> object result"
  enc_rel :: "relation \<Rightarrow> 'v result"
  dec_rel :: "'v \<Rightarrow> relation result"
  dec_rid :: "'v \<Rightarrow> rel_ident result"
  enc_md :: "metadata \<Rightarrow> 'v result"
  dec_md :: "'v \<Rightarrow> metadata result"
  enc_body :: "body \<Rightarrow> 'v result"
  dec_body :: "'v \<Rightarrow> body result"
  enc_model :: "'model \<Rightarrow> 'v result"
  dec_model :: "'v \<Rightarrow> 'model result"

text \<open>
  What the code relies on of the codecs: bytes that were encoded decode to the message, and a
  relation's bytes also decode to its identifier (the two messages share their first six fields).
\<close>

definition codec_ok :: "('db, 'v, 'model, 'z) bdb_env_scheme \<Rightarrow> bool" where
  "codec_ok E \<longleftrightarrow>
     (\<forall>x b. enc_obj E x = Inr b \<longrightarrow> dec_obj E b = Inr x) \<and>
     (\<forall>r b. enc_rel E r = Inr b \<longrightarrow> dec_rel E b = Inr r \<and> dec_rid E b = Inr (ident_of r)) \<and>
     (\<forall>m b. enc_md E m = Inr b \<longrightarrow> dec_md E b = Inr m) \<and>
     (\<forall>m b. enc_body E m = Inr b \<longrightarrow> dec_body E b = Inr m) \<and>
     (\<forall>m b. enc_model E m = Inr b \<longrightarrow> dec_model E b = Inr m)"

section \<open>Objects\<close>

definition bdb_GetObject ::
  "('db, 'v, 'model, 'z) bdb_env_scheme \<Rightarrow> 'db \<Rightarrow> string \<Rightarrow> string \<Rightarrow> object result" where
  "bdb_GetObject E db objectType objectID =
     Get E (dec_obj E) db ObjectsPath (objectKey objectType objectID)"

definition bdb_SetObject ::
  "('db, 'v, 'model, 'z) bdb_env_scheme \<Rightarrow> 'db \<Rightarrow> object \<Rightarrow> object result \<times> 'db" where
  "bdb_SetObject E db obj = Set E (enc_obj E) db ObjectsPath (objectKey (o_type obj) (o_id obj)) obj"

definition bdb_DeleteObject ::
  "('db, 'v, 'model, 'z) bdb_env_scheme \<Rightarrow> 'db \<Rightarrow> string \<Rightarrow> string \<Rightarrow> derror option \<times> 'db" where
  "bdb_DeleteObject E db objectType objectID =
     Delete E db ObjectsPath (objectKey objectType objectID)"

definition objectIterator ::
  "('db, 'v, 'model, 'z) bdb_env_scheme \<Rightarrow> 'db \<Rightarrow> 'v ScanIterator \<Rightarrow> object iter" where
  "objectIterator E db it = new_iter (scan_rows E (dec_obj E) zero_object db it)"

definition bdb_ScanObjects ::
  "('db, 'v, 'model, 'z) bdb_env_scheme \<Rightarrow> 'db \<Rightarrow> string \<Rightarrow> string \<Rightarrow> object iter result" where
  "bdb_ScanObjects E db objectType pageToken =
     (let opts = (if objectType \<noteq> [] then [WithKeyFilter (objectKey objectType [])] else []);
          opts = (if pageToken \<noteq> [] then opts @ [WithPageToken pageToken] else opts)
      in case NewScanIterator E db ObjectsPath opts of
           Inl e \<Rightarrow> Inl e
         | Inr it \<Rightarrow> Inr (objectIterator E db it))"

section \<open>Relations\<close>

definition directionPath :: "direction \<Rightarrow> path" where
  "directionPath dir = (if dir = BySubject then RelationsSubPath else RelationsObjPath)"

definition bdb_GetRelationExact ::
  "('db, 'v, 'model, 'z) bdb_env_scheme \<Rightarrow> 'db \<Rightarrow> rel_ident \<Rightarrow> relation result" where
  "bdb_GetRelationExact E db ident = Get E (dec_rel E) db RelationsObjPath (objKeyOf ident)"

definition bdb_SetRelation ::
  "('db, 'v, 'model, 'z) bdb_env_scheme \<Rightarrow> 'db \<Rightarrow> relation \<Rightarrow> relation result \<times> 'db" where
  "bdb_SetRelation E db rel =
     (case Set E (enc_rel E) db RelationsObjPath (objKeyOf rel) rel of
        (Inl e, db') \<Rightarrow> (Inl e, db')
      | (Inr objRel, db') \<Rightarrow>
          (case Set E (enc_rel E) db' RelationsSubPath (subKeyOf rel) rel of
             (Inl e, db'') \<Rightarrow> (Inl e, db'')
           | (Inr _, db'') \<Rightarrow> (Inr objRel, db'')))"

definition bdb_DeleteRelation ::
  "('db, 'v, 'model, 'z) bdb_env_scheme \<Rightarrow> 'db \<Rightarrow> rel_ident \<Rightarrow> derror option \<times> 'db" where
  "bdb_DeleteRelation E db ident =
     (case Delete E db RelationsObjPath (objKeyOf ident) of
        (Some e, db') \<Rightarrow> (Some e, db')
      | (None, db') \<Rightarrow> Delete E db' RelationsSubPath (subKeyOf ident))"

text \<open>The prefix that both kinds of relation scan seek to.\<close>

definition scan_prefix :: "direction \<Rightarrow> rel_filter \<Rightarrow> bytes" where
  "scan_prefix dir f = (if dir = BySubject then writeSubFilter [] f else writeObjFilter [] f)"

definition relationIterator ::
  "('db, 'v, 'model, 'z) bdb_env_scheme \<Rightarrow> 'db \<Rightarrow> 'v ScanIterator \<Rightarrow> relation iter" where
  "relationIterator E db it = new_iter (scan_rows E (dec_rel E) zero_relation db it)"

definition bdb_ScanRelations ::
  "('db, 'v, 'model, 'z) bdb_env_scheme \<Rightarrow> 'db \<Rightarrow> direction \<Rightarrow> rel_filter \<Rightarrow> string
     \<Rightarrow> relation iter result" where
  "bdb_ScanRelations E db dir flt pageToken =
     (let opts = [WithKeyFilter (scan_prefix dir flt)];
          opts = (if pageToken \<noteq> [] then opts @ [WithPageToken pageToken] else opts)
      in case NewScanIterator E db (directionPath dir) opts of
           Inl e \<Rightarrow> Inl e
         | Inr it \<Rightarrow> Inr (relationIterator E db it))"

definition bdb_ScanRelationsFiltered ::
  "('db, 'v, 'model, 'z) bdb_env_scheme \<Rightarrow> 'db \<Rightarrow> direction \<Rightarrow> rel_filter
     \<Rightarrow> (rel_ident \<Rightarrow> bool) option \<Rightarrow> rel_ident list \<Rightarrow> rel_ident list result" where
  "bdb_ScanRelationsFiltered E db dir flt valueFilter out =
     ScanWithFilter E (dec_rid E) db (directionPath dir) (scan_prefix dir flt) valueFilter out"

definition bdb_RelationsExistForObject ::
  "('db, 'v, 'model, 'z) bdb_env_scheme \<Rightarrow> 'db \<Rightarrow> direction \<Rightarrow> string \<Rightarrow> string \<Rightarrow> bool result" where
  "bdb_RelationsExistForObject E db dir objectType objectID =
     KeyPrefixExists E db (directionPath dir)
       (scan_prefix dir (ObjectOnlyFilter dir objectType objectID))"

section \<open>The manifest\<close>

definition bdb_ManifestExists :: "('db, 'v, 'model, 'z) bdb_env_scheme \<Rightarrow> 'db \<Rightarrow> bool result" where
  "bdb_ManifestExists E db = BucketExists E db ManifestPath"

definition bdb_GetManifestMetadata ::
  "('db, 'v, 'model, 'z) bdb_env_scheme \<Rightarrow> 'db \<Rightarrow> metadata result" where
  "bdb_GetManifestMetadata E db = Get E (dec_md E) db ManifestPath MetadataKey"

definition bdb_GetManifestBody ::
  "('db, 'v, 'model, 'z) bdb_env_scheme \<Rightarrow> 'db \<Rightarrow> body result" where
  "bdb_GetManifestBody E db = Get E (dec_body E) db ManifestPath BodyKey"

definition bdb_GetManifestModel ::
  "('db, 'v, 'model, 'z) bdb_env_scheme \<Rightarrow> 'db \<Rightarrow> 'model result" where
  "bdb_GetManifestModel E db = GetAny E (dec_model E) db ManifestPath ModelKey"

definition bdb_SetManifest ::
  "('db, 'v, 'model, 'z) bdb_env_scheme \<Rightarrow> 'db \<Rightarrow> metadata \<Rightarrow> body \<Rightarrow> derror option \<times> 'db" where
  "bdb_SetManifest E db metadata body =
     (case CreateBucket E db ManifestPath of
        (Inl e, db1) \<Rightarrow> (Some e, db1)
      | (Inr _, db1) \<Rightarrow>
          (case Set E (enc_md E) db1 ManifestPath MetadataKey metadata of
             (Inl e, db2) \<Rightarrow> (Some e, db2)
           | (Inr _, db2) \<Rightarrow>
               (case Set E (enc_body E) db2 ManifestPath BodyKey body of
                  (Inl e, db3) \<Rightarrow> (Some e, db3)
                | (Inr _, db3) \<Rightarrow> (None, db3))))"

definition bdb_SetManifestModel ::
  "('db, 'v, 'model, 'z) bdb_env_scheme \<Rightarrow> 'db \<Rightarrow> 'model \<Rightarrow> derror option \<times> 'db" where
  "bdb_SetManifestModel E db mdl =
     (case SetAny E (enc_model E) db ManifestPath ModelKey mdl of (r, db') \<Rightarrow> (err_of r, db'))"

fun DeleteManifest_loop ::
  "('db, 'v, 'model, 'z) bdb_env_scheme \<Rightarrow> 'db \<Rightarrow> path list \<Rightarrow> derror option \<times> 'db" where
  "DeleteManifest_loop E db [] = (None, db)"
| "DeleteManifest_loop E db (p # ps) =
     (case DeleteBucket E db p of
        (Some e, db') \<Rightarrow> (Some e, db')
      | (None, db') \<Rightarrow>
          (case CreateBucket E db' p of
             (Inl e, db'') \<Rightarrow> (Some e, db'')
           | (Inr _, db'') \<Rightarrow> DeleteManifest_loop E db'' ps))"

definition bdb_DeleteManifest ::
  "('db, 'v, 'model, 'z) bdb_env_scheme \<Rightarrow> 'db \<Rightarrow> derror option \<times> 'db" where
  "bdb_DeleteManifest E db =
     DeleteManifest_loop E db [ManifestPath, ObjectsPath, RelationsObjPath, RelationsSubPath]"

section \<open>The transaction\<close>

definition bdb_tx :: "('db, 'v, 'model, 'z) bdb_env_scheme \<Rightarrow> ('db, 'model) Tx" where
  "bdb_tx E = \<lparr>
     tx_GetObject = bdb_GetObject E, tx_SetObject = bdb_SetObject E,
     tx_DeleteObject = bdb_DeleteObject E, tx_ScanObjects = bdb_ScanObjects E,
     tx_GetRelationExact = bdb_GetRelationExact E, tx_SetRelation = bdb_SetRelation E,
     tx_DeleteRelation = bdb_DeleteRelation E, tx_ScanRelations = bdb_ScanRelations E,
     tx_ScanRelationsFiltered = bdb_ScanRelationsFiltered E,
     tx_RelationsExistForObject = bdb_RelationsExistForObject E,
     tx_ManifestExists = bdb_ManifestExists E,
     tx_GetManifestMetadata = bdb_GetManifestMetadata E,
     tx_GetManifestBody = bdb_GetManifestBody E, tx_GetManifestModel = bdb_GetManifestModel E,
     tx_SetManifest = bdb_SetManifest E, tx_SetManifestModel = bdb_SetManifestModel E,
     tx_DeleteManifest = bdb_DeleteManifest E,
     tx_begin = bolt_begin E, tx_commit = bolt_commit E, tx_end_view = bolt_rollback E\<rparr>"

lemma bdb_tx_sel [simp]:
  "tx_GetObject (bdb_tx E) = bdb_GetObject E" "tx_SetObject (bdb_tx E) = bdb_SetObject E"
  "tx_DeleteObject (bdb_tx E) = bdb_DeleteObject E" "tx_ScanObjects (bdb_tx E) = bdb_ScanObjects E"
  "tx_GetRelationExact (bdb_tx E) = bdb_GetRelationExact E"
  "tx_SetRelation (bdb_tx E) = bdb_SetRelation E"
  "tx_DeleteRelation (bdb_tx E) = bdb_DeleteRelation E"
  "tx_ScanRelations (bdb_tx E) = bdb_ScanRelations E"
  "tx_ScanRelationsFiltered (bdb_tx E) = bdb_ScanRelationsFiltered E"
  "tx_RelationsExistForObject (bdb_tx E) = bdb_RelationsExistForObject E"
  "tx_ManifestExists (bdb_tx E) = bdb_ManifestExists E"
  "tx_GetManifestMetadata (bdb_tx E) = bdb_GetManifestMetadata E"
  "tx_GetManifestBody (bdb_tx E) = bdb_GetManifestBody E"
  "tx_GetManifestModel (bdb_tx E) = bdb_GetManifestModel E"
  "tx_SetManifest (bdb_tx E) = bdb_SetManifest E"
  "tx_SetManifestModel (bdb_tx E) = bdb_SetManifestModel E"
  "tx_DeleteManifest (bdb_tx E) = bdb_DeleteManifest E"
  "tx_begin (bdb_tx E) = bolt_begin E" "tx_commit (bdb_tx E) = bolt_commit E"
  "tx_end_view (bdb_tx E) = bolt_rollback E"
  by (simp_all add: bdb_tx_def)

section \<open>The invariant and the tables\<close>

definition data_paths :: "path list" where
  "data_paths = [ObjectsPath, RelationsObjPath, RelationsSubPath]"

abbreviation lookup :: "('db, 'v, 'z) bolt_scheme \<Rightarrow> 'db \<Rightarrow> path \<Rightarrow> bytes \<Rightarrow> 'v option" where
  "lookup E db p \<equiv> map_of (bolt_entries E db p)"

definition obj_entry_ok :: "('db, 'v, 'model, 'z) bdb_env_scheme \<Rightarrow> bytes \<Rightarrow> 'v \<Rightarrow> bool" where
  "obj_entry_ok E k v \<longleftrightarrow> (\<exists>x. dec_obj E v = Inr x \<and> wf_oid (object_ident x) \<and>
     k = objectKey (o_type x) (o_id x))"

text \<open>An entry of a relation index, with the key function of that index.\<close>

definition rel_entry_ok ::
  "('db, 'v, 'model, 'z) bdb_env_scheme \<Rightarrow> (relation \<Rightarrow> bytes) \<Rightarrow> bytes \<Rightarrow> 'v \<Rightarrow> bool" where
  "rel_entry_ok E key k v \<longleftrightarrow> (\<exists>r. dec_rel E v = Inr r \<and> dec_rid E v = Inr (ident_of r) \<and> wf_rid r \<and>
     k = key r)"

definition dirKey :: "direction \<Rightarrow> 'z rel_ident_scheme \<Rightarrow> bytes" where
  "dirKey dir r = (if dir = BySubject then subKeyOf r else objKeyOf r)"

text \<open>What an index holds for an identifier.\<close>

definition rel_at ::
  "('db, 'v, 'model, 'z) bdb_env_scheme \<Rightarrow> 'db \<Rightarrow> direction \<Rightarrow> rel_ident \<Rightarrow> relation option" where
  "rel_at E db dir i = (case lookup E db (directionPath dir) (dirKey dir i) of
      None \<Rightarrow> None
    | Some v \<Rightarrow> (case dec_rel E v of
          Inl _ \<Rightarrow> None
        | Inr r \<Rightarrow> if ident_of r = i then Some r else None))"

definition bdb_rels ::
  "('db, 'v, 'model, 'z) bdb_env_scheme \<Rightarrow> 'db \<Rightarrow> rel_ident \<Rightarrow> relation option" where
  "bdb_rels E db = rel_at E db ByObject"

definition bdb_objs ::
  "('db, 'v, 'model, 'z) bdb_env_scheme \<Rightarrow> 'db \<Rightarrow> obj_id \<Rightarrow> object option" where
  "bdb_objs E db k = (case lookup E db ObjectsPath (objectKey (fst k) (snd k)) of
      None \<Rightarrow> None
    | Some v \<Rightarrow> (case dec_obj E v of
          Inl _ \<Rightarrow> None
        | Inr x \<Rightarrow> if object_ident x = k then Some x else None))"

text \<open>The data buckets exist and hold no nested buckets.\<close>

definition bdb_open :: "('db, 'v, 'z) bolt_scheme \<Rightarrow> 'db \<Rightarrow> bool" where
  "bdb_open E db \<longleftrightarrow> bolt_engine E \<and> bolt_valid E db \<and>
     (\<forall>p \<in> set data_paths. bolt_has E db p \<and> (\<forall>k. \<not> bolt_has E db (p @ [k])))"

definition bdb_inv :: "('db, 'v, 'model, 'z) bdb_env_scheme \<Rightarrow> 'db \<Rightarrow> bool" where
  "bdb_inv E db \<longleftrightarrow> bdb_open E db \<and> codec_ok E \<and>
     (\<forall>k v. lookup E db ObjectsPath k = Some v \<longrightarrow> obj_entry_ok E k v) \<and>
     (\<forall>dir k v. lookup E db (directionPath dir) k = Some v \<longrightarrow> rel_entry_ok E (dirKey dir) k v) \<and>
     rel_at E db BySubject = rel_at E db ByObject"

text \<open>The part of the database that the object and relation operations leave alone: every other
  bucket.\<close>

definition bdb_rest ::
  "('db, 'v, 'model, 'z) bdb_env_scheme \<Rightarrow> 'db \<Rightarrow> (path \<Rightarrow> bool) \<times> (path \<Rightarrow> bytes \<Rightarrow> 'v option)" where
  "bdb_rest E db = (bolt_has E db, \<lambda>p. if p \<in> set data_paths then Map.empty else lookup E db p)"

definition bdb_okO :: "('db, 'v, 'model, 'z) bdb_env_scheme \<Rightarrow> 'db \<Rightarrow> object \<Rightarrow> bool" where
  "bdb_okO E db x \<longleftrightarrow> length (objectKey (o_type x) (o_id x)) \<le> MaxKeySize \<and>
     (case enc_obj E x of Inl _ \<Rightarrow> False | Inr b \<Rightarrow> bolt_fits E b)"

definition bdb_okR :: "('db, 'v, 'model, 'z) bdb_env_scheme \<Rightarrow> 'db \<Rightarrow> relation \<Rightarrow> bool" where
  "bdb_okR E db r \<longleftrightarrow> length (objKeyOf r) \<le> MaxKeySize \<and>
     (case enc_rel E r of Inl _ \<Rightarrow> False | Inr b \<Rightarrow> bolt_fits E b)"

definition bdb_orows ::
  "('db, 'v, 'model, 'z) bdb_env_scheme \<Rightarrow> 'db \<Rightarrow> string \<Rightarrow> object row list" where
  "bdb_orows E db ty = map (row_of (dec_obj E))
     (filter (\<lambda>e. prefix (if ty = [] then [] else objectKey ty []) (fst e)) (bolt_entries E db ObjectsPath))"

definition bdb_rrows ::
  "('db, 'v, 'model, 'z) bdb_env_scheme \<Rightarrow> 'db \<Rightarrow> direction \<Rightarrow> rel_filter \<Rightarrow> relation row list" where
  "bdb_rrows E db dir f = map (row_of (dec_rel E))
     (filter (\<lambda>e. prefix (scan_prefix dir f) (fst e)) (bolt_entries E db (directionPath dir)))"

section \<open>The store keeps the contract\<close>

lemma path_facts [simp]:
  "ObjectsPath \<noteq> []" "directionPath dir \<noteq> []" "ObjectsPath \<noteq> directionPath dir"
  "directionPath dir \<noteq> ObjectsPath" "directionPath dir = directionPath dir' \<longleftrightarrow> dir = dir'"
  "ObjectsPath \<in> set data_paths" "directionPath dir \<in> set data_paths"
  by (cases dir; cases dir'; simp add: path_defs directionPath_def data_paths_def)+

lemma directionPath_simps:
  "RelationsObjPath = directionPath ByObject" "RelationsSubPath = directionPath BySubject"
  "objKeyOf r = dirKey ByObject r" "subKeyOf r = dirKey BySubject r"
  by (simp_all add: directionPath_def dirKey_def)

lemma dirKey_simps [simp]: "dirKey dir (ident_of r) = dirKey dir r" "dirKey dir r \<noteq> []"
    "[] \<noteq> dirKey dir r"
  by (auto simp: dirKey_def dest: sym [of "[]"])

lemma dirKey_inj:
  "wf_rid r \<Longrightarrow> wf_rid s \<Longrightarrow> dirKey dir r = dirKey dir s \<longleftrightarrow> r = s" for r s :: rel_ident
  by (simp add: dirKey_def objKeyOf_inj subKeyOf_inj)

lemma dirKey_inj_rel:
  "wf_rid r \<Longrightarrow> wf_rid s \<Longrightarrow> dirKey dir r = dirKey dir s \<Longrightarrow> ident_of r = ident_of s"
  using dirKey_inj [of "ident_of r" "ident_of s" dir] by simp

lemma length_keys: "length (dirKey dir r) = length (objKeyOf r)"
  by (simp add: dirKey_def objKeyOf_eq subKeyOf_eq)

lemma bdb_openD:
  assumes "bdb_open E db"
  shows "bolt_engine E" "bolt_valid E db"
    and "p \<in> set data_paths \<Longrightarrow> p \<noteq> []"
    and "p \<in> set data_paths \<Longrightarrow> bolt_has E db p"
    and "p \<in> set data_paths \<Longrightarrow> \<not> bolt_has E db (p @ [k])"
  using assms unfolding bdb_open_def by (auto simp: data_paths_def path_defs)

lemma bdb_invD:
  assumes "bdb_inv E db"
  shows "bdb_open E db" "codec_ok E"
    and "lookup E db ObjectsPath k = Some v \<Longrightarrow> obj_entry_ok E k v"
    and "lookup E db (directionPath dir) k = Some v \<Longrightarrow> rel_entry_ok E (dirKey dir) k v"
    and "rel_at E db dir = bdb_rels E db"
  using assms unfolding bdb_inv_def bdb_rels_def by (blast | (cases dir; simp))+

subsection \<open>One key of one data bucket\<close>

lemma Set_post:
  assumes "bdb_open E db" "p \<in> set data_paths" "Set E enc db p k m = (Inr y, db')"
  shows "\<exists>b. enc m = Inr b \<and> y = m \<and> bdb_open E db' \<and> bolt_has E db' = bolt_has E db \<and>
    (\<forall>q. lookup E db' q = (if q = p then (lookup E db p)(k \<mapsto> b) else lookup E db q))"
proof -
  note i = bdb_openD [OF assms(1)]
  obtain b where b: "enc m = Inr b" "y = m" "bolt_put E db p k b = Inr db'"
    using assms i(3,4) bolt_engine.SetBucket_eq [OF i(1,2)]
    by (auto simp: Set_def SetKey_def split: sum.splits prod.splits option.splits)
  note h = i(2) i(4) [OF assms(2)] b(3)
  from bolt_engine.put_valid [OF i(1) h] bolt_engine.put_has [OF i(1) h]
    bolt_engine.put_entries [OF i(1) h] b(1,2) i(1,4,5)
  show ?thesis by (auto simp: fun_eq_iff bdb_open_def)
qed

lemma Set_total:
  assumes "bdb_open E db" "p \<in> set data_paths" "enc m = Inr b" "bolt_fits E b" "k \<noteq> []"
    "length k \<le> MaxKeySize"
  shows "\<exists>db'. Set E enc db p k m = (Inr m, db')"
proof -
  note i = bdb_openD [OF assms(1)]
  obtain db' where "bolt_put E db p k b = Inr db'"
    using bolt_engine.put_ok [OF i(1,2) i(4) [OF assms(2)] assms(5,6,4) i(5) [OF assms(2)]] by blast
  then show ?thesis
    using assms i(3,4) by (simp add: Set_def SetKey_def bolt_engine.SetBucket_eq [OF i(1,2)])
qed

lemma Delete_post:
  assumes "bdb_open E db" "p \<in> set data_paths"
  shows "\<exists>db'. Delete E db p k = (None, db') \<and> bdb_open E db' \<and> bolt_has E db' = bolt_has E db \<and>
    (\<forall>q. lookup E db' q = (if q = p then (lookup E db p)(k := None) else lookup E db q))"
proof -
  note i = bdb_openD [OF assms(1)]
  obtain db' where db': "bolt_del E db p k = Inr db'"
    using bolt_engine.del_ok [OF i(1,2) i(4) [OF assms(2)] i(5) [OF assms(2)]] by blast
  note h = i(2) i(4) [OF assms(2)] db'
  from assms db' i bolt_engine.del_valid [OF i(1) h] bolt_engine.del_has [OF i(1) h]
    bolt_engine.del_entries [OF i(1) h]
  show ?thesis
    by (auto simp: fun_eq_iff Delete_def DeleteKey_def bdb_open_def bolt_engine.SetBucket_eq [OF i(1,2)])
qed

lemma Get_eq:
  assumes "bdb_open E db" "p \<in> set data_paths"
  shows "Get E dec db p k = (case lookup E db p k of None \<Rightarrow> Inl ErrKeyNotFound | Some v \<Rightarrow> dec v)"
  using bdb_openD [OF assms(1)] assms(2)
  by (simp add: Get_def bolt_engine.GetKey_eq split: option.split)

subsection \<open>The tables\<close>

lemma dirKey_cong: "ident_of r = ident_of s \<Longrightarrow> dirKey dir r = dirKey dir s"
  using dirKey_simps(1) [of dir r] by simp

lemma rel_at_iff:
  "rel_at E db dir i = Some r \<longleftrightarrow> ident_of r = i \<and>
     (\<exists>v. lookup E db (directionPath dir) (dirKey dir r) = Some v \<and> dec_rel E v = Inr r)"
  by (auto simp: rel_at_def split: option.splits sum.splits if_splits dest: dirKey_cong [of _ _ dir])

lemma bdb_objs_iff:
  "bdb_objs E db k = Some x \<longleftrightarrow> object_ident x = k \<and>
     (\<exists>v. lookup E db ObjectsPath (objectKey (o_type x) (o_id x)) = Some v \<and> dec_obj E v = Inr x)"
  by (auto simp: bdb_objs_def object_ident_def split: option.splits sum.splits if_splits)

lemma rel_at_cong:
  "lookup E db' (directionPath dir) = lookup E db (directionPath dir) \<Longrightarrow>
     rel_at E db' dir = rel_at E db dir"
  by (simp add: rel_at_def fun_eq_iff)

lemma bdb_objs_cong:
  "lookup E db' ObjectsPath = lookup E db ObjectsPath \<Longrightarrow> bdb_objs E db' = bdb_objs E db"
  by (simp add: bdb_objs_def fun_eq_iff)

lemma rel_at_wf:
  assumes "bdb_inv E db" "rel_at E db dir i = Some r"
  shows "wf_rid r" "ident_of r = i"
  using bdb_invD(4) [OF assms(1), of dir "dirKey dir r"] assms(2)
  by (auto simp: rel_entry_ok_def rel_at_iff)

lemma bdb_objs_wf:
  assumes "bdb_inv E db" "bdb_objs E db k = Some x"
  shows "wf_oid k" "object_ident x = k"
  using bdb_invD(3) [OF assms(1), of "objectKey (o_type x) (o_id x)"] assms(2)
  by (auto simp: obj_entry_ok_def bdb_objs_iff)

lemma map_eqI: "(\<And>k x. m k = Some x \<longleftrightarrow> m' k = Some x) \<Longrightarrow> m = m'"
  by (metis ext not_Some_eq)

lemma rel_at_put:
  assumes "bdb_inv E db" "wf_rid r" "dec_rel E b = Inr r"
    and "lookup E db' (directionPath dir) = (lookup E db (directionPath dir))(dirKey dir r \<mapsto> b)"
  shows "rel_at E db' dir = (rel_at E db dir)(ident_of r \<mapsto> r)"
proof (rule map_eqI)
  fix i s
  show "rel_at E db' dir i = Some s \<longleftrightarrow> ((rel_at E db dir)(ident_of r \<mapsto> r)) i = Some s"
  proof (cases "dirKey dir s = dirKey dir r")
    case True
    have "i = ident_of r" if "rel_at E db dir i = Some s"
      using rel_at_wf [OF assms(1) that] dirKey_inj_rel [OF _ assms(2) True] by simp
    with True assms(3,4) show ?thesis by (auto simp: rel_at_iff [of E db'])
  next
    case False
    with assms(4) dirKey_cong [of s r dir] show ?thesis by (auto simp: rel_at_iff)
  qed
qed

lemma rel_at_del:
  assumes "bdb_inv E db" "wf_rid j"
    and "lookup E db' (directionPath dir) = (lookup E db (directionPath dir))(dirKey dir j := None)"
  shows "rel_at E db' dir = (rel_at E db dir)(j := None)"
proof (rule map_eqI)
  fix i s
  show "rel_at E db' dir i = Some s \<longleftrightarrow> ((rel_at E db dir)(j := None)) i = Some s"
  proof (cases "dirKey dir s = dirKey dir j")
    case True
    have "i = j" if "rel_at E db dir i = Some s"
      using rel_at_wf(1) [OF assms(1) that] rel_at_wf(2) [OF assms(1) that, symmetric]
        dirKey_inj [OF _ assms(2), of "ident_of s" dir] True by simp
    with True assms(3) show ?thesis by (auto simp: rel_at_iff [of E db'])
  next
    case False
    with assms(3) dirKey_simps(1) [of dir s] show ?thesis by (auto simp: rel_at_iff)
  qed
qed

lemma bdb_objs_put:
  assumes "bdb_inv E db" "wf_oid (object_ident x)" "dec_obj E b = Inr x"
    and "lookup E db' ObjectsPath = (lookup E db ObjectsPath)(objectKey (o_type x) (o_id x) \<mapsto> b)"
  shows "bdb_objs E db' = (bdb_objs E db)(object_ident x \<mapsto> x)"
proof (rule map_eqI)
  fix k y
  show "bdb_objs E db' k = Some y \<longleftrightarrow> ((bdb_objs E db)(object_ident x \<mapsto> x)) k = Some y"
  proof (cases "objectKey (o_type y) (o_id y) = objectKey (o_type x) (o_id x)")
    case True
    have "k = object_ident x" if "bdb_objs E db k = Some y"
      using bdb_objs_wf [OF assms(1) that] assms(2) True objectKey_inj
      by (auto simp: object_ident_def)
    with True assms(3,4) show ?thesis by (auto simp: bdb_objs_iff [of E db'])
  next
    case False
    with assms(4) show ?thesis by (auto simp: bdb_objs_iff object_ident_def)
  qed
qed

lemma bdb_objs_del:
  assumes "bdb_inv E db" "wf_oid (ty, oid)"
    and "lookup E db' ObjectsPath = (lookup E db ObjectsPath)(objectKey ty oid := None)"
  shows "bdb_objs E db' = (bdb_objs E db)((ty, oid) := None)"
proof (rule map_eqI)
  fix k y
  show "bdb_objs E db' k = Some y \<longleftrightarrow> ((bdb_objs E db)((ty, oid) := None)) k = Some y"
  proof (cases "objectKey (o_type y) (o_id y) = objectKey ty oid")
    case True
    have "k = (ty, oid)" if "bdb_objs E db k = Some y"
      using bdb_objs_wf [OF assms(1) that] assms(2) True objectKey_inj
      by (auto simp: object_ident_def)
    with True assms(3) show ?thesis by (auto simp: bdb_objs_iff [of E db'])
  next
    case False
    with assms(3) show ?thesis by (auto simp: bdb_objs_iff object_ident_def)
  qed
qed

subsection \<open>Writes preserve the invariant\<close>

lemma bdb_inv_obj_write:
  assumes "bdb_inv E db" "bdb_open E db'" "bolt_has E db' = bolt_has E db"
    and "\<And>q. q \<noteq> ObjectsPath \<Longrightarrow> lookup E db' q = lookup E db q"
    and "\<And>k v. lookup E db' ObjectsPath k = Some v \<Longrightarrow>
      lookup E db ObjectsPath k = Some v \<or> obj_entry_ok E k v"
  shows "bdb_inv E db'" "bdb_rels E db' = bdb_rels E db" "bdb_rest E db' = bdb_rest E db"
proof -
  have rel: "rel_at E db' dir = rel_at E db dir" for dir
    by (rule rel_at_cong) (simp add: assms(4))
  show "bdb_inv E db'"
    using assms by (auto simp: bdb_inv_def rel) blast
  show "bdb_rels E db' = bdb_rels E db" by (simp add: bdb_rels_def rel)
  show "bdb_rest E db' = bdb_rest E db"
    using assms(3,4) by (auto simp: bdb_rest_def fun_eq_iff data_paths_def)
qed

lemma bdb_inv_rel_write:
  assumes "bdb_inv E db" "bdb_open E db'" "bolt_has E db' = bolt_has E db"
    and "\<And>q. \<forall>dir. q \<noteq> directionPath dir \<Longrightarrow> lookup E db' q = lookup E db q"
    and "\<And>dir k v. lookup E db' (directionPath dir) k = Some v \<Longrightarrow>
      lookup E db (directionPath dir) k = Some v \<or> rel_entry_ok E (dirKey dir) k v"
    and "\<And>dir. rel_at E db' dir = f (rel_at E db dir)"
  shows "bdb_inv E db'" "bdb_rels E db' = f (bdb_rels E db)" "bdb_objs E db' = bdb_objs E db"
    "bdb_rest E db' = bdb_rest E db"
proof -
  show "bdb_inv E db'"
    using assms(1-3) assms(4) [of ObjectsPath] assms(5,6)
    by (auto simp: bdb_inv_def) blast+
  show "bdb_rels E db' = f (bdb_rels E db)" by (simp add: bdb_rels_def assms(6))
  show "bdb_objs E db' = bdb_objs E db" by (rule bdb_objs_cong) (simp add: assms(4))
  have "p \<notin> set data_paths \<Longrightarrow> lookup E db' p = lookup E db p" for p
    using assms(4) [of p] by (auto simp: data_paths_def directionPath_def)
  then show "bdb_rest E db' = bdb_rest E db"
    using assms(3) by (auto simp: bdb_rest_def fun_eq_iff)
qed

lemma bdb_SetObject_post:
  assumes "bdb_inv E db" "wf_oid (object_ident x)" "bdb_SetObject E db x = (Inr y, db')"
  shows "y = x \<and> bdb_inv E db' \<and> bdb_objs E db' = (bdb_objs E db)(object_ident x \<mapsto> x) \<and>
    bdb_rels E db' = bdb_rels E db \<and> bdb_rest E db' = bdb_rest E db"
proof -
  let ?k = "objectKey (o_type x) (o_id x)"
  obtain b where b: "enc_obj E x = Inr b" "y = x" "bdb_open E db'" "bolt_has E db' = bolt_has E db"
    "\<forall>q. lookup E db' q = (if q = ObjectsPath then (lookup E db ObjectsPath)(?k \<mapsto> b) else lookup E db q)"
    using Set_post [OF bdb_invD(1) [OF assms(1)] _ assms(3) [unfolded bdb_SetObject_def]] by auto
  have dec: "dec_obj E b = Inr x" using bdb_invD(2) [OF assms(1)] b(1) by (simp add: codec_ok_def)
  then have "obj_entry_ok E ?k b" using assms(2) by (auto simp: obj_entry_ok_def)
  with b(5) have "\<And>k v. lookup E db' ObjectsPath k = Some v \<Longrightarrow>
      lookup E db ObjectsPath k = Some v \<or> obj_entry_ok E k v" by (auto split: if_splits)
  from bdb_inv_obj_write [OF assms(1) b(3,4) _ this] b(5) bdb_objs_put [OF assms(1,2) dec] b(2)
  show ?thesis by simp
qed

lemma bdb_DeleteObject_post:
  assumes "bdb_inv E db" "wf_oid (ty, oid)"
  shows "\<exists>db'. bdb_DeleteObject E db ty oid = (None, db') \<and> bdb_inv E db' \<and>
    bdb_objs E db' = (bdb_objs E db)((ty, oid) := None) \<and>
    bdb_rels E db' = bdb_rels E db \<and> bdb_rest E db' = bdb_rest E db"
proof -
  obtain db' where d: "Delete E db ObjectsPath (objectKey ty oid) = (None, db')" "bdb_open E db'"
    "bolt_has E db' = bolt_has E db"
    "\<forall>q. lookup E db' q = (if q = ObjectsPath then (lookup E db ObjectsPath)(objectKey ty oid := None)
       else lookup E db q)"
    using Delete_post [OF bdb_invD(1) [OF assms(1)], of ObjectsPath "objectKey ty oid"] by auto
  then have "\<And>k v. lookup E db' ObjectsPath k = Some v \<Longrightarrow>
      lookup E db ObjectsPath k = Some v \<or> obj_entry_ok E k v" by (auto split: if_splits)
  from bdb_inv_obj_write [OF assms(1) d(2,3) _ this] d bdb_objs_del [OF assms] show ?thesis
    by (simp add: bdb_DeleteObject_def)
qed

lemma rel_indexes_written:
  assumes "bdb_inv E db" "bdb_open E db'" "bolt_has E db' = bolt_has E db"
    and "\<And>dir. lookup E db' (directionPath dir) = (lookup E db (directionPath dir))(dirKey dir r := u)"
    and "\<And>q. \<forall>dir. q \<noteq> directionPath dir \<Longrightarrow> lookup E db' q = lookup E db q"
    and "\<And>dir. case u of None \<Rightarrow> True | Some b \<Rightarrow> rel_entry_ok E (dirKey dir) (dirKey dir r) b"
    and "\<And>dir. rel_at E db' dir = f (rel_at E db dir)"
  shows "bdb_inv E db'" "bdb_rels E db' = f (bdb_rels E db)" "bdb_objs E db' = bdb_objs E db"
    "bdb_rest E db' = bdb_rest E db"
proof -
  have "lookup E db (directionPath dir) k = Some v \<or> rel_entry_ok E (dirKey dir) k v"
    if "lookup E db' (directionPath dir) k = Some v" for dir k v
    using that assms(4) [of dir] assms(6) [of dir] by (auto split: if_splits)
  note bdb_inv_rel_write [OF assms(1-3) assms(5) this assms(7)]
  then show "bdb_inv E db'" "bdb_rels E db' = f (bdb_rels E db)" "bdb_objs E db' = bdb_objs E db"
    "bdb_rest E db' = bdb_rest E db" by simp_all
qed

lemma bdb_SetRelation_post:
  assumes "bdb_inv E db" "wf_rid r" "bdb_SetRelation E db r = (Inr s, db')"
  shows "s = r \<and> bdb_inv E db' \<and> bdb_rels E db' = (bdb_rels E db)(ident_of r \<mapsto> r) \<and>
    bdb_objs E db' = bdb_objs E db \<and> bdb_rest E db' = bdb_rest E db"
proof -
  obtain db1 s' where set: "Set E (enc_rel E) db (directionPath ByObject) (dirKey ByObject r) r = (Inr s, db1)"
    "Set E (enc_rel E) db1 (directionPath BySubject) (dirKey BySubject r) r = (Inr s', db')"
    using assms(3) by (auto simp: bdb_SetRelation_def directionPath_simps split: prod.splits sum.splits)
  obtain b where b: "enc_rel E r = Inr b" "s = r" "bdb_open E db1" "bolt_has E db1 = bolt_has E db"
    "\<forall>q. lookup E db1 q = (if q = directionPath ByObject
       then (lookup E db (directionPath ByObject))(dirKey ByObject r \<mapsto> b) else lookup E db q)"
    using Set_post [OF bdb_invD(1) [OF assms(1)] _ set(1)] by auto
  from Set_post [OF b(3) _ set(2)] b have b': "bdb_open E db'" "bolt_has E db' = bolt_has E db"
    "\<forall>q. lookup E db' q = (if q = directionPath BySubject
       then (lookup E db1 (directionPath BySubject))(dirKey BySubject r \<mapsto> b) else lookup E db1 q)"
    by auto
  have upd: "lookup E db' (directionPath dir) = (lookup E db (directionPath dir))(dirKey dir r \<mapsto> b)" for dir
    using b'(3) b(5) by (cases dir) auto
  have same: "\<forall>dir. q \<noteq> directionPath dir \<Longrightarrow> lookup E db' q = lookup E db q" for q
    using b'(3) b(5) by simp
  have dec: "dec_rel E b = Inr r" "dec_rid E b = Inr (ident_of r)"
    using bdb_invD(2) [OF assms(1)] b(1) by (auto simp: codec_ok_def)
  have "rel_entry_ok E (dirKey dir) (dirKey dir r) b" for dir
    using dec assms(2) by (auto simp: rel_entry_ok_def)
  with rel_indexes_written [OF assms(1) b'(1,2) upd same _ rel_at_put [OF assms(1,2) dec(1) upd]] b(2)
  show ?thesis by (simp add: fun_upd_def)
qed

lemma bdb_DeleteRelation_post:
  assumes "bdb_inv E db" "wf_rid i"
  shows "\<exists>db'. bdb_DeleteRelation E db i = (None, db') \<and> bdb_inv E db' \<and>
    bdb_rels E db' = (bdb_rels E db)(i := None) \<and>
    bdb_objs E db' = bdb_objs E db \<and> bdb_rest E db' = bdb_rest E db"
proof -
  obtain db1 where d1: "Delete E db (directionPath ByObject) (dirKey ByObject i) = (None, db1)"
    "bdb_open E db1" "bolt_has E db1 = bolt_has E db"
    "\<forall>q. lookup E db1 q = (if q = directionPath ByObject
       then (lookup E db (directionPath ByObject))(dirKey ByObject i := None) else lookup E db q)"
    using Delete_post [OF bdb_invD(1) [OF assms(1)], of "directionPath ByObject"] by auto
  obtain db' where d2: "Delete E db1 (directionPath BySubject) (dirKey BySubject i) = (None, db')"
    "bdb_open E db'" "bolt_has E db' = bolt_has E db1"
    "\<forall>q. lookup E db' q = (if q = directionPath BySubject
       then (lookup E db1 (directionPath BySubject))(dirKey BySubject i := None) else lookup E db1 q)"
    using Delete_post [OF d1(2), of "directionPath BySubject" "dirKey BySubject i"] by auto
  have upd: "lookup E db' (directionPath dir) = (lookup E db (directionPath dir))(dirKey dir i := None)"
    for dir using d2(4) d1(4) by (cases dir) auto
  have same: "\<forall>dir. q \<noteq> directionPath dir \<Longrightarrow> lookup E db' q = lookup E db q" for q
    using d2(4) d1(4) by simp
  from rel_indexes_written [OF assms(1) d2(2) _ upd same _ rel_at_del [OF assms upd]] d1(1,3) d2(1,3)
  show ?thesis by (simp add: bdb_DeleteRelation_def directionPath_simps fun_upd_def)
qed

lemma bdb_SetRelation_total:
  assumes "bdb_inv E db" "bdb_okR E db r"
  shows "\<exists>db'. bdb_SetRelation E db r = (Inr r, db')"
proof -
  obtain b where b: "enc_rel E r = Inr b" "bolt_fits E b" "length (objKeyOf r) \<le> MaxKeySize"
    using assms(2) by (auto simp: bdb_okR_def split: sum.splits)
  note t = Set_total [where enc = "enc_rel E" and m = r, OF _ _ b(1,2)]
  obtain db1 where s1: "Set E (enc_rel E) db (directionPath ByObject) (dirKey ByObject r) r = (Inr r, db1)"
    using t [OF bdb_invD(1) [OF assms(1)], of "directionPath ByObject" "dirKey ByObject r"] b(3)
    by (auto simp: length_keys)
  then have "bdb_open E db1" using Set_post [OF bdb_invD(1) [OF assms(1)] _ s1] by auto
  moreover have "length (dirKey BySubject r) \<le> MaxKeySize" using b(3) by (simp add: length_keys)
  ultimately show ?thesis
    using t [of db1 "directionPath BySubject" "dirKey BySubject r"] s1
    by (auto simp: bdb_SetRelation_def directionPath_simps)
qed

subsection \<open>Scans\<close>

lemma rows_of_entries:
  assumes "ordered es" and "\<And>e. e \<in> set es \<Longrightarrow> \<exists>x. dec (snd e) = Inr x \<and> fst e = key x"
  shows "distinct (map fst (map (row_of dec) es))"
proof -
  have "inj_on (fst \<circ> row_of dec) (set es)"
  proof (rule inj_onI)
    fix e e' assume e: "e \<in> set es" "e' \<in> set es" "(fst \<circ> row_of dec) e = (fst \<circ> row_of dec) e'"
    obtain x x' where "dec (snd e) = Inr x" "fst e = key x" "dec (snd e') = Inr x'" "fst e' = key x'"
      using assms(2) e(1,2) by blast
    with e(3) have "fst e = fst e'" by (simp add: row_of_def)
    with e ordered_distinct [OF assms(1)] show "e = e'" by (auto simp: distinct_map inj_on_def)
  qed
  with ordered_distinct [OF assms(1)] show ?thesis by (simp add: distinct_map)
qed

lemma bdb_entries:
  assumes "bdb_inv E db"
  shows "ordered (bolt_entries E db p)"
    and "(k, v) \<in> set (bolt_entries E db p) \<longleftrightarrow> lookup E db p k = Some v"
proof -
  show o: "ordered (bolt_entries E db p)"
    by (rule bolt_engine.entries_ordered [OF bdb_openD(1,2) [OF bdb_invD(1) [OF assms]]])
  show "(k, v) \<in> set (bolt_entries E db p) \<longleftrightarrow> lookup E db p k = Some v"
    by (rule set_ordered_iff [OF o])
qed

lemma bdb_entry:
  assumes "bdb_inv E db"
  shows "e \<in> set (bolt_entries E db ObjectsPath) \<Longrightarrow> obj_entry_ok E (fst e) (snd e)"
    and "e \<in> set (bolt_entries E db (directionPath dir)) \<Longrightarrow> rel_entry_ok E (dirKey dir) (fst e) (snd e)"
  using bdb_invD(3) [OF assms, of "fst e" "snd e"] bdb_invD(4) [OF assms, of dir "fst e" "snd e"]
    bdb_entries(2) [OF assms, of "fst e" "snd e"] by simp_all

lemma bdb_rrows_iff:
  assumes "bdb_inv E db"
  shows "(q, tok) \<in> set (bdb_rrows E db dir f) \<longleftrightarrow>
    (\<exists>r. q = Some r \<and> bdb_rels E db (ident_of r) = Some r \<and> tok = dirKey dir r \<and>
      prefix (scan_prefix dir f) tok)"
proof -
  have "(q, tok) \<in> set (bdb_rrows E db dir f) \<longleftrightarrow> (\<exists>v. lookup E db (directionPath dir) tok = Some v \<and>
      q = fst (row_of (dec_rel E) (tok, v)) \<and> prefix (scan_prefix dir f) tok)"
    using bdb_entries(2) [OF assms] by (auto simp: bdb_rrows_def row_of_def image_iff)
  also have "\<dots> \<longleftrightarrow> (\<exists>r. q = Some r \<and> rel_at E db dir (ident_of r) = Some r \<and> tok = dirKey dir r \<and>
      prefix (scan_prefix dir f) tok)"
    using bdb_invD(4) [OF assms, of dir tok] by (auto simp: rel_at_iff rel_entry_ok_def row_of_def)
  finally show ?thesis by (simp add: bdb_invD(5) [OF assms])
qed

lemma bdb_orows_iff:
  assumes "bdb_inv E db"
  shows "(q, tok) \<in> set (bdb_orows E db ty) \<longleftrightarrow>
    (\<exists>x. q = Some x \<and> bdb_objs E db (object_ident x) = Some x \<and> tok = objectKey (o_type x) (o_id x) \<and>
      prefix (if ty = [] then [] else objectKey ty []) tok)"
proof -
  have "(q, tok) \<in> set (bdb_orows E db ty) \<longleftrightarrow> (\<exists>v. lookup E db ObjectsPath tok = Some v \<and>
      q = fst (row_of (dec_obj E) (tok, v)) \<and> prefix (if ty = [] then [] else objectKey ty []) tok)"
    using bdb_entries(2) [OF assms] by (auto simp: bdb_orows_def row_of_def image_iff)
  also have "\<dots> \<longleftrightarrow> (\<exists>x. q = Some x \<and> bdb_objs E db (object_ident x) = Some x \<and>
      tok = objectKey (o_type x) (o_id x) \<and> prefix (if ty = [] then [] else objectKey ty []) tok)"
    using bdb_invD(3) [OF assms, of tok] by (auto simp: bdb_objs_iff obj_entry_ok_def row_of_def)
  finally show ?thesis .
qed

lemma bdb_orows_distinct:
  assumes "bdb_inv E db"
  shows "distinct (map fst (bdb_orows E db ty))"
  unfolding bdb_orows_def
proof (rule rows_of_entries [of _ _ "\<lambda>x. objectKey (o_type x) (o_id x)"])
  fix e assume "e \<in> set (filter (\<lambda>e. prefix (if ty = [] then [] else objectKey ty []) (fst e))
    (bolt_entries E db ObjectsPath))"
  then show "\<exists>x. dec_obj E (snd e) = Inr x \<and> fst e = objectKey (o_type x) (o_id x)"
    using bdb_entry(1) [OF assms, of e] by (auto simp: obj_entry_ok_def)
qed (intro ordered_filter bdb_entries(1) [OF assms])

lemma bdb_rrows_distinct:
  assumes "bdb_inv E db"
  shows "distinct (map fst (bdb_rrows E db dir f))"
  unfolding bdb_rrows_def
proof (rule rows_of_entries [of _ _ "dirKey dir"])
  fix e assume "e \<in> set (filter (\<lambda>e. prefix (scan_prefix dir f) (fst e))
    (bolt_entries E db (directionPath dir)))"
  then show "\<exists>x. dec_rel E (snd e) = Inr x \<and> fst e = dirKey dir x"
    using bdb_entry(2) [OF assms, of e dir] by (auto simp: rel_entry_ok_def)
qed (intro ordered_filter bdb_entries(1) [OF assms])

lemma bdb_ScanObjects_eq:
  assumes "bdb_inv E db"
  shows "bdb_ScanObjects E db ty [] = Inr (new_iter (bdb_orows E db ty))"
    and "j < length (bdb_orows E db ty) \<Longrightarrow> snd (bdb_orows E db ty ! j) \<noteq> [] \<and>
      bdb_ScanObjects E db ty (snd (bdb_orows E db ty ! j)) = Inr (new_iter (drop j (bdb_orows E db ty)))"
proof -
  note o = bdb_openD [OF bdb_invD(1) [OF assms]]
  let ?flt = "if ty = [] then [] else objectKey ty []"
  let ?opts = "if ty \<noteq> [] then [WithKeyFilter (objectKey ty [])] else []"
  have opts: "?opts = [] \<and> ?flt = [] \<or> ?opts = [WithKeyFilter ?flt]" by simp
  show "bdb_ScanObjects E db ty [] = Inr (new_iter (bdb_orows E db ty))"
    using bolt_engine.NewScanIterator_start [OF o(1,2) _ _ opts, of ObjectsPath "dec_obj E" zero_object] o(4)
    by (auto simp: bdb_ScanObjects_def objectIterator_def bdb_orows_def)
  assume j: "j < length (bdb_orows E db ty)"
  then have "(fst (bdb_orows E db ty ! j), snd (bdb_orows E db ty ! j)) \<in> set (bdb_orows E db ty)"
    by simp
  then have tok: "snd (bdb_orows E db ty ! j) \<noteq> []"
    unfolding bdb_orows_iff [OF assms] using keys_nonempty by metis
  from j have j': "j < length (filter (\<lambda>e. prefix ?flt (fst e)) (bolt_entries E db ObjectsPath))"
    by (simp add: bdb_orows_def)
  then have eq: "snd (bdb_orows E db ty ! j) = fst (filter (\<lambda>e. prefix ?flt (fst e)) (bolt_entries E db ObjectsPath) ! j)"
    by (simp add: bdb_orows_def row_of_def)
  from bolt_engine.NewScanIterator_token [OF o(1,2) _ _ tok opts j' eq, of "dec_obj E" zero_object] o(4) tok
  show "snd (bdb_orows E db ty ! j) \<noteq> [] \<and>
      bdb_ScanObjects E db ty (snd (bdb_orows E db ty ! j)) = Inr (new_iter (drop j (bdb_orows E db ty)))"
    by (auto simp: bdb_ScanObjects_def objectIterator_def drop_map bdb_orows_def)
qed

lemma bdb_ScanRelations_eq:
  assumes "bdb_inv E db"
  shows "bdb_ScanRelations E db dir f [] = Inr (new_iter (bdb_rrows E db dir f))"
    and "j < length (bdb_rrows E db dir f) \<Longrightarrow> snd (bdb_rrows E db dir f ! j) \<noteq> [] \<and>
      bdb_ScanRelations E db dir f (snd (bdb_rrows E db dir f ! j))
        = Inr (new_iter (drop j (bdb_rrows E db dir f)))"
proof -
  note o = bdb_openD [OF bdb_invD(1) [OF assms]]
  let ?flt = "scan_prefix dir f"
  let ?opts = "[WithKeyFilter ?flt]"
  have opts: "?opts = [] \<and> ?flt = [] \<or> ?opts = [WithKeyFilter ?flt]" by simp
  show "bdb_ScanRelations E db dir f [] = Inr (new_iter (bdb_rrows E db dir f))"
    using bolt_engine.NewScanIterator_start [OF o(1,2) _ _ opts, of "directionPath dir" "dec_rel E" zero_relation] o(4)
    by (auto simp: bdb_ScanRelations_def relationIterator_def bdb_rrows_def)
  assume j: "j < length (bdb_rrows E db dir f)"
  then have "(fst (bdb_rrows E db dir f ! j), snd (bdb_rrows E db dir f ! j)) \<in> set (bdb_rrows E db dir f)"
    by simp
  then have tok: "snd (bdb_rrows E db dir f ! j) \<noteq> []"
    unfolding bdb_rrows_iff [OF assms] by auto
  from j have j': "j < length (filter (\<lambda>e. prefix ?flt (fst e)) (bolt_entries E db (directionPath dir)))"
    by (simp add: bdb_rrows_def)
  then have eq: "snd (bdb_rrows E db dir f ! j)
      = fst (filter (\<lambda>e. prefix ?flt (fst e)) (bolt_entries E db (directionPath dir)) ! j)"
    by (simp add: bdb_rrows_def row_of_def)
  from bolt_engine.NewScanIterator_token [OF o(1,2) _ _ tok opts j' eq, of "dec_rel E" zero_relation] o(4) tok
  show "snd (bdb_rrows E db dir f ! j) \<noteq> [] \<and>
      bdb_ScanRelations E db dir f (snd (bdb_rrows E db dir f ! j))
        = Inr (new_iter (drop j (bdb_rrows E db dir f)))"
    by (auto simp: bdb_ScanRelations_def relationIterator_def drop_map bdb_rrows_def)
qed

lemma bdb_orows_set:
  assumes "bdb_inv E db" "CHR '':'' \<notin> set ty"
  shows "set (map fst (bdb_orows E db ty))
    = {Some x | x k. bdb_objs E db k = Some x \<and> (ty \<noteq> [] \<longrightarrow> fst k = ty)}"
proof (rule set_eqI)
  fix q
  have "q \<in> set (map fst (bdb_orows E db ty)) \<longleftrightarrow> (\<exists>tok. (q, tok) \<in> set (bdb_orows E db ty))"
    by force
  also have "\<dots> \<longleftrightarrow> (\<exists>x. q = Some x \<and> bdb_objs E db (object_ident x) = Some x \<and>
      (ty \<noteq> [] \<longrightarrow> prefix (objectKey ty []) (objectKey (o_type x) (o_id x))))"
    by (auto simp: bdb_orows_iff [OF assms(1)])
  also have "\<dots> \<longleftrightarrow> (\<exists>x. q = Some x \<and> bdb_objs E db (object_ident x) = Some x \<and>
      (ty \<noteq> [] \<longrightarrow> fst (object_ident x) = ty))"
    using objectKey_prefix [of ty] assms(2) bdb_objs_wf(1) [OF assms(1)]
    by (auto simp: separators object_ident_def)
  also have "\<dots> \<longleftrightarrow> (\<exists>x k. q = Some x \<and> bdb_objs E db k = Some x \<and> (ty \<noteq> [] \<longrightarrow> fst k = ty))"
    by (auto simp: bdb_objs_iff)
  finally show "q \<in> set (map fst (bdb_orows E db ty)) \<longleftrightarrow>
    q \<in> {Some x | x k. bdb_objs E db k = Some x \<and> (ty \<noteq> [] \<longrightarrow> fst k = ty)}" by simp
qed

lemma scan_prefix_complete: "rf_match f i \<Longrightarrow> prefix (scan_prefix dir f) (dirKey dir i)"
  by (simp add: scan_prefix_def dirKey_def writeObjFilter_complete writeSubFilter_complete)

lemma scan_prefix_anchored:
  "wf_rid i \<Longrightarrow> wf_side (ty, oid) \<Longrightarrow>
     prefix (scan_prefix dir (ObjectOnlyFilter dir ty oid)) (dirKey dir i) \<longleftrightarrow> side dir i = (ty, oid)"
  by (cases dir) (simp_all add: scan_prefix_def dirKey_def writeObjFilter_anchored writeSubFilter_anchored)

lemma bdb_ScanRelationsFiltered_rows:
  assumes "bdb_inv E db"
  shows "bdb_ScanRelationsFiltered E db dir f vf out = Inr (out @ filter
     (case vf of None \<Rightarrow> \<lambda>_. True | Some p \<Rightarrow> p) (map (ident_of \<circ> the \<circ> fst) (bdb_rrows E db dir f)))"
proof -
  note o = bdb_openD [OF bdb_invD(1) [OF assms]]
  let ?p = "directionPath dir" and ?f = "scan_prefix dir f"
  let ?i = "\<lambda>v. ident_of (projr (dec_rel E v))"
  have ent: "\<exists>r. dec_rel E (snd e) = Inr r \<and> dec_rid E (snd e) = Inr (ident_of r)"
    if "e \<in> set (bolt_entries E db ?p)" for e
    using bdb_entry(2) [OF assms that] by (auto simp: rel_entry_ok_def)
  then have "\<forall>e \<in> set (bolt_seek E db ?p ?f). dec_rid E (snd e) = Inr (?i (snd e))"
    by (fastforce simp: bolt_engine.seek_entries [OF o(1,2)] dest: set_dropWhileD)
  from ScanWithFilter_loop_ok [OF this]
  have "bdb_ScanRelationsFiltered E db dir f vf out = Inr (out @ filter
      (case vf of None \<Rightarrow> \<lambda>_. True | Some p \<Rightarrow> p)
      (map (?i \<circ> snd) (filter (\<lambda>e. prefix ?f (fst e)) (bolt_entries E db ?p))))"
    using o(4) [of ?p] by (simp add: bdb_ScanRelationsFiltered_def ScanWithFilter_def
        bolt_engine.SetBucket_eq [OF o(1,2)] bolt_engine.seek_prefix [OF o(1,2)])
  also have "map (?i \<circ> snd) (filter (\<lambda>e. prefix ?f (fst e)) (bolt_entries E db ?p))
      = map (ident_of \<circ> the \<circ> fst) (bdb_rrows E db dir f)"
    using ent by (fastforce simp: bdb_rrows_def row_of_def)
  finally show ?thesis .
qed

lemma ex_filter_map: "(\<exists>w. w \<in> set (map f (filter P xs))) \<longleftrightarrow> (\<exists>e \<in> set xs. P e)"
  by auto

lemma bdb_RelationsExistForObject_iff:
  assumes "bdb_inv E db" "wf_side (ty, oid)"
  shows "bdb_RelationsExistForObject E db dir ty oid
    = Inr (\<exists>i \<in> dom (bdb_rels E db). side dir i = (ty, oid))"
proof -
  note o = bdb_openD [OF bdb_invD(1) [OF assms(1)]]
  let ?f = "ObjectOnlyFilter dir ty oid"
  have "(\<exists>e \<in> set (bolt_entries E db (directionPath dir)). prefix (scan_prefix dir ?f) (fst e))
      \<longleftrightarrow> (\<exists>w. w \<in> set (bdb_rrows E db dir ?f))"
    unfolding bdb_rrows_def by (rule ex_filter_map [symmetric])
  also have "\<dots> \<longleftrightarrow> (\<exists>q tok. (q, tok) \<in> set (bdb_rrows E db dir ?f))"
    by (simp add: split_paired_Ex)
  also have "\<dots> \<longleftrightarrow> (\<exists>r. bdb_rels E db (ident_of r) = Some r \<and> prefix (scan_prefix dir ?f) (dirKey dir r))"
    by (auto simp: bdb_rrows_iff [OF assms(1)])
  also have "\<dots> \<longleftrightarrow> (\<exists>r. bdb_rels E db (ident_of r) = Some r \<and> side dir r = (ty, oid))"
    by (intro ex_cong1 conj_cong refl scan_prefix_anchored [OF _ assms(2)])
      (rule rel_at_wf(1) [OF assms(1), of ByObject, folded bdb_rels_def])
  also have "\<dots> \<longleftrightarrow> (\<exists>i \<in> dom (bdb_rels E db). side dir i = (ty, oid))"
  proof
    assume "\<exists>r. bdb_rels E db (ident_of r) = Some r \<and> side dir r = (ty, oid)"
    then obtain r where "ident_of r \<in> dom (bdb_rels E db)" "side dir (ident_of r) = (ty, oid)" by auto
    then show "\<exists>i \<in> dom (bdb_rels E db). side dir i = (ty, oid)" ..
  next
    assume "\<exists>i \<in> dom (bdb_rels E db). side dir i = (ty, oid)"
    then obtain i r where "bdb_rels E db i = Some r" "side dir i = (ty, oid)" by auto
    with rel_at_wf(2) [OF assms(1), of ByObject i r] show
      "\<exists>r. bdb_rels E db (ident_of r) = Some r \<and> side dir r = (ty, oid)"
      by (auto simp: bdb_rels_def intro!: exI [of _ r])
  qed
  finally show ?thesis
    using o(4) by (simp add: bdb_RelationsExistForObject_def bolt_engine.KeyPrefixExists_eq [OF o(1,2)])
qed

lemma bdb_lookup_obj:
  assumes "bdb_inv E db" "wf_oid (ty, oid)" "lookup E db ObjectsPath (objectKey ty oid) = Some v"
  shows "\<exists>x. bdb_objs E db (ty, oid) = Some x"
proof -
  obtain x where x: "dec_obj E v = Inr x" "wf_oid (object_ident x)"
    "objectKey ty oid = objectKey (o_type x) (o_id x)"
    using bdb_invD(3) [OF assms(1,3)] by (auto simp: obj_entry_ok_def)
  then have "object_ident x = (ty, oid)"
    using objectKey_inj [OF assms(2), of "o_type x" "o_id x"] by (simp add: object_ident_def)
  with x assms(3) have "bdb_objs E db (ty, oid) = Some x" by (simp add: bdb_objs_iff)
  then show ?thesis ..
qed

lemma bdb_lookup_rel:
  assumes "bdb_inv E db" "wf_rid i" "lookup E db (directionPath dir) (dirKey dir i) = Some v"
  shows "\<exists>r. rel_at E db dir i = Some r"
proof -
  obtain r where r: "dec_rel E v = Inr r" "wf_rid r" "dirKey dir i = dirKey dir r"
    using bdb_invD(4) [OF assms(1,3)] by (auto simp: rel_entry_ok_def)
  then have "ident_of r = i"
    using dirKey_inj [OF assms(2), of "ident_of r" dir] by simp
  with r assms(3) have "rel_at E db dir i = Some r" by (simp add: rel_at_iff)
  then show ?thesis ..
qed

interpretation bdb: tx_store "bdb_tx E" "bdb_inv E" "bdb_objs E" "bdb_rels E" "bdb_rest E"
  "bdb_okO E" "bdb_okR E" "bdb_orows E" "bdb_rrows E"
  for E :: "('db, 'v, 'model, 'z) bdb_env_scheme"
proof (unfold_locales, goal_cases)
  case (1 t k x)
  then show ?case using bdb_objs_wf [OF 1] by simp
next
  case (2 t i r)
  then show ?case using rel_at_wf [of E t ByObject i r] by (auto simp: bdb_rels_def)
next
  case (3 t ty oid x)
  then show ?case
    by (auto simp: bdb_GetObject_def Get_eq bdb_invD(1) bdb_objs_iff object_ident_def)
next
  case (4 t ty oid)
  then have "lookup E t ObjectsPath (objectKey ty oid) = None"
    using bdb_lookup_obj [OF 4(1,2)] by (metis not_Some_eq)
  then show ?case using 4(1) by (simp add: bdb_GetObject_def Get_eq bdb_invD(1) ErrKeyNotFound_def)
next
  case (5 t x y t')
  then show ?case using bdb_SetObject_post by simp
next
  case (6 t x)
  then show ?case
    by (auto simp: bdb_SetObject_def bdb_okO_def split: sum.splits
        intro!: Set_total bdb_invD(1))
next
  case (7 t ty oid)
  then show ?case using bdb_DeleteObject_post by simp
next
  case (8 t ty)
  then show ?case using bdb_ScanObjects_eq(1) by simp
next
  case (9 t ty j)
  then show ?case using bdb_ScanObjects_eq(2) by simp
next
  case (10 t ty)
  then show ?case by (rule bdb_orows_distinct)
next
  case (11 t ty)
  show ?case by (rule bdb_orows_set [OF 11(1,3)])
next
  case (12 t i r)
  then show ?case
    by (auto simp: bdb_GetRelationExact_def directionPath_simps Get_eq bdb_invD(1) bdb_rels_def rel_at_iff)
next
  case (13 t i)
  then have "lookup E t (directionPath ByObject) (dirKey ByObject i) = None"
    using bdb_lookup_rel [OF 13(1,2), of ByObject] by (metis bdb_rels_def not_Some_eq)
  then show ?case
    using 13(1) by (simp add: bdb_GetRelationExact_def directionPath_simps Get_eq bdb_invD(1) ErrKeyNotFound_def)
next
  case (14 t r s t')
  then show ?case using bdb_SetRelation_post by simp
next
  case (15 t r)
  then show ?case using bdb_SetRelation_total by simp
next
  case (16 t i)
  then show ?case using bdb_DeleteRelation_post by simp
next
  case (17 t f dir)
  then show ?case using bdb_ScanRelations_eq(1) by simp
next
  case (18 t f j dir)
  then show ?case using bdb_ScanRelations_eq(2) by simp
next
  case (19 t dir f)
  then show ?case by (rule bdb_rrows_distinct)
next
  case (20 t w dir f)
  then show ?case using bdb_rrows_iff [OF 20(1)] by (cases w) auto
next
  case (21 t f i r dir)
  then have "(Some r, dirKey dir r) \<in> set (bdb_rrows E t dir f)"
    using scan_prefix_complete [of f i dir] rel_at_wf(2) [OF 21(1), of ByObject i r]
    by (auto simp: bdb_rrows_iff bdb_rels_def)
  then show ?case by force
next
  case (22 t ty oid r dir)
  then obtain tok where "(Some r, tok) \<in> set (bdb_rrows E t dir (ObjectOnlyFilter dir ty oid))" by auto
  then show ?case
    using rel_at_wf(1) [OF 22(1), of ByObject "ident_of r" r] scan_prefix_anchored [OF _ 22(2), of r dir]
    by (auto simp: bdb_rrows_iff [OF 22(1)] bdb_rels_def)
next
  case (23 t f dir p out)
  then show ?case 
    by (intro exI [of _ "map (ident_of \<circ> the \<circ> fst) (bdb_rrows E t dir f)"])
      (simp add: bdb_ScanRelationsFiltered_rows)
next
  case (24 t ty oid dir)
  then show ?case using bdb_RelationsExistForObject_iff by simp
qed

section \<open>The manifest contract\<close>

definition bdb_mmd ::
  "('db, 'v, 'model, 'z) bdb_env_scheme \<Rightarrow> (path \<Rightarrow> bool) \<times> (path \<Rightarrow> bytes \<Rightarrow> 'v option)
     \<Rightarrow> metadata option" where
  "bdb_mmd E rst = (if fst rst ManifestPath then (case snd rst ManifestPath MetadataKey of
      None \<Rightarrow> None | Some v \<Rightarrow> (case dec_md E v of Inl _ \<Rightarrow> None | Inr m \<Rightarrow> Some m)) else None)"

definition bdb_mbody ::
  "('db, 'v, 'model, 'z) bdb_env_scheme \<Rightarrow> (path \<Rightarrow> bool) \<times> (path \<Rightarrow> bytes \<Rightarrow> 'v option)
     \<Rightarrow> body option" where
  "bdb_mbody E rst = (if fst rst ManifestPath then (case snd rst ManifestPath BodyKey of
      None \<Rightarrow> None | Some v \<Rightarrow> (case dec_body E v of Inl _ \<Rightarrow> None | Inr m \<Rightarrow> Some m)) else None)"

definition bdb_mmodel ::
  "('db, 'v, 'model, 'z) bdb_env_scheme \<Rightarrow> (path \<Rightarrow> bool) \<times> (path \<Rightarrow> bytes \<Rightarrow> 'v option)
     \<Rightarrow> 'model option" where
  "bdb_mmodel E rst = (if fst rst ManifestPath then (case snd rst ManifestPath ModelKey of
      None \<Rightarrow> None | Some v \<Rightarrow> (case dec_model E v of Inl _ \<Rightarrow> None | Inr m \<Rightarrow> Some m)) else None)"

lemma SetAny_Set: "SetAny B enc = Set B enc"
  by (simp add: SetAny_def Set_def fun_eq_iff)

lemma GetAny_Get: "GetAny B dec = Get B dec"
  by (simp add: GetAny_def Get_def fun_eq_iff)

lemma manifest_path_facts [simp]:
  "ManifestPath \<noteq> []" "ManifestPath \<notin> set data_paths"
  "MetadataKey \<noteq> BodyKey" "BodyKey \<noteq> MetadataKey" "MetadataKey \<noteq> ModelKey" "BodyKey \<noteq> ModelKey"
  "ModelKey \<noteq> MetadataKey" "ModelKey \<noteq> BodyKey"
  by (simp_all add: path_defs data_paths_def)

lemma manifest_incomparable:
  "p \<in> set data_paths \<Longrightarrow> \<not> prefix p ManifestPath" "p \<in> set data_paths \<Longrightarrow> \<not> prefix (p @ [k]) ManifestPath"
  "p \<in> set data_paths \<Longrightarrow> \<not> prefix ManifestPath p"
  by (auto simp: path_defs data_paths_def)

lemma bdb_inv_other:
  assumes "bdb_inv E db" "bolt_valid E db'"
    and "\<And>p. p \<in> set data_paths \<Longrightarrow> lookup E db' p = lookup E db p"
    and "\<And>p. p \<in> set data_paths \<Longrightarrow> bolt_has E db' p"
    and "\<And>p k. p \<in> set data_paths \<Longrightarrow> \<not> bolt_has E db' (p @ [k])"
  shows "bdb_inv E db' \<and> bdb_objs E db' = bdb_objs E db \<and> bdb_rels E db' = bdb_rels E db"
proof -
  have rel: "rel_at E db' dir = rel_at E db dir" for dir
    by (rule rel_at_cong) (simp add: assms(3))
  have obj: "bdb_objs E db' = bdb_objs E db"
    by (rule bdb_objs_cong) (simp add: assms(3))
  have "bdb_open E db'"
    using assms(2,4,5) bdb_openD(1) [OF bdb_invD(1) [OF assms(1)]] by (auto simp: bdb_open_def)
  with assms(1) show ?thesis
    by (simp add: bdb_inv_def rel assms(3) bdb_rels_def obj)
qed

lemma manifest_Set_post:
  assumes "bdb_inv E db" "Set E enc db ManifestPath k m = (Inr y, db')"
  shows "\<exists>b. enc m = Inr b \<and> bolt_has E db ManifestPath \<and> bdb_inv E db' \<and> bdb_objs E db' = bdb_objs E db \<and>
    bdb_rels E db' = bdb_rels E db \<and> bolt_has E db' = bolt_has E db \<and>
    (\<forall>q. lookup E db' q = (if q = ManifestPath then (lookup E db q)(k \<mapsto> b) else lookup E db q))"
proof -
  note o = bdb_openD [OF bdb_invD(1) [OF assms(1)]]
  obtain b where b: "enc m = Inr b" "bolt_has E db ManifestPath" "bolt_put E db ManifestPath k b = Inr db'"
    using assms(2) bolt_engine.SetBucket_eq [OF o(1,2)]
    by (auto simp: Set_def SetKey_def split: sum.splits prod.splits option.splits if_splits)
  note h = o(2) b(2,3)
  have has: "bolt_has E db' = bolt_has E db"
    using bolt_engine.put_has [OF o(1) h] by (simp add: fun_eq_iff)
  have look: "lookup E db' q = (if q = ManifestPath then (lookup E db q)(k \<mapsto> b) else lookup E db q)" for q
    using bolt_engine.put_entries [OF o(1) h, of q] by simp
  have "p \<in> set data_paths \<Longrightarrow> p \<noteq> ManifestPath" for p using manifest_path_facts(2) by blast
  then have "bdb_inv E db' \<and> bdb_objs E db' = bdb_objs E db \<and> bdb_rels E db' = bdb_rels E db"
    using o(4,5) by (intro bdb_inv_other [OF assms(1) bolt_engine.put_valid [OF o(1) h]]) (auto simp: has look)
  with b has look show ?thesis by blast
qed

lemma CreateBucket_manifest:
  assumes "bdb_inv E db" "CreateBucket E db ManifestPath = (Inr q, db')"
  shows "bdb_inv E db' \<and> bdb_objs E db' = bdb_objs E db \<and> bdb_rels E db' = bdb_rels E db \<and>
    bolt_has E db' ManifestPath"
proof -
  note o = bdb_openD [OF bdb_invD(1) [OF assms(1)]]
  note c = bolt_engine.CreateBucket_post [OF o(1,2) assms(2)]
  have "bdb_inv E db' \<and> bdb_objs E db' = bdb_objs E db \<and> bdb_rels E db' = bdb_rels E db"
    using o(4,5) manifest_incomparable
    by (intro bdb_inv_other [OF assms(1) c(1)]) (simp_all add: c(2,3))
  then show ?thesis by (simp add: c(2))
qed

lemma reset_post:
  assumes "bolt_engine E" "bolt_valid E db" "p \<noteq> []" "DeleteBucket E db p = (None, db1)"
    "CreateBucket E db1 p = (Inr q, db2)"
  shows "bolt_valid E db2" "bolt_has E db2 p" "\<not> bolt_has E db2 (p @ [k])" "bolt_entries E db2 p = []"
    and "\<not> prefix p r \<Longrightarrow> \<not> prefix r p \<Longrightarrow> bolt_has E db2 r = bolt_has E db r"
    and "\<not> prefix p r \<Longrightarrow> \<not> prefix r p \<Longrightarrow> bolt_entries E db2 r = bolt_entries E db r"
proof -
  have d: "bolt_valid E db1" "\<And>q. bolt_has E db1 q \<longleftrightarrow> bolt_has E db q \<and> \<not> prefix p q"
    "\<And>q. \<not> prefix p q \<Longrightarrow> bolt_entries E db1 q = bolt_entries E db q"
    using bolt_engine.DeleteBucket_post [OF assms(1-3)] assms(4) by auto
  note c = bolt_engine.CreateBucket_post [OF assms(1) d(1) assms(5)]
  show "bolt_valid E db2" by (rule c)
  show "bolt_has E db2 p" "bolt_entries E db2 p = []" using assms(3) by (simp_all add: c(2,3) d(2))
  show "\<not> bolt_has E db2 (p @ [k])" by (simp add: c(2) d(2) prefix_def)
  show "bolt_has E db2 r = bolt_has E db r" "bolt_entries E db2 r = bolt_entries E db r"
    if "\<not> prefix p r" "\<not> prefix r p" using that by (auto simp: c(2,3) d(2,3))
qed

lemma DeleteManifest_loop_step:
  "DeleteManifest_loop E db (p # ps) = (None, db') \<Longrightarrow>
     \<exists>db1 q db2. DeleteBucket E db p = (None, db1) \<and> CreateBucket E db1 p = (Inr q, db2) \<and>
       DeleteManifest_loop E db2 ps = (None, db')"
  by (auto split: prod.splits option.splits sum.splits)

lemma DeleteManifest_loop_post:
  assumes "bolt_engine E" "bolt_valid E db" "DeleteManifest_loop E db ps = (None, db')" "[] \<notin> set ps"
    and "sorted_wrt (\<lambda>p q. \<not> prefix p q \<and> \<not> prefix q p) ps"
  shows "bolt_valid E db' \<and>
    (\<forall>p \<in> set ps. bolt_has E db' p \<and> bolt_entries E db' p = [] \<and> (\<forall>k. \<not> bolt_has E db' (p @ [k]))) \<and>
    (\<forall>r. (\<forall>p \<in> set ps. \<not> prefix p r \<and> \<not> prefix r p) \<longrightarrow>
      bolt_has E db' r = bolt_has E db r \<and> bolt_entries E db' r = bolt_entries E db r)"
  using assms(2-5)
proof (induction ps arbitrary: db)
  case (Cons p ps)
  obtain db1 q db2 where s: "DeleteBucket E db p = (None, db1)" "CreateBucket E db1 p = (Inr q, db2)"
    "DeleteManifest_loop E db2 ps = (None, db')"
    using DeleteManifest_loop_step [OF Cons.prems(2)] by blast
  note r = reset_post [OF assms(1) Cons.prems(1) _ s(1,2)]
  have p: "p \<noteq> []" using Cons.prems(3) by auto
  have ih: "bolt_valid E db'"
    "\<forall>p \<in> set ps. bolt_has E db' p \<and> bolt_entries E db' p = [] \<and> (\<forall>k. \<not> bolt_has E db' (p @ [k]))"
    "\<And>r. \<forall>p \<in> set ps. \<not> prefix p r \<and> \<not> prefix r p \<Longrightarrow>
      bolt_has E db' r = bolt_has E db2 r \<and> bolt_entries E db' r = bolt_entries E db2 r"
    using Cons.IH [OF r(1) [OF p] s(3)] Cons.prems(3,4) by simp_all
  have inc: "\<forall>p' \<in> set ps. \<not> prefix p' p \<and> \<not> prefix p p'" using Cons.prems(4) by auto
  have inc': "\<forall>p' \<in> set ps. \<not> prefix p' (p @ [k]) \<and> \<not> prefix (p @ [k]) p'" for k
    using inc by (auto simp: prefix_snoc dest: append_prefixD)
  show ?case
    using ih(1,2) ih(3) [OF inc] ih(3) [OF inc'] ih(3) r(2-4) [OF p] r(5,6) [OF p] by auto
qed simp

lemma bdb_DeleteManifest_post:
  assumes "bdb_inv E db" "bdb_DeleteManifest E db = (None, db')"
  shows "bdb_inv E db' \<and> bdb_objs E db' = Map.empty \<and> bdb_rels E db' = Map.empty \<and>
    bolt_has E db' ManifestPath \<and> lookup E db' ManifestPath = Map.empty"
proof -
  note o = bdb_openD [OF bdb_invD(1) [OF assms(1)]]
  let ?ps = "ManifestPath # data_paths"
  have ps: "[ManifestPath, ObjectsPath, RelationsObjPath, RelationsSubPath] = ?ps"
    by (simp add: data_paths_def)
  have "[] \<notin> set ?ps" "sorted_wrt (\<lambda>p q. \<not> prefix p q \<and> \<not> prefix q p) ?ps"
    by (auto simp: path_defs data_paths_def)
  from DeleteManifest_loop_post [OF o(1,2) assms(2) [unfolded bdb_DeleteManifest_def ps] this]
  have d: "bolt_valid E db'" "\<forall>p \<in> set ?ps. bolt_has E db' p \<and> bolt_entries E db' p = [] \<and>
      (\<forall>k. \<not> bolt_has E db' (p @ [k]))" by auto
  then have at: "rel_at E db' dir = Map.empty" for dir
    using path_facts(7) [of dir] by (auto simp: rel_at_def)
  have "bdb_open E db'" using d o(1) by (auto simp: bdb_open_def)
  then have "bdb_inv E db'" using d path_facts(6,7) bdb_invD(2) [OF assms(1)] by (auto simp: bdb_inv_def at)
  with d at path_facts(6) show ?thesis by (auto simp: bdb_rels_def bdb_objs_def)
qed

interpretation bdb: tx_manifest "bdb_tx E" "bdb_inv E" "bdb_objs E" "bdb_rels E" "bdb_rest E"
  "bdb_okO E" "bdb_okR E" "bdb_orows E" "bdb_rrows E" "bdb_mmd E" "bdb_mbody E" "bdb_mmodel E"
  for E :: "('db, 'v, 'model, 'z) bdb_env_scheme"
proof (unfold_locales, goal_cases)
  case (1 t m)
  note o = bdb_openD [OF bdb_invD(1) [OF 1(1)]]
  from 1(2) show ?case
    by (simp add: bdb_mmd_def bdb_rest_def bdb_ManifestExists_def BucketExists_def
        bolt_engine.SetBucket_eq [OF o(1,2)] split: if_splits)
next
  case (2 t m)
  note o = bdb_openD [OF bdb_invD(1) [OF 2(1)]]
  from 2(2) show ?case
    by (auto simp: bdb_GetManifestMetadata_def Get_def bolt_engine.GetKey_eq [OF o(1,2)] bdb_mmd_def
        bdb_rest_def split: option.splits sum.splits if_splits)
next
  case (3 t)
  note o = bdb_openD [OF bdb_invD(1) [OF 3(1)]]
  from 3(2) show ?case
    by (auto simp: bdb_GetManifestMetadata_def Get_def GetKey_def bolt_engine.SetBucket_eq [OF o(1,2)]
        bolt_engine.get_entries [OF o(1,2)] bdb_mmd_def bdb_rest_def split: option.splits sum.splits if_splits)
next
  case (4 t b)
  note o = bdb_openD [OF bdb_invD(1) [OF 4(1)]]
  from 4(2) show ?case
    by (auto simp: bdb_GetManifestBody_def Get_def bolt_engine.GetKey_eq [OF o(1,2)] bdb_mbody_def
        bdb_rest_def split: option.splits sum.splits if_splits)
next
  case (5 t mdl)
  note o = bdb_openD [OF bdb_invD(1) [OF 5(1)]]
  from 5(2) show ?case
    by (auto simp: bdb_GetManifestModel_def GetAny_Get Get_def bolt_engine.GetKey_eq [OF o(1,2)]
        bdb_mmodel_def bdb_rest_def split: option.splits sum.splits if_splits)
next
  case (6 t m b t')
  then obtain q y1 y2 db1 db2 where s: "CreateBucket E t ManifestPath = (Inr q, db1)"
    "Set E (enc_md E) db1 ManifestPath MetadataKey m = (Inr y1, db2)"
    "Set E (enc_body E) db2 ManifestPath BodyKey b = (Inr y2, t')"
    by (auto simp: bdb_SetManifest_def split: prod.splits sum.splits)
  note c = CreateBucket_manifest [OF 6(1) s(1)]
  obtain v where v: "enc_md E m = Inr v" "bdb_inv E db2" "bdb_objs E db2 = bdb_objs E db1"
    "bdb_rels E db2 = bdb_rels E db1" "bolt_has E db2 = bolt_has E db1"
    "\<forall>q. lookup E db2 q = (if q = ManifestPath then (lookup E db1 q)(MetadataKey \<mapsto> v) else lookup E db1 q)"
    using manifest_Set_post [OF _ s(2)] c by auto
  obtain w where w: "enc_body E b = Inr w" "bdb_inv E t'" "bdb_objs E t' = bdb_objs E db2"
    "bdb_rels E t' = bdb_rels E db2" "bolt_has E t' = bolt_has E db2"
    "\<forall>q. lookup E t' q = (if q = ManifestPath then (lookup E db2 q)(BodyKey \<mapsto> w) else lookup E db2 q)"
    using manifest_Set_post [OF v(2) s(3)] by auto
  have dec: "dec_md E v = Inr m" "dec_body E w = Inr b"
    using v(1) w(1) bdb_invD(2) [OF 6(1)] by (simp_all add: codec_ok_def)
  from c v w dec show ?case by (simp add: bdb_mmd_def bdb_mbody_def bdb_rest_def)
next
  case (7 t mdl t')
  then obtain y where "Set E (enc_model E) t ManifestPath ModelKey mdl = (Inr y, t')"
    by (auto simp: bdb_SetManifestModel_def SetAny_Set err_of_def split: prod.splits sum.splits)
  from manifest_Set_post [OF 7(1) this] bdb_invD(2) [OF 7(1)] show ?case
    by (auto simp: bdb_mmd_def bdb_mbody_def bdb_mmodel_def bdb_rest_def codec_ok_def)
next
  case (8 t t')
  then show ?case
    using bdb_DeleteManifest_post [of E t t']
    by (auto simp: bdb_mmd_def bdb_mbody_def bdb_mmodel_def bdb_rest_def)
qed

end
