(* ===== verification/GoStrings.thy ===== *)
theory GoStrings
  imports Prelude
begin

text \<open>
  String functions of the Go standard library that the sources use: \<open>strings.Split\<close>,
  \<open>strings.TrimSpace\<close>, \<open>strings.ToLower\<close> on ASCII, \<open>%q\<close> and \<open>encoding/hex\<close>.
\<close>

section \<open>Splitting\<close>

text \<open>\<open>strings.Split\<close> with a separator of one byte: always at least one part.\<close>

fun split_on :: "char \<Rightarrow> string \<Rightarrow> string list" where
  "split_on c [] = [[]]"
| "split_on c (x # xs) = (if x = c then [] # split_on c xs
     else case split_on c xs of p # ps \<Rightarrow> (x # p) # ps | [] \<Rightarrow> [[x]])"

lemma split_on_nonempty [simp]: "split_on c s \<noteq> []"
  by (induction s) (auto split: list.splits)

lemma split_on_parts: "p \<in> set (split_on c s) \<Longrightarrow> c \<notin> set p"
  by (induction s arbitrary: p) (auto split: list.splits if_splits)

lemma split_on_sep_free: "c \<notin> set p \<Longrightarrow> split_on c p = [p]"
  by (induction p) auto

lemma split_on_append: "c \<notin> set p \<Longrightarrow> split_on c (p @ c # s) = p # split_on c s"
  by (induction p) auto

lemma join_split_on: "join [c] (split_on c s) = s"
proof (induction s)
  case (Cons x xs)
  obtain p ps where "split_on c xs = p # ps" by (cases "split_on c xs") auto
  with Cons show ?case by (cases ps) auto
qed simp

section \<open>Trimming\<close>

text \<open>
  \<open>strings.TrimSpace\<close>: drops white space runes at both ends. The runes are the ASCII spaces and the
  two- and three-byte encodings of the Prelude.
\<close>

fun trim_left :: "string \<Rightarrow> string" where
  "trim_left [] = []"
| "trim_left (a # s) =
     (if ascii_space a then trim_left s
      else case s of
        b # s' \<Rightarrow> if space2 a b then trim_left s'
          else (case s' of c # s'' \<Rightarrow> if space3 a b c then trim_left s'' else a # s | [] \<Rightarrow> a # s)
      | [] \<Rightarrow> a # s)"

fun trim_right_rev :: "string \<Rightarrow> string" where
  "trim_right_rev [] = []"
| "trim_right_rev (a # s) =
     (if ascii_space a then trim_right_rev s
      else case s of
        b # s' \<Rightarrow> if space2 b a then trim_right_rev s'
          else (case s' of c # s'' \<Rightarrow> if space3 c b a then trim_right_rev s'' else a # s | [] \<Rightarrow> a # s)
      | [] \<Rightarrow> a # s)"

definition TrimSpace :: "string \<Rightarrow> string" where
  "TrimSpace s = rev (trim_right_rev (rev (trim_left s)))"

section \<open>Case\<close>

definition lower_char :: "char \<Rightarrow> char" where
  "lower_char c = (let n = of_char c :: nat in if 65 \<le> n \<and> n \<le> 90 then char_of (n + 32) else c)"

definition ToLower :: "string \<Rightarrow> string" where
  "ToLower s = map lower_char s"

section \<open>Hexadecimal\<close>

definition hex_char :: "nat \<Rightarrow> char" where
  "hex_char n = ''0123456789abcdef'' ! n"

definition is_hex :: "char \<Rightarrow> bool" where
  "is_hex c \<longleftrightarrow> (let n = of_char c :: nat in (48 \<le> n \<and> n \<le> 57) \<or> (97 \<le> n \<and> n \<le> 102) \<or> (65 \<le> n \<and> n \<le> 70))"

text \<open>\<open>hex.DecodeString\<close> succeeds on an even number of hexadecimal digits of either case.\<close>

definition hex_decodes :: "string \<Rightarrow> bool" where
  "hex_decodes s \<longleftrightarrow> even (length s) \<and> list_all is_hex s"

definition EncodeToString :: "bytes \<Rightarrow> string" where
  "EncodeToString b = concat (map (\<lambda>c. let n = of_char c in [hex_char (n div 16), hex_char (n mod 16)]) b)"

lemma is_hex_hex_char: "n < 16 \<Longrightarrow> is_hex (hex_char n)"
proof -
  have "\<forall>n \<in> set [0..<16]. is_hex (hex_char n)" by code_simp
  then show "n < 16 \<Longrightarrow> is_hex (hex_char n)" by simp
qed

lemma hex_char_no_dash: "n < 16 \<Longrightarrow> hex_char n \<noteq> CHR ''-''"
proof -
  have "\<forall>n \<in> set [0..<16]. hex_char n \<noteq> CHR ''-''" by code_simp
  then show "n < 16 \<Longrightarrow> hex_char n \<noteq> CHR ''-''" by simp
qed

lemma of_char_lt: "of_char c < (256 :: nat)"
  by (metis of_char_mod_256 mod_less_divisor zero_less_numeral)

lemma EncodeToString_hex: "length (EncodeToString b) = 2 * length b" "list_all is_hex (EncodeToString b)"
  using of_char_lt
  by (induction b) (auto simp: EncodeToString_def Let_def is_hex_hex_char less_mult_imp_div_less)

section \<open>Cutting\<close>

text \<open>\<open>strings.Cut\<close> at the first byte \<open>c\<close>.\<close>

fun Cut :: "char \<Rightarrow> string \<Rightarrow> (string \<times> string) option" where
  "Cut c [] = None"
| "Cut c (x # xs) = (if x = c then Some ([], xs) else map_option (\<lambda>(a, b). (x # a, b)) (Cut c xs))"

lemma Cut_append: "c \<notin> set a \<Longrightarrow> Cut c (a @ c # b) = Some (a, b)"
  by (induction a) auto

lemma Cut_SomeD: "Cut c s = Some (a, b) \<Longrightarrow> s = a @ c # b \<and> c \<notin> set a"
proof (induction s arbitrary: a)
  case (Cons x s)
  show ?case
  proof (cases "x = c")
    case False
    with Cons.prems obtain a' where "Cut c s = Some (a', b)" "a = x # a'" by auto
    with Cons.IH [of a'] False show ?thesis by simp
  qed (use Cons.prems in simp)
qed simp

section \<open>Quoting\<close>

text \<open>\<open>%q\<close>: a double-quoted Go string. Bytes from 0x80 on are parts of printable runes and stay.\<close>

definition quote_byte :: "char \<Rightarrow> string" where
  "quote_byte c =
     (if c = CHR 0x22 then [CHR 0x5C, CHR 0x22] else if c = CHR 0x5C then [CHR 0x5C, CHR 0x5C]
      else if c = CHR 0x07 then [CHR 0x5C, CHR ''a''] else if c = CHR 0x08 then [CHR 0x5C, CHR ''b'']
      else if c = CHR 0x0C then [CHR 0x5C, CHR ''f''] else if c = CHR 0x0A then [CHR 0x5C, CHR ''n'']
      else if c = CHR 0x0D then [CHR 0x5C, CHR ''r''] else if c = CHR 0x09 then [CHR 0x5C, CHR ''t'']
      else if c = CHR 0x0B then [CHR 0x5C, CHR ''v'']
      else let n = of_char c in if n < 32 \<or> n = 127
        then [CHR 0x5C, CHR ''x'', hex_char (n div 16), hex_char (n mod 16)] else [c])"

definition Quote :: "string \<Rightarrow> string" where
  "Quote s = [CHR 0x22] @ concat (map quote_byte s) @ [CHR 0x22]"

end
