(* ===== verification/GoJson.thy ===== *)
theory GoJson
  imports Utf8 GoStrings
begin

text \<open>
  What the sources use of \<open>encoding/json\<close>: \<open>json.Marshal\<close> of a slice of strings and
  \<open>json.Unmarshal\<close> into one. The encoder escapes as the package does (quotes, control characters,
  the HTML characters, U+2028 and U+2029, and U+FFFD for bytes that are not UTF-8); the decoder
  accepts exactly \<open>null\<close> and the arrays of strings and nulls. Decoding an encoded slice of valid
  strings gives it back.
\<close>

section \<open>Encoding\<close>

definition hex4 :: "nat \<Rightarrow> string" where
  "hex4 n = [CHR 0x5C, CHR ''u'', hex_char (n div 4096 mod 16), hex_char (n div 256 mod 16),
     hex_char (n div 16 mod 16), hex_char (n mod 16)]"

definition json_short :: "(char \<times> char) list" where
  "json_short = [(CHR 0x22, CHR 0x22), (CHR 0x5C, CHR 0x5C), (CHR 0x08, CHR ''b''), (CHR 0x0C, CHR ''f''),
     (CHR 0x0A, CHR ''n''), (CHR 0x0D, CHR ''r''), (CHR 0x09, CHR ''t'')]"

definition json_ascii :: "char \<Rightarrow> string" where
  "json_ascii c = (case map_of json_short c of
      Some e \<Rightarrow> [CHR 0x5C, e]
    | None \<Rightarrow> if byte_in 0 31 c \<or> c \<in> set [CHR ''<'', CHR ''>'', CHR ''&''] then hex4 (of_char c) else [c])"

function json_chars :: "string \<Rightarrow> string" where
  "json_chars s =
     (if s = [] then []
      else if byte_in 0 127 (hd s) then json_ascii (hd s) @ json_chars (tl s)
      else if rune_size s = 0 then hex4 0xFFFD @ json_chars (tl s)
      else (if take (rune_size s) s = encode_rune 0x2028 then hex4 0x2028
            else if take (rune_size s) s = encode_rune 0x2029 then hex4 0x2029
            else take (rune_size s) s) @ json_chars (drop (rune_size s) s))"
  by auto
termination by (relation "measure length") auto

declare json_chars.simps [simp del]

definition json_string :: "string \<Rightarrow> string" where
  "json_string s = CHR 0x22 # json_chars s @ [CHR 0x22]"

text \<open>\<open>json.Marshal\<close> of a \<open>[]string\<close>; the nil slice is \<open>null\<close>.\<close>

definition json_Marshal :: "string list \<Rightarrow> string" where
  "json_Marshal vals = (if vals = [] then ''null''
     else CHR ''['' # join '','' (map json_string vals) @ '']'')"

section \<open>Decoding\<close>

definition hex_val :: "char \<Rightarrow> nat" where
  "hex_val c = (let n = of_char c in if n \<le> 57 then n - 48 else if n \<le> 70 then n - 55 else n - 87)"

text \<open>\<open>getu4\<close>: the value of an escape of four hexadecimal digits at the head.\<close>

definition getu4 :: "string \<Rightarrow> nat option" where
  "getu4 s = (if 6 \<le> length s \<and> s ! 0 = CHR 0x5C \<and> s ! 1 = CHR ''u'' \<and> list_all is_hex (take 4 (drop 2 s))
     then Some (4096 * hex_val (s ! 2) + 256 * hex_val (s ! 3) + 16 * hex_val (s ! 4) + hex_val (s ! 5))
     else None)"

definition surrogate :: "nat \<Rightarrow> bool" where
  "surrogate r \<longleftrightarrow> 0xD800 \<le> r \<and> r < 0xE000"

text \<open>\<open>utf16.DecodeRune\<close> of a high and a low surrogate.\<close>

definition surrogate_pair :: "nat \<Rightarrow> nat option \<Rightarrow> nat option" where
  "surrogate_pair hi lo = (case lo of
      Some l \<Rightarrow> if hi < 0xDC00 \<and> 0xDC00 \<le> l \<and> l < 0xE000
        then Some ((hi - 0xD800) * 1024 + (l - 0xDC00) + 0x10000) else None
    | None \<Rightarrow> None)"

text \<open>One character of a string literal: its bytes and the number of bytes read.\<close>

definition json_unit :: "string \<Rightarrow> (bytes \<times> nat) option" where
  "json_unit s =
     (if s = [] then None
      else if hd s = CHR 0x5C then
        (case getu4 s of
           Some r \<Rightarrow> (if surrogate r
             then (case surrogate_pair r (getu4 (drop 6 s)) of
                 Some r' \<Rightarrow> Some (encode_rune r', 12) | None \<Rightarrow> Some (replacement, 6))
             else Some (encode_rune r, 6))
         | None \<Rightarrow> (case tl s of
               [] \<Rightarrow> None
             | e # _ \<Rightarrow> if e = CHR ''/'' then Some ([e], 2)
                 else map_option (\<lambda>c. ([c], 2)) (map_of (map prod.swap json_short) e)))
      else if byte_in 0 31 (hd s) then None
      else if byte_in 0 127 (hd s) then Some ([hd s], 1)
      else if rune_size s = 0 then Some (replacement, 1)
      else Some (take (rune_size s) s, rune_size s))"

lemma json_unit_pos: "json_unit s = Some (u, n) \<Longrightarrow> 0 < n \<and> s \<noteq> []"
  by (auto simp: json_unit_def split: if_splits option.splits list.splits)

text \<open>The rest of a string literal after its opening quote, and what follows it.\<close>

function unquote :: "string \<Rightarrow> (string \<times> string) option" where
  "unquote s =
     (if s \<noteq> [] \<and> hd s = CHR 0x22 then Some ([], tl s)
      else case json_unit s of
        None \<Rightarrow> None
      | Some (u, n) \<Rightarrow> map_option (\<lambda>(v, r). (u @ v, r)) (unquote (drop n s)))"
  by auto
termination by (relation "measure length") (auto dest: json_unit_pos)

declare unquote.simps [simp del]

definition json_space :: "char \<Rightarrow> bool" where
  "json_space c \<longleftrightarrow> c \<in> set [CHR 0x20, CHR 0x09, CHR 0x0A, CHR 0x0D]"

definition skip_space :: "string \<Rightarrow> string" where
  "skip_space s = dropWhile json_space s"

text \<open>An element: a string, or \<open>null\<close>, which leaves the zero value.\<close>

definition json_elem :: "string \<Rightarrow> (string \<times> string) option" where
  "json_elem s = (if s \<noteq> [] \<and> hd s = CHR 0x22 then unquote (tl s)
     else if take 4 s = ''null'' then Some ([], drop 4 s) else None)"

lemma unquote_shorter: "unquote s = Some (v, r) \<Longrightarrow> length r < length s"
proof (induction s arbitrary: v r rule: unquote.induct)
  case (1 s)
  show ?case
  proof (cases "s \<noteq> [] \<and> hd s = CHR 0x22")
    case True
    with "1.prems" have "r = tl s" by (subst (asm) unquote.simps) simp
    with True show ?thesis by (cases s) simp_all
  next
    case False
    with "1.prems" obtain u n v' where un: "json_unit s = Some (u, n)" "unquote (drop n s) = Some (v', r)"
      by (subst (asm) unquote.simps) (auto split: option.splits)
    from "1.IH" [OF False un(1) refl un(2)] show ?thesis by simp
  qed
qed

lemma json_elem_shorter: "json_elem s = Some (v, r) \<Longrightarrow> length r < length s"
  by (cases s) (auto simp: json_elem_def split: if_splits dest: unquote_shorter)

lemma skip_space_le: "length (skip_space s) \<le> length s"
  by (simp add: skip_space_def length_dropWhile_le)

text \<open>The elements of an array after its opening bracket, and what follows it.\<close>

function json_elems :: "string \<Rightarrow> (string list \<times> string) option" where
  "json_elems s =
     (case json_elem (skip_space s) of
        None \<Rightarrow> None
      | Some (v, r) \<Rightarrow> (case skip_space r of
            [] \<Rightarrow> None
          | c # r' \<Rightarrow> if c = CHR '']'' then Some ([v], r')
              else if c = CHR '','' then map_option (\<lambda>(vs, z). (v # vs, z)) (json_elems r') else None))"
  by auto
termination
proof (relation "measure length")
  fix s p v r c r'
  assume "json_elem (skip_space s) = Some p" "(v, r) = p" "skip_space r = c # r'"
  moreover from this have "length r < length (skip_space s)" using json_elem_shorter by blast
  moreover have "length (skip_space r) \<le> length r" "length (skip_space s) \<le> length s"
    by (rule skip_space_le)+
  ultimately show "(r', s) \<in> measure length" by simp
qed simp

declare json_elems.simps [simp del]

text \<open>\<open>json.Unmarshal\<close> into a \<open>[]string\<close>.\<close>

definition json_Unmarshal :: "string \<Rightarrow> string list option" where
  "json_Unmarshal s =
     (let s = skip_space s;
          res = (if take 4 s = ''null'' then Some ([], drop 4 s)
            else if s \<noteq> [] \<and> hd s = CHR ''['' then
              (case skip_space (tl s) of
                 c # r \<Rightarrow> if c = CHR '']'' then Some ([], r) else json_elems (tl s)
               | [] \<Rightarrow> None)
            else None)
      in case res of
           Some (vals, r) \<Rightarrow> if skip_space r = [] then Some vals else None
         | None \<Rightarrow> None)"

section \<open>Round trip\<close>

lemma hex_val_hex_char: "n < 16 \<Longrightarrow> hex_val (hex_char n) = n"
proof -
  have "\<forall>n \<in> set [0..<16]. hex_val (hex_char n) = n" by code_simp
  then show "n < 16 \<Longrightarrow> hex_val (hex_char n) = n" by simp
qed

lemma hex_digits: "n mod 65536 = 4096 * (n div 4096 mod 16) + 256 * (n div 256 mod 16) +
    16 * (n div 16 mod 16) + n mod 16" for n :: nat
  using mod_mult2_eq [of n 4096 16] mod_mult2_eq [of n 256 16] mod_mult2_eq [of n 16 16] by simp

lemma getu4_hex4:
  assumes "n < 65536"
  shows "getu4 (hex4 n @ s) = Some n"
  using hex_digits [of n] assms by (simp add: getu4_def hex4_def is_hex_hex_char hex_val_hex_char)

lemma hex4_simps [simp]: "hd (hex4 n) = CHR 0x5C" "hex4 n \<noteq> []" "length (hex4 n) = 6"
  by (simp_all add: hex4_def)

lemma unquote_unit:
  assumes "json_unit s = Some (u, n)" "hd s \<noteq> CHR 0x22"
  shows "unquote s = map_option (\<lambda>(v, r). (u @ v, r)) (unquote (drop n s))"
  using assms by (subst unquote.simps) simp

lemma unquote_hex4:
  assumes "n < 65536" "\<not> surrogate n"
  shows "unquote (hex4 n @ s) = map_option (\<lambda>(v, r). (encode_rune n @ v, r)) (unquote s)"
  using unquote_unit [of "hex4 n @ s" "encode_rune n" 6] assms
  by (simp add: json_unit_def getu4_hex4)

text \<open>One encoded character is decoded to itself.\<close>

lemma char_of_inj_lt: "byte_in 0 127 c \<Longrightarrow> encode_rune (of_char c) = [c]"
  by (simp add: encode_rune_def byte_in_def)

lemma unquote_ascii:
  assumes "byte_in 0 127 c"
  shows "unquote (json_ascii c @ s) = map_option (\<lambda>(v, r). (c # v, r)) (unquote s)"
proof (cases "map_of json_short c")
  case (Some e)
  then have "(c, e) \<in> set json_short" by (rule map_of_SomeD)
  then have e: "e \<noteq> CHR ''u''" "e \<noteq> CHR ''/''" "map_of (map prod.swap json_short) e = Some c"
    by (auto simp: json_short_def)
  then have "json_unit (CHR 0x5C # e # s) = Some ([c], 2)"
    by (simp add: json_unit_def getu4_def)
  from unquote_unit [OF this] Some show ?thesis by (simp add: json_ascii_def)
next
  case None
  then have c: "c \<noteq> CHR 0x22" "c \<noteq> CHR 0x5C" by (auto simp: json_short_def split: if_splits)
  show ?thesis
  proof (cases "byte_in 0 31 c \<or> c \<in> set [CHR ''<'', CHR ''>'', CHR ''&'']")
    case True
    have "of_char c < (65536 :: nat)" "\<not> surrogate (of_char c)"
      using assms by (simp_all add: byte_in_def surrogate_def)
    from unquote_hex4 [OF this, of s] True None show ?thesis
      by (simp add: json_ascii_def char_of_inj_lt [OF assms])
  next
    case False
    then have "json_unit (c # s) = Some ([c], 1)" using assms c by (simp add: json_unit_def)
    from unquote_unit [OF this] False None c show ?thesis by (simp add: json_ascii_def)
  qed
qed

lemma unquote_rune:
  assumes "\<not> byte_in 0 127 (hd s)" "rune_size s = n" "n \<noteq> 0"
  shows "unquote (take n s @ t) = map_option (\<lambda>(v, r). (take n s @ v, r)) (unquote t)"
proof -
  have s: "s \<noteq> []" "length (take n s) = n" using assms rune_size_le [of s] by auto
  then have hd: "hd (take n s @ t) = hd s" using assms(3) by (simp add: hd_append)
  have "hd s \<noteq> CHR 0x22" "hd s \<noteq> CHR 0x5C" "\<not> byte_in 0 31 (hd s)"
    using assms(1) by (auto simp: byte_in_def)
  moreover have "json_unit (take n s @ t) = Some (take n s, n)"
    using s hd calculation assms rune_size_head [OF assms(2)] by (simp add: json_unit_def)
  ultimately show ?thesis using unquote_unit [of "take n s @ t"] hd s(2) by simp
qed

lemma unquote_json_chars:
  "utf8_valid s \<Longrightarrow> unquote (json_chars s @ CHR 0x22 # r) = Some (s, r)"
proof (induction s rule: utf8_valid.induct)
  case (1 s)
  show ?case
  proof (cases "s = []")
    case True
    then show ?thesis by (subst json_chars.simps, subst unquote.simps) simp
  next
    case False
    define n where "n = rune_size s"
    from "1.prems" False have n: "n \<noteq> 0" "utf8_valid (drop n s)"
      by (simp_all add: n_def utf8_valid.simps [of s] split: if_splits)
    from "1.IH" [OF False n(1) [unfolded n_def]] n(2)
    have IH: "unquote (json_chars (drop n s) @ CHR 0x22 # r) = Some (drop n s, r)" by (simp add: n_def)
    show ?thesis
    proof (cases "byte_in 0 127 (hd s)")
      case True
      then have "n = 1" using False by (cases s) (simp_all add: n_def)
      moreover obtain a q where s: "s = a # q" using False by (cases s) auto
      moreover have "json_chars s = json_ascii a @ json_chars q"
        using s True by (subst json_chars.simps) simp
      ultimately show ?thesis using IH True by (simp add: unquote_ascii)
    next
      case nonascii: False
      have step: "json_chars s = (if take n s = encode_rune 0x2028 then hex4 0x2028
          else if take n s = encode_rune 0x2029 then hex4 0x2029 else take n s) @ json_chars (drop n s)"
        using False nonascii n(1) by (simp add: json_chars.simps [of s] n_def)
      have "unquote (json_chars s @ CHR 0x22 # r) = Some (take n s @ drop n s, r)"
        using IH unquote_rune [OF nonascii n_def [symmetric] n(1)] unquote_hex4 [of "0x2028"]
          unquote_hex4 [of "0x2029"]
        by (simp add: step surrogate_def del: append_take_drop_id)
      then show ?thesis by simp
    qed
  qed
qed

lemma json_elem_string: "utf8_valid s \<Longrightarrow> json_elem (json_string s @ r) = Some (s, r)"
  by (simp add: json_elem_def json_string_def unquote_json_chars)

lemma skip_space_simps [simp]: "skip_space (json_string s @ r) = json_string s @ r"
    "skip_space (CHR '','' # r) = CHR '','' # r" "skip_space (CHR '']'' # r) = CHR '']'' # r"
    "skip_space (CHR ''['' # r) = CHR ''['' # r" "skip_space [] = []"
  by (simp_all add: skip_space_def json_string_def json_space_def)

lemma json_elems_join:
  "vals \<noteq> [] \<Longrightarrow> list_all utf8_valid vals \<Longrightarrow>
     json_elems (join '','' (map json_string vals) @ CHR '']'' # r) = Some (vals, r)"
proof (induction vals)
  case (Cons v vs)
  show ?case
  proof (cases vs)
    case Nil
    with Cons.prems show ?thesis by (subst json_elems.simps) (simp add: json_elem_string)
  next
    case (Cons w ws)
    with Cons.prems Cons.IH show ?thesis
      by (subst json_elems.simps) (simp add: json_elem_string)
  qed
qed simp

lemma json_string_nonempty [simp]: "json_string s \<noteq> []" "hd (json_string s) = CHR 0x22"
  by (simp_all add: json_string_def)

lemma join_strings:
  "vals \<noteq> [] \<Longrightarrow> \<exists>r. join '','' (map json_string vals) = json_string (hd vals) @ r"
  by (cases vals; cases "tl vals") auto

lemma json_roundtrip:
  assumes "list_all utf8_valid vals"
  shows "json_Unmarshal (json_Marshal vals) = Some vals"
proof (cases "vals = []")
  case True
  then show ?thesis by (simp add: json_Marshal_def) code_simp
next
  case False
  obtain r where r: "join '','' (map json_string vals) = json_string (hd vals) @ r"
    using join_strings [OF False] by blast
  let ?s = "join '','' (map json_string vals) @ '']''"
  have "skip_space ?s = ?s" "hd ?s = CHR 0x22" "?s \<noteq> []" unfolding r by simp_all
  then obtain q where q: "skip_space ?s = CHR 0x22 # q" by (metis list.collapse)
  have "json_elems ?s = Some (vals, [])" using json_elems_join [OF False assms, of "[]"] by simp
  with q False show ?thesis by (simp add: json_Unmarshal_def json_Marshal_def Let_def)
qed

end
