(* ===== verification/Pg.thy ===== *)
theory Pg
  imports Store GoJson
begin

text \<open>
  What the Postgres store relies on of the database: statements on the tables \<open>objects\<close>,
  \<open>relations\<close> and \<open>manifest\<close> of the initial migration, one operation per statement the sources
  issue, in a record. A condition of a \<open>WHERE\<close> clause is an equation of a column or a row-value
  comparison \<open>(cols) >= (vals)\<close>. The locale \<open>pg_engine\<close> states the documented behaviour: rows are
  compared column by column in the order of the collation, results respect \<open>WHERE\<close> and \<open>ORDER BY\<close>.
\<close>

section \<open>Conditions and order\<close>

datatype pg_cond = ColEq string string | RowGe "string list" "string list"

fun lex_le :: "(string \<Rightarrow> string \<Rightarrow> bool) \<Rightarrow> string list \<Rightarrow> string list \<Rightarrow> bool" where
  "lex_le le [] ys = True"
| "lex_le le (x # xs) [] = False"
| "lex_le le (x # xs) (y # ys) = (if x = y then lex_le le xs ys else le x y)"

text \<open>A deterministic collation orders texts linearly (ties are broken bytewise).\<close>

definition collation :: "(string \<Rightarrow> string \<Rightarrow> bool) \<Rightarrow> bool" where
  "collation le \<longleftrightarrow> (\<forall>x. le x x) \<and> (\<forall>x y z. le x y \<longrightarrow> le y z \<longrightarrow> le x z) \<and>
     (\<forall>x y. le x y \<longrightarrow> le y x \<longrightarrow> x = y) \<and> (\<forall>x y. le x y \<or> le y x)"

lemma collationD:
  assumes "collation le"
  shows "le x x" "le x y \<Longrightarrow> le y z \<Longrightarrow> le x z" "le x y \<Longrightarrow> le y x \<Longrightarrow> x = y" "le x y \<or> le y x"
  using assms unfolding collation_def by blast+

lemma lex_le_refl [simp]: "lex_le le xs xs"
  by (induction xs) auto

lemma lex_le_antisym:
  assumes "collation le"
  shows "lex_le le xs ys \<Longrightarrow> lex_le le ys xs \<Longrightarrow> xs = ys"
proof (induction xs arbitrary: ys)
  case Nil
  then show ?case by (cases ys) auto
next
  case (Cons x xs)
  then show ?case using collationD(3) [OF assms] by (cases ys) (auto split: if_splits)
qed

lemma lex_le_total:
  assumes "collation le"
  shows "lex_le le xs ys \<or> lex_le le ys xs"
proof (induction xs arbitrary: ys)
  case (Cons x xs)
  then show ?case using collationD(4) [OF assms] by (cases ys) auto
qed simp

definition cond_holds :: "(string \<Rightarrow> string \<Rightarrow> bool) \<Rightarrow> (string \<Rightarrow> string) \<Rightarrow> pg_cond \<Rightarrow> bool" where
  "cond_holds le col c = (case c of
      ColEq n v \<Rightarrow> col n = v
    | RowGe ns vs \<Rightarrow> lex_le le vs (map col ns))"

definition cond_text :: "pg_cond \<Rightarrow> bool" where
  "cond_text c = (case c of ColEq n v \<Rightarrow> text_ok v | RowGe ns vs \<Rightarrow> list_all text_ok vs)"

lemma cond_simps [simp]:
  "cond_holds le col (ColEq n v) \<longleftrightarrow> col n = v"
  "cond_holds le col (RowGe ns vs) \<longleftrightarrow> lex_le le vs (map col ns)"
  "cond_text (ColEq n v) = text_ok v" "cond_text (RowGe ns vs) = list_all text_ok vs"
  by (simp_all add: cond_holds_def cond_text_def)

text \<open>The columns of a row of the two data tables.\<close>

definition obj_col :: "obj_id \<Rightarrow> string \<Rightarrow> string" where
  "obj_col k n = (if n = ''object_type'' then fst k else snd k)"

definition rel_col :: "rel_ident \<Rightarrow> string \<Rightarrow> string" where
  "rel_col i n = (if n = ''object_type'' then i_otype i else if n = ''object_id'' then i_oid i
     else if n = ''relation'' then i_rel i else if n = ''subject_type'' then i_stype i
     else if n = ''subject_id'' then i_sid i else i_srel i)"

text \<open>The rows a query may return.\<close>

definition query_result :: "(string \<Rightarrow> string \<Rightarrow> bool) \<Rightarrow> ('k \<Rightarrow> string \<Rightarrow> string) \<Rightarrow> ('k \<rightharpoonup> 'v)
    \<Rightarrow> pg_cond list \<Rightarrow> string list \<Rightarrow> ('k \<times> 'v) list \<Rightarrow> bool" where
  "query_result le col tab conds cols rows \<longleftrightarrow> distinct (map fst rows) \<and>
     (\<forall>k v. (k, v) \<in> set rows \<longleftrightarrow> tab k = Some v \<and> list_all (cond_holds le (col k)) conds) \<and>
     sorted_wrt (\<lambda>a b. lex_le le (map (col (fst a)) cols) (map (col (fst b)) cols)) rows"

lemma sorted_wrt_unique:
  assumes "\<And>a b. a \<in> set xs \<Longrightarrow> b \<in> set xs \<Longrightarrow> R a b \<Longrightarrow> R b a \<Longrightarrow> a = b"
    and "sorted_wrt R xs" "sorted_wrt R ys" "distinct xs" "distinct ys" "set xs = set ys"
  shows "xs = ys"
  using assms
proof (induction xs arbitrary: ys)
  case (Cons x xs)
  then obtain y zs where ys: "ys = y # zs" by (cases ys) auto
  have "x = y"
  proof (rule ccontr)
    assume "x \<noteq> y"
    then have "x \<in> set zs" "y \<in> set xs" using Cons.prems(6) ys by auto
    then have "R x y" "R y x" using Cons.prems(2,3) ys by auto
    with \<open>x \<noteq> y\<close> \<open>y \<in> set xs\<close> Cons.prems(1) [of x y] show False by simp
  qed
  moreover have "set xs = set zs" using Cons.prems(4-6) ys \<open>x = y\<close> by auto
  ultimately show ?case using Cons.IH [of zs] Cons.prems ys by auto
qed auto

text \<open>
  Keyset pagination: when the order columns determine the key, the query resumed with
  \<open>(cols) >= (values of row j)\<close> returns exactly the rows from \<open>j\<close> on.
\<close>

lemma query_resume:
  assumes le: "collation le" and inj: "\<And>k k'. map (col k) cols = map (col k') cols \<Longrightarrow> k = k'"
    and rows: "query_result le col tab conds cols rows" and j: "j < length rows"
    and rows': "query_result le col tab (conds @ [RowGe cols (map (col (fst (rows ! j))) cols)]) cols rows'"
  shows "rows' = drop j rows"
proof -
  let ?K = "\<lambda>r. map (col (fst r)) cols" and ?R = "\<lambda>a b. lex_le le (map (col (fst a)) cols) (map (col (fst b)) cols)"
  have d: "distinct (map fst rows)" "distinct (map fst rows')" "sorted_wrt ?R rows" "sorted_wrt ?R rows'"
    using rows rows' by (simp_all add: query_result_def)
  have eq: "a = b" if "a \<in> set rows" "b \<in> set rows" "?R a b" "?R b a" for a b
    using that d(1) inj [OF lex_le_antisym [OF le that(3,4)]] by (metis eq_key_imp_eq_value prod.collapse)
  have before: "\<not> ?R (rows ! j) (rows ! i)" if "i < j" for i
  proof
    assume "?R (rows ! j) (rows ! i)"
    moreover have "?R (rows ! i) (rows ! j)" using sorted_wrt_nth_less [OF d(3)] that j by simp
    ultimately have "rows ! i = rows ! j" using eq that j by simp
    then show False using d(1) that j by (metis distinct_map less_imp_neq less_trans nth_eq_iff_index_eq)
  qed
  have after: "?R (rows ! j) (rows ! i)" if "j \<le> i" "i < length rows" for i
    using that sorted_wrt_nth_less [OF d(3)] by (cases "i = j") simp_all
  have "r \<in> set (drop j rows) \<longleftrightarrow> r \<in> set rows \<and> ?R (rows ! j) r" for r
  proof
    assume "r \<in> set (drop j rows)"
    then obtain i where "i < length rows - j" "r = rows ! (j + i)" by (auto simp: in_set_conv_nth)
    then show "r \<in> set rows \<and> ?R (rows ! j) r" using after [of "j + i"] by simp
  next
    assume r: "r \<in> set rows \<and> ?R (rows ! j) r"
    then obtain i where i: "i < length rows" "r = rows ! i" by (auto simp: in_set_conv_nth)
    with r before [of i] have "j \<le> i" by (auto simp: not_le [symmetric])
    with i show "r \<in> set (drop j rows)" by (auto simp: in_set_conv_nth intro!: exI [of _ "i - j"])
  qed
  moreover have "r \<in> set rows' \<longleftrightarrow> r \<in> set rows \<and> ?R (rows ! j) r" for r
    using rows rows' by (cases r) (auto simp: query_result_def)
  ultimately have "set rows' = set (drop j rows)" by blast
  moreover have "set rows' \<subseteq> set rows" using calculation set_drop_subset by metis
  ultimately show ?thesis
  proof (intro sorted_wrt_unique [where R = ?R])
    show "a = b" if "set rows' \<subseteq> set rows" "a \<in> set rows'" "b \<in> set rows'" "?R a b" "?R b a" for a b
      using that eq by blast
    show "distinct rows'" "distinct (drop j rows)" using d(1,2) by (simp_all add: distinct_map)
  qed (use d sorted_wrt_drop in auto)
qed

section \<open>The database\<close>

text \<open>
  The operations are the statements of \<open>pgdb\<close>, in the order of its files; a write returns its
  error and the state of the transaction, which a failed statement leaves aborted. The observers
  \<open>pg_live\<close> (a connection in a usable transaction), \<open>pg_otab\<close>, \<open>pg_rtab\<close>, \<open>pg_mtab\<close> and \<open>pg_le\<close>
  (the collation) describe the state.
\<close>

record ('db, 'v) pg =
  pg_live :: "'db \<Rightarrow> bool"
  pg_otab :: "'db \<Rightarrow> obj_id \<Rightarrow> 'v option"
  pg_rtab :: "'db \<Rightarrow> rel_ident \<Rightarrow> 'v option"
  pg_mtab :: "'db \<Rightarrow> string \<Rightarrow> ('v \<times> 'v \<times> 'v) option"
  pg_le :: "string \<Rightarrow> string \<Rightarrow> bool"
  sel_object :: "'db \<Rightarrow> string \<Rightarrow> string \<Rightarrow> 'v option result"
  ups_object :: "'db \<Rightarrow> obj_id \<Rightarrow> 'v \<Rightarrow> string \<Rightarrow> timestamp \<Rightarrow> timestamp \<Rightarrow> derror option \<times> 'db"
  del_object :: "'db \<Rightarrow> string \<Rightarrow> string \<Rightarrow> derror option \<times> 'db"
  query_objects :: "'db \<Rightarrow> pg_cond list \<Rightarrow> string list \<Rightarrow> (obj_id \<times> 'v) list result"
  sel_relation :: "'db \<Rightarrow> rel_ident \<Rightarrow> 'v option result"
  ups_relation :: "'db \<Rightarrow> rel_ident \<Rightarrow> 'v \<Rightarrow> string \<Rightarrow> timestamp \<Rightarrow> timestamp \<Rightarrow> derror option \<times> 'db"
  del_relation :: "'db \<Rightarrow> rel_ident \<Rightarrow> derror option \<times> 'db"
  query_relations :: "'db \<Rightarrow> pg_cond list \<Rightarrow> string list \<Rightarrow> (rel_ident \<times> 'v) list result"
  exists_relation :: "'db \<Rightarrow> pg_cond list \<Rightarrow> bool result"
  exists_manifest :: "'db \<Rightarrow> string \<Rightarrow> bool result"
  sel_manifest :: "'db \<Rightarrow> string \<Rightarrow> ('v \<times> 'v \<times> 'v) option result"
  ups_manifest :: "'db \<Rightarrow> string \<Rightarrow> 'v \<Rightarrow> 'v \<Rightarrow> derror option \<times> 'db"
  upd_model :: "'db \<Rightarrow> string \<Rightarrow> 'v \<Rightarrow> nat result \<times> 'db"
  del_manifest :: "'db \<Rightarrow> string \<Rightarrow> derror option \<times> 'db"
  del_relations :: "'db \<Rightarrow> derror option \<times> 'db"
  del_objects :: "'db \<Rightarrow> derror option \<times> 'db"
  pg_begin :: "bool \<Rightarrow> 'db \<Rightarrow> derror option"
  pg_commit :: "'db \<Rightarrow> derror option"

definition rid_text :: "rel_ident \<Rightarrow> bool" where
  "rid_text i \<longleftrightarrow> list_all text_ok [i_otype i, i_oid i, i_rel i, i_stype i, i_sid i, i_srel i]"

locale pg_engine =
  fixes E :: "('db, 'v, 'z) pg_scheme"
  assumes le: "collation (pg_le E)"
    and otab_text: "pg_live E db \<Longrightarrow> pg_otab E db k = Some v \<Longrightarrow> text_ok (fst k) \<and> text_ok (snd k)"
    and rtab_text: "pg_live E db \<Longrightarrow> pg_rtab E db i = Some v \<Longrightarrow> rid_text i"
    and sel_object: "pg_live E db \<Longrightarrow> text_ok ty \<Longrightarrow> text_ok oid \<Longrightarrow>
      sel_object E db ty oid = Inr (pg_otab E db (ty, oid))"
    and ups_object: "pg_live E db \<Longrightarrow> ups_object E db k v etag created updated = (None, db') \<Longrightarrow>
      pg_live E db' \<and> pg_otab E db' = (pg_otab E db)(k \<mapsto> v) \<and> pg_rtab E db' = pg_rtab E db \<and>
      pg_mtab E db' = pg_mtab E db"
    and del_object: "pg_live E db \<Longrightarrow> text_ok ty \<Longrightarrow> text_ok oid \<Longrightarrow>
      \<exists>db'. del_object E db ty oid = (None, db') \<and> pg_live E db' \<and>
        pg_otab E db' = (pg_otab E db)((ty, oid) := None) \<and> pg_rtab E db' = pg_rtab E db \<and>
        pg_mtab E db' = pg_mtab E db"
    and query_objects: "pg_live E db \<Longrightarrow> list_all cond_text conds \<Longrightarrow>
      \<exists>rows. query_objects E db conds cols = Inr rows \<and>
        query_result (pg_le E) obj_col (pg_otab E db) conds cols rows"
    and sel_relation: "pg_live E db \<Longrightarrow> rid_text i \<Longrightarrow> sel_relation E db i = Inr (pg_rtab E db i)"
    and ups_relation: "pg_live E db \<Longrightarrow> ups_relation E db i v etag created updated = (None, db') \<Longrightarrow>
      pg_live E db' \<and> pg_rtab E db' = (pg_rtab E db)(i \<mapsto> v) \<and> pg_otab E db' = pg_otab E db \<and>
      pg_mtab E db' = pg_mtab E db"
    and del_relation: "pg_live E db \<Longrightarrow> rid_text i \<Longrightarrow>
      \<exists>db'. del_relation E db i = (None, db') \<and> pg_live E db' \<and>
        pg_rtab E db' = (pg_rtab E db)(i := None) \<and> pg_otab E db' = pg_otab E db \<and>
        pg_mtab E db' = pg_mtab E db"
    and query_relations: "pg_live E db \<Longrightarrow> list_all cond_text conds \<Longrightarrow>
      \<exists>rows. query_relations E db conds cols = Inr rows \<and>
        query_result (pg_le E) rel_col (pg_rtab E db) conds cols rows"
    and exists_relation: "pg_live E db \<Longrightarrow> list_all cond_text conds \<Longrightarrow> exists_relation E db conds =
      Inr (\<exists>i. pg_rtab E db i \<noteq> None \<and> list_all (cond_holds (pg_le E) (rel_col i)) conds)"
    and exists_manifest: "pg_live E db \<Longrightarrow> exists_manifest E db n = Inr (pg_mtab E db n \<noteq> None)"
    and sel_manifest: "pg_live E db \<Longrightarrow> sel_manifest E db n = Inr (pg_mtab E db n)"
    and ups_manifest: "pg_live E db \<Longrightarrow> ups_manifest E db n md body = (None, db') \<Longrightarrow>
      pg_live E db' \<and> (\<exists>m. pg_mtab E db' n = Some (md, body, m)) \<and> pg_otab E db' = pg_otab E db \<and>
      pg_rtab E db' = pg_rtab E db"
    and upd_model: "pg_live E db \<Longrightarrow> upd_model E db n m = (Inr c, db') \<Longrightarrow>
      pg_live E db' \<and> pg_otab E db' = pg_otab E db \<and> pg_rtab E db' = pg_rtab E db \<and>
      pg_mtab E db' n = map_option (\<lambda>(md, body, _). (md, body, m)) (pg_mtab E db n) \<and>
      (c = 0 \<longleftrightarrow> pg_mtab E db n = None)"
    and del_manifest: "pg_live E db \<Longrightarrow> del_manifest E db n = (None, db') \<Longrightarrow>
      pg_live E db' \<and> pg_otab E db' = pg_otab E db \<and> pg_rtab E db' = pg_rtab E db \<and>
      pg_mtab E db' = (pg_mtab E db)(n := None)"
    and del_relations: "pg_live E db \<Longrightarrow> del_relations E db = (None, db') \<Longrightarrow>
      pg_live E db' \<and> pg_otab E db' = pg_otab E db \<and> pg_rtab E db' = Map.empty \<and>
      pg_mtab E db' = pg_mtab E db"
    and del_objects: "pg_live E db \<Longrightarrow> del_objects E db = (None, db') \<Longrightarrow>
      pg_live E db' \<and> pg_otab E db' = Map.empty \<and> pg_rtab E db' = pg_rtab E db \<and>
      pg_mtab E db' = pg_mtab E db"

end
