(* ===== verification/PgStore.thy ===== *)
theory PgStore
  imports Pg
begin

text \<open>
  The Postgres implementation of the transaction interface: \<open>pgdb/token.go\<close>, \<open>pgdb/errors.go\<close>,
  \<open>pgdb/object_store.go\<close>, \<open>pgdb/relation_store.go\<close>, \<open>pgdb/manifest_store.go\<close> and \<open>pgdb/store.go\<close>.
  The environment \<open>E\<close> is the database together with the codecs of the stored messages. Unlike the
  BoltDB store it has one table of relations and no prefix scans: every populated field of a
  filter is a condition of the query, and a page token is the JSON array of the order columns. On
  the invariant \<open>pg_inv\<close> the store keeps the contracts \<open>tx_store\<close> and \<open>tx_manifest\<close>.
\<close>

section \<open>The environment\<close>

record ('db, 'v, 'model) pg_env = "('db, 'v) pg" +
  pe_obj :: "object \<Rightarrow> 'v result"
  pd_obj :: "'v \<Rightarrow> object result"
  pe_rel :: "relation \<Rightarrow> 'v result"
  pd_rel :: "'v \<Rightarrow> relation result"
  pe_md :: "metadata \<Rightarrow> 'v result"
  pd_md :: "'v \<Rightarrow> metadata result"
  pe_body :: "body \<Rightarrow> 'v result"
  pd_body :: "'v \<Rightarrow> body result"
  pe_model :: "'model \<Rightarrow> 'v result"
  pd_model :: "'v \<Rightarrow> 'model result"

definition pg_codec_ok :: "('db, 'v, 'model, 'z) pg_env_scheme \<Rightarrow> bool" where
  "pg_codec_ok E \<longleftrightarrow>
     (\<forall>x b. pe_obj E x = Inr b \<longrightarrow> pd_obj E b = Inr x) \<and>
     (\<forall>r b. pe_rel E r = Inr b \<longrightarrow> pd_rel E b = Inr r) \<and>
     (\<forall>m b. pe_md E m = Inr b \<longrightarrow> pd_md E b = Inr m) \<and>
     (\<forall>m b. pe_body E m = Inr b \<longrightarrow> pd_body E b = Inr m) \<and>
     (\<forall>m b. pe_model E m = Inr b \<longrightarrow> pd_model E b = Inr m)"

definition pg_ErrNotFound :: derror where
  "pg_ErrNotFound = AErr ''E20150'' NotFound ''key not found''"

text \<open>\<open>AsTime\<close> of a possibly nil timestamp: nil is the Unix epoch.\<close>

definition AsTime :: "timestamp option \<Rightarrow> timestamp" where
  "AsTime t = \<lparr>secs = ts_secs t, nanos = ts_nanos t\<rparr>"

text \<open>\<open>fmt.Errorf("...: %w", err)\<close> around the error half of a result.\<close>

definition wrap_err :: "string \<Rightarrow> 'a result \<Rightarrow> 'a result" where
  "wrap_err msg r = (case r of Inl e \<Rightarrow> Inl (WrapErr msg e) | Inr x \<Rightarrow> Inr x)"

lemma wrap_err_simps [simp]: "wrap_err msg (Inl e) = Inl (WrapErr msg e)" "wrap_err msg (Inr x) = Inr x"
  "wrap_err msg r = Inr x \<longleftrightarrow> r = Inr x"
  by (auto simp: wrap_err_def split: sum.splits)

text \<open>The switch after \<open>QueryRow(...).Scan(&data)\<close> and the decoding of the row.\<close>

definition decode_row :: "string \<Rightarrow> string \<Rightarrow> ('v \<Rightarrow> 'a result) \<Rightarrow> 'v option result \<Rightarrow> 'a result" where
  "decode_row getMsg decMsg dec q = (case q of
      Inl e \<Rightarrow> Inl (WrapErr getMsg e)
    | Inr None \<Rightarrow> Inl pg_ErrNotFound
    | Inr (Some data) \<Rightarrow> wrap_err decMsg (dec data))"

lemma decode_row_simps [simp]:
  "decode_row g d dec (Inr None) = Inl pg_ErrNotFound"
  "decode_row g d dec (Inr (Some v)) = wrap_err d (dec v)"
  "decode_row g d dec (Inl e) = Inl (WrapErr g e)"
  by (simp_all add: decode_row_def)

section \<open>Page tokens\<close>

definition encodeToken :: "string list \<Rightarrow> string" where
  "encodeToken vals = json_Marshal vals"

definition errTokenSize :: derror where
  "errTokenSize = PlainErr ''decode page token: unexpected value count''"

definition decodeToken :: "string \<Rightarrow> nat \<Rightarrow> string list result" where
  "decodeToken token n = (case json_Unmarshal token of
      None \<Rightarrow> Inl (WrapErr ''decode page token'' (ExtErr ''json''))
    | Some vals \<Rightarrow> if length vals \<noteq> n then Inl (WrapErr ''unexpected value count'' errTokenSize)
        else Inr vals)"

lemma token_roundtrip:
  "list_all utf8_valid vals \<Longrightarrow> length vals = n \<Longrightarrow> decodeToken (encodeToken vals) n = Inr vals"
  by (simp add: decodeToken_def encodeToken_def json_roundtrip)

lemma encodeToken_nonempty [simp]: "encodeToken vals \<noteq> []"
  by (simp add: encodeToken_def json_Marshal_def)

section \<open>Objects\<close>

definition objectTokenSize :: nat where
  "objectTokenSize = 2"

definition pg_GetObject ::
  "('db, 'v, 'model, 'z) pg_env_scheme \<Rightarrow> 'db \<Rightarrow> string \<Rightarrow> string \<Rightarrow> object result" where
  "pg_GetObject E db objectType objectID =
     decode_row ''get object'' ''unmarshal object'' (pd_obj E) (sel_object E db objectType objectID)"

definition pg_SetObject ::
  "('db, 'v, 'model, 'z) pg_env_scheme \<Rightarrow> 'db \<Rightarrow> object \<Rightarrow> object result \<times> 'db" where
  "pg_SetObject E db obj = (case pe_obj E obj of
      Inl e \<Rightarrow> (Inl (WrapErr ''marshal object'' e), db)
    | Inr data \<Rightarrow> (case ups_object E db (o_type obj, o_id obj) data (o_etag obj)
          (AsTime (o_created obj)) (AsTime (o_updated obj)) of
        (Some e, db') \<Rightarrow> (Inl (WrapErr ''set object'' e), db')
      | (None, db') \<Rightarrow> (Inr obj, db')))"

definition pg_DeleteObject ::
  "('db, 'v, 'model, 'z) pg_env_scheme \<Rightarrow> 'db \<Rightarrow> string \<Rightarrow> string \<Rightarrow> derror option \<times> 'db" where
  "pg_DeleteObject E db objectType objectID = (case del_object E db objectType objectID of
      (Some e, db') \<Rightarrow> (Some (WrapErr ''delete object'' e), db')
    | (None, db') \<Rightarrow> (None, db'))"

text \<open>The rows \<open>objectIterator\<close> steps over: a row that does not decode is an empty object.\<close>

definition pg_objectRow :: "('db, 'v, 'model, 'z) pg_env_scheme \<Rightarrow> obj_id \<times> 'v \<Rightarrow> object row" where
  "pg_objectRow E r = (Some (case pd_obj E (snd r) of Inr obj \<Rightarrow> obj | Inl _ \<Rightarrow> zero_object),
     encodeToken [fst (fst r), snd (fst r)])"

definition objectCols :: "string list" where
  "objectCols = [''object_type'', ''object_id'']"

definition pg_ScanObjects ::
  "('db, 'v, 'model, 'z) pg_env_scheme \<Rightarrow> 'db \<Rightarrow> string \<Rightarrow> string \<Rightarrow> object iter result" where
  "pg_ScanObjects E db objectType pageToken =
     (let where1 = (if objectType \<noteq> [] then [ColEq ''object_type'' objectType] else []);
          where2 = (if pageToken \<noteq> []
            then (case decodeToken pageToken objectTokenSize of
                Inl e \<Rightarrow> Inl e
              | Inr vals \<Rightarrow> Inr (where1 @ [RowGe objectCols [vals ! 0, vals ! 1]]))
            else Inr where1)
      in case where2 of
           Inl e \<Rightarrow> Inl e
         | Inr conds \<Rightarrow> (case query_objects E db conds objectCols of
               Inl e \<Rightarrow> Inl (WrapErr ''scan objects'' e)
             | Inr rows \<Rightarrow> Inr (new_iter (map (pg_objectRow E) rows))))"

section \<open>Relations\<close>

definition objectOrderCols :: "string list" where
  "objectOrderCols = [''object_type'', ''object_id'', ''relation'', ''subject_type'', ''subject_id'',
     ''subject_relation'']"

definition subjectOrderCols :: "string list" where
  "subjectOrderCols = [''subject_type'', ''subject_id'', ''relation'', ''object_type'', ''object_id'',
     ''subject_relation'']"

definition orderCols :: "direction \<Rightarrow> string list" where
  "orderCols dir = (if dir = BySubject then subjectOrderCols else objectOrderCols)"

definition relationConditions :: "rel_filter \<Rightarrow> (string \<times> string) list" where
  "relationConditions f =
     (if f_otype f \<noteq> [] then [(''object_type'', f_otype f)] else []) @
     (if f_oid f \<noteq> [] then [(''object_id'', f_oid f)] else []) @
     (if f_rel f \<noteq> [] then [(''relation'', f_rel f)] else []) @
     (if f_stype f \<noteq> [] then [(''subject_type'', f_stype f)] else []) @
     (if f_sid f \<noteq> [] then [(''subject_id'', f_sid f)] else []) @
     (if f_has_srel f then [(''subject_relation'', f_srel f)] else [])"

definition relationWhere :: "rel_filter \<Rightarrow> pg_cond list" where
  "relationWhere f = map (\<lambda>c. ColEq (fst c) (snd c)) (relationConditions f)"

definition pg_GetRelationExact ::
  "('db, 'v, 'model, 'z) pg_env_scheme \<Rightarrow> 'db \<Rightarrow> rel_ident \<Rightarrow> relation result" where
  "pg_GetRelationExact E db ident =
     decode_row ''get relation'' ''unmarshal relation'' (pd_rel E) (sel_relation E db ident)"

definition pg_SetRelation ::
  "('db, 'v, 'model, 'z) pg_env_scheme \<Rightarrow> 'db \<Rightarrow> relation \<Rightarrow> relation result \<times> 'db" where
  "pg_SetRelation E db rel = (case pe_rel E rel of
      Inl e \<Rightarrow> (Inl (WrapErr ''marshal relation'' e), db)
    | Inr data \<Rightarrow> (case ups_relation E db (ident_of rel) data (r_etag rel)
          (AsTime (r_created rel)) (AsTime (r_updated rel)) of
        (Some e, db') \<Rightarrow> (Inl (WrapErr ''set relation'' e), db')
      | (None, db') \<Rightarrow> (Inr rel, db')))"

definition pg_DeleteRelation ::
  "('db, 'v, 'model, 'z) pg_env_scheme \<Rightarrow> 'db \<Rightarrow> rel_ident \<Rightarrow> derror option \<times> 'db" where
  "pg_DeleteRelation E db ident = (case del_relation E db ident of
      (Some e, db') \<Rightarrow> (Some (WrapErr ''delete relation'' e), db')
    | (None, db') \<Rightarrow> (None, db'))"

definition pg_relationRow ::
  "('db, 'v, 'model, 'z) pg_env_scheme \<Rightarrow> string list \<Rightarrow> rel_ident \<times> 'v \<Rightarrow> relation row" where
  "pg_relationRow E cols r = (Some (case pd_rel E (snd r) of Inr rel \<Rightarrow> rel | Inl _ \<Rightarrow> zero_relation),
     encodeToken (map (rel_col (fst r)) cols))"

definition pg_ScanRelations :: "('db, 'v, 'model, 'z) pg_env_scheme \<Rightarrow> 'db \<Rightarrow> direction \<Rightarrow> rel_filter
    \<Rightarrow> string \<Rightarrow> relation iter result" where
  "pg_ScanRelations E db dir flt pageToken =
     (let cols = orderCols dir;
          where1 = relationWhere flt;
          where2 = (if pageToken \<noteq> []
            then (case decodeToken pageToken (length cols) of
                Inl e \<Rightarrow> Inl e
              | Inr vals \<Rightarrow> Inr (where1 @ [RowGe cols vals]))
            else Inr where1)
      in case where2 of
           Inl e \<Rightarrow> Inl e
         | Inr conds \<Rightarrow> (case query_relations E db conds cols of
               Inl e \<Rightarrow> Inl (WrapErr ''scan relations'' e)
             | Inr rows \<Rightarrow> Inr (new_iter (map (pg_relationRow E cols) rows))))"

text \<open>
  The value filter is called without a nil check, so a nil filter panics on the first row. The
  query is unordered.
\<close>

definition pg_ScanRelationsFiltered :: "('db, 'v, 'model, 'z) pg_env_scheme \<Rightarrow> 'db \<Rightarrow> direction
    \<Rightarrow> rel_filter \<Rightarrow> (rel_ident \<Rightarrow> bool) option \<Rightarrow> rel_ident list \<Rightarrow> rel_ident list result" where
  "pg_ScanRelationsFiltered E db dir flt valueFilter out =
     (case query_relations E db (relationWhere flt) [] of
        Inl e \<Rightarrow> Inl (WrapErr ''scan relations filtered'' e)
      | Inr rows \<Rightarrow> (case valueFilter of
            None \<Rightarrow> if rows = [] then Inr out else Inl nil_deref
          | Some p \<Rightarrow> Inr (out @ filter p (map fst rows))))"

definition pg_RelationsExistForObject ::
  "('db, 'v, 'model, 'z) pg_env_scheme \<Rightarrow> 'db \<Rightarrow> direction \<Rightarrow> string \<Rightarrow> string \<Rightarrow> bool result" where
  "pg_RelationsExistForObject E db dir objectType objectID =
     (let (typeCol, idCol) = (if dir = BySubject then (''subject_type'', ''subject_id'')
            else (''object_type'', ''object_id''))
      in wrap_err ''relations exist for object''
           (exists_relation E db [ColEq typeCol objectType, ColEq idCol objectID]))"

section \<open>The manifest\<close>

definition manifestName :: string where
  "manifestName = ''default''"

definition pg_ManifestExists :: "('db, 'v, 'model, 'z) pg_env_scheme \<Rightarrow> 'db \<Rightarrow> bool result" where
  "pg_ManifestExists E db = wrap_err ''manifest exists'' (exists_manifest E db manifestName)"

definition manifest_col :: "('v \<times> 'v \<times> 'v \<Rightarrow> 'v) \<Rightarrow> ('v \<times> 'v \<times> 'v) option result \<Rightarrow> 'v option result" where
  "manifest_col col q = (case q of Inl e \<Rightarrow> Inl e | Inr r \<Rightarrow> Inr (map_option col r))"

definition pg_GetManifestMetadata :: "('db, 'v, 'model, 'z) pg_env_scheme \<Rightarrow> 'db \<Rightarrow> metadata result" where
  "pg_GetManifestMetadata E db = decode_row ''get manifest metadata'' ''unmarshal manifest metadata''
     (pd_md E) (manifest_col fst (sel_manifest E db manifestName))"

definition pg_GetManifestBody :: "('db, 'v, 'model, 'z) pg_env_scheme \<Rightarrow> 'db \<Rightarrow> body result" where
  "pg_GetManifestBody E db = decode_row ''get manifest body'' ''unmarshal manifest body''
     (pd_body E) (manifest_col (fst \<circ> snd) (sel_manifest E db manifestName))"

definition pg_GetManifestModel :: "('db, 'v, 'model, 'z) pg_env_scheme \<Rightarrow> 'db \<Rightarrow> 'model result" where
  "pg_GetManifestModel E db = decode_row ''get manifest model'' ''unmarshal manifest model''
     (pd_model E) (manifest_col (snd \<circ> snd) (sel_manifest E db manifestName))"

definition pg_SetManifest ::
  "('db, 'v, 'model, 'z) pg_env_scheme \<Rightarrow> 'db \<Rightarrow> metadata \<Rightarrow> body \<Rightarrow> derror option \<times> 'db" where
  "pg_SetManifest E db md body = (case pe_md E md of
      Inl e \<Rightarrow> (Some (WrapErr ''marshal manifest metadata'' e), db)
    | Inr metaBytes \<Rightarrow> (case pe_body E body of
          Inl e \<Rightarrow> (Some (WrapErr ''marshal manifest body'' e), db)
        | Inr bodyBytes \<Rightarrow> (case ups_manifest E db manifestName metaBytes bodyBytes of
              (Some e, db') \<Rightarrow> (Some (WrapErr ''set manifest'' e), db')
            | (None, db') \<Rightarrow> (None, db'))))"

definition pg_SetManifestModel ::
  "('db, 'v, 'model, 'z) pg_env_scheme \<Rightarrow> 'db \<Rightarrow> 'model \<Rightarrow> derror option \<times> 'db" where
  "pg_SetManifestModel E db m = (case pe_model E m of
      Inl e \<Rightarrow> (Some (WrapErr ''marshal manifest model'' e), db)
    | Inr data \<Rightarrow> (case upd_model E db manifestName data of
          (Inl e, db') \<Rightarrow> (Some (WrapErr ''set manifest model'' e), db')
        | (Inr rowsAffected, db') \<Rightarrow>
            if rowsAffected = 0 then (Some (WrapErr ''set manifest model'' pg_ErrNotFound), db')
            else (None, db')))"

definition pg_DeleteManifest :: "('db, 'v, 'model, 'z) pg_env_scheme \<Rightarrow> 'db \<Rightarrow> derror option \<times> 'db" where
  "pg_DeleteManifest E db = (case del_manifest E db manifestName of
      (Some e, db1) \<Rightarrow> (Some (WrapErr ''delete manifest'' e), db1)
    | (None, db1) \<Rightarrow> (case del_relations E db1 of
          (Some e, db2) \<Rightarrow> (Some (WrapErr ''delete relations'' e), db2)
        | (None, db2) \<Rightarrow> (case del_objects E db2 of
              (Some e, db3) \<Rightarrow> (Some (WrapErr ''delete objects'' e), db3)
            | (None, db3) \<Rightarrow> (None, db3))))"

section \<open>The transaction\<close>

text \<open>\<open>withTx\<close>: the errors of beginning and committing are wrapped, a read-only transaction is
  committed as well.\<close>

definition pg_tx :: "('db, 'v, 'model, 'z) pg_env_scheme \<Rightarrow> ('db, 'model) Tx" where
  "pg_tx E = \<lparr>
     tx_GetObject = pg_GetObject E, tx_SetObject = pg_SetObject E,
     tx_DeleteObject = pg_DeleteObject E, tx_ScanObjects = pg_ScanObjects E,
     tx_GetRelationExact = pg_GetRelationExact E, tx_SetRelation = pg_SetRelation E,
     tx_DeleteRelation = pg_DeleteRelation E, tx_ScanRelations = pg_ScanRelations E,
     tx_ScanRelationsFiltered = pg_ScanRelationsFiltered E,
     tx_RelationsExistForObject = pg_RelationsExistForObject E,
     tx_ManifestExists = pg_ManifestExists E,
     tx_GetManifestMetadata = pg_GetManifestMetadata E,
     tx_GetManifestBody = pg_GetManifestBody E, tx_GetManifestModel = pg_GetManifestModel E,
     tx_SetManifest = pg_SetManifest E, tx_SetManifestModel = pg_SetManifestModel E,
     tx_DeleteManifest = pg_DeleteManifest E,
     tx_begin = (\<lambda>writable db. map_option (WrapErr ''begin postgres transaction'') (pg_begin E writable db)),
     tx_commit = (\<lambda>db. map_option (WrapErr ''commit postgres transaction'') (pg_commit E db)),
     tx_end_view = (\<lambda>db. map_option (WrapErr ''commit postgres transaction'') (pg_commit E db))\<rparr>"

lemma pg_tx_sel [simp]:
  "tx_GetObject (pg_tx E) = pg_GetObject E" "tx_SetObject (pg_tx E) = pg_SetObject E"
  "tx_DeleteObject (pg_tx E) = pg_DeleteObject E" "tx_ScanObjects (pg_tx E) = pg_ScanObjects E"
  "tx_GetRelationExact (pg_tx E) = pg_GetRelationExact E"
  "tx_SetRelation (pg_tx E) = pg_SetRelation E"
  "tx_DeleteRelation (pg_tx E) = pg_DeleteRelation E"
  "tx_ScanRelations (pg_tx E) = pg_ScanRelations E"
  "tx_ScanRelationsFiltered (pg_tx E) = pg_ScanRelationsFiltered E"
  "tx_RelationsExistForObject (pg_tx E) = pg_RelationsExistForObject E"
  "tx_ManifestExists (pg_tx E) = pg_ManifestExists E"
  "tx_GetManifestMetadata (pg_tx E) = pg_GetManifestMetadata E"
  "tx_GetManifestBody (pg_tx E) = pg_GetManifestBody E"
  "tx_GetManifestModel (pg_tx E) = pg_GetManifestModel E"
  "tx_SetManifest (pg_tx E) = pg_SetManifest E"
  "tx_SetManifestModel (pg_tx E) = pg_SetManifestModel E"
  "tx_DeleteManifest (pg_tx E) = pg_DeleteManifest E"
  "tx_begin (pg_tx E) w db = map_option (WrapErr ''begin postgres transaction'') (pg_begin E w db)"
  "tx_commit (pg_tx E) db = map_option (WrapErr ''commit postgres transaction'') (pg_commit E db)"
  "tx_end_view (pg_tx E) db = map_option (WrapErr ''commit postgres transaction'') (pg_commit E db)"
  by (simp_all add: pg_tx_def)

section \<open>The tables\<close>

definition pg_objs :: "('db, 'v, 'model, 'z) pg_env_scheme \<Rightarrow> 'db \<Rightarrow> obj_id \<Rightarrow> object option" where
  "pg_objs E db k = (case pg_otab E db k of
      None \<Rightarrow> None | Some v \<Rightarrow> (case pd_obj E v of Inr x \<Rightarrow> Some x | Inl _ \<Rightarrow> None))"

definition pg_rels :: "('db, 'v, 'model, 'z) pg_env_scheme \<Rightarrow> 'db \<Rightarrow> rel_ident \<Rightarrow> relation option" where
  "pg_rels E db i = (case pg_rtab E db i of
      None \<Rightarrow> None | Some v \<Rightarrow> (case pd_rel E v of Inr r \<Rightarrow> Some r | Inl _ \<Rightarrow> None))"

definition pg_inv :: "('db, 'v, 'model, 'z) pg_env_scheme \<Rightarrow> 'db \<Rightarrow> bool" where
  "pg_inv E db \<longleftrightarrow> pg_engine E \<and> pg_codec_ok E \<and> pg_live E db \<and>
     (\<forall>k v. pg_otab E db k = Some v \<longrightarrow> (\<exists>x. pd_obj E v = Inr x \<and> object_ident x = k \<and> wf_oid k)) \<and>
     (\<forall>i v. pg_rtab E db i = Some v \<longrightarrow> (\<exists>r. pd_rel E v = Inr r \<and> ident_of r = i \<and> wf_rid i))"

definition pg_rest :: "('db, 'v, 'model, 'z) pg_env_scheme \<Rightarrow> 'db \<Rightarrow> ('v \<times> 'v \<times> 'v) option" where
  "pg_rest E db = pg_mtab E db manifestName"

definition pg_mmd :: "('db, 'v, 'model, 'z) pg_env_scheme \<Rightarrow> ('v \<times> 'v \<times> 'v) option \<Rightarrow> metadata option" where
  "pg_mmd E m = (case m of None \<Rightarrow> None
     | Some (md, _, _) \<Rightarrow> (case pd_md E md of Inr x \<Rightarrow> Some x | Inl _ \<Rightarrow> None))"

definition pg_mbody :: "('db, 'v, 'model, 'z) pg_env_scheme \<Rightarrow> ('v \<times> 'v \<times> 'v) option \<Rightarrow> body option" where
  "pg_mbody E m = (case m of None \<Rightarrow> None
     | Some (_, b, _) \<Rightarrow> (case pd_body E b of Inr x \<Rightarrow> Some x | Inl _ \<Rightarrow> None))"

definition pg_mmodel :: "('db, 'v, 'model, 'z) pg_env_scheme \<Rightarrow> ('v \<times> 'v \<times> 'v) option \<Rightarrow> 'model option" where
  "pg_mmodel E m = (case m of None \<Rightarrow> None
     | Some (_, _, d) \<Rightarrow> (case pd_model E d of Inr x \<Rightarrow> Some x | Inl _ \<Rightarrow> None))"

text \<open>The messages the database accepts: they encode, and the statement succeeds.\<close>

definition pg_okO :: "('db, 'v, 'model, 'z) pg_env_scheme \<Rightarrow> 'db \<Rightarrow> object \<Rightarrow> bool" where
  "pg_okO E db x = (case pe_obj E x of Inl _ \<Rightarrow> False | Inr v \<Rightarrow>
     fst (ups_object E db (object_ident x) v (o_etag x) (AsTime (o_created x)) (AsTime (o_updated x))) = None)"

definition pg_okR :: "('db, 'v, 'model, 'z) pg_env_scheme \<Rightarrow> 'db \<Rightarrow> relation \<Rightarrow> bool" where
  "pg_okR E db r = (case pe_rel E r of Inl _ \<Rightarrow> False | Inr v \<Rightarrow>
     fst (ups_relation E db (ident_of r) v (r_etag r) (AsTime (r_created r)) (AsTime (r_updated r))) = None)"

text \<open>The rows of a scan from its start, for a type or filter the database accepts.\<close>

definition objectWhere :: "string \<Rightarrow> pg_cond list" where
  "objectWhere ty = (if ty \<noteq> [] then [ColEq ''object_type'' ty] else [])"

definition rows_of :: "'a list result \<Rightarrow> 'a list" where
  "rows_of q = (case q of Inl _ \<Rightarrow> [] | Inr rows \<Rightarrow> rows)"

definition pg_orows :: "('db, 'v, 'model, 'z) pg_env_scheme \<Rightarrow> 'db \<Rightarrow> string \<Rightarrow> object row list" where
  "pg_orows E db ty = (if text_ok ty
     then map (pg_objectRow E) (rows_of (query_objects E db (objectWhere ty) objectCols)) else [])"

definition pg_rrows ::
  "('db, 'v, 'model, 'z) pg_env_scheme \<Rightarrow> 'db \<Rightarrow> direction \<Rightarrow> rel_filter \<Rightarrow> relation row list" where
  "pg_rrows E db dir f = (if filter_ok f
     then map (pg_relationRow E (orderCols dir)) (rows_of (query_relations E db (relationWhere f) (orderCols dir)))
     else [])"

section \<open>The store keeps the contract\<close>

lemma pg_invD:
  assumes "pg_inv E db"
  shows "pg_engine E" "pg_codec_ok E" "pg_live E db"
    and "pg_otab E db k = Some v \<Longrightarrow> \<exists>x. pd_obj E v = Inr x \<and> object_ident x = k \<and> wf_oid k"
    and "pg_rtab E db i = Some w \<Longrightarrow> \<exists>r. pd_rel E w = Inr r \<and> ident_of r = i \<and> wf_rid i"
  using assms unfolding pg_inv_def by blast+

lemma wf_texts:
  "wf_oid k \<Longrightarrow> text_ok (fst k) \<and> text_ok (snd k)" "wf_rid i \<Longrightarrow> rid_text i"
  by (simp_all add: wf_oid_def wf_rid_def wf_side_def rid_text_def)

lemma pg_objs_iff:
  "pg_inv E db \<Longrightarrow> pg_objs E db k = Some x \<longleftrightarrow> (\<exists>v. pg_otab E db k = Some v \<and> pd_obj E v = Inr x)"
  by (auto simp: pg_objs_def split: option.splits sum.splits)

lemma pg_rels_iff:
  "pg_inv E db \<Longrightarrow> pg_rels E db i = Some r \<longleftrightarrow> (\<exists>v. pg_rtab E db i = Some v \<and> pd_rel E v = Inr r)"
  by (auto simp: pg_rels_def split: option.splits sum.splits)

lemma pg_tables_wf:
  assumes "pg_inv E db"
  shows "pg_objs E db k = Some x \<Longrightarrow> object_ident x = k \<and> wf_oid k"
    and "pg_rels E db i = Some r \<Longrightarrow> ident_of r = i \<and> wf_rid i"
  using pg_invD(4) [OF assms, of k] pg_invD(5) [OF assms, of i]
  by (auto simp: pg_objs_iff [OF assms] pg_rels_iff [OF assms])

lemma pg_none:
  assumes "pg_inv E db"
  shows "pg_objs E db k = None \<longleftrightarrow> pg_otab E db k = None" "pg_rels E db i = None \<longleftrightarrow> pg_rtab E db i = None"
  using pg_invD(4,5) [OF assms]
  by (fastforce simp: pg_objs_def pg_rels_def split: option.splits sum.splits)+

lemma pg_update_inv:
  assumes "pg_inv E db" "pg_live E db'"
    and "\<And>k v. pg_otab E db' k = Some v \<Longrightarrow> pg_otab E db k = Some v \<or>
      (\<exists>x. pd_obj E v = Inr x \<and> object_ident x = k \<and> wf_oid k)"
    and "\<And>i v. pg_rtab E db' i = Some v \<Longrightarrow> pg_rtab E db i = Some v \<or>
      (\<exists>r. pd_rel E v = Inr r \<and> ident_of r = i \<and> wf_rid i)"
  shows "pg_inv E db'"
  using assms unfolding pg_inv_def by blast

lemma pg_tables_cong:
  "pg_otab E db' = pg_otab E db \<Longrightarrow> pg_objs E db' = pg_objs E db"
  "pg_rtab E db' = pg_rtab E db \<Longrightarrow> pg_rels E db' = pg_rels E db"
  "pg_mtab E db' = pg_mtab E db \<Longrightarrow> pg_rest E db' = pg_rest E db"
  by (simp_all add: pg_objs_def pg_rels_def pg_rest_def fun_eq_iff)

subsection \<open>Writes\<close>

lemma pg_SetObject_post:
  assumes "pg_inv E db" "wf_oid (object_ident x)" "pg_SetObject E db x = (Inr y, db')"
  shows "y = x \<and> pg_inv E db' \<and> pg_objs E db' = (pg_objs E db)(object_ident x \<mapsto> x) \<and>
    pg_rels E db' = pg_rels E db \<and> pg_rest E db' = pg_rest E db"
proof -
  note i = pg_invD [OF assms(1)]
  obtain v where v: "pe_obj E x = Inr v" "y = x"
      "ups_object E db (object_ident x) v (o_etag x) (AsTime (o_created x)) (AsTime (o_updated x)) = (None, db')"
    using assms(3) by (auto simp: pg_SetObject_def object_ident_def split: sum.splits prod.splits option.splits)
  have dec: "pd_obj E v = Inr x" using v(1) i(2) by (simp add: pg_codec_ok_def)
  note u = pg_engine.ups_object [OF i(1,3) v(3)]
  then have "pg_inv E db'"
    by (intro pg_update_inv [OF assms(1)]) (use dec assms(2) in \<open>auto split: if_splits\<close>)
  moreover have "pg_objs E db' = (pg_objs E db)(object_ident x \<mapsto> x)"
    using u dec by (auto simp: pg_objs_def fun_eq_iff)
  ultimately show ?thesis using v(2) u pg_tables_cong [of E db' db] by simp
qed

lemma pg_SetRelation_post:
  assumes "pg_inv E db" "wf_rid r" "pg_SetRelation E db r = (Inr s, db')"
  shows "s = r \<and> pg_inv E db' \<and> pg_rels E db' = (pg_rels E db)(ident_of r \<mapsto> r) \<and>
    pg_objs E db' = pg_objs E db \<and> pg_rest E db' = pg_rest E db"
proof -
  note i = pg_invD [OF assms(1)]
  obtain v where v: "pe_rel E r = Inr v" "s = r"
      "ups_relation E db (ident_of r) v (r_etag r) (AsTime (r_created r)) (AsTime (r_updated r)) = (None, db')"
    using assms(3) by (auto simp: pg_SetRelation_def split: sum.splits prod.splits option.splits)
  have dec: "pd_rel E v = Inr r" using v(1) i(2) by (simp add: pg_codec_ok_def)
  note u = pg_engine.ups_relation [OF i(1,3) v(3)]
  then have "pg_inv E db'"
    by (intro pg_update_inv [OF assms(1)]) (use dec assms(2) in \<open>auto split: if_splits\<close>)
  moreover have "pg_rels E db' = (pg_rels E db)(ident_of r \<mapsto> r)"
    using u dec by (auto simp: pg_rels_def fun_eq_iff)
  ultimately show ?thesis using v(2) u pg_tables_cong [of E db' db] by simp
qed

lemma pg_DeleteObject_post:
  assumes "pg_inv E db" "wf_oid (ty, oid)"
  shows "\<exists>db'. pg_DeleteObject E db ty oid = (None, db') \<and> pg_inv E db' \<and>
    pg_objs E db' = (pg_objs E db)((ty, oid) := None) \<and> pg_rels E db' = pg_rels E db \<and>
    pg_rest E db' = pg_rest E db"
proof -
  note i = pg_invD [OF assms(1)]
  obtain db' where d: "del_object E db ty oid = (None, db')" "pg_live E db'"
      "pg_otab E db' = (pg_otab E db)((ty, oid) := None)" "pg_rtab E db' = pg_rtab E db"
      "pg_mtab E db' = pg_mtab E db"
    using pg_engine.del_object [OF i(1,3), of ty oid] wf_texts(1) [OF assms(2)] by auto
  have "pg_inv E db'" by (rule pg_update_inv [OF assms(1) d(2)]) (auto simp: d(3,4) split: if_splits)
  moreover have "pg_objs E db' = (pg_objs E db)((ty, oid) := None)"
    by (auto simp: pg_objs_def d(3) fun_eq_iff)
  ultimately show ?thesis using d pg_tables_cong [of E db' db] by (auto simp: pg_DeleteObject_def)
qed

lemma pg_DeleteRelation_post:
  assumes "pg_inv E db" "wf_rid i"
  shows "\<exists>db'. pg_DeleteRelation E db i = (None, db') \<and> pg_inv E db' \<and>
    pg_rels E db' = (pg_rels E db)(i := None) \<and> pg_objs E db' = pg_objs E db \<and>
    pg_rest E db' = pg_rest E db"
proof -
  note e = pg_invD [OF assms(1)]
  obtain db' where d: "del_relation E db i = (None, db')" "pg_live E db'"
      "pg_rtab E db' = (pg_rtab E db)(i := None)" "pg_otab E db' = pg_otab E db"
      "pg_mtab E db' = pg_mtab E db"
    using pg_engine.del_relation [OF e(1,3) wf_texts(2) [OF assms(2)]] by auto
  have "pg_inv E db'" by (rule pg_update_inv [OF assms(1) d(2)]) (auto simp: d(3,4) split: if_splits)
  moreover have "pg_rels E db' = (pg_rels E db)(i := None)"
    by (auto simp: pg_rels_def d(3) fun_eq_iff)
  ultimately show ?thesis using d pg_tables_cong [of E db' db] by (auto simp: pg_DeleteRelation_def)
qed

subsection \<open>Scans\<close>

lemma cols_inj:
  "map (obj_col k) objectCols = map (obj_col k') objectCols \<Longrightarrow> k = k'"
  "map (rel_col i) (orderCols dir) = map (rel_col i') (orderCols dir) \<Longrightarrow> i = i'"
  by (cases k; cases k'; simp add: objectCols_def obj_col_def)
    (cases i; cases i'; simp add: orderCols_def objectOrderCols_def subjectOrderCols_def rel_col_def split: if_splits)

lemma where_text [simp]:
  "text_ok ty \<Longrightarrow> list_all cond_text (objectWhere ty)"
  "filter_ok f \<Longrightarrow> list_all cond_text (relationWhere f)"
  by (simp_all add: objectWhere_def relationWhere_def relationConditions_def filter_ok_def)

lemma where_holds:
  "list_all (cond_holds le (obj_col k)) (objectWhere ty) \<longleftrightarrow> ty = [] \<or> fst k = ty"
  "list_all (cond_holds le (rel_col i)) (relationWhere f) \<longleftrightarrow> rf_match f i"
  by (auto simp: objectWhere_def obj_col_def relationWhere_def relationConditions_def rel_col_def rf_match_def)

lemma pg_object_rows:
  assumes "pg_inv E db" "text_ok ty"
  obtains rows where "query_objects E db (objectWhere ty) objectCols = Inr rows"
    "query_result (pg_le E) obj_col (pg_otab E db) (objectWhere ty) objectCols rows"
    "pg_orows E db ty = map (pg_objectRow E) rows"
  using pg_engine.query_objects [OF pg_invD(1,3) [OF assms(1)], of "objectWhere ty" objectCols] assms(2)
  by (auto simp: pg_orows_def rows_of_def)

lemma pg_relation_rows:
  assumes "pg_inv E db" "filter_ok f"
  obtains rows where "query_relations E db (relationWhere f) (orderCols dir) = Inr rows"
    "query_result (pg_le E) rel_col (pg_rtab E db) (relationWhere f) (orderCols dir) rows"
    "pg_rrows E db dir f = map (pg_relationRow E (orderCols dir)) rows"
  using pg_engine.query_relations [OF pg_invD(1,3) [OF assms(1)], of "relationWhere f" "orderCols dir"] assms(2)
  by (auto simp: pg_rrows_def rows_of_def)

text \<open>A row of a query is the row of its table.\<close>

lemma pg_row_values:
  assumes "pg_inv E db"
  shows "pg_otab E db k = Some v \<Longrightarrow> fst (pg_objectRow E (k, v)) = pg_objs E db k \<and> pg_objs E db k \<noteq> None"
    and "pg_rtab E db i = Some v \<Longrightarrow> fst (pg_relationRow E cols (i, v)) = pg_rels E db i \<and> pg_rels E db i \<noteq> None"
  using pg_invD(4,5) [OF assms]
  by (fastforce simp: pg_objectRow_def pg_relationRow_def pg_objs_def pg_rels_def)+

lemma query_row: "query_result le col tab conds cols rows \<Longrightarrow> r \<in> set rows \<Longrightarrow> tab (fst r) = Some (snd r)"
  unfolding query_result_def by (metis prod.collapse)

lemma pg_orows_fst:
  assumes "pg_inv E db" "query_result le obj_col (pg_otab E db) conds cols rows"
  shows "map fst (map (pg_objectRow E) rows) = map (pg_objs E db) (map fst rows)"
proof -
  have "fst (pg_objectRow E r) = pg_objs E db (fst r)" if "r \<in> set rows" for r
    using pg_row_values(1) [OF assms(1) query_row [OF assms(2) that]] by simp
  then show ?thesis by simp
qed

lemma pg_rrows_fst:
  assumes "pg_inv E db" "query_result le rel_col (pg_rtab E db) conds cols rows"
  shows "map fst (map (pg_relationRow E cols') rows) = map (pg_rels E db) (map fst rows)"
proof -
  have "fst (pg_relationRow E cols' r) = pg_rels E db (fst r)" if "r \<in> set rows" for r
    using pg_row_values(2) [OF assms(1) query_row [OF assms(2) that]] by simp
  then show ?thesis by simp
qed

lemma pg_objs_inj:
  assumes "pg_inv E db"
  shows "inj_on (pg_objs E db) (dom (pg_otab E db))" "inj_on (pg_rels E db) (dom (pg_rtab E db))"
proof -
  show "inj_on (pg_objs E db) (dom (pg_otab E db))"
    by (rule inj_on_inverseI [where g = "object_ident \<circ> the"])
      (use pg_invD(4) [OF assms] in \<open>force simp: pg_objs_def\<close>)
  show "inj_on (pg_rels E db) (dom (pg_rtab E db))"
    by (rule inj_on_inverseI [where g = "ident_of \<circ> the"])
      (use pg_invD(5) [OF assms] in \<open>force simp: pg_rels_def\<close>)
qed

lemma query_dom:
  "query_result le col tab conds cols rows \<Longrightarrow>
     set (map fst rows) = {k \<in> dom tab. list_all (cond_holds le (col k)) conds}"
  by (force simp: query_result_def)

lemma pg_orows_distinct:
  assumes "pg_inv E db"
  shows "distinct (map fst (pg_orows E db ty))"
proof (cases "text_ok ty")
  case True
  obtain rows where r: "query_result (pg_le E) obj_col (pg_otab E db) (objectWhere ty) objectCols rows"
    "pg_orows E db ty = map (pg_objectRow E) rows"
    using pg_object_rows [OF assms True] by blast
  have "inj_on (pg_objs E db) (set (map fst rows))"
    using pg_objs_inj(1) [OF assms] query_dom [OF r(1)] by (auto intro: inj_on_subset)
  with r(1) show ?thesis
    unfolding r(2) pg_orows_fst [OF assms r(1)] distinct_map [of "pg_objs E db"] by (simp add: query_result_def)
qed (simp add: pg_orows_def)

lemma pg_rrows_distinct:
  assumes "pg_inv E db"
  shows "distinct (map fst (pg_rrows E db dir f))"
proof (cases "filter_ok f")
  case True
  obtain rows where r: "query_result (pg_le E) rel_col (pg_rtab E db) (relationWhere f) (orderCols dir) rows"
    "pg_rrows E db dir f = map (pg_relationRow E (orderCols dir)) rows"
    using pg_relation_rows [OF assms True] by blast
  have "inj_on (pg_rels E db) (set (map fst rows))"
    using pg_objs_inj(2) [OF assms] query_dom [OF r(1)] by (auto intro: inj_on_subset)
  with r(1) show ?thesis
    unfolding r(2) pg_rrows_fst [OF assms r(1)] distinct_map [of "pg_rels E db"] by (simp add: query_result_def)
qed (simp add: pg_rrows_def)

lemma image_dom: "m ` {k \<in> dom m. P k} = {Some x | x k. m k = Some x \<and> P k}"
proof (intro set_eqI iffI)
  fix y assume "y \<in> m ` {k \<in> dom m. P k}"
  then obtain k x where "m k = Some x" "P k" "y = m k" by blast
  then show "y \<in> {Some x | x k. m k = Some x \<and> P k}" by auto
next
  fix y assume "y \<in> {Some x | x k. m k = Some x \<and> P k}"
  then obtain k x where "m k = Some x" "P k" "y = m k" by auto
  then show "y \<in> m ` {k \<in> dom m. P k}" by blast
qed

lemma pg_orows_set:
  assumes "pg_inv E db" "text_ok ty"
  shows "set (map fst (pg_orows E db ty)) =
    {Some x | x k. pg_objs E db k = Some x \<and> (ty \<noteq> [] \<longrightarrow> fst k = ty)}"
proof -
  obtain rows where r: "query_result (pg_le E) obj_col (pg_otab E db) (objectWhere ty) objectCols rows"
    "pg_orows E db ty = map (pg_objectRow E) rows"
    using pg_object_rows [OF assms] by blast
  have "set (map fst (pg_orows E db ty)) = pg_objs E db ` {k \<in> dom (pg_otab E db). ty = [] \<or> fst k = ty}"
    unfolding r(2) pg_orows_fst [OF assms(1) r(1)] set_map [of "pg_objs E db"] query_dom [OF r(1)] where_holds ..
  moreover have "dom (pg_otab E db) = dom (pg_objs E db)" using pg_none(1) [OF assms(1)] by (simp add: dom_def)
  ultimately show ?thesis by (simp add: image_dom imp_conv_disj)
qed

lemma pg_rrows_set:
  assumes "pg_inv E db" "filter_ok f"
  shows "set (map fst (pg_rrows E db dir f)) = {Some r | r i. pg_rels E db i = Some r \<and> rf_match f i}"
proof -
  obtain rows where r: "query_result (pg_le E) rel_col (pg_rtab E db) (relationWhere f) (orderCols dir) rows"
    "pg_rrows E db dir f = map (pg_relationRow E (orderCols dir)) rows"
    using pg_relation_rows [OF assms] by blast
  have "set (map fst (pg_rrows E db dir f)) = pg_rels E db ` {i \<in> dom (pg_rtab E db). rf_match f i}"
    unfolding r(2) pg_rrows_fst [OF assms(1) r(1)] set_map [of "pg_rels E db"] query_dom [OF r(1)] where_holds ..
  moreover have "dom (pg_rtab E db) = dom (pg_rels E db)" using pg_none(2) [OF assms(1)] by (simp add: dom_def)
  ultimately show ?thesis by (simp add: image_dom)
qed

lemma pg_ScanObjects_start:
  assumes "pg_inv E db" "text_ok ty"
  shows "pg_ScanObjects E db ty [] = Inr (new_iter (pg_orows E db ty))"
  by (rule pg_object_rows [OF assms]) (simp add: pg_ScanObjects_def objectWhere_def Let_def)

lemma pg_ScanRelations_start:
  assumes "pg_inv E db" "filter_ok f"
  shows "pg_ScanRelations E db dir f [] = Inr (new_iter (pg_rrows E db dir f))"
  by (rule pg_relation_rows [OF assms, of dir]) (simp add: pg_ScanRelations_def Let_def)

lemma pg_ScanObjects_token:
  assumes "pg_inv E db" "text_ok ty" "j < length (pg_orows E db ty)"
  shows "snd (pg_orows E db ty ! j) \<noteq> [] \<and>
    pg_ScanObjects E db ty (snd (pg_orows E db ty ! j)) = Inr (new_iter (drop j (pg_orows E db ty)))"
proof -
  note e = pg_invD [OF assms(1)]
  obtain rows where r: "query_result (pg_le E) obj_col (pg_otab E db) (objectWhere ty) objectCols rows"
    "pg_orows E db ty = map (pg_objectRow E) rows"
    using pg_object_rows [OF assms(1,2)] by blast
  let ?k = "fst (rows ! j)"
  have j: "j < length rows" using assms(3) r(2) by simp
  then have t: "text_ok (fst ?k)" "text_ok (snd ?k)"
    using pg_engine.otab_text [OF e(1,3) query_row [OF r(1) nth_mem]] by simp_all
  have cols: "map (obj_col ?k) objectCols = [fst ?k, snd ?k]" by (simp add: objectCols_def obj_col_def)
  let ?conds = "objectWhere ty @ [RowGe objectCols [fst ?k, snd ?k]]"
  obtain rows' where q: "query_objects E db ?conds objectCols = Inr rows'"
      "query_result (pg_le E) obj_col (pg_otab E db) ?conds objectCols rows'"
    using pg_engine.query_objects [OF e(1,3), of ?conds objectCols] assms(2) t by auto
  have "rows' = drop j rows"
    by (rule query_resume [OF pg_engine.le [OF e(1)] cols_inj(1) r(1) j q(2) [folded cols]])
  moreover have "decodeToken (encodeToken [fst ?k, snd ?k]) objectTokenSize = Inr [fst ?k, snd ?k]"
    using t by (simp add: token_roundtrip objectTokenSize_def text_ok_def)
  ultimately show ?thesis using q(1) j
    by (simp add: r(2) pg_objectRow_def [of E "rows ! j"] pg_ScanObjects_def objectWhere_def [symmetric] Let_def drop_map)
qed

lemma pg_ScanRelations_token:
  assumes "pg_inv E db" "filter_ok f" "j < length (pg_rrows E db dir f)"
  shows "snd (pg_rrows E db dir f ! j) \<noteq> [] \<and>
    pg_ScanRelations E db dir f (snd (pg_rrows E db dir f ! j)) = Inr (new_iter (drop j (pg_rrows E db dir f)))"
proof -
  note e = pg_invD [OF assms(1)]
  let ?cols = "orderCols dir"
  obtain rows where r: "query_result (pg_le E) rel_col (pg_rtab E db) (relationWhere f) ?cols rows"
    "pg_rrows E db dir f = map (pg_relationRow E ?cols) rows"
    using pg_relation_rows [OF assms(1,2)] by blast
  let ?vals = "map (rel_col (fst (rows ! j))) ?cols"
  have j: "j < length rows" using assms(3) r(2) by simp
  then have "rid_text (fst (rows ! j))"
    using pg_engine.rtab_text [OF e(1,3) query_row [OF r(1) nth_mem]] by simp
  then have t: "list_all text_ok ?vals"
    by (simp add: rid_text_def orderCols_def objectOrderCols_def subjectOrderCols_def rel_col_def)
  let ?conds = "relationWhere f @ [RowGe ?cols ?vals]"
  obtain rows' where q: "query_relations E db ?conds ?cols = Inr rows'"
      "query_result (pg_le E) rel_col (pg_rtab E db) ?conds ?cols rows'"
    using pg_engine.query_relations [OF e(1,3), of ?conds ?cols] assms(2) t by auto
  have "rows' = drop j rows"
    by (rule query_resume [OF pg_engine.le [OF e(1)] cols_inj(2) r(1) j q(2)])
  moreover have "decodeToken (encodeToken ?vals) (length ?cols) = Inr ?vals"
    using t by (intro token_roundtrip) (auto simp: text_ok_def list_all_iff)
  ultimately show ?thesis using q(1) j
    by (simp add: r(2) pg_relationRow_def [of E _ "rows ! j"] pg_ScanRelations_def Let_def drop_map)
qed

lemma pg_ScanRelationsFiltered_rows:
  assumes "pg_inv E db" "filter_ok f"
  shows "\<exists>is. pg_ScanRelationsFiltered E db dir f (Some p) out = Inr (out @ filter p is) \<and>
    mset is = mset (map (ident_of \<circ> the \<circ> fst) (pg_rrows E db dir f))"
proof -
  note e = pg_invD [OF assms(1)]
  obtain rows where r: "query_result (pg_le E) rel_col (pg_rtab E db) (relationWhere f) (orderCols dir) rows"
    "pg_rrows E db dir f = map (pg_relationRow E (orderCols dir)) rows"
    using pg_relation_rows [OF assms] by blast
  obtain rows' where q: "query_relations E db (relationWhere f) [] = Inr rows'"
      "query_result (pg_le E) rel_col (pg_rtab E db) (relationWhere f) [] rows'"
    using pg_engine.query_relations [OF e(1,3), of "relationWhere f" "[]"] assms(2) by auto
  have "(ident_of \<circ> the \<circ> fst) (pg_relationRow E (orderCols dir) w) = fst w" if "w \<in> set rows" for w
    using e(5) [OF query_row [OF r(1) that]] by (auto simp: pg_relationRow_def)
  then have "map (ident_of \<circ> the \<circ> fst) (pg_rrows E db dir f) = map fst rows" by (simp add: r(2))
  moreover have "mset (map fst rows') = mset (map fst rows)"
    using r(1) q(2) query_dom [OF r(1)] query_dom [OF q(2)]
    by (intro set_eq_iff_mset_eq_distinct [THEN iffD1]) (simp_all add: query_result_def)
  ultimately show ?thesis using q(1) by (auto simp: pg_ScanRelationsFiltered_def)
qed

lemma pg_RelationsExist_iff:
  assumes "pg_inv E db" "wf_side (ty, oid)"
  shows "pg_RelationsExistForObject E db dir ty oid = Inr (\<exists>i \<in> dom (pg_rels E db). side dir i = (ty, oid))"
proof -
  note e = pg_invD [OF assms(1)]
  have "text_ok ty" "text_ok oid" using assms(2) by (simp_all add: wf_side_def wf_oid_def)
  then show ?thesis
    by (simp add: pg_RelationsExistForObject_def pg_engine.exists_relation [OF e(1,3)] rel_col_def side_def
        dom_def pg_none(2) [OF assms(1)] del: not_None_eq)
qed

subsection \<open>The contracts\<close>

interpretation pgs: tx_store "pg_tx E" "pg_inv E" "pg_objs E" "pg_rels E" "pg_rest E"
  "pg_okO E" "pg_okR E" "pg_orows E" "pg_rrows E"
  for E :: "('db, 'v, 'model, 'z) pg_env_scheme"
proof (unfold_locales, goal_cases)
  case (1 t k x)
  then show ?case by (rule pg_tables_wf)
next
  case (2 t i r)
  then show ?case by (rule pg_tables_wf)
next
  case (3 t ty oid x)
  note e = pg_invD [OF 3(1)]
  from 3(2) obtain v where v: "pg_otab E t (ty, oid) = Some v" "pd_obj E v = Inr x"
    by (auto simp: pg_objs_iff [OF 3(1)])
  with pg_engine.otab_text [OF e(1,3) v(1)] show ?case
    by (simp add: pg_GetObject_def pg_engine.sel_object [OF e(1,3)])
next
  case (4 t ty oid)
  note e = pg_invD [OF 4(1)]
  from 4 wf_texts(1) [OF 4(2)] show ?case
    by (simp add: pg_GetObject_def pg_engine.sel_object [OF e(1,3)] pg_none(1) [OF 4(1)] pg_ErrNotFound_def)
next
  case (5 t x y t')
  then show ?case using pg_SetObject_post by simp
next
  case (6 t x)
  then show ?case
    by (auto simp: pg_okO_def pg_SetObject_def object_ident_def split: sum.splits prod.splits)
next
  case (7 t ty oid)
  then show ?case using pg_DeleteObject_post by simp
next
  case (8 t ty)
  then show ?case using pg_ScanObjects_start by simp
next
  case (9 t ty j)
  then show ?case using pg_ScanObjects_token by simp
next
  case (10 t ty)
  then show ?case by (rule pg_orows_distinct)
next
  case (11 t ty)
  show ?case by (rule pg_orows_set [OF 11(1,2)])
next
  case (12 t i r)
  note e = pg_invD [OF 12(1)]
  from 12(2) obtain v where v: "pg_rtab E t i = Some v" "pd_rel E v = Inr r"
    by (auto simp: pg_rels_iff [OF 12(1)])
  with pg_engine.rtab_text [OF e(1,3) v(1)] show ?case
    by (simp add: pg_GetRelationExact_def pg_engine.sel_relation [OF e(1,3)])
next
  case (13 t i)
  note e = pg_invD [OF 13(1)]
  from 13 wf_texts(2) [OF 13(2)] show ?case
    by (simp add: pg_GetRelationExact_def pg_engine.sel_relation [OF e(1,3)] pg_none(2) [OF 13(1)] pg_ErrNotFound_def)
next
  case (14 t r s t')
  then show ?case using pg_SetRelation_post by simp
next
  case (15 t r)
  then show ?case by (auto simp: pg_okR_def pg_SetRelation_def split: sum.splits prod.splits)
next
  case (16 t i)
  then show ?case using pg_DeleteRelation_post by simp
next
  case (17 t f dir)
  then show ?case using pg_ScanRelations_start by simp
next
  case (18 t f j dir)
  then show ?case using pg_ScanRelations_token by simp
next
  case (19 t dir f)
  then show ?case by (rule pg_rrows_distinct)
next
  case (20 t w dir f)
  then have ok: "filter_ok f" by (auto simp: pg_rrows_def split: if_splits)
  have "fst w \<in> set (map fst (pg_rrows E t dir f))" using 20(2) by simp
  then show ?case
    unfolding pg_rrows_set [OF 20(1) ok] using pg_tables_wf(2) [OF 20(1)] by auto
next
  case (21 t f i r dir)
  then show ?case unfolding pg_rrows_set [OF 21(1,2)] by blast
next
  case (22 t ty oid r dir)
  have ok: "filter_ok (ObjectOnlyFilter dir ty oid)" "ty \<noteq> []" "oid \<noteq> []"
    using 22(2) by (auto simp: wf_side_def wf_oid_def)
  from 22(3) obtain i where "pg_rels E t i = Some r" "rf_match (ObjectOnlyFilter dir ty oid) i"
    unfolding pg_rrows_set [OF 22(1) ok(1)] by blast
  moreover from this(1) have "ident_of r = i"
    using pg_tables_wf(2) [OF 22(1)] by simp
  ultimately have "rf_match (ObjectOnlyFilter dir ty oid) r" by auto
  with ok(2,3) show ?case
    by (auto simp: rf_match_def ObjectOnlyFilter_def empty_filter_def side_def split: if_splits)
next
  case (23 t f dir p out)
  then show ?case using pg_ScanRelationsFiltered_rows by simp
next
  case (24 t ty oid dir)
  then show ?case using pg_RelationsExist_iff by simp
qed

interpretation pgs: tx_manifest "pg_tx E" "pg_inv E" "pg_objs E" "pg_rels E" "pg_rest E"
  "pg_okO E" "pg_okR E" "pg_orows E" "pg_rrows E" "pg_mmd E" "pg_mbody E" "pg_mmodel E"
  for E :: "('db, 'v, 'model, 'z) pg_env_scheme"
proof (unfold_locales, goal_cases)
  case (1 t m)
  note e = pg_invD [OF 1(1)]
  from 1(2) show ?case
    by (auto simp: pg_ManifestExists_def pg_engine.exists_manifest [OF e(1,3)] pg_rest_def pg_mmd_def
        split: option.splits)
next
  case (2 t m)
  note e = pg_invD [OF 2(1)]
  from 2(2) show ?case
    by (auto simp: pg_GetManifestMetadata_def manifest_col_def pg_engine.sel_manifest [OF e(1,3)] pg_rest_def
        pg_mmd_def split: option.splits sum.splits)
next
  case (3 t)
  note e = pg_invD [OF 3(1)]
  from 3(2) show ?case
    by (auto simp: pg_GetManifestMetadata_def manifest_col_def pg_engine.sel_manifest [OF e(1,3)] pg_rest_def
        pg_mmd_def split: option.splits sum.splits)
next
  case (4 t b)
  note e = pg_invD [OF 4(1)]
  from 4(2) show ?case
    by (auto simp: pg_GetManifestBody_def manifest_col_def pg_engine.sel_manifest [OF e(1,3)] pg_rest_def
        pg_mbody_def split: option.splits sum.splits)
next
  case (5 t mdl)
  note e = pg_invD [OF 5(1)]
  from 5(2) show ?case
    by (auto simp: pg_GetManifestModel_def manifest_col_def pg_engine.sel_manifest [OF e(1,3)] pg_rest_def
        pg_mmodel_def split: option.splits sum.splits)
next
  case (6 t m b t')
  note e = pg_invD [OF 6(1)]
  from 6(2) obtain md bd where u: "pe_md E m = Inr md" "pe_body E b = Inr bd"
      "ups_manifest E t manifestName md bd = (None, t')"
    by (auto simp: pg_SetManifest_def split: sum.splits prod.splits option.splits)
  have "pd_md E md = Inr m" "pd_body E bd = Inr b" using u e(2) by (simp_all add: pg_codec_ok_def)
  with pg_engine.ups_manifest [OF e(1,3) u(3)] pg_update_inv [OF 6(1), of t'] pg_tables_cong [of E t' t]
  show ?case by (auto simp: pg_rest_def pg_mmd_def pg_mbody_def)
next
  case (7 t mdl t')
  note e = pg_invD [OF 7(1)]
  from 7(2) obtain d c where u: "pe_model E mdl = Inr d" "upd_model E t manifestName d = (Inr c, t')" "c \<noteq> 0"
    by (auto simp: pg_SetManifestModel_def split: sum.splits prod.splits if_splits)
  have "pd_model E d = Inr mdl" using u e(2) by (simp add: pg_codec_ok_def)
  with u(3) pg_engine.upd_model [OF e(1,3) u(2)] pg_update_inv [OF 7(1), of t'] pg_tables_cong [of E t' t]
  show ?case by (auto simp: pg_rest_def pg_mmd_def pg_mbody_def pg_mmodel_def split: option.splits)
next
  case (8 t t')
  note e = pg_invD [OF 8(1)]
  from 8(2) obtain t1 t2 where u: "del_manifest E t manifestName = (None, t1)" "del_relations E t1 = (None, t2)"
      "del_objects E t2 = (None, t')"
    by (auto simp: pg_DeleteManifest_def split: prod.splits option.splits)
  note d1 = pg_engine.del_manifest [OF e(1,3) u(1)]
  note d2 = pg_engine.del_relations [OF e(1) conjunct1 [OF d1] u(2)]
  note d3 = pg_engine.del_objects [OF e(1) conjunct1 [OF d2] u(3)]
  have "pg_objs E t' = Map.empty" "pg_rels E t' = Map.empty"
    using d2 d3 by (simp_all add: pg_objs_def pg_rels_def fun_eq_iff)
  with d1 d2 d3 pg_update_inv [OF 8(1), of t'] show ?case
    by (simp add: pg_rest_def pg_mmd_def pg_mbody_def pg_mmodel_def)
qed

end
