(* ===== verification/Hash.thy ===== *)
theory Hash
  imports Messages
begin

text \<open>
  Encodings and hashes: the conversions of \<open>ds/hash.go\<close> (little-endian byte forms, decimal strings)
  and the FNV-1a hash (\<open>hash/fnv\<close>) that \<open>manifest.Hash\<close> and the manifest services use as etag.
  Machine integers are words: \<open>int32\<close> and \<open>uint32\<close> are \<^typ>\<open>32 word\<close>, \<open>int64\<close> and \<open>uint64\<close> are
  \<^typ>\<open>64 word\<close>, read with \<open>sint\<close> where the type is signed.
\<close>

unbundle bit_operations_syntax

section \<open>Little-endian bytes\<close>

text \<open>\<open>binary.LittleEndian.PutUint32\<close>, \<open>PutUint64\<close> and \<open>Uint32\<close>.\<close>

fun le_put :: "nat \<Rightarrow> nat \<Rightarrow> bytes" where
  "le_put 0 v = []"
| "le_put (Suc n) v = char_of (v mod 256) # le_put n (v div 256)"

fun le_get :: "bytes \<Rightarrow> nat" where
  "le_get [] = 0"
| "le_get (c # cs) = of_char c + 256 * le_get cs"

definition Int32ToByte :: "32 word \<Rightarrow> bytes" where
  "Int32ToByte i = le_put 4 (unat i)"

definition ByteToInt32 :: "bytes \<Rightarrow> 32 word result" where
  "ByteToInt32 b = (if length b \<noteq> 4 then Inl (Panic ''illegal buf size'')
     else Inr (word_of_nat (le_get b)))"

definition Int64ToByte :: "64 word \<Rightarrow> bytes" where
  "Int64ToByte i = le_put 8 (unat i)"

definition Uint32ToByte :: "32 word \<Rightarrow> bytes" where
  "Uint32ToByte i = le_put 4 (unat i)"

definition Uint64ToByte :: "64 word \<Rightarrow> bytes" where
  "Uint64ToByte i = le_put 8 (unat i)"

definition BoolToByte :: "bool \<Rightarrow> bytes" where
  "BoolToByte b = (if b then [CHR 0x01] else [CHR 0x00])"

lemma length_le_put [simp]: "length (le_put n v) = n"
  by (induction n arbitrary: v) auto

lemma le_get_put: "v < 256 ^ n \<Longrightarrow> le_get (le_put n v) = v"
proof (induction n arbitrary: v)
  case (Suc n)
  then have "v div 256 < 256 ^ n" by (simp add: less_mult_imp_div_less mult.commute)
  then show ?case using Suc.IH by (simp add: mod_mod_cancel)
qed simp

section \<open>Decimal strings\<close>

text \<open>\<open>strconv.FormatUint\<close> and \<open>FormatInt\<close> in base 10.\<close>

definition digit :: "nat \<Rightarrow> char" where
  "digit d = char_of (48 + d)"

fun show_nat :: "nat \<Rightarrow> string" where
  "show_nat n = (if n < 10 then [digit n] else show_nat (n div 10) @ [digit (n mod 10)])"

declare show_nat.simps [simp del]

definition show_int :: "int \<Rightarrow> string" where
  "show_int i = (if i < 0 then CHR ''-'' # show_nat (nat (- i)) else show_nat (nat i))"

text \<open>\<open>strconv.ParseInt(s, 10, bits)\<close>: an optional sign and at least one digit, in range.\<close>

definition is_digit :: "char \<Rightarrow> bool" where
  "is_digit c \<longleftrightarrow> 48 \<le> (of_char c :: nat) \<and> (of_char c :: nat) \<le> 57"

definition digits_val :: "string \<Rightarrow> nat" where
  "digits_val s = foldl (\<lambda>a c. a * 10 + (of_char c - 48)) 0 s"

definition parse_digits :: "string \<Rightarrow> nat option" where
  "parse_digits s = (if s \<noteq> [] \<and> list_all is_digit s then Some (digits_val s) else None)"

definition ParseInt :: "string \<Rightarrow> nat \<Rightarrow> int option" where
  "ParseInt s bits =
     (let neg = (s \<noteq> [] \<and> hd s = CHR ''-'');
          body = (if s \<noteq> [] \<and> (hd s = CHR ''-'' \<or> hd s = CHR ''+'') then tl s else s)
      in case parse_digits body of
           None \<Rightarrow> None
         | Some n \<Rightarrow> (let i = (if neg then - int n else int n) in
             if - (2 ^ (bits - 1)) \<le> i \<and> i < 2 ^ (bits - 1) then Some i else None))"

definition Int32ToStr :: "32 word \<Rightarrow> string" where
  "Int32ToStr i = show_int (sint i)"

definition StrToInt32 :: "string \<Rightarrow> 32 word" where
  "StrToInt32 s = (case ParseInt s 32 of None \<Rightarrow> -1 | Some i \<Rightarrow> word_of_int i)"

definition FormatUint :: "64 word \<Rightarrow> string" where
  "FormatUint w = show_nat (unat w)"

lemma of_char_digit [simp]: "d < 10 \<Longrightarrow> of_char (digit d) = 48 + d"
  by (simp add: digit_def)

lemma is_digit_digit [simp]: "d < 10 \<Longrightarrow> is_digit (digit d)"
  by (simp add: is_digit_def)

lemma show_nat_digits: "show_nat n \<noteq> [] \<and> list_all is_digit (show_nat n) \<and> digits_val (show_nat n) = n"
proof (induction n rule: show_nat.induct)
  case (1 n)
  show ?case
  proof (cases "n < 10")
    case True
    then show ?thesis by (simp add: show_nat.simps [of n] digits_val_def)
  next
    case False
    then have "n div 10 * 10 + n mod 10 = n" by simp
    with 1 False show ?thesis by (simp add: show_nat.simps [of n] digits_val_def)
  qed
qed

lemma parse_show_nat: "parse_digits (show_nat n) = Some n"
  using show_nat_digits [of n] by (simp add: parse_digits_def)

lemma show_nat_no_sign: "show_nat n \<noteq> [] \<and> hd (show_nat n) \<noteq> CHR ''-'' \<and> hd (show_nat n) \<noteq> CHR ''+''"
proof -
  have "show_nat n \<noteq> []" "is_digit (hd (show_nat n))"
    using show_nat_digits [of n] by (cases "show_nat n"; simp)+
  then show ?thesis by (auto simp: is_digit_def)
qed

lemma ParseInt_show_int:
  "- (2 ^ (bits - 1)) \<le> i \<Longrightarrow> i < 2 ^ (bits - 1) \<Longrightarrow> ParseInt (show_int i) bits = Some i"
  using show_nat_no_sign [of "nat i"] by (simp add: ParseInt_def show_int_def parse_show_nat Let_def)

lemma FormatUint_inj: "FormatUint a = FormatUint b \<longleftrightarrow> a = b"
proof
  assume "FormatUint a = FormatUint b"
  then have "parse_digits (show_nat (unat a)) = parse_digits (show_nat (unat b))"
    by (simp add: FormatUint_def)
  then show "a = b" unfolding parse_show_nat by (simp add: unsigned_word_eqI)
qed simp

section \<open>FNV-1a\<close>

definition fnv_offset :: "64 word" where
  "fnv_offset = 14695981039346656037"

definition fnv_prime :: "64 word" where
  "fnv_prime = 1099511628211"

text \<open>\<open>Write\<close> of a \<open>fnv.New64a\<close> hash: the state is the running sum.\<close>

definition fnv_byte :: "64 word \<Rightarrow> char \<Rightarrow> 64 word" where
  "fnv_byte h c = (h XOR word_of_nat (of_char c)) * fnv_prime"

definition fnv_write :: "64 word \<Rightarrow> bytes \<Rightarrow> 64 word" where
  "fnv_write h bs = foldl fnv_byte h bs"

definition fnv64a :: "bytes \<Rightarrow> 64 word" where
  "fnv64a bs = fnv_write fnv_offset bs"

lemma fnv_write_append: "fnv_write h (a @ b) = fnv_write (fnv_write h a) b"
  by (simp add: fnv_write_def)

end
