(* ===== verification/Ds.thy ===== *)
theory Ds
  imports BdbStore PgStore Hash
begin

text \<open>
  The directory's domain layer \<open>internal/eds/pkg/ds\<close>: object and relation keys, display-name
  patching, relation filters (\<open>object.go\<close>, \<open>relation.go\<close>), write metadata (\<open>metadata.go\<close>) and the
  manifest (\<open>manifest.go\<close>).

  The azm model cache, its \<open>safe\<close> wrappers and the request validators are not part of the
  repository: they are the parameter \<open>Z\<close>, a record of the calls the code makes. The cache is a
  value \<open>'mc\<close>; a validator returns the error it finds.
\<close>

section \<open>The azm parameter\<close>

text \<open>\<open>safe.SafeRelation\<close>: an identifier and whether its subject relation was given.\<close>

record safe_rel = rel_ident +
  sr_has :: bool

text \<open>The relation requests of the reader; \<open>g_page\<close> is the page size and token, if given.\<close>

record rel_req = rel_ident +
  g_with_empty :: bool
  g_with_objects :: bool
  g_page :: "(int \<times> string) option"

record ('mc, 'model) azm =
  az_v_Object :: "object \<Rightarrow> derror option"
  az_v_Relation :: "relation \<Rightarrow> derror option"
  az_v_SetObject :: "object option \<Rightarrow> derror option"
  az_v_DeleteObject :: "string \<Rightarrow> string \<Rightarrow> bool \<Rightarrow> derror option"
  az_v_SetRelation :: "relation option \<Rightarrow> derror option"
  az_v_DeleteRelation :: "rel_ident \<Rightarrow> derror option"
  az_v_GetObject :: "string \<Rightarrow> string \<Rightarrow> bool \<Rightarrow> derror option"
  az_v_GetObjectMany :: "obj_id list \<Rightarrow> derror option"
  az_v_GetObjects :: "string \<Rightarrow> (int \<times> string) option \<Rightarrow> derror option"
  az_v_GetRelation :: "rel_req \<Rightarrow> derror option"
  az_v_GetRelations :: "rel_req \<Rightarrow> derror option"
  az_v_Body :: "bytes \<Rightarrow> derror option"
  az_v_Metadata :: "metadata \<Rightarrow> derror option"
  az_val_obj :: "'mc \<Rightarrow> object \<Rightarrow> derror option"
  az_val_oid :: "'mc \<Rightarrow> obj_id \<Rightarrow> derror option"
  az_val_osel :: "'mc \<Rightarrow> string \<Rightarrow> derror option"
  az_val_rel :: "'mc \<Rightarrow> rel_ident \<Rightarrow> derror option"
  az_val_rels :: "'mc \<Rightarrow> safe_rel \<Rightarrow> derror option"
  az_hash_obj :: "object \<Rightarrow> string"
  az_hash_rel :: "rel_ident \<Rightarrow> string"
  az_complete :: "obj_id \<Rightarrow> bool"
  az_GetRelation :: "rel_req \<Rightarrow> safe_rel"
  az_GetRelations :: "rel_req \<Rightarrow> safe_rel"
  az_load :: "bytes \<Rightarrow> 'model result"
  az_stamp :: "'model \<Rightarrow> string \<Rightarrow> timestamp option \<Rightarrow> 'model"
  az_etag :: "'mc \<Rightarrow> string"
  az_update :: "'mc \<Rightarrow> 'model \<Rightarrow> derror option \<times> 'mc"

section \<open>Objects\<close>

definition TypeIDSeparator :: char where "TypeIDSeparator = CHR '':''"
definition InstanceSeparator :: char where "InstanceSeparator = CHR ''|''"

definition object_StrKey :: "object \<Rightarrow> string" where
  "object_StrKey i = o_type i @ [TypeIDSeparator] @ o_id i"

definition object_Key :: "object \<Rightarrow> bytes" where
  "object_Key i = o_type i @ [TypeIDSeparator] @ o_id i"

definition objectIdentifier_Key :: "obj_id \<Rightarrow> bytes" where
  "objectIdentifier_Key i = (let buf = fst i @ [TypeIDSeparator] in
     if snd i \<noteq> [] then buf @ snd i else buf)"

definition propDisplayName :: string where
  "propDisplayName = ''display_name''"

text \<open>Both patches change the object behind the pointer; on a nil pointer the read has no field to
  transfer.\<close>

definition PatchObjectRead :: "object option \<Rightarrow> object option" where
  "PatchObjectRead p = (case p of
      None \<Rightarrow> None
    | Some i \<Rightarrow> (case pb_fields (o_props i) propDisplayName of
          None \<Rightarrow> Some i
        | Some v \<Rightarrow> Some (i\<lparr>o_display := pb_string (Some v)\<rparr>)))"

definition PatchObjectWrite :: "object option \<Rightarrow> object option result" where
  "PatchObjectWrite p = (case p of
      None \<Rightarrow> Inr None
    | Some i \<Rightarrow>
        (if o_display i \<noteq> [] then
           (case o_props i of
              None \<Rightarrow> Inl nil_deref
            | Some flds \<Rightarrow> Inr (Some (i\<lparr>o_props := Some (flds(propDisplayName \<mapsto> PStr (o_display i))),
                o_display := []\<rparr>)))
         else Inr (Some i)))"

section \<open>Relations\<close>

definition relation_ObjKey :: "'z rel_ident_scheme \<Rightarrow> bytes" where
  "relation_ObjKey i =
     (let buf = i_otype i @ [TypeIDSeparator] @ i_oid i @ [InstanceSeparator] @ i_rel i @
            [InstanceSeparator] @ i_stype i @ [TypeIDSeparator] @ i_sid i
      in if i_srel i \<noteq> [] then buf @ [InstanceSeparator] @ i_srel i else buf)"

definition relation_SubKey :: "'z rel_ident_scheme \<Rightarrow> bytes" where
  "relation_SubKey i =
     (let buf = i_stype i @ [TypeIDSeparator] @ i_sid i @ [InstanceSeparator] @ i_rel i @
            [InstanceSeparator] @ i_otype i @ [TypeIDSeparator] @ i_oid i
      in if i_srel i \<noteq> [] then buf @ [InstanceSeparator] @ i_srel i else buf)"

text \<open>\<open>ds.RelationIdentifier\<close>.\<close>

definition RelationIdentifier :: "rel_ident \<Rightarrow> safe_rel" where
  "RelationIdentifier i = rel_ident.extend i (safe_rel.fields (i_srel i \<noteq> []))"

lemma RelationIdentifier_sel [simp]:
  "i_otype (RelationIdentifier i) = i_otype i" "i_oid (RelationIdentifier i) = i_oid i"
  "i_rel (RelationIdentifier i) = i_rel i" "i_stype (RelationIdentifier i) = i_stype i"
  "i_sid (RelationIdentifier i) = i_sid i" "i_srel (RelationIdentifier i) = i_srel i"
  "sr_has (RelationIdentifier i) = (i_srel i \<noteq> [])"
  by (simp_all add: RelationIdentifier_def rel_ident.defs safe_rel.defs)

definition relation_direction :: "('mc, 'model, 'z) azm_scheme \<Rightarrow> safe_rel \<Rightarrow> direction \<times> bool" where
  "relation_direction Z i =
     (if az_complete Z (i_otype i, i_oid i) then (ByObject, True)
      else if az_complete Z (i_stype i, i_sid i) then (BySubject, True)
      else (ByObject, False))"

definition relation_asFilter :: "safe_rel \<Rightarrow> rel_filter" where
  "relation_asFilter i = \<lparr>f_otype = i_otype i, f_oid = i_oid i, f_rel = i_rel i, f_stype = i_stype i,
     f_sid = i_sid i, f_srel = i_srel i, f_has_srel = sr_has i\<rparr>"

definition relation_valueFilter :: "safe_rel \<Rightarrow> 'z rel_ident_scheme \<Rightarrow> bool" where
  "relation_valueFilter i item =
     (if i_otype i \<noteq> [] \<and> i_otype item \<noteq> i_otype i then False
      else if i_oid i \<noteq> [] \<and> i_oid i \<noteq> i_oid item then False
      else if i_rel i \<noteq> [] \<and> i_rel item \<noteq> i_rel i then False
      else if i_stype i \<noteq> [] \<and> i_stype item \<noteq> i_stype i then False
      else if i_sid i \<noteq> [] \<and> i_sid i \<noteq> i_sid item then False
      else if sr_has i \<and> i_srel item \<noteq> i_srel i then False
      else True)"

definition ErrNoCompleteObjectIdentifier :: derror where
  "ErrNoCompleteObjectIdentifier = AErr ''E20050'' FailedPrecondition
     ''relation identifier no complete object identifier''"

definition relation_PathAndFilter ::
  "('mc, 'model, 'z) azm_scheme \<Rightarrow> safe_rel \<Rightarrow> (direction \<times> rel_filter) result" where
  "relation_PathAndFilter Z i = (case relation_direction Z i of
      (dir, ok) \<Rightarrow> if \<not> ok then Inl ErrNoCompleteObjectIdentifier else Inr (dir, relation_asFilter i))"

definition relation_Filter ::
  "('mc, 'model, 'z) azm_scheme \<Rightarrow> safe_rel \<Rightarrow> direction \<times> rel_filter \<times> (rel_ident \<Rightarrow> bool)" where
  "relation_Filter Z i = (fst (relation_direction Z i), relation_asFilter i, relation_valueFilter i)"

definition relation_RelationValueFilter ::
  "('mc, 'model, 'z) azm_scheme \<Rightarrow> safe_rel \<Rightarrow> direction \<times> rel_filter \<times> (relation \<Rightarrow> bool)" where
  "relation_RelationValueFilter Z i =
     (fst (relation_direction Z i), relation_asFilter i, relation_valueFilter i)"

text \<open>The value filter is the exact reading of the store filter it travels with.\<close>

lemma valueFilter_match: "relation_valueFilter i r \<longleftrightarrow> rf_match (relation_asFilter i) r"
  by (simp add: relation_valueFilter_def rf_match_def relation_asFilter_def eq_commute)

lemma valueFilter_ident_of [simp]: "relation_valueFilter i (ident_of r) = relation_valueFilter i r"
  by (simp add: valueFilter_match)

text \<open>The keys of the domain layer are the keys of the store.\<close>

lemma ds_keys:
  "object_Key x = objectKey (o_type x) (o_id x)" "objectIdentifier_Key k = objectKey (fst k) (snd k)"
  "relation_ObjKey i = objKeyOf i" "relation_SubKey i = subKeyOf i"
  by (simp_all add: object_Key_def objectIdentifier_Key_def objectKey_def TypeIDSeparator_def
      InstanceSeparator_def separators Let_def relation_ObjKey_def relation_SubKey_def objKeyOf_def
      subKeyOf_def writeObjKey_def writeSubKey_def)

section \<open>Write metadata\<close>

text \<open>
  \<open>UpdateMetadataObject\<close> and \<open>UpdateMetadataRelation\<close> change the request's message in place and
  return it; \<open>ts\<close> is the current time. Assigning to a nil message panics.
\<close>

definition stamp_object :: "timestamp \<Rightarrow> object option \<Rightarrow> object \<Rightarrow> object" where
  "stamp_object ts cur msg =
     (let msg = (case cur of
          None \<Rightarrow> msg\<lparr>o_created := Some ts, o_etag := []\<rparr>
        | Some c \<Rightarrow> msg\<lparr>o_created := o_created c\<rparr>);
          msg = msg\<lparr>o_updated := Some ts\<rparr>
      in if o_etag (obj0 cur) \<noteq> [] then msg\<lparr>o_etag := o_etag (obj0 cur)\<rparr> else msg)"

definition UpdateMetadataObject ::
  "('tx, 'model, 'z) Tx_scheme \<Rightarrow> 'tx \<Rightarrow> timestamp \<Rightarrow> object option \<Rightarrow> object result" where
  "UpdateMetadataObject T t ts msg =
     (case tx_GetObject T t (o_type (obj0 msg)) (o_id (obj0 msg)) of
        Inl e \<Rightarrow>
          (if status_code e = NotFound
           then (case msg of None \<Rightarrow> Inl nil_deref | Some m \<Rightarrow> Inr (stamp_object ts None m))
           else Inl e)
      | Inr cur \<Rightarrow> (case msg of None \<Rightarrow> Inl nil_deref | Some m \<Rightarrow> Inr (stamp_object ts (Some cur) m)))"

definition stamp_relation :: "timestamp \<Rightarrow> relation option \<Rightarrow> relation \<Rightarrow> relation" where
  "stamp_relation ts cur msg =
     (let msg = (case cur of
          None \<Rightarrow> msg\<lparr>r_created := Some ts, r_etag := []\<rparr>
        | Some c \<Rightarrow> msg\<lparr>r_created := r_created c\<rparr>);
          msg = msg\<lparr>r_updated := Some ts\<rparr>
      in if r_etag (rel0 cur) \<noteq> [] then msg\<lparr>r_etag := r_etag (rel0 cur)\<rparr> else msg)"

definition UpdateMetadataRelation ::
  "('tx, 'model, 'z) Tx_scheme \<Rightarrow> 'tx \<Rightarrow> timestamp \<Rightarrow> relation option \<Rightarrow> relation result" where
  "UpdateMetadataRelation T t ts msg =
     (case tx_GetRelationExact T t (ident_of (rel0 msg)) of
        Inl e \<Rightarrow>
          (if status_code e = NotFound
           then (case msg of None \<Rightarrow> Inl nil_deref | Some m \<Rightarrow> Inr (stamp_relation ts None m))
           else Inl e)
      | Inr cur \<Rightarrow>
          (case msg of None \<Rightarrow> Inl nil_deref | Some m \<Rightarrow> Inr (stamp_relation ts (Some cur) m)))"

lemma stamp_object_ident [simp]: "object_ident (stamp_object ts cur x) = object_ident x"
  by (simp add: stamp_object_def Let_def split: option.split)

lemma stamp_object_sel [simp]:
  "o_type (stamp_object ts cur x) = o_type x" "o_id (stamp_object ts cur x) = o_id x"
  "o_display (stamp_object ts cur x) = o_display x" "o_props (stamp_object ts cur x) = o_props x"
  "o_updated (stamp_object ts cur x) = Some ts"
  "o_created (stamp_object ts cur x) = (case cur of None \<Rightarrow> Some ts | Some c \<Rightarrow> o_created c)"
  by (simp_all add: stamp_object_def Let_def split: option.split)

lemma stamp_object_etag:
  "o_etag (stamp_object ts cur x) = (case cur of None \<Rightarrow> [] | Some c \<Rightarrow>
     if o_etag c = [] then o_etag x else o_etag c)"
  by (simp add: stamp_object_def zero_object_def split: option.split)

lemma stamp_relation_ident [simp]: "ident_of (stamp_relation ts cur r) = ident_of r"
  by (simp add: stamp_relation_def Let_def split: option.split)

lemma stamp_relation_wf [simp]: "wf_rid (stamp_relation ts cur r) = wf_rid r"
  using wf_rid_ident_of [of "stamp_relation ts cur r"] by simp

lemma stamp_relation_sel [simp]:
  "r_updated (stamp_relation ts cur r) = Some ts"
  "r_created (stamp_relation ts cur r) = (case cur of None \<Rightarrow> Some ts | Some c \<Rightarrow> r_created c)"
  by (simp_all add: stamp_relation_def Let_def split: option.split)

lemma stamp_relation_etag:
  "r_etag (stamp_relation ts cur r) = (case cur of None \<Rightarrow> [] | Some c \<Rightarrow>
     if r_etag c = [] then r_etag r else r_etag c)"
  by (simp add: stamp_relation_def zero_relation_def split: option.split)

context tx_store
begin

lemma rows_relations:
  "inv t \<Longrightarrow> \<forall>w \<in> set (map fst (rrows t dir f)). \<exists>r. w = Some r \<and> rels t (ident_of r) = Some r"
  using rrows_sound by fastforce

lemma UpdateMetadataObject_eq:
  assumes "inv t" "wf_oid (object_ident x)"
  shows "UpdateMetadataObject T t ts (Some x) = Inr (stamp_object ts (objs t (object_ident x)) x)"
proof (cases "objs t (object_ident x)")
  case None
  then show ?thesis
    using GetObject_miss [OF assms(1), of "o_type x" "o_id x"] assms(2)
    by (auto simp: UpdateMetadataObject_def object_ident_def)
next
  case (Some c)
  then show ?thesis
    using GetObject_hit [OF assms(1), of "o_type x" "o_id x" c]
    by (simp add: UpdateMetadataObject_def object_ident_def)
qed

lemma UpdateMetadataRelation_eq:
  assumes "inv t" "wf_rid r"
  shows "UpdateMetadataRelation T t ts (Some r) = Inr (stamp_relation ts (rels t (ident_of r)) r)"
proof (cases "rels t (ident_of r)")
  case None
  then show ?thesis
    using GetRelationExact_miss [OF assms(1), of "ident_of r"] assms(2)
    by (auto simp: UpdateMetadataRelation_def)
next
  case (Some c)
  then show ?thesis
    using GetRelationExact_hit [OF assms(1) Some] by (simp add: UpdateMetadataRelation_def)
qed

end

section \<open>The manifest\<close>

record manifest =
  m_md :: metadata
  m_body :: body

definition Manifest :: "metadata \<Rightarrow> manifest" where
  "Manifest md = \<lparr>m_md = md, m_body = zero_body\<rparr>"

definition manifest_Get :: "('tx, 'model, 'z) Tx_scheme \<Rightarrow> 'tx \<Rightarrow> manifest result" where
  "manifest_Get T t =
     (if tx_ManifestExists T t \<noteq> Inr True then Inl ErrPathNotFound else
      case tx_GetManifestMetadata T t of
        Inl e \<Rightarrow> Inl e
      | Inr md \<Rightarrow> (case tx_GetManifestBody T t of
            Inl e \<Rightarrow> Inl e
          | Inr b \<Rightarrow> Inr \<lparr>m_md = md, m_body = b\<rparr>))"

definition manifest_GetModel :: "('tx, 'model, 'z) Tx_scheme \<Rightarrow> 'tx \<Rightarrow> 'model result" where
  "manifest_GetModel T t =
     (if tx_ManifestExists T t \<noteq> Inr True then Inl ErrPathNotFound else tx_GetManifestModel T t)"

definition manifest_Set ::
  "('tx, 'model, 'z) Tx_scheme \<Rightarrow> manifest \<Rightarrow> 'tx \<Rightarrow> bytes \<Rightarrow> derror option \<times> 'tx" where
  "manifest_Set T m t buf = tx_SetManifest T t (m_md m) \<lparr>b_data = buf\<rparr>"

text \<open>
  \<open>az_stamp\<close> writes the etag and the time into the model's metadata, allocating it when nil. It
  changes the caller's model, which is therefore returned with the outcome.
\<close>

definition manifest_SetModel ::
  "('mc, 'model, 'y) azm_scheme \<Rightarrow> ('tx, 'model, 'z) Tx_scheme \<Rightarrow> manifest \<Rightarrow> 'tx \<Rightarrow> 'model
     \<Rightarrow> derror option \<times> 'model \<times> 'tx" where
  "manifest_SetModel Z T m t mdl =
     (let mdl' = az_stamp Z mdl (md_etag (m_md m)) (md_updated (m_md m))
      in case tx_SetManifestModel T t mdl' of (e, t') \<Rightarrow> (e, mdl', t'))"

definition manifest_Delete :: "('tx, 'model, 'z) Tx_scheme \<Rightarrow> 'tx \<Rightarrow> derror option \<times> 'tx" where
  "manifest_Delete T t = tx_DeleteManifest T t"

definition manifest_Hash :: "manifest \<Rightarrow> string" where
  "manifest_Hash m = FormatUint (fnv64a (b_data (m_body m)))"

end
