(* ===== verification/Writer.thy ===== *)
theory Writer
  imports Ds
begin

text \<open>
  The writer service \<open>directory/v3/writer.go\<close> and the relation helpers of
  \<open>directory/v3/relations.go\<close>. A handler returns its error, its response and the state of the
  store; \<open>now\<close> is the current time and \<open>ifMatch\<close> the request's If-Match header. The lemmas are
  proved once against the contract \<open>tx_store\<close>, so they hold for every backend that keeps it.
\<close>

section \<open>Relations of an object\<close>

definition relationsByObject ::
  "('tx, 'model, 'z) Tx_scheme \<Rightarrow> 'tx \<Rightarrow> direction \<Rightarrow> string \<Rightarrow> string \<Rightarrow> relation option list result"
where
  "relationsByObject T t dir objectType objectID =
     (case tx_ScanRelations T t dir (ObjectOnlyFilter dir objectType objectID) [] of
        Inl e \<Rightarrow> Inl e
      | Inr it \<Rightarrow> Inr (drain it))"

fun delete_relations ::
  "('tx, 'model, 'z) Tx_scheme \<Rightarrow> 'tx \<Rightarrow> relation option list \<Rightarrow> derror option \<times> 'tx" where
  "delete_relations T t [] = (None, t)"
| "delete_relations T t (rel # rels) =
     (case tx_DeleteRelation T t (ident_of (rel0 rel)) of
        (Some e, t') \<Rightarrow> (Some e, t')
      | (None, t') \<Rightarrow> delete_relations T t' rels)"

definition deleteRelationsWithPrefix ::
  "('tx, 'model, 'z) Tx_scheme \<Rightarrow> 'tx \<Rightarrow> direction \<Rightarrow> string \<Rightarrow> string \<Rightarrow> derror option \<times> 'tx" where
  "deleteRelationsWithPrefix T t dir objectType objectID =
     (case relationsByObject T t dir objectType objectID of
        Inl e \<Rightarrow> (Some e, t)
      | Inr rels \<Rightarrow> delete_relations T t rels)"

section \<open>Objects\<close>

definition ErrHashMismatch :: "string \<Rightarrow> derror" where
  "ErrHashMismatch msg = DErr ''ErrHashMismatch'' msg"

definition object_mismatch :: "object \<Rightarrow> derror" where
  "object_mismatch x = ErrHashMismatch
     (''for object with type ['' @ o_type x @ ''] and id ['' @ o_id x @ '']'')"

definition relation_mismatch :: "'z rel_ident_scheme \<Rightarrow> derror" where
  "relation_mismatch r = ErrHashMismatch
     (''for relation with objectType ['' @ i_otype r @ ''], objectId ['' @ i_oid r @ ''], relation ['' @
      i_rel r @ ''], subjectType ['' @ i_stype r @ ''], SubjectId ['' @ i_sid r @ '']'')"

definition SetObject_tx ::
  "('tx, 'model, 'z) Tx_scheme \<Rightarrow> timestamp \<Rightarrow> string \<Rightarrow> string \<Rightarrow> object option \<Rightarrow> 'tx
     \<Rightarrow> derror option \<times> object option \<times> 'tx" where
  "SetObject_tx T now ifMatch etag obj t =
     (case UpdateMetadataObject T t now obj of
        Inl e \<Rightarrow> (Some e, None, t)
      | Inr updObj \<Rightarrow>
          (if ifMatch \<noteq> [] \<and> o_etag updObj \<noteq> [] \<and> ifMatch \<noteq> o_etag updObj
           then (Some (object_mismatch updObj), None, t)
           else if etag = o_etag updObj then (None, Some updObj, t)
           else (case tx_SetObject T t (updObj\<lparr>o_etag := etag\<rparr>) of
               (Inl e, t') \<Rightarrow> (Some e, None, t')
             | (Inr objType, t') \<Rightarrow> (None, Some objType, t'))))"

definition Writer_SetObject ::
  "('mc, 'model, 'y) azm_scheme \<Rightarrow> ('tx, 'model, 'z) Tx_scheme \<Rightarrow> 'mc \<Rightarrow> timestamp \<Rightarrow> string
     \<Rightarrow> object option \<Rightarrow> 'tx \<Rightarrow> derror option \<times> object option \<times> 'tx" where
  "Writer_SetObject Z T mc now ifMatch obj t =
     (case az_v_SetObject Z obj of
        Some e \<Rightarrow> (Some e, None, t)
      | None \<Rightarrow> (case az_val_obj Z mc (obj0 obj) of
            Some e \<Rightarrow> (Some e, None, t)
          | None \<Rightarrow> Update T None (SetObject_tx T now ifMatch (az_hash_obj Z (obj0 obj)) obj) t))"

text \<open>The deletion inside \<open>DeleteObject\<close>, after the concurrency check.\<close>

definition delete_object ::
  "('tx, 'model, 'z) Tx_scheme \<Rightarrow> string \<Rightarrow> string \<Rightarrow> bool \<Rightarrow> 'tx \<Rightarrow> derror option \<times> bool \<times> 'tx" where
  "delete_object T ty oid withRelations t =
     (case tx_DeleteObject T t ty oid of
        (Some e, t') \<Rightarrow> (Some e, False, t')
      | (None, t') \<Rightarrow>
          (if withRelations
           then (case deleteRelationsWithPrefix T t' BySubject ty oid of
               (Some e, t'') \<Rightarrow> (Some e, False, t'')
             | (None, t'') \<Rightarrow> (case deleteRelationsWithPrefix T t'' ByObject ty oid of
                   (Some e, t3) \<Rightarrow> (Some e, False, t3)
                 | (None, t3) \<Rightarrow> (None, True, t3)))
           else (None, True, t')))"

definition DeleteObject_tx ::
  "('tx, 'model, 'z) Tx_scheme \<Rightarrow> timestamp \<Rightarrow> string \<Rightarrow> string \<Rightarrow> string \<Rightarrow> bool \<Rightarrow> 'tx
     \<Rightarrow> derror option \<times> bool \<times> 'tx" where
  "DeleteObject_tx T now ifMatch ty oid withRelations t =
     (if ifMatch \<noteq> []
      then (case UpdateMetadataObject T t now (Some (zero_object\<lparr>o_type := ty, o_id := oid\<rparr>)) of
          Inl e \<Rightarrow> (Some e, False, t)
        | Inr updObj \<Rightarrow>
            (if ifMatch \<noteq> o_etag updObj then (Some (object_mismatch updObj), False, t)
             else delete_object T ty oid withRelations t))
      else delete_object T ty oid withRelations t)"

text \<open>The response is whether its \<open>Result\<close> was set.\<close>

definition Writer_DeleteObject ::
  "('mc, 'model, 'y) azm_scheme \<Rightarrow> ('tx, 'model, 'z) Tx_scheme \<Rightarrow> 'mc \<Rightarrow> timestamp \<Rightarrow> string
     \<Rightarrow> string \<Rightarrow> string \<Rightarrow> bool \<Rightarrow> 'tx \<Rightarrow> derror option \<times> bool \<times> 'tx" where
  "Writer_DeleteObject Z T mc now ifMatch ty oid withRelations t =
     (case az_v_DeleteObject Z ty oid withRelations of
        Some e \<Rightarrow> (Some e, False, t)
      | None \<Rightarrow> (case az_val_oid Z mc (ty, oid) of
            Some e \<Rightarrow> (Some e, False, t)
          | None \<Rightarrow> Update T False (DeleteObject_tx T now ifMatch ty oid withRelations) t))"

section \<open>Relations\<close>

definition SetRelation_tx ::
  "('tx, 'model, 'z) Tx_scheme \<Rightarrow> timestamp \<Rightarrow> string \<Rightarrow> string \<Rightarrow> relation option \<Rightarrow> 'tx
     \<Rightarrow> derror option \<times> relation option \<times> 'tx" where
  "SetRelation_tx T now ifMatch etag rel t =
     (case UpdateMetadataRelation T t now rel of
        Inl e \<Rightarrow> (Some e, None, t)
      | Inr updRel \<Rightarrow>
          (if ifMatch \<noteq> [] \<and> r_etag updRel \<noteq> [] \<and> ifMatch \<noteq> r_etag updRel
           then (Some (relation_mismatch updRel), None, t)
           else if etag = r_etag updRel then (None, Some updRel, t)
           else (case tx_SetRelation T t (updRel\<lparr>r_etag := etag\<rparr>) of
               (Inl e, t') \<Rightarrow> (Some e, None, t')
             | (Inr objRel, t') \<Rightarrow> (None, Some objRel, t'))))"

definition Writer_SetRelation ::
  "('mc, 'model, 'y) azm_scheme \<Rightarrow> ('tx, 'model, 'z) Tx_scheme \<Rightarrow> 'mc \<Rightarrow> timestamp \<Rightarrow> string
     \<Rightarrow> relation option \<Rightarrow> 'tx \<Rightarrow> derror option \<times> relation option \<times> 'tx" where
  "Writer_SetRelation Z T mc now ifMatch rel t =
     (case az_v_SetRelation Z rel of
        Some e \<Rightarrow> (Some e, None, t)
      | None \<Rightarrow> (case az_val_rel Z mc (ident_of (rel0 rel)) of
            Some e \<Rightarrow> (Some e, None, t)
          | None \<Rightarrow>
              Update T None (SetRelation_tx T now ifMatch (az_hash_rel Z (ident_of (rel0 rel))) rel) t))"

definition relation_of_ident :: "rel_ident \<Rightarrow> relation" where
  "relation_of_ident i = \<lparr>i_otype = i_otype i, i_oid = i_oid i, i_rel = i_rel i, i_stype = i_stype i,
     i_sid = i_sid i, i_srel = i_srel i, r_created = None, r_updated = None, r_etag = []\<rparr>"

lemma ident_of_relation_of_ident [simp]: "ident_of (relation_of_ident i) = i"
  by (simp add: relation_of_ident_def ident_of_def rel_ident.truncate_def)

definition DeleteRelation_tx ::
  "('tx, 'model, 'z) Tx_scheme \<Rightarrow> timestamp \<Rightarrow> string \<Rightarrow> rel_ident \<Rightarrow> 'tx
     \<Rightarrow> derror option \<times> bool \<times> 'tx" where
  "DeleteRelation_tx T now ifMatch i t =
     (let del = (case tx_DeleteRelation T t i of
          (Some e, t') \<Rightarrow> (Some e, False, t')
        | (None, t') \<Rightarrow> (None, True, t'))
      in if ifMatch \<noteq> []
         then (case UpdateMetadataRelation T t now (Some (relation_of_ident i)) of
             Inl e \<Rightarrow> (Some e, False, t)
           | Inr updRel \<Rightarrow>
               (if ifMatch \<noteq> r_etag updRel then (Some (relation_mismatch i), False, t) else del))
         else del)"

definition Writer_DeleteRelation ::
  "('mc, 'model, 'y) azm_scheme \<Rightarrow> ('tx, 'model, 'z) Tx_scheme \<Rightarrow> 'mc \<Rightarrow> timestamp \<Rightarrow> string
     \<Rightarrow> rel_ident \<Rightarrow> 'tx \<Rightarrow> derror option \<times> bool \<times> 'tx" where
  "Writer_DeleteRelation Z T mc now ifMatch i t =
     (case az_v_DeleteRelation Z i of
        Some e \<Rightarrow> (Some e, False, t)
      | None \<Rightarrow> (case az_val_rel Z mc i of
            Some e \<Rightarrow> (Some e, False, t)
          | None \<Rightarrow> Update T False (DeleteRelation_tx T now ifMatch i) t))"

section \<open>What the handlers do to the tables\<close>

text \<open>A handler that succeeds ran its transaction to the end; one that fails left the store alone.\<close>

lemma Writer_ok:
  "Writer_SetObject Z T mc now ifMatch obj t = (None, r, t') \<Longrightarrow>
     SetObject_tx T now ifMatch (az_hash_obj Z (obj0 obj)) obj t = (None, r, t')"
  "Writer_DeleteObject Z T mc now ifMatch ty oid w t = (None, b, t') \<Longrightarrow>
     DeleteObject_tx T now ifMatch ty oid w t = (None, b, t')"
  "Writer_SetRelation Z T mc now ifMatch rel t = (None, s, t') \<Longrightarrow>
     SetRelation_tx T now ifMatch (az_hash_rel Z (ident_of (rel0 rel))) rel t = (None, s, t')"
  "Writer_DeleteRelation Z T mc now ifMatch i t = (None, b, t') \<Longrightarrow>
     DeleteRelation_tx T now ifMatch i t = (None, b, t')"
  unfolding Writer_SetObject_def Writer_DeleteObject_def Writer_SetRelation_def Writer_DeleteRelation_def
  by (auto split: option.splits dest!: Update_cases)

lemma Writer_failed:
  "Writer_SetObject Z T mc now ifMatch obj t = (Some e, r, t') \<Longrightarrow> t' = t"
  "Writer_DeleteObject Z T mc now ifMatch ty oid w t = (Some e, b, t') \<Longrightarrow> t' = t"
  "Writer_SetRelation Z T mc now ifMatch rel t = (Some e, s, t') \<Longrightarrow> t' = t"
  "Writer_DeleteRelation Z T mc now ifMatch i t = (Some e, b, t') \<Longrightarrow> t' = t"
  unfolding Writer_SetObject_def Writer_DeleteObject_def Writer_SetRelation_def Writer_DeleteRelation_def
  by (auto split: option.splits dest!: Update_cases)

text \<open>\<open>If-Match\<close> refuses an update: it is given, there is a current etag, and they differ.\<close>

definition if_match_refused :: "string \<Rightarrow> string \<Rightarrow> bool" where
  "if_match_refused ifMatch etag \<longleftrightarrow> ifMatch \<noteq> [] \<and> etag \<noteq> [] \<and> ifMatch \<noteq> etag"

context tx_store
begin

lemma relationsByObject_eq:
  "inv t \<Longrightarrow> wf_side (ty, oid) \<Longrightarrow>
     relationsByObject T t dir ty oid = Inr (map fst (rrows t dir (ObjectOnlyFilter dir ty oid)))"
  by (simp add: relationsByObject_def ScanRelations_start wf_side_def wf_oid_def)

lemma relationsByObject_set:
  assumes "inv t" "wf_side (ty, oid)"
  shows "Some r \<in> set (map fst (rrows t dir (ObjectOnlyFilter dir ty oid))) \<longleftrightarrow>
    rels t (ident_of r) = Some r \<and> side dir r = (ty, oid)"
proof
  assume "Some r \<in> set (map fst (rrows t dir (ObjectOnlyFilter dir ty oid)))"
  then show "rels t (ident_of r) = Some r \<and> side dir r = (ty, oid)"
    using rows_relations [OF assms(1)] rrows_anchored [OF assms] by blast
next
  assume r: "rels t (ident_of r) = Some r \<and> side dir r = (ty, oid)"
  then have "rf_match (ObjectOnlyFilter dir ty oid) (ident_of r)"
    by (auto simp: rf_match_def ObjectOnlyFilter_def empty_filter_def side_def split: if_splits)
  moreover have "filter_ok (ObjectOnlyFilter dir ty oid)"
    using assms(2) by (simp add: wf_side_def wf_oid_def)
  ultimately
  show "Some r \<in> set (map fst (rrows t dir (ObjectOnlyFilter dir ty oid)))"
    using rrows_complete [OF assms(1)] r by blast
qed

lemma delete_relations_post:
  assumes "inv t" "\<forall>w \<in> set ws. \<exists>r. w = Some r \<and> wf_rid r"
  shows "\<exists>t'. delete_relations T t ws = (None, t') \<and> inv t' \<and> objs t' = objs t \<and> rest t' = rest t \<and>
    rels t' = (\<lambda>i. if Some i \<in> set (map (map_option ident_of) ws) then None else rels t i)"
  using assms
proof (induction ws arbitrary: t)
  case (Cons w ws)
  then obtain r where r: "w = Some r" "wf_rid r" by auto
  obtain t1 where t1: "tx_DeleteRelation T t (ident_of r) = (None, t1)" "inv t1"
    "rels t1 = (rels t)(ident_of r := None)" "objs t1 = objs t" "rest t1 = rest t"
    using DeleteRelation_post [OF Cons.prems(1), of "ident_of r"] r(2) by auto
  obtain t' where "delete_relations T t1 ws = (None, t')" "inv t'" "objs t' = objs t1"
    "rest t' = rest t1"
    "rels t' = (\<lambda>i. if Some i \<in> set (map (map_option ident_of) ws) then None else rels t1 i)"
    using Cons.IH [OF t1(2)] Cons.prems(2) by auto
  with t1 r(1) show ?case by (auto simp: fun_eq_iff)
qed (auto simp: fun_eq_iff)

lemma deleteRelationsWithPrefix_post:
  assumes "inv t" "wf_side (ty, oid)"
  shows "\<exists>t'. deleteRelationsWithPrefix T t dir ty oid = (None, t') \<and> inv t' \<and> objs t' = objs t \<and>
    rest t' = rest t \<and> rels t' = (\<lambda>i. if side dir i = (ty, oid) then None else rels t i)"
proof -
  let ?ws = "map fst (rrows t dir (ObjectOnlyFilter dir ty oid))"
  have ws: "\<forall>w \<in> set ?ws. \<exists>r. w = Some r \<and> wf_rid r"
    using rows_relations [OF assms(1)] rels_wf [OF assms(1)] by (metis wf_rid_ident_of)
  have "Some i \<in> set (map (map_option ident_of) ?ws) \<longleftrightarrow> i \<in> dom (rels t) \<and> side dir i = (ty, oid)" for i
  proof
    assume "Some i \<in> set (map (map_option ident_of) ?ws)"
    then obtain w where "w \<in> set ?ws" "map_option ident_of w = Some i"
      by (metis imageE list.set_map)
    then obtain r where "Some r \<in> set ?ws" "i = ident_of r" by (cases w) auto
    then show "i \<in> dom (rels t) \<and> side dir i = (ty, oid)"
      using relationsByObject_set [OF assms, of r dir] by auto
  next
    assume "i \<in> dom (rels t) \<and> side dir i = (ty, oid)"
    then obtain r where "rels t i = Some r" "side dir i = (ty, oid)" by blast
    moreover from this have "i = ident_of r" using rels_wf [OF assms(1)] by simp
    ultimately have "Some r \<in> set ?ws" using relationsByObject_set [OF assms, of r dir] by simp
    then show "Some i \<in> set (map (map_option ident_of) ?ws)"
      using \<open>i = ident_of r\<close> by force
  qed
  with delete_relations_post [OF assms(1) ws] show ?thesis
    by (auto simp: deleteRelationsWithPrefix_def relationsByObject_eq [OF assms] fun_eq_iff)
qed

lemma delete_object_post:
  assumes "inv t" "wf_side (ty, oid)"
  shows "\<exists>t'. delete_object T ty oid wr t = (None, True, t') \<and> inv t' \<and> rest t' = rest t \<and>
    objs t' = (objs t)((ty, oid) := None) \<and>
    rels t' = (\<lambda>i. if wr \<and> (side BySubject i = (ty, oid) \<or> side ByObject i = (ty, oid)) then None
      else rels t i)"
proof -
  obtain t1 where t1: "tx_DeleteObject T t ty oid = (None, t1)" "inv t1"
    "objs t1 = (objs t)((ty, oid) := None)" "rels t1 = rels t" "rest t1 = rest t"
    using DeleteObject_post [OF assms(1), of ty oid] assms(2) by (auto simp: wf_side_def)
  obtain t2 where t2: "deleteRelationsWithPrefix T t1 BySubject ty oid = (None, t2)" "inv t2"
    "objs t2 = objs t1" "rest t2 = rest t1"
    "rels t2 = (\<lambda>i. if side BySubject i = (ty, oid) then None else rels t1 i)"
    using deleteRelationsWithPrefix_post [OF t1(2) assms(2)] by blast
  obtain t3 where t3: "deleteRelationsWithPrefix T t2 ByObject ty oid = (None, t3)" "inv t3"
    "objs t3 = objs t2" "rest t3 = rest t2"
    "rels t3 = (\<lambda>i. if side ByObject i = (ty, oid) then None else rels t2 i)"
    using deleteRelationsWithPrefix_post [OF t2(2) assms(2)] by blast
  from t1 t2 t3 show ?thesis by (cases wr) (auto simp: delete_object_def fun_eq_iff)
qed

lemma SetObject_tx_eq:
  fixes now :: timestamp
  assumes "inv t" "wf_oid (object_ident x)"
  defines "upd \<equiv> stamp_object now (objs t (object_ident x)) x"
  shows "SetObject_tx T now ifMatch etag (Some x) t =
    (if if_match_refused ifMatch (o_etag upd) then (Some (object_mismatch upd), None, t)
     else if etag = o_etag upd then (None, Some upd, t)
     else case tx_SetObject T t (upd\<lparr>o_etag := etag\<rparr>) of
         (Inl e, t') \<Rightarrow> (Some e, None, t') | (Inr y, t') \<Rightarrow> (None, Some y, t'))"
  using assms by (simp add: SetObject_tx_def UpdateMetadataObject_eq if_match_refused_def)

lemma SetRelation_tx_eq:
  fixes now :: timestamp
  assumes "inv t" "wf_rid r"
  defines "upd \<equiv> stamp_relation now (rels t (ident_of r)) r"
  shows "SetRelation_tx T now ifMatch etag (Some r) t =
    (if if_match_refused ifMatch (r_etag upd) then (Some (relation_mismatch upd), None, t)
     else if etag = r_etag upd then (None, Some upd, t)
     else case tx_SetRelation T t (upd\<lparr>r_etag := etag\<rparr>) of
         (Inl e, t') \<Rightarrow> (Some e, None, t') | (Inr y, t') \<Rightarrow> (None, Some y, t'))"
  using assms by (simp add: SetRelation_tx_def UpdateMetadataRelation_eq if_match_refused_def)

lemma SetObject_tx_post:
  assumes "inv t" "wf_oid (object_ident x)" "SetObject_tx T now ifMatch etag (Some x) t = (None, r, t')"
  defines "upd \<equiv> stamp_object now (objs t (object_ident x)) x"
  shows "inv t' \<and> rels t' = rels t \<and> rest t' = rest t \<and> \<not> if_match_refused ifMatch (o_etag upd) \<and>
    r = Some (upd\<lparr>o_etag := etag\<rparr>) \<and>
    (if etag = o_etag upd then t' = t else objs t' = (objs t)(object_ident x \<mapsto> upd\<lparr>o_etag := etag\<rparr>))"
proof -
  note eq = SetObject_tx_eq [OF assms(1,2), of now ifMatch etag, folded upd_def]
  have nr: "\<not> if_match_refused ifMatch (o_etag upd)" using assms(3) by (auto simp: eq)
  show ?thesis
  proof (cases "etag = o_etag upd")
    case True
    then have "SetObject_tx T now ifMatch etag (Some x) t = (None, Some upd, t)"
      using nr unfolding eq by simp
    with assms(1,3) nr True show ?thesis by simp
  next
    case False
    then obtain y where "tx_SetObject T t (upd\<lparr>o_etag := etag\<rparr>) = (Inr y, t')" "r = Some y"
      using assms(3) nr by (auto simp: eq split: prod.splits sum.splits)
    moreover have "object_ident (upd\<lparr>o_etag := etag\<rparr>) = object_ident x" by (simp add: upd_def)
    ultimately show ?thesis
      using SetObject_post [OF assms(1), of "upd\<lparr>o_etag := etag\<rparr>" y t'] assms(2) nr False by simp
  qed
qed

lemma SetRelation_tx_post:
  assumes "inv t" "wf_rid r" "SetRelation_tx T now ifMatch etag (Some r) t = (None, s, t')"
  defines "upd \<equiv> stamp_relation now (rels t (ident_of r)) r"
  shows "inv t' \<and> objs t' = objs t \<and> rest t' = rest t \<and> \<not> if_match_refused ifMatch (r_etag upd) \<and>
    s = Some (upd\<lparr>r_etag := etag\<rparr>) \<and>
    (if etag = r_etag upd then t' = t else rels t' = (rels t)(ident_of r \<mapsto> upd\<lparr>r_etag := etag\<rparr>))"
proof -
  note eq = SetRelation_tx_eq [OF assms(1,2), of now ifMatch etag, folded upd_def]
  have nr: "\<not> if_match_refused ifMatch (r_etag upd)" using assms(3) by (auto simp: eq)
  show ?thesis
  proof (cases "etag = r_etag upd")
    case True
    then have "SetRelation_tx T now ifMatch etag (Some r) t = (None, Some upd, t)"
      using nr unfolding eq by simp
    with assms(1,3) nr True show ?thesis by simp
  next
    case False
    then obtain y where "tx_SetRelation T t (upd\<lparr>r_etag := etag\<rparr>) = (Inr y, t')" "s = Some y"
      using assms(3) nr by (auto simp: eq split: prod.splits sum.splits)
    moreover have "ident_of (upd\<lparr>r_etag := etag\<rparr>) = ident_of r" by (simp add: upd_def)
    moreover from this have "wf_rid (upd\<lparr>r_etag := etag\<rparr>)"
      using assms(2) wf_rid_ident_of [of "upd\<lparr>r_etag := etag\<rparr>"] by simp
    ultimately show ?thesis
      using SetRelation_post [OF assms(1), of "upd\<lparr>r_etag := etag\<rparr>" y t'] nr False by simp
  qed
qed

lemma object_mismatch_stamp: "object_mismatch (stamp_object now c x) = object_mismatch x"
  by (simp add: object_mismatch_def)

lemma SetObject_tx_live:
  assumes "inv t" "wf_oid (object_ident x)"
    and "okO t ((stamp_object now (objs t (object_ident x)) x)\<lparr>o_etag := etag\<rparr>)"
    and "\<not> if_match_refused ifMatch (o_etag (stamp_object now (objs t (object_ident x)) x))"
  shows "\<exists>r t'. SetObject_tx T now ifMatch etag (Some x) t = (None, r, t')"
  using SetObject_ok [OF assms(1) _ assms(3)] assms(2,4)
  by (auto simp: SetObject_tx_eq [OF assms(1,2)])

lemma SetRelation_tx_live:
  assumes "inv t" "wf_rid r"
    and "okR t ((stamp_relation now (rels t (ident_of r)) r)\<lparr>r_etag := etag\<rparr>)"
    and "\<not> if_match_refused ifMatch (r_etag (stamp_relation now (rels t (ident_of r)) r))"
  shows "\<exists>s t'. SetRelation_tx T now ifMatch etag (Some r) t = (None, s, t')"
proof -
  let ?u = "(stamp_relation now (rels t (ident_of r)) r)\<lparr>r_etag := etag\<rparr>"
  have "wf_rid ?u" using assms(2) wf_rid_ident_of [of ?u] by simp
  from SetRelation_ok [OF assms(1) this assms(3)] assms(4) show ?thesis
    by (auto simp: SetRelation_tx_eq [OF assms(1,2)])
qed

text \<open>The If-Match header of a deletion must be the stored etag.\<close>

lemma DeleteObject_tx_eq:
  assumes "inv t" "wf_oid (ty, oid)"
  shows "DeleteObject_tx T now ifMatch ty oid w t =
    (if ifMatch \<noteq> [] \<and> ifMatch \<noteq> o_etag (obj0 (objs t (ty, oid)))
     then (Some (object_mismatch (zero_object\<lparr>o_type := ty, o_id := oid\<rparr>)), False, t)
     else delete_object T ty oid w t)"
proof -
  let ?x = "zero_object\<lparr>o_type := ty, o_id := oid\<rparr>"
  have id: "object_ident ?x = (ty, oid)" by (simp add: object_ident_def)
  have "o_etag (stamp_object now (objs t (ty, oid)) ?x) = o_etag (obj0 (objs t (ty, oid)))"
    by (simp add: stamp_object_etag zero_object_def split: option.split)
  then show ?thesis
    using UpdateMetadataObject_eq [OF assms(1), of ?x now] assms(2)
    by (simp add: DeleteObject_tx_def id object_mismatch_stamp)
qed

lemma DeleteRelation_tx_eq:
  assumes "inv t" "wf_rid i"
  shows "DeleteRelation_tx T now ifMatch i t =
    (if ifMatch \<noteq> [] \<and> ifMatch \<noteq> r_etag (rel0 (rels t i)) then (Some (relation_mismatch i), False, t)
     else case tx_DeleteRelation T t i of (Some e, t') \<Rightarrow> (Some e, False, t') | (None, t') \<Rightarrow> (None, True, t'))"
proof -
  have "wf_rid (relation_of_ident i)" using assms(2) wf_rid_ident_of [of "relation_of_ident i"] by simp
  moreover have "r_etag (stamp_relation now (rels t i) (relation_of_ident i)) = r_etag (rel0 (rels t i))"
    by (simp add: stamp_relation_etag relation_of_ident_def zero_relation_def split: option.split)
  ultimately show ?thesis
    using UpdateMetadataRelation_eq [OF assms(1), of "relation_of_ident i" now]
    by (simp add: DeleteRelation_tx_def Let_def)
qed

end

end
