(* ===== verification/Check.thy ===== *)
theory Check
  imports Ds
begin

text \<open>
  Checks and graphs: \<open>ds/check.go\<close>, \<open>ds/checks.go\<close> and \<open>ds/graph.go\<close>. The graph engine is azm's
  model cache, a parameter: the code hands it a relation reader, a closure over the transaction,
  and passes its answer on. What the code itself decides is which relations the reader returns,
  when a check is refused before the engine runs, and how errors become negative answers.
\<close>

section \<open>Requests and the engine parameter\<close>

record check_req =
  c_otype :: string
  c_oid :: string
  c_rel :: string
  c_stype :: string
  c_sid :: string
  c_trace :: bool

definition zero_check :: check_req where
  "zero_check = \<lparr>c_otype = [], c_oid = [], c_rel = [], c_stype = [], c_sid = [], c_trace = False\<rparr>"

record check_resp =
  cr_check :: bool
  cr_context :: pbstruct

definition zero_check_resp :: check_resp where
  "zero_check_resp = \<lparr>cr_check = False, cr_context = None\<rparr>"

record graph_req = rel_ident +
  gq_explain :: bool
  gq_trace :: bool

record graph_resp =
  gp_results :: "obj_id list"

definition zero_graph_resp :: graph_resp where
  "zero_graph_resp = \<lparr>gp_results = []\<rparr>"

text \<open>
  \<open>graph.RelationReader\<close>: a possibly partial identifier and the slice to append to. The pool it
  also takes only recycles allocations.
\<close>

type_synonym rel_reader = "rel_ident \<Rightarrow> rel_ident list \<Rightarrow> rel_ident list result"

text \<open>
  \<open>az_Error\<close> is \<open>err.Error()\<close>, \<open>az_Unwrap\<close> is \<open>errors.Unwrap\<close>; \<open>az_Check\<close> returns the response pointer
  (nil is \<open>None\<close>) and the error; \<open>az_CheckRequests\<close> merges the default into each check; \<open>az_pool\<close> is
  the job pool run to its end: the error of \<open>Produce\<close>, or the consumer's answers.
\<close>

record ('mc, 'model) azm_graph = "('mc, 'model) azm" +
  az_Error :: "derror \<Rightarrow> string"
  az_Unwrap :: "derror \<Rightarrow> derror option"
  az_Reason :: string
  az_v_Check :: "check_req \<Rightarrow> derror option"
  az_val_check :: "'mc \<Rightarrow> check_req \<Rightarrow> derror option"
  az_Check :: "'mc \<Rightarrow> check_req \<Rightarrow> rel_reader \<Rightarrow> derror option \<times> check_resp option"
  az_CheckRequests :: "check_req \<Rightarrow> check_req list \<Rightarrow> check_req list"
  az_pool :: "(check_req \<Rightarrow> check_resp) \<Rightarrow> check_req list \<Rightarrow> check_resp list result"
  az_v_GetGraph :: "graph_req \<Rightarrow> derror option"
  az_val_graph :: "'mc \<Rightarrow> graph_req \<Rightarrow> derror option"
  az_GetGraph :: "'mc \<Rightarrow> graph_req \<Rightarrow> rel_reader \<Rightarrow> graph_resp result"
  az_AvailablePermissions :: "'mc \<Rightarrow> string \<Rightarrow> string \<Rightarrow> string list result"

section \<open>Checks\<close>

definition SetContextWithReason :: "('mc, 'model, 'y) azm_graph_scheme \<Rightarrow> derror \<Rightarrow> pbstruct" where
  "SetContextWithReason Z err = Some [az_Reason Z \<mapsto> PStr (az_Error Z err)]"

definition checkError :: "('mc, 'model, 'y) azm_graph_scheme \<Rightarrow> derror \<Rightarrow> check_resp" where
  "checkError Z err = \<lparr>cr_check = False, cr_context = Some [az_Reason Z \<mapsto> PStr (az_Error Z err)]\<rparr>"

definition getRelations ::
  "('mc, 'model, 'y) azm_scheme \<Rightarrow> ('tx, 'model, 'z) Tx_scheme \<Rightarrow> 'tx \<Rightarrow> rel_reader" where
  "getRelations Z T t r out = (case relation_Filter Z (RelationIdentifier r) of
      (dir, flt, valueFilter) \<Rightarrow> tx_ScanRelationsFiltered T t dir flt (Some valueFilter) out)"

definition relationIdentifierExist ::
  "('tx, 'model, 'z) Tx_scheme \<Rightarrow> 'tx \<Rightarrow> direction \<Rightarrow> string \<Rightarrow> string \<Rightarrow> bool" where
  "relationIdentifierExist T t dir objectType objectID =
     (case tx_RelationsExistForObject T t dir objectType objectID of
        Inl _ \<Rightarrow> False
      | Inr exists \<Rightarrow> exists)"

definition derr_object_not_found :: "string \<Rightarrow> string \<Rightarrow> string \<Rightarrow> derror" where
  "derr_object_not_found what ty oid = DErr ''ErrObjectNotFound'' (what @ '' '' @ ty @ '':'' @ oid)"

definition RelationIdentifiersExist ::
  "('tx, 'model, 'z) Tx_scheme \<Rightarrow> 'tx \<Rightarrow> check_req \<Rightarrow> derror option" where
  "RelationIdentifiersExist T t i =
     (if \<not> relationIdentifierExist T t BySubject (c_stype i) (c_sid i)
      then Some (derr_object_not_found ''subject'' (c_stype i) (c_sid i))
      else if \<not> relationIdentifierExist T t ByObject (c_otype i) (c_oid i)
      then Some (derr_object_not_found ''object'' (c_otype i) (c_oid i))
      else None)"

definition check_Exec ::
  "('mc, 'model, 'y) azm_graph_scheme \<Rightarrow> ('tx, 'model, 'z) Tx_scheme \<Rightarrow> 'mc \<Rightarrow> check_req \<Rightarrow> 'tx
     \<Rightarrow> derror option \<times> check_resp option" where
  "check_Exec Z T mc i t = (case RelationIdentifiersExist T t i of
      Some err \<Rightarrow> (Some err, Some \<lparr>cr_check = False, cr_context = SetContextWithReason Z err\<rparr>)
    | None \<Rightarrow> az_Check Z mc i (getRelations Z T t))"

text \<open>The consumer of the job pool. A nil response of the engine stays nil, and is read as the zero
  response by the generated getters.\<close>

definition checks_consumer ::
  "('mc, 'model, 'y) azm_graph_scheme \<Rightarrow> ('tx, 'model, 'z) Tx_scheme \<Rightarrow> 'mc \<Rightarrow> 'tx \<Rightarrow> check_req
     \<Rightarrow> check_resp" where
  "checks_consumer Z T mc t i = (case az_val_check Z mc i of
      Some err \<Rightarrow> checkError Z err
    | None \<Rightarrow> (case check_Exec Z T mc i t of
          (Some err, _) \<Rightarrow> checkError Z err
        | (None, None) \<Rightarrow> zero_check_resp
        | (None, Some resp) \<Rightarrow> resp))"

definition checks_Exec ::
  "('mc, 'model, 'y) azm_graph_scheme \<Rightarrow> ('tx, 'model, 'z) Tx_scheme \<Rightarrow> 'mc \<Rightarrow> check_req
     \<Rightarrow> check_req list \<Rightarrow> 'tx \<Rightarrow> derror option \<times> check_resp list" where
  "checks_Exec Z T mc def cs t =
     (case az_pool Z (checks_consumer Z T mc t) (az_CheckRequests Z def cs) of
        Inl e \<Rightarrow> (Some e, [])
      | Inr resps \<Rightarrow> (None, resps))"

definition getGraph_Exec ::
  "('mc, 'model, 'y) azm_graph_scheme \<Rightarrow> ('tx, 'model, 'z) Tx_scheme \<Rightarrow> 'mc \<Rightarrow> graph_req \<Rightarrow> 'tx
     \<Rightarrow> graph_resp result" where
  "getGraph_Exec Z T mc i t = az_GetGraph Z mc i (getRelations Z T t)"

section \<open>What the reader closure returns\<close>

context tx_store
begin

text \<open>The engine sees exactly the stored relations that match the identifier it asks for.\<close>

lemma getRelations_exact:
  assumes "inv t" "filter_ok (relation_asFilter (RelationIdentifier r))"
  shows "\<exists>is. getRelations Z T t r out = Inr (out @ is) \<and> distinct is \<and>
    set is = {i \<in> dom (rels t). relation_valueFilter (RelationIdentifier r) i}"
proof -
  let ?dir = "fst (relation_direction Z (RelationIdentifier r))"
  let ?f = "relation_asFilter (RelationIdentifier r)" and ?p = "relation_valueFilter (RelationIdentifier r)"
  let ?rows = "rrows t ?dir ?f"
  obtain js where js: "getRelations Z T t r out = Inr (out @ filter ?p js)"
    "mset js = mset (map (ident_of \<circ> the \<circ> fst) ?rows)"
    using ScanRelationsFiltered_rows [OF assms, of ?dir ?p out]
    by (auto simp: getRelations_def relation_Filter_def)
  have sound: "\<exists>s. fst w = Some s \<and> rels t (ident_of s) = Some s" if "w \<in> set ?rows" for w
    using rrows_sound [OF assms(1) that] .
  have "inj_on (ident_of \<circ> the) (set (map fst ?rows))"
  proof (rule inj_onI)
    fix a b assume ab: "a \<in> set (map fst ?rows)" "b \<in> set (map fst ?rows)"
      "(ident_of \<circ> the) a = (ident_of \<circ> the) b"
    obtain s where s: "a = Some s" "rels t (ident_of s) = Some s"
      using rows_relations [OF assms(1), of ?dir ?f] ab(1) by blast
    obtain s' where s': "b = Some s'" "rels t (ident_of s') = Some s'"
      using rows_relations [OF assms(1), of ?dir ?f] ab(2) by blast
    have "ident_of s = ident_of s'" using ab(3) s(1) s'(1) by simp
    then show "a = b" using s s' by metis
  qed
  then have "distinct (map (ident_of \<circ> the) (map fst ?rows))"
    using rrows_distinct [OF assms(1)] by (simp only: distinct_map)
  then have "distinct js" using js(2) by (metis List.map.compositionality comp_assoc mset_eq_imp_distinct_iff)
  have "set js = (ident_of \<circ> the \<circ> fst) ` set ?rows"
    using js(2) by (metis list.set_map set_mset_mset)
  then have "i \<in> set js \<Longrightarrow> i \<in> dom (rels t)" for i using sound by fastforce
  moreover have "i \<in> set js" if i: "i \<in> dom (rels t)" "?p i" for i
  proof -
    obtain s where s: "rels t i = Some s" using i(1) by blast
    then have "Some s \<in> set (map fst ?rows)"
      using rrows_complete [OF assms] i(2) by (simp add: valueFilter_match)
    moreover have "ident_of s = i" using rels_wf [OF assms(1) s] by simp
    ultimately show ?thesis using \<open>set js = _\<close> by force
  qed
  ultimately have "set (filter ?p js) = {i \<in> dom (rels t). ?p i}" by auto
  with js(1) \<open>distinct js\<close> show ?thesis by (intro exI [of _ "filter ?p js"]) simp
qed

lemma RelationIdentifiersExist_iff:
  assumes "inv t" "wf_side (c_stype i, c_sid i)" "wf_side (c_otype i, c_oid i)"
  shows "RelationIdentifiersExist T t i = None \<longleftrightarrow>
    (\<exists>r \<in> dom (rels t). side BySubject r = (c_stype i, c_sid i)) \<and>
    (\<exists>r \<in> dom (rels t). side ByObject r = (c_otype i, c_oid i))"
  using assms by (simp add: RelationIdentifiersExist_def relationIdentifierExist_def
      RelationsExistForObject_iff)

end

end
