(* ===== verification/Reader.thy ===== *)
theory Reader
  imports Writer Check
begin

text \<open>
  The reader service \<open>directory/v3/reader.go\<close>. Each handler runs in a read-only transaction and
  returns its error and its response; \<open>ifNone\<close> are the values of the If-None-Match header. The flag
  \<open>304\<close> of a response is the \<open>x-http-code\<close> header the handler sets.
\<close>

definition MaxPageSize :: int where
  "MaxPageSize = 100"

section \<open>Objects\<close>

record get_object_resp =
  go_result :: "object option"
  go_relations :: "relation option list"
  go_304 :: bool

definition GetObject_tx ::
  "('tx, 'model, 'z) Tx_scheme \<Rightarrow> string list \<Rightarrow> string \<Rightarrow> string \<Rightarrow> bool \<Rightarrow> 'tx
     \<Rightarrow> derror option \<times> get_object_resp" where
  "GetObject_tx T ifNone ty oid withRelations t =
     (let resp = \<lparr>go_result = None, go_relations = [], go_304 = False\<rparr> in
      case tx_GetObject T t ty oid of
        Inl e \<Rightarrow> (Some e, resp)
      | Inr obj \<Rightarrow>
          (if o_etag obj \<in> set ifNone then (None, resp\<lparr>go_304 := True\<rparr>)
           else if withRelations
           then (case relationsByObject T t BySubject (o_type obj) (o_id obj) of
               Inl e \<Rightarrow> (Some e, resp)
             | Inr incoming \<Rightarrow>
                 (case relationsByObject T t ByObject (o_type obj) (o_id obj) of
                    Inl e \<Rightarrow> (Some e, resp\<lparr>go_relations := incoming\<rparr>)
                  | Inr outgoing \<Rightarrow> (None, resp\<lparr>go_relations := incoming @ outgoing,
                        go_result := PatchObjectRead (Some obj)\<rparr>)))
           else (None, resp\<lparr>go_result := PatchObjectRead (Some obj)\<rparr>)))"

definition Reader_GetObject ::
  "('mc, 'model, 'y) azm_scheme \<Rightarrow> ('tx, 'model, 'z) Tx_scheme \<Rightarrow> 'mc \<Rightarrow> string list \<Rightarrow> string \<Rightarrow> string
     \<Rightarrow> bool \<Rightarrow> 'tx \<Rightarrow> derror option \<times> get_object_resp" where
  "Reader_GetObject Z T mc ifNone ty oid withRelations t =
     (let resp = \<lparr>go_result = None, go_relations = [], go_304 = False\<rparr> in
      case az_v_GetObject Z ty oid withRelations of
        Some e \<Rightarrow> (Some e, resp)
      | None \<Rightarrow> (case az_val_oid Z mc (ty, oid) of
            Some e \<Rightarrow> (Some e, resp)
          | None \<Rightarrow> View T resp (GetObject_tx T ifNone ty oid withRelations) t))"

fun GetObjectMany_loop ::
  "('tx, 'model, 'z) Tx_scheme \<Rightarrow> 'tx \<Rightarrow> obj_id list \<Rightarrow> object option list
     \<Rightarrow> derror option \<times> object option list" where
  "GetObjectMany_loop T t [] results = (None, results)"
| "GetObjectMany_loop T t (i # is) results =
     (case tx_GetObject T t (fst i) (snd i) of
        Inl e \<Rightarrow> (Some e, results)
      | Inr obj \<Rightarrow> GetObjectMany_loop T t is (results @ [PatchObjectRead (Some obj)]))"

fun validate_all :: "('a \<Rightarrow> derror option) \<Rightarrow> 'a list \<Rightarrow> derror option" where
  "validate_all v [] = None"
| "validate_all v (x # xs) = (case v x of Some e \<Rightarrow> Some e | None \<Rightarrow> validate_all v xs)"

definition Reader_GetObjectMany ::
  "('mc, 'model, 'y) azm_scheme \<Rightarrow> ('tx, 'model, 'z) Tx_scheme \<Rightarrow> 'mc \<Rightarrow> obj_id list \<Rightarrow> 'tx
     \<Rightarrow> derror option \<times> object option list" where
  "Reader_GetObjectMany Z T mc param t =
     (case az_v_GetObjectMany Z param of
        Some e \<Rightarrow> (Some e, [])
      | None \<Rightarrow> (case validate_all (az_val_oid Z mc) param of
            Some e \<Rightarrow> (Some e, [])
          | None \<Rightarrow> View T [] (\<lambda>t. GetObjectMany_loop T t param []) t))"

definition GetObjects_tx ::
  "('tx, 'model, 'z) Tx_scheme \<Rightarrow> string \<Rightarrow> int \<times> string \<Rightarrow> 'tx
     \<Rightarrow> derror option \<times> object option list \<times> string" where
  "GetObjects_tx T objectType page t =
     (case tx_ScanObjects T t objectType (snd page) of
        Inl e \<Rightarrow> (Some e, [], [])
      | Inr it \<Rightarrow> (case Page it (fst page) of
            (values, nextToken) \<Rightarrow> (None, map PatchObjectRead values, nextToken)))"

definition Reader_GetObjects ::
  "('mc, 'model, 'y) azm_scheme \<Rightarrow> ('tx, 'model, 'z) Tx_scheme \<Rightarrow> 'mc \<Rightarrow> string
     \<Rightarrow> (int \<times> string) option \<Rightarrow> 'tx \<Rightarrow> derror option \<times> object option list \<times> string" where
  "Reader_GetObjects Z T mc objectType page t =
     (case az_v_GetObjects Z objectType page of
        Some e \<Rightarrow> (Some e, [], [])
      | None \<Rightarrow>
          (let page = (case page of None \<Rightarrow> (MaxPageSize, []) | Some p \<Rightarrow> p) in
           case (if objectType \<noteq> [] then az_val_osel Z mc objectType else None) of
             Some e \<Rightarrow> (Some e, [], [])
           | None \<Rightarrow> View T ([], []) (GetObjects_tx T objectType page) t))"

section \<open>Relations\<close>

definition with_object ::
  "('tx, 'model, 'z) Tx_scheme \<Rightarrow> 'tx \<Rightarrow> string \<Rightarrow> string \<Rightarrow> (string \<rightharpoonup> object) \<Rightarrow> (string \<rightharpoonup> object)" where
  "with_object T t ty oid objects =
     (let x = (case tx_GetObject T t ty oid of
          Inl _ \<Rightarrow> zero_object\<lparr>o_type := ty, o_id := oid\<rparr>
        | Inr x \<Rightarrow> x)
      in objects(object_StrKey x \<mapsto> x))"

fun getWithObjects ::
  "('tx, 'model, 'z) Tx_scheme \<Rightarrow> 'tx \<Rightarrow> relation option list \<Rightarrow> (string \<rightharpoonup> object) \<Rightarrow> (string \<rightharpoonup> object)"
where
  "getWithObjects T t [] objects = objects"
| "getWithObjects T t (r # rs) objects =
     (let rel = rel0 r;
          objects = with_object T t (i_stype rel) (i_sid rel) objects;
          objects = with_object T t (i_otype rel) (i_oid rel) objects
      in getWithObjects T t rs objects)"

record get_relation_resp =
  gr_result :: "relation option"
  gr_objects :: "string \<rightharpoonup> object"
  gr_304 :: bool

definition GetRelation_tx ::
  "('tx, 'model, 'z) Tx_scheme \<Rightarrow> string list \<Rightarrow> direction \<Rightarrow> rel_filter \<Rightarrow> bool \<Rightarrow> 'tx
     \<Rightarrow> derror option \<times> get_relation_resp" where
  "GetRelation_tx T ifNone dir flt withObjects t =
     (let resp = \<lparr>gr_result = Some zero_relation, gr_objects = Map.empty, gr_304 = False\<rparr> in
      case tx_ScanRelations T t dir flt [] of
        Inl e \<Rightarrow> (Some e, resp)
      | Inr it \<Rightarrow> (case drain it of
            [] \<Rightarrow> (Some ErrKeyNotFound, resp)
          | [dbRel] \<Rightarrow>
              (let resp = resp\<lparr>gr_result := dbRel\<rparr> in
               if r_etag (rel0 dbRel) \<in> set ifNone then (None, resp\<lparr>gr_304 := True\<rparr>)
               else if withObjects
               then (None, resp\<lparr>gr_objects := getWithObjects T t [dbRel] Map.empty\<rparr>)
               else (None, resp))
          | _ \<Rightarrow> (Some ErrMultipleResults, resp)))"

definition Reader_GetRelation ::
  "('mc, 'model, 'y) azm_scheme \<Rightarrow> ('tx, 'model, 'z) Tx_scheme \<Rightarrow> 'mc \<Rightarrow> string list \<Rightarrow> rel_req \<Rightarrow> 'tx
     \<Rightarrow> derror option \<times> get_relation_resp" where
  "Reader_GetRelation Z T mc ifNone req t =
     (let resp = \<lparr>gr_result = Some zero_relation, gr_objects = Map.empty, gr_304 = False\<rparr> in
      case az_v_GetRelation Z req of
        Some e \<Rightarrow> (Some e, resp)
      | None \<Rightarrow>
          (let getRelation = az_GetRelation Z req in
           case az_val_rels Z mc getRelation of
             Some e \<Rightarrow> (Some e, resp)
           | None \<Rightarrow> (case relation_PathAndFilter Z getRelation of
                 Inl e \<Rightarrow> (Some e, resp)
               | Inr (dir, flt) \<Rightarrow>
                   View T resp (GetRelation_tx T ifNone dir flt (g_with_objects req)) t)))"

text \<open>
  The loop of \<open>GetRelations\<close> over the rows ahead: rows that fail the value filter are passed over,
  the page ends when it holds \<open>psize\<close> relations, with the token of the next row if there is one.
\<close>

fun GetRelations_loop ::
  "(relation \<Rightarrow> bool) \<Rightarrow> int \<Rightarrow> relation row list \<Rightarrow> relation option list
     \<Rightarrow> relation option list \<times> string" where
  "GetRelations_loop valueFilter psize [] results = (results, [])"
| "GetRelations_loop valueFilter psize (r # rs) results =
     (if \<not> valueFilter (rel0 (fst r)) then GetRelations_loop valueFilter psize rs results
      else let results' = results @ [fst r] in
        if psize = int (length results')
        then (results', case rs of [] \<Rightarrow> [] | r' # _ \<Rightarrow> snd r')
        else GetRelations_loop valueFilter psize rs results')"

record get_relations_resp =
  grs_results :: "relation option list"
  grs_objects :: "string \<rightharpoonup> object"
  grs_next :: string

definition GetRelations_tx ::
  "('tx, 'model, 'z) Tx_scheme \<Rightarrow> direction \<Rightarrow> rel_filter \<Rightarrow> (relation \<Rightarrow> bool) \<Rightarrow> bool \<Rightarrow> int \<times> string
     \<Rightarrow> 'tx \<Rightarrow> derror option \<times> get_relations_resp" where
  "GetRelations_tx T dir flt valueFilter withObjects page t =
     (let resp = \<lparr>grs_results = [], grs_objects = Map.empty, grs_next = []\<rparr> in
      case tx_ScanRelations T t dir flt (snd page) of
        Inl e \<Rightarrow> (Some e, resp)
      | Inr it \<Rightarrow> (case GetRelations_loop valueFilter (fst page) (it_rest it) [] of
            (results, tok) \<Rightarrow> (None, resp\<lparr>grs_results := results, grs_next := tok,
              grs_objects := (if withObjects then getWithObjects T t results Map.empty
                else Map.empty)\<rparr>)))"

definition Reader_GetRelations ::
  "('mc, 'model, 'y) azm_scheme \<Rightarrow> ('tx, 'model, 'z) Tx_scheme \<Rightarrow> 'mc \<Rightarrow> rel_req \<Rightarrow> 'tx
     \<Rightarrow> derror option \<times> get_relations_resp" where
  "Reader_GetRelations Z T mc req t =
     (let resp = \<lparr>grs_results = [], grs_objects = Map.empty, grs_next = []\<rparr> in
      case az_v_GetRelations Z req of
        Some e \<Rightarrow> (Some e, resp)
      | None \<Rightarrow>
          (let page = (case g_page req of None \<Rightarrow> (MaxPageSize, []) | Some p \<Rightarrow> p);
               getRels = az_GetRelations Z (req\<lparr>g_page := Some page\<rparr>)
           in case az_val_rels Z mc getRels of
                Some e \<Rightarrow> (Some e, resp)
              | None \<Rightarrow> (case relation_RelationValueFilter Z getRels of
                    (dir, flt, valueFilter) \<Rightarrow>
                      View T resp (GetRelations_tx T dir flt valueFilter (g_with_objects req) page) t)))"

section \<open>Checks and graphs\<close>

text \<open>\<open>Check\<close> returns no error: the outcome is the response, or the panic of writing to the nil
  response of a failed engine call.\<close>

definition Reader_Check ::
  "('mc, 'model, 'y) azm_graph_scheme \<Rightarrow> ('tx, 'model, 'z) Tx_scheme \<Rightarrow> 'mc \<Rightarrow> check_req \<Rightarrow> 'tx
     \<Rightarrow> check_resp option result" where
  "Reader_Check Z T mc req t =
     (case az_v_Check Z req of
        Some err \<Rightarrow> Inr (Some \<lparr>cr_check = False, cr_context = SetContextWithReason Z err\<rparr>)
      | None \<Rightarrow> (case az_val_check Z mc req of
            Some err \<Rightarrow> Inr (Some \<lparr>cr_check = False, cr_context = SetContextWithReason Z
              (case az_Unwrap Z err of Some err' \<Rightarrow> err' | None \<Rightarrow> err)\<rparr>)
          | None \<Rightarrow> (case View T (Some zero_check_resp) (check_Exec Z T mc req) t of
                (None, resp) \<Rightarrow> Inr resp
              | (Some err, None) \<Rightarrow> Inl nil_deref
              | (Some err, Some resp) \<Rightarrow>
                  Inr (Some (resp\<lparr>cr_context := SetContextWithReason Z err\<rparr>)))))"

definition Reader_Checks ::
  "('mc, 'model, 'y) azm_graph_scheme \<Rightarrow> ('tx, 'model, 'z) Tx_scheme \<Rightarrow> 'mc \<Rightarrow> check_req option
     \<Rightarrow> check_req list \<Rightarrow> 'tx \<Rightarrow> derror option \<times> check_resp list" where
  "Reader_Checks Z T mc def cs t =
     View T [] (checks_Exec Z T mc (case def of None \<Rightarrow> zero_check | Some d \<Rightarrow> d) cs) t"

definition unimplemented :: "string \<Rightarrow> derror" where
  "unimplemented msg = AErr [] Unimplemented msg"

definition Reader_CheckPermission :: derror where
  "Reader_CheckPermission = unimplemented ''check permission is obsolete, use check instead''"

definition Reader_CheckRelation :: derror where
  "Reader_CheckRelation = unimplemented ''check relation is obsolete, use check instead''"

definition Reader_GetGraph ::
  "('mc, 'model, 'y) azm_graph_scheme \<Rightarrow> ('tx, 'model, 'z) Tx_scheme \<Rightarrow> 'mc \<Rightarrow> graph_req \<Rightarrow> 'tx
     \<Rightarrow> derror option \<times> graph_resp" where
  "Reader_GetGraph Z T mc req t =
     (case az_v_GetGraph Z req of
        Some e \<Rightarrow> (Some e, zero_graph_resp)
      | None \<Rightarrow> (case az_val_graph Z mc req of
            Some e \<Rightarrow> (Some e, zero_graph_resp)
          | None \<Rightarrow> View T zero_graph_resp (\<lambda>t. case getGraph_Exec Z T mc req t of
                Inl e \<Rightarrow> (Some e, zero_graph_resp)
              | Inr results \<Rightarrow> (None, results)) t))"

section \<open>Pages and lookups\<close>

text \<open>One page as a client sees it: the items and the continuation token for a given token.\<close>

definition relations_page ::
  "('tx, 'model, 'z) Tx_scheme \<Rightarrow> direction \<Rightarrow> rel_filter \<Rightarrow> (relation \<Rightarrow> bool) \<Rightarrow> bool \<Rightarrow> int \<Rightarrow> 'tx
     \<Rightarrow> string \<Rightarrow> relation option list \<times> string" where
  "relations_page T dir flt p w psize t tok = (case GetRelations_tx T dir flt p w (psize, tok) t of
      (_, resp) \<Rightarrow> (grs_results resp, grs_next resp))"

definition objects_page ::
  "('tx, 'model, 'z) Tx_scheme \<Rightarrow> string \<Rightarrow> int \<Rightarrow> 'tx \<Rightarrow> string \<Rightarrow> object option list \<times> string" where
  "objects_page T ty psize t tok = (case GetObjects_tx T ty (psize, tok) t of (_, r) \<Rightarrow> r)"

lemma GetRelations_loop_run:
  assumes "int (length acc) < psize"
  shows "\<exists>k \<le> length rows. (rows \<noteq> [] \<longrightarrow> 0 < k) \<and> GetRelations_loop p psize rows acc =
    (acc @ filter (p \<circ> rel0) (map fst (take k rows)), if k < length rows then snd (rows ! k) else [])"
  using assms
proof (induction rows arbitrary: acc)
  case (Cons r rs)
  show ?case
  proof (cases "p (rel0 (fst r)) \<and> psize = int (length (acc @ [fst r]))")
    case True
    then show ?thesis by (intro exI [of _ 1]) (auto split: list.split)
  next
    case False
    let ?acc = "if p (rel0 (fst r)) then acc @ [fst r] else acc"
    have "int (length ?acc) < psize" using False Cons.prems by auto
    from Cons.IH [OF this] obtain k where "k \<le> length rs" "GetRelations_loop p psize rs ?acc =
      (?acc @ filter (p \<circ> rel0) (map fst (take k rs)), if k < length rs then snd (rs ! k) else [])"
      by blast
    with False show ?thesis by (intro exI [of _ "Suc k"]) (auto simp: comp_def)
  qed
qed simp

lemma GetRelations_run:
  assumes "0 < psize" "rows \<noteq> []"
  shows "page_run (\<lambda>rows. filter (p \<circ> rel0) (map fst rows)) rows (GetRelations_loop p psize rows [])"
proof -
  have "int (length ([] :: relation option list)) < psize" using assms(1) by simp
  from GetRelations_loop_run [OF this, of rows p] assms(2)
  obtain k where "k \<le> length rows" "0 < k" "GetRelations_loop p psize rows [] =
      ([] @ filter (p \<circ> rel0) (map fst (take k rows)), if k < length rows then snd (rows ! k) else [])"
    by blast
  then show ?thesis unfolding page_run_def by (intro exI [of _ k]) simp
qed

context tx_store
begin

text \<open>Following the tokens of \<open>GetRelations\<close> and of \<open>GetObjects\<close> from the empty token.\<close>

lemma GetRelations_pages:
  assumes "inv t" "0 < psize" "filter_ok flt"
  shows "follow_pages (Suc (length (rrows t dir flt))) (relations_page T dir flt p w psize t) []
    = filter (p \<circ> rel0) (map fst (rrows t dir flt))"
proof -
  let ?rows = "rrows t dir flt"
  define page where "page = relations_page T dir flt p w psize t"
  note page_def = page_def relations_page_def
  have start: "page [] = GetRelations_loop p psize ?rows []"
    by (simp add: page_def GetRelations_tx_def ScanRelations_start [OF assms(1,3)] new_iter_def split: prod.split)
  have tok: "page (snd (?rows ! j)) = GetRelations_loop p psize (drop j ?rows) []"
    "snd (?rows ! j) \<noteq> []" if "j < length ?rows" for j
    using ScanRelations_token [OF assms(1,3) that]
    by (auto simp: page_def GetRelations_tx_def new_iter_def split: prod.split)
  show ?thesis
  proof (cases "?rows = []")
    case True
    then show ?thesis by (simp add: start page_def(1) [symmetric])
  next
    case False
    then have "page_run (\<lambda>rows. filter (p \<circ> rel0) (map fst rows)) (drop 0 ?rows) (page [])"
      by (simp add: start GetRelations_run [OF assms(2)])
    with False follow_pages_all [where g = "\<lambda>rows. filter (p \<circ> rel0) (map fst rows)" and rows = ?rows
        and page = page and j = 0 and tok = "[]" and n = "Suc (length ?rows)"]
    show ?thesis using tok GetRelations_run [OF assms(2)] by (simp add: page_def(1) [symmetric])
  qed
qed

lemma GetObjects_pages:
  assumes "inv t" "0 < psize" "text_ok ty"
  shows "follow_pages (Suc (length (orows t ty))) (objects_page T ty psize t) [] = map PatchObjectRead (map fst (orows t ty))"
proof -
  let ?rows = "orows t ty" and ?g = "\<lambda>rows. map PatchObjectRead (map fst rows)"
  define page where "page = objects_page T ty psize t"
  note page_def = page_def objects_page_def
  have run: "page_run ?g rows (case Page (new_iter rows) psize of (v, n) \<Rightarrow> (map PatchObjectRead v, n))"
    if ne: "rows \<noteq> []" for rows :: "object row list"
  proof -
    obtain k where "0 < k" "k \<le> length rows" "Page (new_iter rows) psize
        = (map fst (take k rows), if k < length rows then snd (rows ! k) else [])"
      using Page_run [OF assms(2) ne] unfolding page_run_def by blast
    then show ?thesis unfolding page_run_def by (intro exI [of _ k]) simp
  qed
  have start: "page [] = (case Page (new_iter ?rows) psize of (v, n) \<Rightarrow> (map PatchObjectRead v, n))"
    by (simp add: page_def GetObjects_tx_def ScanObjects_start [OF assms(1,3)] split: prod.split)
  have tok: "page (snd (?rows ! j)) = (case Page (new_iter (drop j ?rows)) psize of (v, n) \<Rightarrow> (map PatchObjectRead v, n))"
    "snd (?rows ! j) \<noteq> []" if "j < length ?rows" for j
    using ScanObjects_token [OF assms(1,3) that] by (auto simp: page_def GetObjects_tx_def split: prod.split)
  show ?thesis
  proof (cases "?rows = []")
    case True
    then show ?thesis by (simp add: start Page_def new_iter_def page_def(1) [symmetric])
  next
    case False
    have "page_run ?g (drop 0 ?rows) (page [])" unfolding start drop_0 by (rule run [OF False])
    with False follow_pages_all [where g = ?g and rows = ?rows and page = page and j = 0 and tok = "[]"
        and n = "Suc (length ?rows)"]
    show ?thesis using tok run [of "drop _ ?rows"] by (simp add: page_def(1) [symmetric])
  qed
qed

lemma GetObject_tx_hit:
  assumes "inv t" "objs t (ty, oid) = Some x" "o_etag x \<notin> set ifNone"
  shows "GetObject_tx T ifNone ty oid False t =
    (None, \<lparr>go_result = PatchObjectRead (Some x), go_relations = [], go_304 = False\<rparr>)"
  using assms by (simp add: GetObject_tx_def GetObject_hit)

end

end
