(* ===== verification/MemStore.thy ===== *)
theory MemStore
  imports BdbStore
begin

text \<open>
  A concrete environment of the BoltDB store: the in-memory engine, and codecs that tag a message
  with its type. The store's invariant holds on the database that the code creates at start-up.
\<close>

datatype 'model stored =
    SObj object
  | SRel relation
  | SMd metadata
  | SBody body
  | SModel 'model

definition bad_tag :: derror where
  "bad_tag = ExtErr ''cannot parse invalid wire-format data''"

type_synonym 'model mem_state = "'model stored mem_db"

definition mem_env :: "('model mem_state, 'model stored, 'model) bdb_env" where
  "mem_env = \<lparr>bolt_valid = mem_valid, bolt_fits = (\<lambda>_. True), bolt_has = mem_has,
     bolt_create = mem_create, bolt_drop = mem_drop,
     bolt_get = (\<lambda>db p k. map_of (mem_entries db p) k), bolt_put = mem_put, bolt_del = mem_del,
     bolt_entries = mem_entries,
     bolt_seek = (\<lambda>db p k. dropWhile (\<lambda>e. fst e < k) (mem_entries db p)),
     bolt_children = (\<lambda>db p. map last
       (filter (\<lambda>q. q \<noteq> [] \<and> butlast q = p) (map fst db))),
     bolt_begin = (\<lambda>_ _. None), bolt_commit = (\<lambda>_. None), bolt_rollback = (\<lambda>_. None),
     enc_obj = (\<lambda>x. Inr (SObj x)),
     dec_obj = (\<lambda>v. case v of SObj x \<Rightarrow> Inr x | _ \<Rightarrow> Inl bad_tag),
     enc_rel = (\<lambda>r. Inr (SRel r)),
     dec_rel = (\<lambda>v. case v of SRel r \<Rightarrow> Inr r | _ \<Rightarrow> Inl bad_tag),
     dec_rid = (\<lambda>v. case v of SRel r \<Rightarrow> Inr (ident_of r) | _ \<Rightarrow> Inl bad_tag),
     enc_md = (\<lambda>m. Inr (SMd m)),
     dec_md = (\<lambda>v. case v of SMd m \<Rightarrow> Inr m | _ \<Rightarrow> Inl bad_tag),
     enc_body = (\<lambda>b. Inr (SBody b)),
     dec_body = (\<lambda>v. case v of SBody b \<Rightarrow> Inr b | _ \<Rightarrow> Inl bad_tag),
     enc_model = (\<lambda>m. Inr (SModel m)),
     dec_model = (\<lambda>v. case v of SModel m \<Rightarrow> Inr m | _ \<Rightarrow> Inl bad_tag)\<rparr>"

lemma mem_env_sel [simp]:
  "bolt_valid mem_env = mem_valid" "bolt_fits mem_env = (\<lambda>_. True)" "bolt_has mem_env = mem_has"
  "bolt_create mem_env = mem_create" "bolt_drop mem_env = mem_drop"
  "bolt_get mem_env = (\<lambda>db p k. map_of (mem_entries db p) k)"
  "bolt_put mem_env = mem_put" "bolt_del mem_env = mem_del" "bolt_entries mem_env = mem_entries"
  "bolt_seek mem_env = (\<lambda>db p k. dropWhile (\<lambda>e. fst e < k) (mem_entries db p))"
  "bolt_begin mem_env = (\<lambda>_ _. None)" "bolt_commit mem_env = (\<lambda>_. None)"
  "bolt_rollback mem_env = (\<lambda>_. None)"
  "enc_obj mem_env x = Inr (SObj x)" "dec_obj mem_env (SObj x) = Inr x"
  "enc_rel mem_env r = Inr (SRel r)" "dec_rel mem_env (SRel r) = Inr r"
  "dec_rid mem_env (SRel r) = Inr (ident_of r)"
  "enc_md mem_env m = Inr (SMd m)" "dec_md mem_env (SMd m) = Inr m"
  "enc_body mem_env b = Inr (SBody b)" "dec_body mem_env (SBody b) = Inr b"
  "enc_model mem_env d = Inr (SModel d)" "dec_model mem_env (SModel d) = Inr d"
  by (simp_all add: mem_env_def)

interpretation mem_env: bolt_engine "mem_env :: ('model mem_state, 'model stored, 'model) bdb_env"
  using mem.bolt_engine_axioms by (simp only: bolt_engine_def mem_env_sel mem_bolt_sel)

lemma mem_env_codec: "codec_ok mem_env"
  by (auto simp: codec_ok_def)

text \<open>The buckets that \<open>initNewDB\<close> and the migrations create.\<close>

definition mem_db0 :: "'model mem_state" where
  "mem_db0 = [(RelationsSubPath, []), (RelationsObjPath, []), (ObjectsPath, []), (ManifestPath, []),
     ([''_manifest''], []), (SystemPath, [])]"

lemma mem_db0_valid: "mem_valid mem_db0"
  by (simp add: mem_valid_def mem_db0_def mem_has_def path_defs)

lemma mem_db0_has: "p \<in> set data_paths \<Longrightarrow> mem_has mem_db0 p" "p \<in> set data_paths \<Longrightarrow> \<not> mem_has mem_db0 (p @ [k])"
  by (auto simp: data_paths_def mem_db0_def mem_has_def path_defs)

lemma mem_db0_entries [simp]: "mem_entries mem_db0 p = []"
  by (simp add: mem_entries_def mem_db0_def)

lemma mem_db0_inv: "bdb_inv mem_env mem_db0"
  using mem_env.bolt_engine_axioms
  by (simp add: bdb_inv_def bdb_open_def rel_at_def fun_eq_iff mem_env_codec mem_db0_valid mem_db0_has)

lemma mem_db0_tables: "bdb_objs mem_env mem_db0 = Map.empty" "bdb_rels mem_env mem_db0 = Map.empty"
  by (simp_all add: bdb_objs_def bdb_rels_def rel_at_def fun_eq_iff)

end
