(* ===== verification/Stats.thy ===== *)
theory Stats
  imports Check
begin

text \<open>
  The statistics of \<open>internal/eds/pkg/ds/stats.go\<close>: the numbers of objects per type and of relations
  per object type, relation, subject type and subject relation, which guard a manifest update and
  which the exporter can send. The counters are 32-bit and wrap around. The lemmas equate every
  counter with a cardinality of the stored tables.
\<close>

section \<open>Counters\<close>

text \<open>The nested maps of \<open>azm/stats\<close>.\<close>

record subject_stats =
  ss_count :: "32 word"
  ss_rels :: "string \<rightharpoonup> 32 word"

record relation_stats =
  rs_count :: "32 word"
  rs_subjects :: "string \<rightharpoonup> subject_stats"

record type_stats =
  ts_objs :: "32 word"
  ts_count :: "32 word"
  ts_rels :: "string \<rightharpoonup> relation_stats"

type_synonym stats = "string \<rightharpoonup> type_stats"

definition NewStats :: stats where
  "NewStats = Map.empty"

text \<open>The entry under a key, or a new empty one.\<close>

definition entry :: "'v \<Rightarrow> ('k \<rightharpoonup> 'v) \<Rightarrow> 'k \<Rightarrow> 'v" where
  "entry z m k = (case m k of None \<Rightarrow> z | Some v \<Rightarrow> v)"

definition zero_type :: type_stats where
  "zero_type = \<lparr>ts_objs = 0, ts_count = 0, ts_rels = Map.empty\<rparr>"

definition zero_rel_stats :: relation_stats where
  "zero_rel_stats = \<lparr>rs_count = 0, rs_subjects = Map.empty\<rparr>"

definition zero_subject :: subject_stats where
  "zero_subject = \<lparr>ss_count = 0, ss_rels = Map.empty\<rparr>"

definition incObject :: "object option \<Rightarrow> stats \<Rightarrow> stats" where
  "incObject p s = (let ty = o_type (obj0 p); ot = entry zero_type s ty in
     s(ty \<mapsto> ot\<lparr>ts_objs := ts_objs ot + 1\<rparr>))"

definition subject_key :: "'z rel_ident_scheme \<Rightarrow> string" where
  "subject_key r = (if i_sid r = ''*'' then i_stype r @ '':*'' else i_stype r)"

definition incRelation :: "relation option \<Rightarrow> stats \<Rightarrow> stats" where
  "incRelation p s =
     (let rel = rel0 p; objType = i_otype rel; relation = i_rel rel; subType = subject_key rel;
          subRel = i_srel rel;
          ot = entry zero_type s objType;
          re = entry zero_rel_stats (ts_rels ot) relation;
          st = entry zero_subject (rs_subjects re) subType;
          st' = st\<lparr>ss_count := ss_count st + 1, ss_rels := (if subRel \<noteq> []
            then (ss_rels st)(subRel \<mapsto> entry 0 (ss_rels st) subRel + 1) else ss_rels st)\<rparr>;
          re' = re\<lparr>rs_count := rs_count re + 1, rs_subjects := (rs_subjects re)(subType \<mapsto> st')\<rparr>
      in s(objType \<mapsto> ot\<lparr>ts_count := ts_count ot + 1, ts_rels := (ts_rels ot)(relation \<mapsto> re')\<rparr>))"

definition CountObjects :: "('tx, 'model, 'z) Tx_scheme \<Rightarrow> 'tx \<Rightarrow> stats \<Rightarrow> stats result" where
  "CountObjects T t s = (case tx_ScanObjects T t [] [] of
      Inl e \<Rightarrow> Inl e
    | Inr it \<Rightarrow> Inr (fold incObject (drain it) s))"

definition CountRelations :: "('tx, 'model, 'z) Tx_scheme \<Rightarrow> 'tx \<Rightarrow> stats \<Rightarrow> stats result" where
  "CountRelations T t s = (case tx_ScanRelations T t ByObject empty_filter [] of
      Inl e \<Rightarrow> Inl e
    | Inr it \<Rightarrow> Inr (fold incRelation (drain it) s))"

definition CalculateStats :: "('tx, 'model, 'z) Tx_scheme \<Rightarrow> 'tx \<Rightarrow> stats result" where
  "CalculateStats T t = (case CountObjects T t NewStats of
      Inl e \<Rightarrow> Inl e
    | Inr s \<Rightarrow> CountRelations T t s)"

section \<open>The services' parameter\<close>

text \<open>
  What the importer, the exporter and the model service call outside the repository: the status and
  the fields of an error, the names of the import opcodes, the option bits of an export, the model
  cache's check of an update and the conversions to protobuf structs.
\<close>

datatype opcode = OPCODE_UNKNOWN | OPCODE_SET | OPCODE_DELETE | OPCODE_DELETE_WITH_RELATIONS
  | OPCODE_other int

record ('mc, 'model) azm_svc = "('mc, 'model) azm_graph" +
  az_FromError :: "derror \<Rightarrow> (nat \<times> string) option"
  az_AsAserto :: "derror \<Rightarrow> (string option \<times> string) option"
  az_SetMessage :: "derror \<Rightarrow> string \<Rightarrow> derror"
  az_opcode :: "opcode \<Rightarrow> string \<times> int"
  az_OPTION_STATS :: "32 word"
  az_OPTION_DATA_OBJECTS :: "32 word"
  az_OPTION_DATA_RELATIONS :: "32 word"
  az_stats_struct :: "stats \<Rightarrow> pbstruct result"
  az_CanUpdate :: "'mc \<Rightarrow> 'model \<Rightarrow> stats \<Rightarrow> derror option"
  az_model_struct :: "'model \<Rightarrow> pbstruct result"
  az_v_GetManifest :: "derror option"
  az_v_DeleteManifest :: "derror option"
  az_MaxChunkSizeBytes :: nat

section \<open>What the counters count\<close>

definition object_count :: "stats \<Rightarrow> string \<Rightarrow> 32 word" where
  "object_count s ty = ts_objs (entry zero_type s ty)"

definition type_count :: "stats \<Rightarrow> string \<Rightarrow> 32 word" where
  "type_count s ty = ts_count (entry zero_type s ty)"

definition relation_count :: "stats \<Rightarrow> string \<Rightarrow> string \<Rightarrow> 32 word" where
  "relation_count s ty rel = rs_count (entry zero_rel_stats (ts_rels (entry zero_type s ty)) rel)"

definition subject_count :: "stats \<Rightarrow> string \<Rightarrow> string \<Rightarrow> string \<Rightarrow> 32 word" where
  "subject_count s ty rel sub = ss_count (entry zero_subject
     (rs_subjects (entry zero_rel_stats (ts_rels (entry zero_type s ty)) rel)) sub)"

definition subject_relation_count :: "stats \<Rightarrow> string \<Rightarrow> string \<Rightarrow> string \<Rightarrow> string \<Rightarrow> 32 word" where
  "subject_relation_count s ty rel sub srel = entry 0 (ss_rels (entry zero_subject
     (rs_subjects (entry zero_rel_stats (ts_rels (entry zero_type s ty)) rel)) sub)) srel"

lemma entry_upd: "entry z (m(k \<mapsto> v)) k' = (if k' = k then v else entry z m k')"
  by (simp add: entry_def)

lemma zero_stats_sel [simp]:
  "ts_objs zero_type = 0" "ts_count zero_type = 0" "ts_rels zero_type = Map.empty"
  "rs_count zero_rel_stats = 0" "rs_subjects zero_rel_stats = Map.empty"
  "ss_count zero_subject = 0" "ss_rels zero_subject = Map.empty" "entry z Map.empty k = z"
  by (simp_all add: zero_type_def zero_rel_stats_def zero_subject_def entry_def)

lemmas count_defs = object_count_def type_count_def relation_count_def subject_count_def
  subject_relation_count_def

lemma incObject_counts:
  "object_count (incObject p s) ty = object_count s ty + (if o_type (obj0 p) = ty then 1 else 0)"
  "type_count (incObject p s) = type_count s" "relation_count (incObject p s) = relation_count s"
  "subject_count (incObject p s) = subject_count s"
  "subject_relation_count (incObject p s) = subject_relation_count s"
  by (simp_all add: fun_eq_iff count_defs incObject_def Let_def entry_upd)

lemma incRelation_counts:
  "object_count (incRelation p s) = object_count s"
  "type_count (incRelation p s) ty = type_count s ty + (if i_otype (rel0 p) = ty then 1 else 0)"
  "relation_count (incRelation p s) ty rel = relation_count s ty rel +
     (if i_otype (rel0 p) = ty \<and> i_rel (rel0 p) = rel then 1 else 0)"
  "subject_count (incRelation p s) ty rel sub = subject_count s ty rel sub +
     (if i_otype (rel0 p) = ty \<and> i_rel (rel0 p) = rel \<and> subject_key (rel0 p) = sub then 1 else 0)"
  "srel \<noteq> [] \<Longrightarrow> subject_relation_count (incRelation p s) ty rel sub srel =
     subject_relation_count s ty rel sub srel +
     (if i_otype (rel0 p) = ty \<and> i_rel (rel0 p) = rel \<and> subject_key (rel0 p) = sub \<and>
       i_srel (rel0 p) = srel then 1 else 0)"
  by (auto simp: fun_eq_iff count_defs incRelation_def Let_def entry_upd)

lemma fold_counts:
  fixes c :: "'s \<Rightarrow> 32 word"
  assumes "\<And>p s. c (inc p s) = c s + (if P p then 1 else 0)"
  shows "c (fold inc ps s) = c s + of_nat (length (filter P ps))"
  by (induction ps arbitrary: s) (simp_all add: assms)

lemma fold_keeps:
  assumes "\<And>p s. c (inc p s) = c s"
  shows "c (fold inc ps s) = c s"
  by (induction ps arbitrary: s) (simp_all add: assms)

lemma filter_card:
  assumes "distinct (map f xs)"
  shows "length (filter (\<lambda>x. P (f x)) xs) = card {y \<in> set (map f xs). P y}"
proof -
  have "length (filter (\<lambda>x. P (f x)) xs) = length (filter P (map f xs))"
    by (simp add: filter_map comp_def)
  also have "\<dots> = card (set (filter P (map f xs)))"
    using distinct_card [OF distinct_filter [OF assms]] by (rule sym)
  finally show ?thesis by simp
qed

context tx_store
begin

text \<open>An unfiltered scan lists every stored identifier once.\<close>

lemma all_relations:
  assumes "inv t"
  shows "distinct (map (ident_of \<circ> rel0) (map fst (rrows t dir empty_filter))) \<and>
    set (map (ident_of \<circ> rel0) (map fst (rrows t dir empty_filter))) = dom (rels t)"
proof
  let ?ws = "map fst (rrows t dir empty_filter)"
  note rows = rows_relations [OF assms, of dir empty_filter]
  have "inj_on (ident_of \<circ> rel0) (set ?ws)"
  proof (rule inj_onI)
    fix a b assume "a \<in> set ?ws" "b \<in> set ?ws" and eq: "(ident_of \<circ> rel0) a = (ident_of \<circ> rel0) b"
    then obtain r s where "a = Some r" "rels t (ident_of r) = Some r" "b = Some s" "rels t (ident_of s) = Some s"
      using rows by metis
    with eq show "a = b" by (metis comp_apply option.simps(5) rel0_def)
  qed
  then show "distinct (map (ident_of \<circ> rel0) ?ws)"
    using rrows_distinct [OF assms] by (simp only: distinct_map)
  have "i \<in> set (map (ident_of \<circ> rel0) ?ws)" if "rels t i = Some r" for i r
  proof -
    have "rf_match empty_filter i" by (simp add: rf_match_def empty_filter_def)
    from rrows_complete [OF assms filter_ok_empty that this] have "Some r \<in> set ?ws" .
    then have "(ident_of \<circ> rel0) (Some r) \<in> set (map (ident_of \<circ> rel0) ?ws)" unfolding set_map by (rule imageI)
    with rels_wf [OF assms that] show ?thesis by (simp add: rel0_def)
  qed
  with rows show "set (map (ident_of \<circ> rel0) ?ws) = dom (rels t)"
    by (fastforce simp del: map_map simp: rel0_def)
qed

lemma all_objects:
  assumes "inv t"
  shows "distinct (map (object_ident \<circ> obj0) (map fst (orows t []))) \<and>
    set (map (object_ident \<circ> obj0) (map fst (orows t []))) = dom (objs t)"
proof
  let ?ws = "map fst (orows t [])"
  have rows: "set ?ws = {Some x | x k. objs t k = Some x}" using orows_set [OF assms, of "[]"] by simp
  have "inj_on (object_ident \<circ> obj0) (set ?ws)"
  proof (rule inj_onI)
    fix a b assume "a \<in> set ?ws" "b \<in> set ?ws" and eq: "(object_ident \<circ> obj0) a = (object_ident \<circ> obj0) b"
    then obtain x y k l where "a = Some x" "objs t k = Some x" "b = Some y" "objs t l = Some y"
      unfolding rows by blast
    with eq objs_wf [OF assms] show "a = b" by (metis comp_apply option.simps(5) obj0_def)
  qed
  then show "distinct (map (object_ident \<circ> obj0) ?ws)"
    using orows_distinct [OF assms] by (simp only: distinct_map)
  have "(object_ident \<circ> obj0) ` {Some x | x k. objs t k = Some x} = dom (objs t)"
  proof (intro set_eqI iffI)
    fix k assume "k \<in> (object_ident \<circ> obj0) ` {Some x | x k. objs t k = Some x}"
    then obtain x l where "k = object_ident x" "objs t l = Some x" by (auto simp: obj0_def)
    with objs_wf [OF assms, of l x] show "k \<in> dom (objs t)" by auto
  next
    fix k assume "k \<in> dom (objs t)"
    then obtain x where x: "objs t k = Some x" by blast
    then have "(object_ident \<circ> obj0) (Some x) \<in> (object_ident \<circ> obj0) ` {Some x | x k. objs t k = Some x}"
      by (intro imageI) blast
    with objs_wf [OF assms x] show "k \<in> (object_ident \<circ> obj0) ` {Some x | x k. objs t k = Some x}"
      by (simp add: obj0_def)
  qed
  then show "set (map (object_ident \<circ> obj0) ?ws) = dom (objs t)" by (simp only: set_map rows [symmetric])
qed

lemma count_relations:
  assumes "inv t"
  shows "length (filter (\<lambda>p. P (ident_of (rel0 p))) (map fst (rrows t dir empty_filter))) =
    card {i \<in> dom (rels t). P i}"
  using filter_card [of "ident_of \<circ> rel0" "map fst (rrows t dir empty_filter)" P] all_relations [OF assms, of dir]
  by (simp only: comp_apply)

lemma count_objects:
  assumes "inv t"
  shows "length (filter (\<lambda>p. P (object_ident (obj0 p))) (map fst (orows t []))) = card {k \<in> dom (objs t). P k}"
  using filter_card [of "object_ident \<circ> obj0" "map fst (orows t [])" P] all_objects [OF assms]
  by (simp only: comp_apply)

lemma CalculateStats_eq:
  "inv t \<Longrightarrow> CalculateStats T t = Inr (fold incRelation (map fst (rrows t ByObject empty_filter))
     (fold incObject (map fst (orows t [])) NewStats))"
  by (simp add: CalculateStats_def CountObjects_def CountRelations_def ScanObjects_start ScanRelations_start)

lemma stats_counts:
  assumes "inv t" "CalculateStats T t = Inr s"
  shows "object_count s ty = of_nat (card {k \<in> dom (objs t). fst k = ty})"
    and "type_count s ty = of_nat (card {i \<in> dom (rels t). i_otype i = ty})"
    and "relation_count s ty rel = of_nat (card {i \<in> dom (rels t). i_otype i = ty \<and> i_rel i = rel})"
    and "subject_count s ty rel sub = of_nat (card {i \<in> dom (rels t). i_otype i = ty \<and> i_rel i = rel \<and>
      subject_key i = sub})"
    and "srel \<noteq> [] \<Longrightarrow> subject_relation_count s ty rel sub srel = of_nat (card {i \<in> dom (rels t).
      i_otype i = ty \<and> i_rel i = rel \<and> subject_key i = sub \<and> i_srel i = srel})"
proof -
  define os where "os = map fst (orows t [])"
  define ws where "ws = map fst (rrows t ByObject empty_filter)"
  have s: "s = fold incRelation ws (fold incObject os NewStats)"
    using assms by (simp add: CalculateStats_eq os_def ws_def)
  have key: "subject_key (ident_of r) = subject_key r" for r :: relation by (simp add: subject_key_def)
  note obj = count_objects [OF assms(1), folded os_def] and rel = count_relations [OF assms(1), where dir = ByObject, folded ws_def]
  have z: "object_count NewStats ty = 0" "type_count NewStats ty = 0" "relation_count NewStats ty rel = 0"
    "subject_count NewStats ty rel sub = 0" "subject_relation_count NewStats ty rel sub srel = 0"
    by (simp_all add: count_defs NewStats_def)
  show "object_count s ty = of_nat (card {k \<in> dom (objs t). fst k = ty})"
    using fold_counts [where c = "\<lambda>s. object_count s ty" and inc = incObject, OF incObject_counts(1), of os NewStats]
      obj [of "\<lambda>k. fst k = ty"]
    by (simp add: s z fold_keeps [where c = object_count, OF incRelation_counts(1)] object_ident_def)
  show "type_count s ty = of_nat (card {i \<in> dom (rels t). i_otype i = ty})"
    using fold_counts [where c = "\<lambda>s. type_count s ty" and inc = incRelation, OF incRelation_counts(2), of ws]
      rel [of "\<lambda>i. i_otype i = ty"]
    by (simp add: s z fold_keeps [where c = type_count, OF incObject_counts(2)])
  show "relation_count s ty rel = of_nat (card {i \<in> dom (rels t). i_otype i = ty \<and> i_rel i = rel})"
    using fold_counts [where c = "\<lambda>s. relation_count s ty rel" and inc = incRelation, OF incRelation_counts(3), of ws]
      rel [of "\<lambda>i. i_otype i = ty \<and> i_rel i = rel"]
    by (simp add: s z fold_keeps [where c = relation_count, OF incObject_counts(3)])
  show "subject_count s ty rel sub = of_nat (card {i \<in> dom (rels t). i_otype i = ty \<and> i_rel i = rel \<and>
      subject_key i = sub})"
    using fold_counts [where c = "\<lambda>s. subject_count s ty rel sub" and inc = incRelation, OF incRelation_counts(4), of ws]
      rel [of "\<lambda>i. i_otype i = ty \<and> i_rel i = rel \<and> subject_key i = sub"]
    by (simp add: s z key fold_keeps [where c = subject_count, OF incObject_counts(4)])
  show "subject_relation_count s ty rel sub srel = of_nat (card {i \<in> dom (rels t).
      i_otype i = ty \<and> i_rel i = rel \<and> subject_key i = sub \<and> i_srel i = srel})" if "srel \<noteq> []"
    using fold_counts [where c = "\<lambda>s. subject_relation_count s ty rel sub srel" and inc = incRelation,
        OF incRelation_counts(5) [OF that], of ws]
      rel [of "\<lambda>i. i_otype i = ty \<and> i_rel i = rel \<and> subject_key i = sub \<and> i_srel i = srel"]
    by (simp add: s z key fold_keeps [where c = subject_relation_count, OF incObject_counts(5)])
qed

end

end
