(* ===== verification/MemAzm.thy ===== *)
theory MemAzm
  imports Stats
begin

text \<open>
  A concrete instance of the model-cache parameter, on which the services can be run: every
  request is accepted, a hash is the content without the write metadata, the cache is an etag and
  a model is its manifest text with an etag.
\<close>

definition mem_check :: "string \<Rightarrow> check_req \<Rightarrow> rel_reader \<Rightarrow> derror option \<times> check_resp option" where
  "mem_check mc i reader =
     (case reader \<lparr>i_otype = c_otype i, i_oid = c_oid i, i_rel = c_rel i, i_stype = c_stype i,
             i_sid = c_sid i, i_srel = []\<rparr> [] of
        Inl e \<Rightarrow> (Some e, Some zero_check_resp)
      | Inr is \<Rightarrow> (None, Some \<lparr>cr_check = (is \<noteq> []), cr_context = None\<rparr>))"

definition mem_azm :: "(string, string \<times> string) azm_svc" where
  "mem_azm = \<lparr>
     az_v_Object = (\<lambda>_. None), az_v_Relation = (\<lambda>_. None), az_v_SetObject = (\<lambda>_. None),
     az_v_DeleteObject = (\<lambda>_ _ _. None), az_v_SetRelation = (\<lambda>_. None),
     az_v_DeleteRelation = (\<lambda>_. None), az_v_GetObject = (\<lambda>_ _ _. None),
     az_v_GetObjectMany = (\<lambda>_. None), az_v_GetObjects = (\<lambda>_ _. None),
     az_v_GetRelation = (\<lambda>_. None), az_v_GetRelations = (\<lambda>_. None),
     az_v_Body = (\<lambda>_. None), az_v_Metadata = (\<lambda>_. None),
     az_val_obj = (\<lambda>_ _. None), az_val_oid = (\<lambda>_ _. None), az_val_osel = (\<lambda>_ _. None),
     az_val_rel = (\<lambda>_ _. None), az_val_rels = (\<lambda>_ _. None),
     az_hash_obj = (\<lambda>x. o_type x @ '':'' @ o_id x @ ''/'' @ o_display x),
     az_hash_rel = (\<lambda>i. objKeyOf i),
     az_complete = (\<lambda>k. IsSet (fst k) \<and> IsSet (snd k)),
     az_GetRelation = (\<lambda>q. \<lparr>i_otype = i_otype q, i_oid = i_oid q, i_rel = i_rel q,
       i_stype = i_stype q, i_sid = i_sid q, i_srel = i_srel q, sr_has = g_with_empty q \<or> i_srel q \<noteq> []\<rparr>),
     az_GetRelations = (\<lambda>q. \<lparr>i_otype = i_otype q, i_oid = i_oid q, i_rel = i_rel q,
       i_stype = i_stype q, i_sid = i_sid q, i_srel = i_srel q, sr_has = g_with_empty q \<or> i_srel q \<noteq> []\<rparr>),
     az_load = (\<lambda>b. Inr (b, [])),
     az_stamp = (\<lambda>m e _. (fst m, e)),
     az_etag = (\<lambda>mc. mc),
     az_update = (\<lambda>_ m. (None, snd m)),
     az_Error = (\<lambda>_. ''error''), az_Unwrap = (\<lambda>_. None), az_Reason = ''reason'',
     az_v_Check = (\<lambda>_. None), az_val_check = (\<lambda>_ _. None), az_Check = mem_check,
     az_CheckRequests = (\<lambda>_ cs. cs), az_pool = (\<lambda>f cs. Inr (map f cs)),
     az_v_GetGraph = (\<lambda>_. None), az_val_graph = (\<lambda>_ _. None),
     az_GetGraph = (\<lambda>_ _ _. Inr zero_graph_resp),
     az_AvailablePermissions = (\<lambda>_ _ _. Inr [''viewer'', ''editor'']),
     az_FromError = (\<lambda>_. Some (2, ''error'')), az_AsAserto = (\<lambda>_. None), az_SetMessage = (\<lambda>e _. e),
     az_opcode = (\<lambda>_. (''OPCODE'', 0)), az_OPTION_STATS = 64, az_OPTION_DATA_OBJECTS = 8,
     az_OPTION_DATA_RELATIONS = 16, az_stats_struct = (\<lambda>_. Inr (Some Map.empty)),
     az_CanUpdate = (\<lambda>_ _ _. None), az_model_struct = (\<lambda>_. Inr (Some Map.empty)),
     az_v_GetManifest = None, az_v_DeleteManifest = None, az_MaxChunkSizeBytes = 4\<rparr>"

lemma mem_azm_sel [simp]:
  "az_v_Object mem_azm x = None" "az_v_Relation mem_azm r = None" "az_v_SetObject mem_azm ox = None"
  "az_v_DeleteObject mem_azm ty oid w = None" "az_v_SetRelation mem_azm ro = None"
  "az_v_DeleteRelation mem_azm i = None" "az_v_GetObject mem_azm ty oid w = None"
  "az_v_GetObjects mem_azm ty pg = None" "az_v_GetRelation mem_azm q = None"
  "az_v_GetRelations mem_azm q = None" "az_v_Body mem_azm bs = None" "az_v_Metadata mem_azm md = None"
  "az_val_obj mem_azm mc x = None" "az_val_oid mem_azm mc k = None" "az_val_osel mem_azm mc ty = None"
  "az_val_rel mem_azm mc i = None" "az_val_rels mem_azm mc sr = None"
  "az_hash_obj mem_azm x = o_type x @ '':'' @ o_id x @ ''/'' @ o_display x"
  "az_hash_rel mem_azm i = objKeyOf i" "az_complete mem_azm k \<longleftrightarrow> IsSet (fst k) \<and> IsSet (snd k)"
  "az_load mem_azm bs = Inr (bs, [])" "az_stamp mem_azm m e ts = (fst m, e)" "az_etag mem_azm mc = mc"
  "az_update mem_azm mc m = (None, snd m)" "az_v_Check mem_azm c = None"
  "az_val_check mem_azm mc c = None" "az_Check mem_azm = mem_check"
  "az_CheckRequests mem_azm d cs = cs" "az_pool mem_azm f cs = Inr (map f cs)"
  "az_Reason mem_azm = ''reason''" "az_Error mem_azm er = ''error''"
  "az_FromError mem_azm er = Some (2, ''error'')" "az_OPTION_STATS mem_azm = 64"
  "az_OPTION_DATA_OBJECTS mem_azm = 8" "az_OPTION_DATA_RELATIONS mem_azm = 16"
  "az_CanUpdate mem_azm mc m st = None" "az_MaxChunkSizeBytes mem_azm = 4"
  "az_v_GetManifest mem_azm = None" "az_v_DeleteManifest mem_azm = None"
  "az_AvailablePermissions mem_azm mc ty oid = Inr [''viewer'', ''editor'']"
  by (simp_all add: mem_azm_def)

end
