(* ===== verification/DirectoryProps.thy ===== *)
theory DirectoryProps
  imports Reader MemStore MemAzm
begin

text \<open>
  The properties of the reader and writer services over the BoltDB store: what a successful write
  stores and what it leaves alone, optimistic concurrency, deletion with relations, pages, and what
  a check sees. Each is an instance of the lemmas proved against the store contract. The witnesses
  run the services on the in-memory environment.
\<close>

section \<open>Inputs for the witnesses\<close>

definition ts0 :: timestamp where "ts0 = \<lparr>secs = 1, nanos = 0\<rparr>"
definition ts1 :: timestamp where "ts1 = \<lparr>secs = 2, nanos = 0\<rparr>"

definition alice :: object where
  "alice = zero_object\<lparr>o_type := ''user'', o_id := ''alice'', o_display := ''Alice''\<rparr>"

definition alice_doc :: relation where
  "alice_doc = zero_relation\<lparr>i_otype := ''doc'', i_oid := ''d1'', i_rel := ''viewer'',
     i_stype := ''user'', i_sid := ''alice''\<rparr>"

lemma alice_wf: "wf_oid (object_ident alice)" "wf_side (''user'', ''alice'')" "wf_rid alice_doc"
  by code_simp+

lemma alice_ident [simp]: "object_ident alice = (''user'', ''alice'')"
  by (simp add: alice_def object_ident_def)

lemma alice_sel [simp]: "o_type alice = ''user''" "o_id alice = ''alice''" "o_display alice = ''Alice''"
  "o_etag alice = []"
  by (simp_all add: alice_def zero_object_def)

lemma mem_begin [simp]: "tx_begin (bdb_tx mem_env) w t = None" "tx_commit (bdb_tx mem_env) t = None"
  "tx_end_view (bdb_tx mem_env) t = None"
  by simp_all

lemma mem_okO: "length (o_type x) + length (o_id x) < 1000 \<Longrightarrow> bdb_okO mem_env t x"
  by (simp add: bdb_okO_def objectKey_def MaxKeySize_def)

lemma mem_okR: "length (objKeyOf r) < 1000 \<Longrightarrow> bdb_okR mem_env t r"
  by (simp add: bdb_okR_def MaxKeySize_def)

section \<open>Shared steps\<close>

lemma distinct_set_singleton: "distinct xs \<Longrightarrow> set xs = {a} \<Longrightarrow> xs = [a]"
  by (cases xs; cases "tl xs") auto

lemma Writer_SetObject_run:
  assumes "az_v_SetObject Z obj = None" "az_val_obj Z mc (obj0 obj) = None" "tx_begin T True t = None"
    and "SetObject_tx T now ifMatch (az_hash_obj Z (obj0 obj)) obj t = (err, r, t')"
    and "tx_commit T t' = None"
  shows "Writer_SetObject Z T mc now ifMatch obj t = (err, r, if err = None then t' else t)"
  using assms by (cases err) (auto simp: Writer_SetObject_def Update_def)

lemma Writer_SetRelation_run:
  assumes "az_v_SetRelation Z rel = None" "az_val_rel Z mc (ident_of (rel0 rel)) = None"
    "tx_begin T True t = None"
    and "SetRelation_tx T now ifMatch (az_hash_rel Z (ident_of (rel0 rel))) rel t = (err, s, t')"
    and "tx_commit T t' = None"
  shows "Writer_SetRelation Z T mc now ifMatch rel t = (err, s, if err = None then t' else t)"
  using assms by (cases err) (auto simp: Writer_SetRelation_def Update_def)

lemma mem_SetObject_live:
  assumes "bdb_inv mem_env t" "wf_oid (object_ident x)" "length (o_type x) + length (o_id x) < 1000"
  shows "\<exists>r t'. Writer_SetObject mem_azm (bdb_tx mem_env) mc now [] (Some x) t = (None, r, t')"
proof -
  let ?u = "(stamp_object now (bdb_objs mem_env t (object_ident x)) x)\<lparr>o_etag := az_hash_obj mem_azm x\<rparr>"
  have "bdb_okO mem_env t ?u" using assms(3) by (intro mem_okO) simp
  then obtain r t' where "SetObject_tx (bdb_tx mem_env) now [] (az_hash_obj mem_azm x) (Some x) t = (None, r, t')"
    using bdb.SetObject_tx_live [OF assms(1,2), where ifMatch = "[]"]
    by (simp add: if_match_refused_def) blast
  then show ?thesis
    using Writer_SetObject_run [of mem_azm "Some x" mc "bdb_tx mem_env" t now "[]" None r t'] by auto
qed

lemma mem_SetRelation_live:
  assumes "bdb_inv mem_env t" "wf_rid r" "length (objKeyOf r) < 1000"
  shows "\<exists>s t'. Writer_SetRelation mem_azm (bdb_tx mem_env) mc now [] (Some r) t = (None, s, t')"
proof -
  let ?u = "(stamp_relation now (bdb_rels mem_env t (ident_of r)) r)\<lparr>r_etag := az_hash_rel mem_azm (ident_of r)\<rparr>"
  have "objKeyOf ?u = objKeyOf r" using key_ident_of(1) [of ?u] key_ident_of(1) [of r] by simp
  then have "bdb_okR mem_env t ?u" using assms(3) by (intro mem_okR) simp
  then obtain s t' where "SetRelation_tx (bdb_tx mem_env) now [] (az_hash_rel mem_azm (ident_of r)) (Some r) t
      = (None, s, t')"
    using bdb.SetRelation_tx_live [OF assms(1,2), where ifMatch = "[]"]
    by (simp add: if_match_refused_def) blast
  then show ?thesis
    using Writer_SetRelation_run [of mem_azm "Some r" mc "bdb_tx mem_env" t now "[]" None s t'] by auto
qed

text \<open>The database after \<open>SetObject\<close> of \<open>alice\<close>, and after \<open>SetRelation\<close> of \<open>alice_doc\<close> on top.\<close>

lemma alice_stored:
  obtains y t where
    "Writer_SetObject mem_azm (bdb_tx mem_env) [] ts0 [] (Some alice) mem_db0 = (None, Some y, t)"
    "bdb_inv mem_env t" "bdb_objs mem_env t = [(''user'', ''alice'') \<mapsto> y]" "bdb_rels mem_env t = Map.empty"
    "o_etag y = ''user:alice/Alice''" "o_updated y = Some ts0"
proof -
  obtain r t where run: "Writer_SetObject mem_azm (bdb_tx mem_env) [] ts0 [] (Some alice) mem_db0 = (None, r, t)"
    using mem_SetObject_live [OF mem_db0_inv alice_wf(1), of "[]" ts0] by auto
  from bdb.SetObject_tx_post [OF mem_db0_inv alice_wf(1) Writer_ok(1) [OF run, simplified]] run that
  show thesis by (simp add: mem_db0_tables stamp_object_etag)
qed

lemma alice_doc_stored:
  obtains y s t where "bdb_inv mem_env (t :: (string \<times> string) mem_state)"
    "bdb_objs mem_env t = [(''user'', ''alice'') \<mapsto> y]" "o_etag y = ''user:alice/Alice''"
    "bdb_rels mem_env t = [ident_of alice_doc \<mapsto> s]" "ident_of s = ident_of alice_doc"
proof -
  obtain y t where t: "bdb_inv mem_env (t :: (string \<times> string) mem_state)"
    "bdb_objs mem_env t = [(''user'', ''alice'') \<mapsto> y]" "bdb_rels mem_env t = Map.empty"
    "o_etag y = ''user:alice/Alice''"
    by (rule alice_stored)
  have "length (objKeyOf alice_doc) < 1000" by code_simp
  then obtain r u where run: "Writer_SetRelation mem_azm (bdb_tx mem_env) [] ts0 [] (Some alice_doc) t = (None, r, u)"
    using mem_SetRelation_live [OF t(1) alice_wf(3), of "[]" ts0] by auto
  from bdb.SetRelation_tx_post [OF t(1) alice_wf(3) Writer_ok(3) [OF run, simplified]] that [of u y] t
  show thesis by (simp add: stamp_relation_etag zero_relation_def alice_doc_def)
qed

section \<open>Writes\<close>

text \<open>
  C1: A successful \<open>SetObject\<close> returns the request's object with the content hash as etag, the
  current time as update time and the creation time of the stored object (or now for a new one).
  Unless the stored etag already is that hash, it replaces exactly this object; no other object, no
  relation and no other bucket changes, and the store's invariant holds.
\<close>

theorem SetObject_stores:
  assumes "bdb_inv E t" "wf_oid (object_ident x)"
    and "Writer_SetObject Z (bdb_tx E) mc now ifMatch (Some x) t = (None, r, t')"
  shows "\<exists>y. r = Some y \<and> object_ident y = object_ident x \<and> o_props y = o_props x \<and>
    o_display y = o_display x \<and> o_etag y = az_hash_obj Z x \<and> o_updated y = Some now \<and>
    o_created y = (case bdb_objs E t (object_ident x) of None \<Rightarrow> Some now | Some c \<Rightarrow> o_created c) \<and>
    bdb_inv E t' \<and> bdb_rels E t' = bdb_rels E t \<and> bdb_rest E t' = bdb_rest E t \<and>
    (if az_hash_obj Z x = o_etag (stamp_object now (bdb_objs E t (object_ident x)) x) then t' = t
     else bdb_objs E t' = (bdb_objs E t)(object_ident x \<mapsto> y))"
  using bdb.SetObject_tx_post [OF assms(1,2) Writer_ok(1) [OF assms(3), simplified]] by simp

theorem SetObject_stores_witness:
  "\<exists>y t'. Writer_SetObject mem_azm (bdb_tx mem_env) [] ts0 [] (Some alice) mem_db0 = (None, Some y, t') \<and>
     o_etag y = ''user:alice/Alice'' \<and> o_created y = Some ts0 \<and>
     bdb_objs mem_env t' (''user'', ''alice'') = Some y"
proof -
  obtain r t' where run: "Writer_SetObject mem_azm (bdb_tx mem_env) [] ts0 [] (Some alice) mem_db0
      = (None, r, t')"
    using alice_stored by metis
  from SetObject_stores [OF mem_db0_inv alice_wf(1) run] run show ?thesis
    by (auto simp: mem_db0_tables stamp_object_etag)
qed

text \<open>
  C11: Optimistic concurrency. When the stored object has an etag and the request's If-Match header
  names another one, \<open>SetObject\<close> answers \<open>ErrHashMismatch\<close>, returns no object and changes nothing.
\<close>

theorem SetObject_refused:
  assumes "bdb_inv E t" "wf_oid (object_ident x)" "bdb_objs E t (object_ident x) = Some c"
    and "o_etag c \<noteq> []" "ifMatch \<noteq> []" "ifMatch \<noteq> o_etag c"
    and "az_v_SetObject Z (Some x) = None" "az_val_obj Z mc x = None" "tx_begin (bdb_tx E) True t = None"
  shows "Writer_SetObject Z (bdb_tx E) mc now ifMatch (Some x) t = (Some (object_mismatch x), None, t)"
proof -
  have "SetObject_tx (bdb_tx E) now ifMatch (az_hash_obj Z x) (Some x) t = (Some (object_mismatch x), None, t)"
    using assms(3-6) bdb.object_mismatch_stamp
    by (simp add: bdb.SetObject_tx_eq [OF assms(1,2)] if_match_refused_def stamp_object_etag)
  with assms(7-9) show ?thesis by (simp add: Writer_SetObject_def Update_fn_err)
qed

theorem SetObject_refused_witness:
  "\<exists>t. bdb_objs mem_env t (''user'', ''alice'') \<noteq> None \<and>
     Writer_SetObject mem_azm (bdb_tx mem_env) [] ts1 ''stale'' (Some alice) t
       = (Some (object_mismatch alice), None, t)"
proof -
  obtain y t where t: "bdb_inv mem_env (t :: (string \<times> string) mem_state)"
    "bdb_objs mem_env t = [(''user'', ''alice'') \<mapsto> y]" "o_etag y = ''user:alice/Alice''"
    by (rule alice_stored)
  have "Writer_SetObject mem_azm (bdb_tx mem_env) [] ts1 ''stale'' (Some alice) t
      = (Some (object_mismatch alice), None, t)"
    by (rule SetObject_refused [OF t(1) alice_wf(1), of y]) (simp_all add: t(2,3))
  with t(2) show ?thesis by (intro exI [of _ t]) simp
qed

text \<open>
  C14: Writing the same object again is idempotent: with a non-empty content hash, a second
  \<open>SetObject\<close> leaves the database exactly as the first one left it. Its response still carries the
  new time as update time, while the stored object keeps the time of the first write.
\<close>

theorem SetObject_idempotent:
  assumes "bdb_inv E t" "wf_oid (object_ident x)" "az_hash_obj Z x \<noteq> []"
    and "az_hash_obj Z x \<noteq> o_etag (stamp_object now (bdb_objs E t (object_ident x)) x)"
    and "Writer_SetObject Z (bdb_tx E) mc now [] (Some x) t = (None, r, t')"
    and "Writer_SetObject Z (bdb_tx E) mc now2 [] (Some x) t' = (None, r2, t2)"
  shows "t2 = t' \<and> map_option o_etag r2 = map_option o_etag r \<and>
    map_option o_updated r2 = Some (Some now2) \<and>
    map_option o_updated (bdb_objs E t' (object_ident x)) = Some (Some now)"
proof -
  from bdb.SetObject_tx_post [OF assms(1,2) Writer_ok(1) [OF assms(5), simplified]] assms(4)
  have 1: "bdb_inv E t'" "r = Some ((stamp_object now (bdb_objs E t (object_ident x)) x)\<lparr>o_etag := az_hash_obj Z x\<rparr>)"
    "bdb_objs E t' (object_ident x) = r" by auto
  from bdb.SetObject_tx_post [OF 1(1) assms(2) Writer_ok(1) [OF assms(6), simplified]] 1(2,3) assms(3)
  show ?thesis by (simp add: stamp_object_etag)
qed

theorem SetObject_idempotent_witness:
  "\<exists>r t' r2. Writer_SetObject mem_azm (bdb_tx mem_env) [] ts0 [] (Some alice) mem_db0 = (None, r, t') \<and>
     Writer_SetObject mem_azm (bdb_tx mem_env) [] ts1 [] (Some alice) t' = (None, r2, t')"
proof -
  obtain y t where t: "Writer_SetObject mem_azm (bdb_tx mem_env) [] ts0 [] (Some alice) mem_db0 = (None, Some y, t)"
    "bdb_inv mem_env t"
    by (rule alice_stored)
  obtain r2 t2 where t2: "Writer_SetObject mem_azm (bdb_tx mem_env) [] ts1 [] (Some alice) t = (None, r2, t2)"
    using mem_SetObject_live [OF t(2) alice_wf(1), of "[]" ts1] by auto
  have "t2 = t"
    using SetObject_idempotent [OF mem_db0_inv alice_wf(1) _ _ t(1) t2]
    by (simp add: mem_db0_tables stamp_object_etag)
  with t(1) t2 show ?thesis by blast
qed

text \<open>
  C13: Round trip. An object that \<open>SetObject\<close> wrote is what \<open>GetObject\<close> then returns, with the
  display-name patch for readers applied, unless the caller already has its etag.
\<close>

theorem SetObject_GetObject:
  assumes "bdb_inv E t" "wf_oid (object_ident x)"
    and "az_hash_obj Z x \<noteq> o_etag (stamp_object now (bdb_objs E t (object_ident x)) x)"
    and "Writer_SetObject Z (bdb_tx E) mc now ifMatch (Some x) t = (None, r, t')"
    and "az_v_GetObject Z (o_type x) (o_id x) False = None" "az_val_oid Z mc (object_ident x) = None"
    and "tx_begin (bdb_tx E) False t' = None" "tx_end_view (bdb_tx E) t' = None"
    and "az_hash_obj Z x \<notin> set ifNone"
  shows "Reader_GetObject Z (bdb_tx E) mc ifNone (o_type x) (o_id x) False t' =
    (None, \<lparr>go_result = PatchObjectRead r, go_relations = [], go_304 = False\<rparr>)"
proof -
  from bdb.SetObject_tx_post [OF assms(1,2) Writer_ok(1) [OF assms(4), simplified]] assms(3)
  obtain y where y: "bdb_inv E t'" "r = Some y" "bdb_objs E t' (o_type x, o_id x) = Some y"
    "o_etag y = az_hash_obj Z x" by (auto simp: object_ident_def)
  with bdb.GetObject_tx_hit [OF y(1,3), of ifNone] assms(5-9) show ?thesis
    by (simp add: Reader_GetObject_def object_ident_def View_ok)
qed

theorem SetObject_GetObject_witness:
  "\<exists>r t'. Writer_SetObject mem_azm (bdb_tx mem_env) [] ts0 [] (Some alice) mem_db0 = (None, r, t') \<and>
     Reader_GetObject mem_azm (bdb_tx mem_env) [] [''x''] ''user'' ''alice'' False t' =
       (None, \<lparr>go_result = PatchObjectRead r, go_relations = [], go_304 = False\<rparr>)"
proof -
  obtain y t where t: "Writer_SetObject mem_azm (bdb_tx mem_env) [] ts0 [] (Some alice) mem_db0 = (None, Some y, t)"
    by (rule alice_stored)
  from SetObject_GetObject [OF mem_db0_inv alice_wf(1) _ t, of "[''x'']"] t show ?thesis
    by (auto simp: mem_db0_tables stamp_object_etag)
qed

text \<open>
  C3: \<open>DeleteObject\<close> removes exactly the named object; with the flag \<open>WithRelations\<close> it also
  removes exactly the relations that have the object as subject or as object, from both indexes. All other
  objects and relations stay.
\<close>

theorem DeleteObject_exact:
  assumes "bdb_inv E t" "wf_side (ty, oid)"
    and "Writer_DeleteObject Z (bdb_tx E) mc now ifMatch ty oid withRelations t = (None, b, t')"
  shows "b \<and> bdb_inv E t' \<and> bdb_rest E t' = bdb_rest E t \<and>
    bdb_objs E t' = (bdb_objs E t)((ty, oid) := None) \<and>
    bdb_rels E t' = (\<lambda>i. if withRelations \<and>
      ((i_stype i, i_sid i) = (ty, oid) \<or> (i_otype i, i_oid i) = (ty, oid)) then None else bdb_rels E t i) \<and>
    (ifMatch \<noteq> [] \<longrightarrow> ifMatch = o_etag (obj0 (bdb_objs E t (ty, oid))))"
proof -
  have wf: "wf_oid (ty, oid)" using assms(2) by (simp add: wf_side_def)
  from Writer_ok(2) [OF assms(3)] bdb.delete_object_post [OF assms(1,2), of withRelations] show ?thesis
    by (auto simp: bdb.DeleteObject_tx_eq [OF assms(1) wf] side_def split: if_splits)
qed

lemma Writer_DeleteObject_run:
  assumes "bdb_inv mem_env t" "wf_side (ty, oid)"
  shows "\<exists>t'. Writer_DeleteObject mem_azm (bdb_tx mem_env) mc now [] ty oid w t = (None, True, t')"
proof -
  have "wf_oid (ty, oid)" using assms(2) by (simp add: wf_side_def)
  with bdb.delete_object_post [OF assms, of w] bdb.DeleteObject_tx_eq [OF assms(1)] show ?thesis
    by (auto simp: Writer_DeleteObject_def Update_def)
qed

theorem DeleteObject_exact_witness:
  "\<exists>t t'. Writer_DeleteObject mem_azm (bdb_tx mem_env) [] ts0 [] ''user'' ''alice'' True t = (None, True, t') \<and>
     ident_of alice_doc \<in> dom (bdb_rels mem_env t) \<and> bdb_rels mem_env t' = Map.empty"
proof -
  obtain s t where t: "bdb_inv mem_env (t :: (string \<times> string) mem_state)"
    "bdb_rels mem_env t = [ident_of alice_doc \<mapsto> s]"
    by (rule alice_doc_stored)
  obtain t' where run: "Writer_DeleteObject mem_azm (bdb_tx mem_env) [] ts0 [] ''user'' ''alice'' True t = (None, True, t')"
    using Writer_DeleteObject_run [OF t(1) alice_wf(2)] by blast
  from DeleteObject_exact [OF t(1) alice_wf(2) run]
  have "bdb_rels mem_env t' = Map.empty"
    by (auto simp: t(2) fun_eq_iff ident_of_def rel_ident.truncate_def alice_doc_def)
  with run t(2) show ?thesis by (intro exI [of _ t] exI [of _ t']) simp
qed

text \<open>
  C2: A successful \<open>SetRelation\<close> that changes the stored relation keeps the two relation indexes in
  step: the relation is found by its full key, by a scan from its subject and by a scan from its
  object, and every other relation, every object and every other bucket is untouched.
\<close>

theorem SetRelation_both_indexes:
  assumes "bdb_inv E t" "wf_rid r"
    and "az_hash_rel Z (ident_of r) \<noteq> r_etag (stamp_relation now (bdb_rels E t (ident_of r)) r)"
    and "Writer_SetRelation Z (bdb_tx E) mc now ifMatch (Some r) t = (None, s, t')"
  shows "\<exists>u. s = Some u \<and> ident_of u = ident_of r \<and> r_etag u = az_hash_rel Z (ident_of r) \<and>
    bdb_inv E t' \<and> bdb_objs E t' = bdb_objs E t \<and> bdb_rest E t' = bdb_rest E t \<and>
    bdb_rels E t' = (bdb_rels E t)(ident_of r \<mapsto> u) \<and>
    rel_at E t' BySubject (ident_of r) = Some u \<and> rel_at E t' ByObject (ident_of r) = Some u \<and>
    (\<exists>ws. relationsByObject (bdb_tx E) t' BySubject (i_stype r) (i_sid r) = Inr ws \<and> Some u \<in> set ws) \<and>
    (\<exists>ws. relationsByObject (bdb_tx E) t' ByObject (i_otype r) (i_oid r) = Inr ws \<and> Some u \<in> set ws)"
proof -
  let ?u = "(stamp_relation now (bdb_rels E t (ident_of r)) r)\<lparr>r_etag := az_hash_rel Z (ident_of r)\<rparr>"
  from bdb.SetRelation_tx_post [OF assms(1,2) Writer_ok(3) [OF assms(4), simplified]] assms(3)
  have post: "bdb_inv E t'" "bdb_objs E t' = bdb_objs E t" "bdb_rest E t' = bdb_rest E t" "s = Some ?u"
    "bdb_rels E t' = (bdb_rels E t)(ident_of r \<mapsto> ?u)" by simp_all
  have id: "ident_of ?u = ident_of r" by simp
  have at: "rel_at E t' dir (ident_of r) = Some ?u" for dir
    using post(1,5) by (cases dir) (simp_all add: bdb_rels_def bdb_inv_def)
  have scan: "\<exists>ws. relationsByObject (bdb_tx E) t' dir (fst (side dir r)) (snd (side dir r)) = Inr ws
      \<and> Some ?u \<in> set ws" for dir
  proof -
    have "rf_match (ObjectOnlyFilter dir (fst (side dir r)) (snd (side dir r))) (ident_of r)"
      by (auto simp: rf_match_def ObjectOnlyFilter_def empty_filter_def side_def)
    moreover have "wf_side (fst (side dir r), snd (side dir r))"
      using assms(2) by (auto simp: wf_rid_def side_def)
    ultimately show ?thesis
      using bdb.rrows_complete [OF post(1) _, of _ "ident_of r" ?u] post(5)
      by (simp add: bdb.relationsByObject_eq [OF post(1)] wf_side_def wf_oid_def)
  qed
  from scan [of BySubject] scan [of ByObject] post id at show ?thesis
    by (intro exI [of _ ?u]) (simp add: side_def)
qed

theorem SetRelation_both_indexes_witness:
  "\<exists>s t t'. Writer_SetRelation mem_azm (bdb_tx mem_env) [] ts0 [] (Some alice_doc) t = (None, Some s, t') \<and>
     (\<exists>ws. relationsByObject (bdb_tx mem_env) t' ByObject ''doc'' ''d1'' = Inr ws \<and> Some s \<in> set ws)"
proof -
  have len: "length (objKeyOf alice_doc) < 1000" by code_simp
  obtain r u where run: "Writer_SetRelation mem_azm (bdb_tx mem_env) [] ts0 [] (Some alice_doc) mem_db0 = (None, r, u)"
    using mem_SetRelation_live [OF mem_db0_inv alice_wf(3) len, of "[]" ts0] by blast
  from SetRelation_both_indexes [OF mem_db0_inv alice_wf(3) _ run]
  obtain s where "r = Some s" "\<exists>ws. relationsByObject (bdb_tx mem_env) u ByObject ''doc'' ''d1'' = Inr ws \<and> Some s \<in> set ws"
    by (auto simp: mem_db0_tables stamp_relation_etag alice_doc_def zero_relation_def)
  with run show ?thesis by (intro exI [of _ s] exI [of _ mem_db0] exI [of _ u]) simp
qed

text \<open>
  C16: A successful \<open>DeleteRelation\<close> removes the relation from both indexes and nothing else; with an
  If-Match header it succeeds only when the header is the stored etag. Deleting a relation that is
  not there succeeds and changes no table.
\<close>

theorem DeleteRelation_exact:
  assumes "bdb_inv E t" "wf_rid i"
    and "Writer_DeleteRelation Z (bdb_tx E) mc now ifMatch i t = (None, b, t')"
  shows "b \<and> bdb_inv E t' \<and> bdb_objs E t' = bdb_objs E t \<and> bdb_rest E t' = bdb_rest E t \<and>
    (\<forall>dir. rel_at E t' dir = (rel_at E t dir)(i := None)) \<and>
    (ifMatch \<noteq> [] \<longrightarrow> ifMatch = r_etag (rel0 (bdb_rels E t i)))"
proof -
  obtain u where u: "tx_DeleteRelation (bdb_tx E) t i = (None, u)" "bdb_inv E u"
    "bdb_rels E u = (bdb_rels E t)(i := None)" "bdb_objs E u = bdb_objs E t" "bdb_rest E u = bdb_rest E t"
    using bdb.DeleteRelation_post [OF assms(1,2)] by blast
  from Writer_ok(4) [OF assms(3)] u(1)
  have "b" "t' = u" "ifMatch \<noteq> [] \<longrightarrow> ifMatch = r_etag (rel0 (bdb_rels E t i))"
    unfolding bdb.DeleteRelation_tx_eq [OF assms(1,2)] by (auto split: if_splits)
  moreover have "rel_at E u dir = (rel_at E t dir)(i := None)" for dir
    using u(2,3) assms(1) by (cases dir) (simp_all add: bdb_rels_def bdb_inv_def)
  ultimately show ?thesis using u by simp
qed

theorem DeleteRelation_exact_witness:
  "\<exists>t t'. Writer_DeleteRelation mem_azm (bdb_tx mem_env) [] ts0 [] (ident_of alice_doc) t = (None, True, t') \<and>
     rel_at mem_env t BySubject (ident_of alice_doc) \<noteq> None \<and>
     rel_at mem_env t' BySubject (ident_of alice_doc) = None"
proof -
  obtain s t where t: "bdb_inv mem_env (t :: (string \<times> string) mem_state)"
    "bdb_rels mem_env t = [ident_of alice_doc \<mapsto> s]"
    by (rule alice_doc_stored)
  have wf: "wf_rid (ident_of alice_doc)" using alice_wf(3) by simp
  obtain u where "tx_DeleteRelation (bdb_tx mem_env) t (ident_of alice_doc) = (None, u)"
    using bdb.DeleteRelation_post [OF t(1) wf] by blast
  then have run: "Writer_DeleteRelation mem_azm (bdb_tx mem_env) [] ts0 [] (ident_of alice_doc) t = (None, True, u)"
    using bdb.DeleteRelation_tx_eq [OF t(1) wf, of ts0 "[]"]
    by (simp add: Writer_DeleteRelation_def Update_def)
  from DeleteRelation_exact [OF t(1) wf run] t run show ?thesis
    by (intro exI [of _ t] exI [of _ u]) (simp add: bdb_inv_def bdb_rels_def)
qed


section \<open>Reads\<close>

text \<open>
  C9: Pagination of \<open>GetRelations\<close> is exact: following the continuation tokens from the first page,
  with any positive page size, returns every stored relation that matches the request's fields
  (an absent subject relation matches any) exactly once and nothing else.
\<close>

theorem GetRelations_pages_exact:
  fixes req :: safe_rel
  assumes "bdb_inv E t" "0 < psize" "relation_RelationValueFilter Z req = (dir, flt, valueFilter)"
    "filter_ok flt"
    and pages_def: "pages = follow_pages (Suc (length (bdb_rrows E t dir flt)))
      (relations_page (bdb_tx E) dir flt valueFilter w psize t) []"
  shows "distinct pages \<and>
    set pages = {Some r | r. bdb_rels E t (ident_of r) = Some r \<and> relation_valueFilter req (ident_of r)}"
proof -
  from assms(3) have req: "flt = relation_asFilter req" "valueFilter = relation_valueFilter req"
    by (auto simp: relation_RelationValueFilter_def relation_Filter_def split: prod.splits if_splits)
  have pages: "pages = filter (valueFilter \<circ> rel0) (map fst (bdb_rrows E t dir flt))"
    unfolding pages_def by (rule bdb.GetRelations_pages [OF assms(1,2,4)])
  have "Some r \<in> set (map fst (bdb_rrows E t dir flt))"
    if r: "bdb_rels E t (ident_of r) = Some r" "relation_valueFilter req (ident_of r)" for r
    using bdb.rrows_complete [OF assms(1,4) r(1)] r(2) by (simp add: req valueFilter_match)
  with bdb.rows_relations [OF assms(1), of dir flt] bdb.rrows_distinct [OF assms(1), of dir flt]
  show ?thesis unfolding pages by (auto simp: req simp del: set_map)
qed

theorem GetRelations_pages_exact_witness:
  "\<exists>t s. set (follow_pages (Suc (length (bdb_rrows mem_env (t :: (string \<times> string) mem_state) ByObject
        (relation_asFilter (RelationIdentifier (ident_of alice_doc))))))
      (relations_page (bdb_tx mem_env) ByObject (relation_asFilter (RelationIdentifier (ident_of alice_doc)))
        (relation_valueFilter (RelationIdentifier (ident_of alice_doc))) True 1 t) []) = {Some s} \<and>
     ident_of s = ident_of alice_doc"
proof -
  let ?q = "RelationIdentifier (ident_of alice_doc)"
  obtain s t where t: "bdb_inv mem_env (t :: (string \<times> string) mem_state)"
    "bdb_rels mem_env t = [ident_of alice_doc \<mapsto> s]" "ident_of s = ident_of alice_doc"
    by (rule alice_doc_stored)
  have q: "relation_RelationValueFilter mem_azm ?q = (ByObject, relation_asFilter ?q, relation_valueFilter ?q)"
    by (simp add: relation_RelationValueFilter_def relation_direction_def) code_simp
  have "relation_valueFilter ?q (ident_of alice_doc)" by (simp add: relation_valueFilter_def)
  then have one: "{Some r | r. bdb_rels mem_env t (ident_of r) = Some r \<and> relation_valueFilter ?q (ident_of r)} = {Some s}"
    using t(3) by (auto simp: t(2) simp del: valueFilter_ident_of split: if_splits)
  have "filter_ok (relation_asFilter ?q)" by code_simp
  from GetRelations_pages_exact [OF t(1) _ q this refl, of 1 True] t(3) show ?thesis
    unfolding one by (intro exI [of _ t] exI [of _ s]) simp
qed

text \<open>
  C17: Pagination of \<open>GetObjects\<close> is exact: following the tokens with any positive page size returns
  every stored object of the requested type (of every type when none is given) exactly as often as
  it is stored, patched for readers.
\<close>

theorem GetObjects_pages_exact:
  assumes "bdb_inv E t" "0 < psize" "CHR '':'' \<notin> set ty" "text_ok ty"
  shows "\<exists>xs. follow_pages (Suc (length (bdb_orows E t ty))) (objects_page (bdb_tx E) ty psize t) [] =
      map PatchObjectRead xs \<and> distinct xs \<and>
    set xs = {Some x | x k. bdb_objs E t k = Some x \<and> (ty = [] \<or> fst k = ty)}"
  using bdb.GetObjects_pages [OF assms(1,2,4)] bdb.orows_distinct [OF assms(1), of ty]
    bdb.orows_set [OF assms(1,4,3)]
  by (intro exI [of _ "map fst (bdb_orows E t ty)"]) auto

theorem GetObjects_pages_exact_witness:
  "\<exists>t y. set (follow_pages (Suc (length (bdb_orows mem_env (t :: (string \<times> string) mem_state) ''user'')))
      (objects_page (bdb_tx mem_env) ''user'' 1 t) []) = {PatchObjectRead (Some y)} \<and> o_etag y = ''user:alice/Alice''"
proof -
  obtain y t where t: "bdb_inv mem_env (t :: (string \<times> string) mem_state)"
    "bdb_objs mem_env t = [(''user'', ''alice'') \<mapsto> y]" "o_etag y = ''user:alice/Alice''"
    by (rule alice_stored)
  have "text_ok ''user''" by code_simp
  with GetObjects_pages_exact [OF t(1), of 1 "''user''"]
  obtain xs where "follow_pages (Suc (length (bdb_orows mem_env t ''user''))) (objects_page (bdb_tx mem_env) ''user'' 1 t) [] =
      map PatchObjectRead xs" "set xs = {Some y}"
    by (auto simp: t(2) split: if_splits)
  with t(3) show ?thesis by (intro exI [of _ t] exI [of _ y]) simp
qed

section \<open>Checks\<close>

text \<open>
  C10: What the authorization engine sees: the reader closure handed to it appends, for a relation
  identifier with any fields left empty, exactly the stored relations whose non-empty fields agree,
  each once, whichever index the scan uses.
\<close>

theorem engine_sees_matching_relations:
  assumes "bdb_inv E t" "filter_ok (relation_asFilter (RelationIdentifier r))"
  shows "\<exists>is. getRelations Z (bdb_tx E) t r out = Inr (out @ is) \<and> distinct is \<and>
    set is = {i \<in> dom (bdb_rels E t). (i_otype r = [] \<or> i_otype i = i_otype r) \<and> (i_oid r = [] \<or> i_oid i = i_oid r) \<and>
      (i_rel r = [] \<or> i_rel i = i_rel r) \<and> (i_stype r = [] \<or> i_stype i = i_stype r) \<and>
      (i_sid r = [] \<or> i_sid i = i_sid r) \<and> (i_srel r = [] \<or> i_srel i = i_srel r)}"
proof -
  have "relation_valueFilter (RelationIdentifier r) i \<longleftrightarrow>
      (i_otype r = [] \<or> i_otype i = i_otype r) \<and> (i_oid r = [] \<or> i_oid i = i_oid r) \<and>
      (i_rel r = [] \<or> i_rel i = i_rel r) \<and> (i_stype r = [] \<or> i_stype i = i_stype r) \<and>
      (i_sid r = [] \<or> i_sid i = i_sid r) \<and> (i_srel r = [] \<or> i_srel i = i_srel r)" for i :: rel_ident
    by (auto simp: relation_valueFilter_def)
  with bdb.getRelations_exact [OF assms, of Z out] show ?thesis by simp
qed

theorem engine_sees_matching_relations_witness:
  "\<exists>t. getRelations mem_azm (bdb_tx mem_env) t (ident_of alice_doc) [] = Inr [ident_of alice_doc]"
proof -
  obtain s t where t: "bdb_inv mem_env (t :: (string \<times> string) mem_state)"
    "bdb_rels mem_env t = [ident_of alice_doc \<mapsto> s]"
    by (rule alice_doc_stored)
  let ?P = "\<lambda>i r :: rel_ident. (i_otype r = [] \<or> i_otype i = i_otype r) \<and> (i_oid r = [] \<or> i_oid i = i_oid r) \<and>
      (i_rel r = [] \<or> i_rel i = i_rel r) \<and> (i_stype r = [] \<or> i_stype i = i_stype r) \<and>
      (i_sid r = [] \<or> i_sid i = i_sid r) \<and> (i_srel r = [] \<or> i_srel i = i_srel r)"
  have one: "{i \<in> dom (bdb_rels mem_env t). ?P i (ident_of alice_doc)} = {ident_of alice_doc}"
    by (auto simp: t(2) split: if_splits)
  have ok: "filter_ok (relation_asFilter (RelationIdentifier (ident_of alice_doc)))" by code_simp
  obtain "is" where "getRelations mem_azm (bdb_tx mem_env) t (ident_of alice_doc) [] = Inr ([] @ is)"
    "distinct is" "set is = {ident_of alice_doc}"
    using engine_sees_matching_relations [OF t(1) ok, of mem_azm "[]", unfolded one] by blast
  moreover from distinct_set_singleton [OF this(2,3)] have "is = [ident_of alice_doc]" .
  ultimately show ?thesis by auto
qed

text \<open>
  C15: A check never succeeds for an unknown subject or object: when no stored relation has the
  request's subject, or none has its object, \<open>Check\<close> answers false with the reason in the context,
  whatever the engine would say.
\<close>

theorem Check_needs_relations:
  assumes "bdb_inv E t" "wf_side (c_stype req, c_sid req)" "wf_side (c_otype req, c_oid req)"
    and "az_v_Check Z req = None" "az_val_check Z mc req = None" "tx_begin (bdb_tx E) False t = None"
    and "(\<forall>r \<in> dom (bdb_rels E t). (i_stype r, i_sid r) \<noteq> (c_stype req, c_sid req)) \<or>
      (\<forall>r \<in> dom (bdb_rels E t). (i_otype r, i_oid r) \<noteq> (c_otype req, c_oid req))"
  shows "\<exists>err. Reader_Check Z (bdb_tx E) mc req t =
    Inr (Some \<lparr>cr_check = False, cr_context = SetContextWithReason Z err\<rparr>)"
proof -
  have "RelationIdentifiersExist (bdb_tx E) t req \<noteq> None"
    using bdb.RelationIdentifiersExist_iff [OF assms(1-3)] assms(7) by (auto simp: side_def)
  then obtain err where "RelationIdentifiersExist (bdb_tx E) t req = Some err" by blast
  with assms(4-6) show ?thesis
    by (intro exI [of _ err]) (simp add: Reader_Check_def check_Exec_def View_def)
qed

theorem Check_needs_relations_witness:
  "\<exists>err. Reader_Check mem_azm (bdb_tx mem_env) [] \<lparr>c_otype = ''doc'', c_oid = ''d1'', c_rel = ''viewer'',
      c_stype = ''user'', c_sid = ''alice'', c_trace = False\<rparr> mem_db0 =
    Inr (Some \<lparr>cr_check = False, cr_context = SetContextWithReason mem_azm err\<rparr>)"
  by (rule Check_needs_relations [OF mem_db0_inv]) (simp_all add: alice_wf(2) mem_db0_tables, code_simp)

end
