(* ===== verification/Streams.thy ===== *)
theory Streams
  imports Prelude
begin

text \<open>
  The response side of a gRPC stream. Whether a \<open>Send\<close> succeeds is up to the transport: a function of
  the messages sent so far and of the next one gives the error. The state is the list of messages
  that went out.
\<close>

type_synonym 'm transport = "'m list \<Rightarrow> 'm \<Rightarrow> derror option"

definition Send :: "'m transport \<Rightarrow> 'm \<Rightarrow> 'm list \<Rightarrow> derror option \<times> 'm list" where
  "Send f m sent = (case f sent m of Some e \<Rightarrow> (Some e, sent) | None \<Rightarrow> (None, sent @ [m]))"

text \<open>A loop that sends one message after the other and stops at the first error.\<close>

fun send_all :: "'m transport \<Rightarrow> 'm list \<Rightarrow> 'm list \<Rightarrow> derror option \<times> 'm list" where
  "send_all f [] sent = (None, sent)"
| "send_all f (m # ms) sent = (case Send f m sent of
      (Some e, sent') \<Rightarrow> (Some e, sent')
    | (None, sent') \<Rightarrow> send_all f ms sent')"

lemma send_all_ok: "send_all f ms sent = (None, sent') \<Longrightarrow> sent' = sent @ ms"
  by (induction ms arbitrary: sent) (fastforce simp: Send_def split: option.splits)+

lemma send_all_prefix: "send_all f ms sent = (e, sent') \<Longrightarrow> \<exists>k. sent' = sent @ take k ms"
proof (induction ms arbitrary: sent)
  case (Cons m ms)
  show ?case
  proof (cases "f sent m")
    case None
    with Cons.prems have "send_all f ms (sent @ [m]) = (e, sent')" by (simp add: Send_def)
    then obtain k where "sent' = (sent @ [m]) @ take k ms" using Cons.IH by blast
    then show ?thesis by (intro exI [of _ "Suc k"]) simp
  next
    case (Some a)
    with Cons.prems show ?thesis by (intro exI [of _ 0]) (simp add: Send_def)
  qed
qed simp

lemma send_all_quiet: "send_all (\<lambda>_ _. None) ms sent = (None, sent @ ms)"
  by (induction ms arbitrary: sent) (simp_all add: Send_def)

end
