(* ===== verification/Importer.thy ===== *)
theory Importer
  imports Writer Stats Streams GoStrings
begin

text \<open>
  The import service \<open>directory/v3/importer.go\<close>: a stream of objects and relations to set or
  delete, handled in one batch transaction. What the client sends is a finite list of events (a
  request and the time it is handled, or a receive error) and how the stream ends: the client
  closed it or the context was done.
\<close>

section \<open>Requests and counters\<close>

datatype import_msg = IR_Object "object option" | IR_Relation "relation option" | IR_other

record import_req =
  ir_op :: opcode
  ir_msg :: import_msg

record import_counter =
  ic_type :: string
  ic_recv :: "64 word"
  ic_set :: "64 word"
  ic_delete :: "64 word"
  ic_error :: "64 word"

definition new_counter :: "string \<Rightarrow> import_counter" where
  "new_counter ty = \<lparr>ic_type = ty, ic_recv = 0, ic_set = 0, ic_delete = 0, ic_error = 0\<rparr>"

text \<open>The map of counters has the two keys \<open>object\<close> and \<open>relation\<close>.\<close>

record counters =
  ct_object :: import_counter
  ct_relation :: import_counter

datatype import_resp =
    IResp_Counter import_counter
  | IResp_Status nat string import_req
  | IResp_Totals import_counter import_counter

definition updateCounter :: "import_counter \<Rightarrow> opcode \<Rightarrow> derror option \<Rightarrow> import_counter" where
  "updateCounter c opCode err =
     (let c = c\<lparr>ic_recv := ic_recv c + 1\<rparr> in
      if err \<noteq> None then c\<lparr>ic_error := ic_error c + 1\<rparr>
      else if opCode = OPCODE_SET then c\<lparr>ic_set := ic_set c + 1\<rparr>
      else if opCode = OPCODE_DELETE then c\<lparr>ic_delete := ic_delete c + 1\<rparr>
      else if opCode = OPCODE_DELETE_WITH_RELATIONS then c\<lparr>ic_delete := ic_delete c + 1\<rparr>
      else c)"

section \<open>Handlers\<close>

definition modelValidateError :: "('mc, 'model, 'y) azm_svc_scheme \<Rightarrow> derror \<Rightarrow> derror" where
  "modelValidateError Z e = (case az_AsAserto Z e of
      None \<Rightarrow> e
    | Some (None, _) \<Rightarrow> e
    | Some (Some dataMsg, message) \<Rightarrow>
        az_SetMessage Z e (if message \<noteq> [] then Quote dataMsg @ '': '' @ message else dataMsg))"

definition ErrInvalidObject :: "string \<Rightarrow> derror" where
  "ErrInvalidObject msg = DErr ''ErrInvalidObject'' msg"

definition ErrInvalidRelation :: "string \<Rightarrow> derror" where
  "ErrInvalidRelation msg = DErr ''ErrInvalidRelation'' msg"

text \<open>The guards the three object handlers share, and the two relation handlers.\<close>

definition object_guard :: "('mc, 'model, 'y) azm_svc_scheme \<Rightarrow> 'mc \<Rightarrow> object option \<Rightarrow> object result" where
  "object_guard Z mc req = (case req of
      None \<Rightarrow> Inl (ErrInvalidObject ''nil'')
    | Some x \<Rightarrow> (case az_v_Object Z x of
          Some e \<Rightarrow> Inl e
        | None \<Rightarrow> (case az_val_obj Z mc x of
              Some e \<Rightarrow> Inl (modelValidateError Z e)
            | None \<Rightarrow> Inr x)))"

definition relation_guard :: "('mc, 'model, 'y) azm_svc_scheme \<Rightarrow> 'mc \<Rightarrow> relation option \<Rightarrow> relation result" where
  "relation_guard Z mc req = (case req of
      None \<Rightarrow> Inl (ErrInvalidRelation ''nil'')
    | Some r \<Rightarrow> (case az_v_Relation Z r of
          Some e \<Rightarrow> Inl e
        | None \<Rightarrow> (case az_val_rel Z mc (ident_of r) of
              Some e \<Rightarrow> Inl (modelValidateError Z e)
            | None \<Rightarrow> Inr r)))"

text \<open>The set handlers stamp the message in place, so they also return what it became.\<close>

definition objectSetHandler ::
  "('mc, 'model, 'y) azm_svc_scheme \<Rightarrow> ('tx, 'model, 'z) Tx_scheme \<Rightarrow> 'mc \<Rightarrow> timestamp \<Rightarrow> object option
     \<Rightarrow> 'tx \<Rightarrow> derror option \<times> object option \<times> 'tx" where
  "objectSetHandler Z T mc now req t = (case object_guard Z mc req of
      Inl e \<Rightarrow> (Some e, req, t)
    | Inr obj \<Rightarrow>
        (let etag = az_hash_obj Z obj in
         case UpdateMetadataObject T t now req of
           Inl e \<Rightarrow> (Some e, req, t)
         | Inr updReq \<Rightarrow>
             (if etag = o_etag updReq then (None, Some updReq, t)
              else let updReq = updReq\<lparr>o_etag := etag\<rparr> in
                case tx_SetObject T t updReq of
                  (Inl _, t') \<Rightarrow> (Some (ErrInvalidObject ''set''), Some updReq, t')
                | (Inr _, t') \<Rightarrow> (None, Some updReq, t'))))"

definition objectDeleteHandler ::
  "('mc, 'model, 'y) azm_svc_scheme \<Rightarrow> ('tx, 'model, 'z) Tx_scheme \<Rightarrow> 'mc \<Rightarrow> object option \<Rightarrow> 'tx
     \<Rightarrow> derror option \<times> 'tx" where
  "objectDeleteHandler Z T mc req t = (case object_guard Z mc req of
      Inl e \<Rightarrow> (Some e, t)
    | Inr obj \<Rightarrow> (case tx_DeleteObject T t (o_type obj) (o_id obj) of
          (Some _, t') \<Rightarrow> (Some (ErrInvalidObject ''delete''), t')
        | (None, t') \<Rightarrow> (None, t')))"

definition objectDeleteWithRelationsHandler ::
  "('mc, 'model, 'y) azm_svc_scheme \<Rightarrow> ('tx, 'model, 'z) Tx_scheme \<Rightarrow> 'mc \<Rightarrow> object option \<Rightarrow> 'tx
     \<Rightarrow> derror option \<times> 'tx" where
  "objectDeleteWithRelationsHandler Z T mc req t = (case object_guard Z mc req of
      Inl e \<Rightarrow> (Some e, t)
    | Inr obj \<Rightarrow> (case tx_DeleteObject T t (o_type obj) (o_id obj) of
          (Some _, t') \<Rightarrow> (Some (ErrInvalidObject ''delete''), t')
        | (None, t') \<Rightarrow> (case deleteRelationsWithPrefix T t' BySubject (o_type obj) (o_id obj) of
              (Some e, t'') \<Rightarrow> (Some e, t'')
            | (None, t'') \<Rightarrow> deleteRelationsWithPrefix T t'' ByObject (o_type obj) (o_id obj))))"

definition relationSetHandler ::
  "('mc, 'model, 'y) azm_svc_scheme \<Rightarrow> ('tx, 'model, 'z) Tx_scheme \<Rightarrow> 'mc \<Rightarrow> timestamp \<Rightarrow> relation option
     \<Rightarrow> 'tx \<Rightarrow> derror option \<times> relation option \<times> 'tx" where
  "relationSetHandler Z T mc now req t = (case relation_guard Z mc req of
      Inl e \<Rightarrow> (Some e, req, t)
    | Inr rel \<Rightarrow>
        (let etag = az_hash_rel Z (ident_of rel) in
         case UpdateMetadataRelation T t now req of
           Inl e \<Rightarrow> (Some e, req, t)
         | Inr updReq \<Rightarrow>
             (if etag = r_etag updReq then (None, Some updReq, t)
              else let updReq = updReq\<lparr>r_etag := etag\<rparr> in
                case tx_SetRelation T t updReq of
                  (Inl _, t') \<Rightarrow> (Some (ErrInvalidRelation ''set''), Some updReq, t')
                | (Inr _, t') \<Rightarrow> (None, Some updReq, t'))))"

definition relationDeleteHandler ::
  "('mc, 'model, 'y) azm_svc_scheme \<Rightarrow> ('tx, 'model, 'z) Tx_scheme \<Rightarrow> 'mc \<Rightarrow> relation option \<Rightarrow> 'tx
     \<Rightarrow> derror option \<times> 'tx" where
  "relationDeleteHandler Z T mc req t = (case relation_guard Z mc req of
      Inl e \<Rightarrow> (Some e, t)
    | Inr rel \<Rightarrow> (case tx_DeleteRelation T t (ident_of rel) of
          (Some _, t') \<Rightarrow> (Some (ErrInvalidRelation ''delete''), t')
        | (None, t') \<Rightarrow> (None, t')))"

definition ErrUnknownOpCode :: "('mc, 'model, 'y) azm_svc_scheme \<Rightarrow> opcode \<Rightarrow> derror" where
  "ErrUnknownOpCode Z c = DErr ''ErrUnknownOpCode'' (fst (az_opcode Z c) @ '' - '' @ show_int (snd (az_opcode Z c)))"

text \<open>Returns the error, the request as it is now, the counters and the state.\<close>

definition handleImportRequest ::
  "('mc, 'model, 'y) azm_svc_scheme \<Rightarrow> ('tx, 'model, 'z) Tx_scheme \<Rightarrow> 'mc \<Rightarrow> timestamp \<Rightarrow> import_req
     \<Rightarrow> counters \<Rightarrow> 'tx \<Rightarrow> derror option \<times> import_req \<times> counters \<times> 'tx" where
  "handleImportRequest Z T mc now req ctr t =
     (let opc = ir_op req;
          count_object = (\<lambda>err. ctr\<lparr>ct_object := updateCounter (ct_object ctr) opc err\<rparr>);
          count_relation = (\<lambda>err. ctr\<lparr>ct_relation := updateCounter (ct_relation ctr) opc err\<rparr>)
      in case ir_msg req of
        IR_Object m \<Rightarrow>
          (if opc = OPCODE_SET then
             (case objectSetHandler Z T mc now m t of
                (err, m', t') \<Rightarrow> (err, req\<lparr>ir_msg := IR_Object m'\<rparr>, count_object err, t'))
           else if opc = OPCODE_DELETE then
             (case objectDeleteHandler Z T mc m t of (err, t') \<Rightarrow> (err, req, count_object err, t'))
           else if opc = OPCODE_DELETE_WITH_RELATIONS then
             (case objectDeleteWithRelationsHandler Z T mc m t of (err, t') \<Rightarrow> (err, req, count_object err, t'))
           else (Some (ErrUnknownOpCode Z opc), req, ctr, t))
      | IR_Relation m \<Rightarrow>
          (if opc = OPCODE_SET then
             (case relationSetHandler Z T mc now m t of
                (err, m', t') \<Rightarrow> (err, req\<lparr>ir_msg := IR_Relation m'\<rparr>, count_relation err, t'))
           else if opc = OPCODE_DELETE then
             (case relationDeleteHandler Z T mc m t of (err, t') \<Rightarrow> (err, req, count_relation err, t'))
           else if opc = OPCODE_DELETE_WITH_RELATIONS
             then (Some (DErr ''ErrInvalidOpCode'' (fst (az_opcode Z opc) @ '' for type relation'')), req, ctr, t)
           else (Some (ErrUnknownOpCode Z opc), req, ctr, t))
      | IR_other \<Rightarrow> (Some (DErr ''ErrUnknown'' ''import request''), req, ctr, t))"

section \<open>The stream\<close>

datatype recv_ev = Recv timestamp import_req | RecvErr derror

datatype stream_end = EOF | CtxDone

text \<open>
  \<open>send\<close> is the transport, \<open>objFirst\<close> the order in which Go ranges over the two counters. At the end
  of the stream the counters are sent (errors ignored) and then the totals. A receive error is
  passed over; a request that fails is answered with a status and the loop goes on.
\<close>

definition import_eof ::
  "import_resp transport \<Rightarrow> bool \<Rightarrow> counters \<Rightarrow> import_resp list \<Rightarrow> derror option \<times> import_resp list" where
  "import_eof send objFirst ctr sent =
     (let cs = (if objFirst then [ct_object ctr, ct_relation ctr] else [ct_relation ctr, ct_object ctr]);
          sent = fold (\<lambda>c sent. snd (Send send (IResp_Counter c) sent)) cs sent
      in Send send (IResp_Totals (ct_object ctr) (ct_relation ctr)) sent)"

definition import_status ::
  "('mc, 'model, 'y) azm_svc_scheme \<Rightarrow> import_resp transport \<Rightarrow> import_req \<Rightarrow> derror option
     \<Rightarrow> import_resp list \<Rightarrow> import_resp list" where
  "import_status Z send req err sent = (case err of
      None \<Rightarrow> sent
    | Some e \<Rightarrow> (case az_FromError Z e of
          None \<Rightarrow> sent
        | Some (code, msg) \<Rightarrow> snd (Send send (IResp_Status code msg req) sent)))"

fun import_loop ::
  "('mc, 'model, 'y) azm_svc_scheme \<Rightarrow> ('tx, 'model, 'z) Tx_scheme \<Rightarrow> import_resp transport \<Rightarrow> bool \<Rightarrow> 'mc
     \<Rightarrow> stream_end \<Rightarrow> recv_ev list \<Rightarrow> counters \<Rightarrow> import_resp list \<Rightarrow> 'tx
     \<Rightarrow> derror option \<times> (counters \<times> import_resp list) \<times> 'tx" where
  "import_loop Z T send objFirst mc CtxDone [] ctr sent t = (None, (ctr, sent), t)"
| "import_loop Z T send objFirst mc EOF [] ctr sent t =
     (case import_eof send objFirst ctr sent of (err, sent') \<Rightarrow> (err, (ctr, sent'), t))"
| "import_loop Z T send objFirst mc fin (RecvErr _ # evs) ctr sent t =
     import_loop Z T send objFirst mc fin evs ctr sent t"
| "import_loop Z T send objFirst mc fin (Recv now req # evs) ctr sent t =
     (case handleImportRequest Z T mc now req ctr t of (err, req', ctr', t') \<Rightarrow>
        import_loop Z T send objFirst mc fin evs ctr' (import_status Z send req' err sent) t')"

definition zero_counters :: counters where
  "zero_counters = \<lparr>ct_object = new_counter ''object'', ct_relation = new_counter ''relation''\<rparr>"

definition Importer_Import ::
  "('mc, 'model, 'y) azm_svc_scheme \<Rightarrow> ('tx, 'model, 'z) Tx_scheme \<Rightarrow> import_resp transport \<Rightarrow> bool \<Rightarrow> 'mc
     \<Rightarrow> stream_end \<Rightarrow> recv_ev list \<Rightarrow> 'tx \<Rightarrow> derror option \<times> (counters \<times> import_resp list) \<times> 'tx" where
  "Importer_Import Z T send objFirst mc fin evs t =
     Batch T (zero_counters, []) (import_loop Z T send objFirst mc fin evs zero_counters []) t"

section \<open>What an import does to the tables\<close>

text \<open>
  The specification of one request over the two tables: an accepted object replaces the stored one
  unless its content hash is already stored, deletions remove exactly what they name, everything
  else is ignored.
\<close>

type_synonym tables = "(obj_id \<rightharpoonup> object) \<times> (rel_ident \<rightharpoonup> relation)"

definition put_object :: "timestamp \<Rightarrow> string \<Rightarrow> object \<Rightarrow> (obj_id \<rightharpoonup> object) \<Rightarrow> (obj_id \<rightharpoonup> object)" where
  "put_object now etag x O' = (let u = stamp_object now (O' (object_ident x)) x in
     if etag = o_etag u then O' else O'(object_ident x \<mapsto> u\<lparr>o_etag := etag\<rparr>))"

definition put_relation :: "timestamp \<Rightarrow> string \<Rightarrow> relation \<Rightarrow> (rel_ident \<rightharpoonup> relation) \<Rightarrow> (rel_ident \<rightharpoonup> relation)" where
  "put_relation now etag r R = (let u = stamp_relation now (R (ident_of r)) r in
     if etag = r_etag u then R else R(ident_of r \<mapsto> u\<lparr>r_etag := etag\<rparr>))"

definition import_spec ::
  "('mc, 'model, 'y) azm_svc_scheme \<Rightarrow> 'mc \<Rightarrow> timestamp \<Rightarrow> import_req \<Rightarrow> tables \<Rightarrow> tables" where
  "import_spec Z mc now req tb = (case ir_msg req of
      IR_Object m \<Rightarrow> (case object_guard Z mc m of
          Inl _ \<Rightarrow> tb
        | Inr x \<Rightarrow>
            (if ir_op req = OPCODE_SET then (put_object now (az_hash_obj Z x) x (fst tb), snd tb)
             else if ir_op req = OPCODE_DELETE then ((fst tb)(object_ident x := None), snd tb)
             else if ir_op req = OPCODE_DELETE_WITH_RELATIONS
             then ((fst tb)(object_ident x := None),
                   \<lambda>i. if side BySubject i = object_ident x \<or> side ByObject i = object_ident x then None
                     else snd tb i)
             else tb))
    | IR_Relation m \<Rightarrow> (case relation_guard Z mc m of
          Inl _ \<Rightarrow> tb
        | Inr r \<Rightarrow>
            (if ir_op req = OPCODE_SET then (fst tb, put_relation now (az_hash_rel Z (ident_of r)) r (snd tb))
             else if ir_op req = OPCODE_DELETE then (fst tb, (snd tb)(ident_of r := None))
             else tb))
    | IR_other \<Rightarrow> tb)"

text \<open>Requests that pass the validators carry well-formed identifiers and can be stored.\<close>

definition import_ok ::
  "('mc, 'model, 'y) azm_svc_scheme \<Rightarrow> 'mc \<Rightarrow> (object \<Rightarrow> bool) \<Rightarrow> (relation \<Rightarrow> bool) \<Rightarrow> import_req \<Rightarrow> bool" where
  "import_ok Z mc ok_obj ok_rel req \<longleftrightarrow> (case ir_msg req of
      IR_Object m \<Rightarrow> \<forall>x. object_guard Z mc m = Inr x \<longrightarrow> wf_side (object_ident x) \<and>
        (\<forall>now c. ok_obj ((stamp_object now c x)\<lparr>o_etag := az_hash_obj Z x\<rparr>))
    | IR_Relation m \<Rightarrow> \<forall>r. relation_guard Z mc m = Inr r \<longrightarrow> wf_rid r \<and>
        (\<forall>now c. ok_rel ((stamp_relation now c r)\<lparr>r_etag := az_hash_rel Z (ident_of r)\<rparr>))
    | IR_other \<Rightarrow> True)"

lemma guard_request:
  "object_guard Z mc m = Inr x \<Longrightarrow> m = Some x" "relation_guard Z mc n = Inr r \<Longrightarrow> n = Some r"
  by (auto simp: object_guard_def relation_guard_def split: option.splits)

definition recv_reqs :: "recv_ev list \<Rightarrow> (timestamp \<times> import_req) list" where
  "recv_reqs evs = concat (map (\<lambda>ev. case ev of Recv now req \<Rightarrow> [(now, req)] | RecvErr _ \<Rightarrow> []) evs)"

context tx_store
begin

abbreviation tables_of :: "'tx \<Rightarrow> tables" where
  "tables_of t \<equiv> (objs t, rels t)"

lemma objectSetHandler_post:
  assumes "inv t" "object_guard Z mc m = Inr x" "wf_oid (object_ident x)"
    and "\<And>now c. okO t ((stamp_object now c x)\<lparr>o_etag := az_hash_obj Z x\<rparr>)"
  shows "\<exists>m' t'. objectSetHandler Z T mc now m t = (None, m', t') \<and> inv t' \<and> rest t' = rest t \<and>
    tables_of t' = (put_object now (az_hash_obj Z x) x (objs t), rels t)"
proof -
  let ?u = "stamp_object now (objs t (object_ident x)) x" and ?h = "az_hash_obj Z x"
  have upd: "UpdateMetadataObject T t now m = Inr ?u"
    using guard_request(1) [OF assms(2)] UpdateMetadataObject_eq [OF assms(1,3)] by simp
  show ?thesis
  proof (cases "?h = o_etag ?u")
    case True
    with assms(1,2) upd show ?thesis by (simp add: objectSetHandler_def put_object_def)
  next
    case False
    obtain t' where t': "tx_SetObject T t (?u\<lparr>o_etag := ?h\<rparr>) = (Inr (?u\<lparr>o_etag := ?h\<rparr>), t')"
      using SetObject_ok [OF assms(1) _ assms(4), of now "objs t (object_ident x)"] assms(3) by auto
    with SetObject_post [OF assms(1) _ t'] assms(2,3) upd False show ?thesis
      by (simp add: objectSetHandler_def put_object_def Let_def)
  qed
qed

lemma relationSetHandler_post:
  assumes "inv t" "relation_guard Z mc m = Inr r" "wf_rid r"
    and "\<And>now c. okR t ((stamp_relation now c r)\<lparr>r_etag := az_hash_rel Z (ident_of r)\<rparr>)"
  shows "\<exists>m' t'. relationSetHandler Z T mc now m t = (None, m', t') \<and> inv t' \<and> rest t' = rest t \<and>
    tables_of t' = (objs t, put_relation now (az_hash_rel Z (ident_of r)) r (rels t))"
proof -
  let ?u = "stamp_relation now (rels t (ident_of r)) r" and ?h = "az_hash_rel Z (ident_of r)"
  have upd: "UpdateMetadataRelation T t now m = Inr ?u"
    using guard_request(2) [OF assms(2)] UpdateMetadataRelation_eq [OF assms(1,3)] by simp
  have wf: "wf_rid (?u\<lparr>r_etag := ?h\<rparr>)" using assms(3) wf_rid_ident_of [of "?u\<lparr>r_etag := ?h\<rparr>"] by simp
  show ?thesis
  proof (cases "?h = r_etag ?u")
    case True
    with assms(1,2) upd show ?thesis by (simp add: relationSetHandler_def put_relation_def)
  next
    case False
    obtain t' where t': "tx_SetRelation T t (?u\<lparr>r_etag := ?h\<rparr>) = (Inr (?u\<lparr>r_etag := ?h\<rparr>), t')"
      using SetRelation_ok [OF assms(1) wf assms(4)] by blast
    with SetRelation_post [OF assms(1) wf t'] assms(2) upd False show ?thesis
      by (simp add: relationSetHandler_def put_relation_def Let_def)
  qed
qed

lemma objectDeleteWithRelationsHandler_post:
  assumes "inv t" "object_guard Z mc m = Inr x" "wf_side (object_ident x)"
  shows "\<exists>t'. objectDeleteWithRelationsHandler Z T mc m t = (None, t') \<and> inv t' \<and> rest t' = rest t \<and>
    tables_of t' = ((objs t)(object_ident x := None),
      \<lambda>i. if side BySubject i = object_ident x \<or> side ByObject i = object_ident x then None else rels t i)"
proof -
  have "wf_side (o_type x, o_id x)" using assms(3) by (simp add: object_ident_def)
  from delete_object_post [OF assms(1) this, of True] assms(2) show ?thesis
    by (auto simp: objectDeleteWithRelationsHandler_def delete_object_def object_ident_def
        split: prod.splits option.splits)
qed

lemma handleImportRequest_post:
  assumes "inv t" "import_ok Z mc (\<lambda>x. \<forall>t. inv t \<longrightarrow> okO t x) (\<lambda>r. \<forall>t. inv t \<longrightarrow> okR t r) req"
    and "handleImportRequest Z T mc now req ctr t = (err, req', ctr', t')"
  shows "inv t' \<and> rest t' = rest t \<and> tables_of t' = import_spec Z mc now req (tables_of t)"
proof (cases "ir_msg req")
  case (IR_Object m)
  show ?thesis
  proof (cases "object_guard Z mc m")
    case (Inl e)
    with assms(1,3) IR_Object show ?thesis
      by (auto simp: handleImportRequest_def import_spec_def objectSetHandler_def objectDeleteHandler_def
          objectDeleteWithRelationsHandler_def Let_def split: if_splits)
  next
    case (Inr x)
    have wf: "wf_side (object_ident x)" "wf_oid (object_ident x)"
      using assms(2) IR_Object Inr by (auto simp: import_ok_def wf_side_def split_beta)
    have ok: "okO t ((stamp_object now c x)\<lparr>o_etag := az_hash_obj Z x\<rparr>)" for now c
      using assms(1,2) IR_Object Inr by (simp add: import_ok_def)
    obtain t1 where t1: "tx_DeleteObject T t (o_type x) (o_id x) = (None, t1)" "inv t1"
      "objs t1 = (objs t)(object_ident x := None)" "rels t1 = rels t" "rest t1 = rest t"
      using DeleteObject_post [OF assms(1), of "o_type x" "o_id x"] wf(2) by (auto simp: object_ident_def)
    from assms(1,3) IR_Object Inr t1 objectSetHandler_post [OF assms(1) Inr wf(2) ok, of now]
      objectDeleteWithRelationsHandler_post [OF assms(1) Inr wf(1)]
    show ?thesis
      by (auto simp: handleImportRequest_def import_spec_def objectDeleteHandler_def Let_def split: if_splits)
  qed
next
  case (IR_Relation m)
  show ?thesis
  proof (cases "relation_guard Z mc m")
    case (Inl e)
    with assms(1,3) IR_Relation show ?thesis
      by (auto simp: handleImportRequest_def import_spec_def relationSetHandler_def relationDeleteHandler_def
          Let_def split: if_splits)
  next
    case (Inr r)
    have wf: "wf_rid r" using assms(2) IR_Relation Inr by (simp add: import_ok_def)
    have ok: "okR t ((stamp_relation now c r)\<lparr>r_etag := az_hash_rel Z (ident_of r)\<rparr>)" for now c
      using assms(1,2) IR_Relation Inr by (simp add: import_ok_def)
    obtain t1 where t1: "tx_DeleteRelation T t (ident_of r) = (None, t1)" "inv t1"
      "rels t1 = (rels t)(ident_of r := None)" "objs t1 = objs t" "rest t1 = rest t"
      using DeleteRelation_post [OF assms(1), of "ident_of r"] wf by auto
    from assms(1,3) IR_Relation Inr t1 relationSetHandler_post [OF assms(1) Inr wf ok, of now]
    show ?thesis
      by (auto simp: handleImportRequest_def import_spec_def relationDeleteHandler_def Let_def split: if_splits)
  qed
next
  case IR_other
  with assms(1,3) show ?thesis by (auto simp: handleImportRequest_def import_spec_def)
qed

lemma import_loop_post:
  assumes "inv t" "import_loop Z T send objFirst mc fin evs ctr sent t = (err, res, t')"
    and "\<forall>(now, req) \<in> set (recv_reqs evs).
      import_ok Z mc (\<lambda>x. \<forall>t. inv t \<longrightarrow> okO t x) (\<lambda>r. \<forall>t. inv t \<longrightarrow> okR t r) req"
  shows "inv t' \<and> rest t' = rest t \<and>
    tables_of t' = fold (\<lambda>(now, req). import_spec Z mc now req) (recv_reqs evs) (tables_of t)"
  using assms
proof (induction evs arbitrary: ctr sent t)
  case Nil
  then show ?case by (cases fin) (auto simp: recv_reqs_def split: prod.splits)
next
  case (Cons ev evs)
  show ?case
  proof (cases ev)
    case (RecvErr e)
    with Cons show ?thesis by (simp add: recv_reqs_def)
  next
    case (Recv now req)
    obtain e req1 ctr1 t1 where h: "handleImportRequest Z T mc now req ctr t = (e, req1, ctr1, t1)"
      by (cases "handleImportRequest Z T mc now req ctr t") auto
    have ok: "import_ok Z mc (\<lambda>x. \<forall>t. inv t \<longrightarrow> okO t x) (\<lambda>r. \<forall>t. inv t \<longrightarrow> okR t r) req"
      using Cons.prems(3) Recv by (simp add: recv_reqs_def)
    note 1 = handleImportRequest_post [OF Cons.prems(1) ok h]
    from Cons.IH [of t1 ctr1 "import_status Z send req1 e sent"] Cons.prems(2,3) h 1 Recv
    show ?thesis by (simp add: recv_reqs_def)
  qed
qed

end

section \<open>The counters\<close>

definition balanced :: "import_counter \<Rightarrow> bool" where
  "balanced c \<longleftrightarrow> ic_recv c = ic_set c + ic_delete c + ic_error c"

lemma updateCounter_balanced:
  "balanced c \<Longrightarrow> opc \<in> {OPCODE_SET, OPCODE_DELETE, OPCODE_DELETE_WITH_RELATIONS} \<Longrightarrow> balanced (updateCounter c opc err)"
  by (auto simp: balanced_def updateCounter_def Let_def)

lemma handleImportRequest_balanced:
  assumes "handleImportRequest Z T mc now req ctr t = (err, req', ctr', t')" "balanced (ct_object ctr)" "balanced (ct_relation ctr)"
  shows "balanced (ct_object ctr') \<and> balanced (ct_relation ctr')"
  using assms updateCounter_balanced
  by (auto simp: handleImportRequest_def Let_def split: import_msg.splits if_splits prod.splits)

definition counted :: "import_req \<Rightarrow> bool \<Rightarrow> bool" where
  "counted req isObject \<longleftrightarrow> (case ir_msg req of
      IR_Object _ \<Rightarrow> isObject \<and> ir_op req \<in> {OPCODE_SET, OPCODE_DELETE, OPCODE_DELETE_WITH_RELATIONS}
    | IR_Relation _ \<Rightarrow> \<not> isObject \<and> ir_op req \<in> {OPCODE_SET, OPCODE_DELETE}
    | IR_other \<Rightarrow> False)"

lemma updateCounter_recv [simp]: "ic_recv (updateCounter c opc err) = ic_recv c + 1"
  by (simp add: updateCounter_def Let_def)

lemma handleImportRequest_counted:
  assumes "handleImportRequest Z T mc now req ctr t = (err, req', ctr', t')"
  shows "ic_recv (ct_object ctr') = ic_recv (ct_object ctr) + (if counted req True then 1 else 0) \<and>
    ic_recv (ct_relation ctr') = ic_recv (ct_relation ctr) + (if counted req False then 1 else 0)"
  using assms
  by (auto simp: handleImportRequest_def counted_def Let_def split: import_msg.splits if_splits prod.splits)

lemma import_loop_counters:
  assumes "import_loop Z T send objFirst mc fin evs ctr sent t = (err, (ctr', sent'), t')"
    and "balanced (ct_object ctr)" "balanced (ct_relation ctr)"
  shows "balanced (ct_object ctr') \<and> balanced (ct_relation ctr') \<and>
    ic_recv (ct_object ctr') = ic_recv (ct_object ctr) + of_nat (length (filter (\<lambda>(_, req). counted req True) (recv_reqs evs))) \<and>
    ic_recv (ct_relation ctr') = ic_recv (ct_relation ctr) + of_nat (length (filter (\<lambda>(_, req). counted req False) (recv_reqs evs)))"
  using assms
proof (induction evs arbitrary: ctr sent t)
  case Nil
  then show ?case by (cases fin) (auto simp: recv_reqs_def split: prod.splits)
next
  case (Cons ev evs)
  show ?case
  proof (cases ev)
    case (RecvErr e)
    with Cons show ?thesis by (simp add: recv_reqs_def)
  next
    case (Recv now req)
    obtain e req1 ctr1 t1 where h: "handleImportRequest Z T mc now req ctr t = (e, req1, ctr1, t1)"
      by (cases "handleImportRequest Z T mc now req ctr t") auto
    from Cons.IH [of ctr1 "import_status Z send req1 e sent" t1] Cons.prems h Recv
      handleImportRequest_balanced [OF h] handleImportRequest_counted [OF h]
    show ?thesis by (simp add: recv_reqs_def)
  qed
qed

section \<open>The end of the stream\<close>

lemma import_eof_quiet: "fst (import_eof (\<lambda>_ _. None) objFirst ctr sent) = None"
  by (simp add: import_eof_def Send_def Let_def)

lemma import_loop_quiet: "fst (import_loop Z T (\<lambda>_ _. None) objFirst mc fin evs ctr sent t) = None"
proof (induction evs arbitrary: ctr sent t)
  case Nil
  show ?case
    using import_eof_quiet [of objFirst ctr sent] by (cases fin) (auto split: prod.split)
next
  case (Cons ev evs)
  then show ?case by (cases ev) (auto split: prod.split)
qed

lemma import_loop_state:
  "snd (snd (import_loop Z T send objFirst mc CtxDone evs ctr sent t)) =
   snd (snd (import_loop Z T send objFirst mc EOF evs ctr sent t))"
proof (induction evs arbitrary: ctr sent t)
  case Nil
  show ?case by (simp split: prod.split)
next
  case (Cons ev evs)
  then show ?case by (cases ev) (auto split: prod.split)
qed

lemma Import_ok:
  "Importer_Import Z T send objFirst mc fin evs t = (None, res, t') \<Longrightarrow>
     import_loop Z T send objFirst mc fin evs zero_counters [] t = (None, res, t')"
  using Update_cases unfolding Importer_Import_def Batch_def by fastforce

end
