(* ===== verification/Exporter.thy ===== *)
theory Exporter
  imports Importer
begin

text \<open>
  The export service \<open>directory/v3/exporter.go\<close>: the whole directory, or its statistics, as a stream of
  messages out of one read-only transaction. The lemmas say what is sent, and that importing an
  export into an empty directory reproduces it.
\<close>

unbundle bit_operations_syntax

datatype export_resp =
    EX_Object "object option"
  | EX_Relation "relation option"
  | EX_Stats pbstruct

definition exportObjects ::
  "('tx, 'model, 'z) Tx_scheme \<Rightarrow> export_resp transport \<Rightarrow> 'tx \<Rightarrow> export_resp list
     \<Rightarrow> derror option \<times> export_resp list" where
  "exportObjects T send t sent = (case tx_ScanObjects T t [] [] of
      Inl e \<Rightarrow> (Some e, sent)
    | Inr it \<Rightarrow> send_all send (map (EX_Object \<circ> PatchObjectRead) (drain it)) sent)"

definition exportRelations ::
  "('tx, 'model, 'z) Tx_scheme \<Rightarrow> export_resp transport \<Rightarrow> 'tx \<Rightarrow> export_resp list
     \<Rightarrow> derror option \<times> export_resp list" where
  "exportRelations T send t sent = (case tx_ScanRelations T t ByObject empty_filter [] of
      Inl e \<Rightarrow> (Some e, sent)
    | Inr it \<Rightarrow> send_all send (map EX_Relation (drain it)) sent)"

text \<open>\<open>az_stats_struct\<close> stands for marshalling the statistics to JSON and reading that back as a
  protobuf struct.\<close>

definition exportStats ::
  "('mc, 'model, 'y) azm_svc_scheme \<Rightarrow> ('tx, 'model, 'z) Tx_scheme \<Rightarrow> export_resp transport \<Rightarrow> 'tx \<Rightarrow> 32 word
     \<Rightarrow> export_resp list \<Rightarrow> derror option \<times> export_resp list" where
  "exportStats Z T send t opts sent =
     (case (if opts AND az_OPTION_DATA_OBJECTS Z \<noteq> 0 then CountObjects T t NewStats else Inr NewStats) of
        Inl e \<Rightarrow> (Some e, sent)
      | Inr s \<Rightarrow>
          (case (if opts AND az_OPTION_DATA_RELATIONS Z \<noteq> 0 then CountRelations T t s else Inr s) of
             Inl e \<Rightarrow> (Some e, sent)
           | Inr s \<Rightarrow> (case az_stats_struct Z s of
                 Inl e \<Rightarrow> (Some e, sent)
               | Inr resp \<Rightarrow> Send send (EX_Stats resp) sent)))"

definition Export_tx ::
  "('mc, 'model, 'y) azm_svc_scheme \<Rightarrow> ('tx, 'model, 'z) Tx_scheme \<Rightarrow> export_resp transport \<Rightarrow> 32 word \<Rightarrow> 'tx
     \<Rightarrow> derror option \<times> export_resp list" where
  "Export_tx Z T send opts t =
     (if opts AND az_OPTION_STATS Z \<noteq> 0 then exportStats Z T send t opts []
      else case (if opts AND az_OPTION_DATA_OBJECTS Z \<noteq> 0 then exportObjects T send t [] else (None, [])) of
          (Some e, sent) \<Rightarrow> (Some e, sent)
        | (None, sent) \<Rightarrow>
            (if opts AND az_OPTION_DATA_RELATIONS Z \<noteq> 0 then exportRelations T send t sent else (None, sent)))"

text \<open>The request's start time is not used.\<close>

definition Exporter_Export ::
  "('mc, 'model, 'y) azm_svc_scheme \<Rightarrow> ('tx, 'model, 'z) Tx_scheme \<Rightarrow> export_resp transport \<Rightarrow> 32 word
     \<Rightarrow> timestamp option \<Rightarrow> 'tx \<Rightarrow> derror option \<times> export_resp list" where
  "Exporter_Export Z T send opts startFrom t = View T [] (Export_tx Z T send opts) t"

section \<open>What is exported\<close>

definition both_options :: "('mc, 'model, 'y) azm_svc_scheme \<Rightarrow> 32 word \<Rightarrow> bool" where
  "both_options Z opts \<longleftrightarrow> opts AND az_OPTION_STATS Z = 0 \<and> opts AND az_OPTION_DATA_OBJECTS Z \<noteq> 0 \<and>
     opts AND az_OPTION_DATA_RELATIONS Z \<noteq> 0"

context tx_store
begin

lemma Export_tx_sent:
  assumes "inv t" "both_options Z opts" "Export_tx Z T send opts t = (None, sent)"
  shows "sent = map (EX_Object \<circ> PatchObjectRead) (map fst (orows t [])) @
    map EX_Relation (map fst (rrows t ByObject empty_filter))"
proof -
  let ?os = "map (EX_Object \<circ> PatchObjectRead) (map fst (orows t []))"
  let ?rs = "map EX_Relation (map fst (rrows t ByObject empty_filter))"
  obtain s where "send_all send ?os [] = (None, s)" "send_all send ?rs s = (None, sent)"
    using assms
    by (auto simp: Export_tx_def both_options_def exportObjects_def exportRelations_def
        ScanObjects_start ScanRelations_start split: prod.splits option.splits)
  from send_all_ok [OF this(1)] send_all_ok [OF this(2)] show ?thesis by simp
qed

lemma Export_tx_total:
  assumes "inv t" "both_options Z opts"
  shows "Export_tx Z T (\<lambda>_ _. None) opts t = (None, map (EX_Object \<circ> PatchObjectRead) (map fst (orows t [])) @
    map EX_Relation (map fst (rrows t ByObject empty_filter)))"
  using assms by (simp add: Export_tx_def both_options_def exportObjects_def exportRelations_def
      ScanObjects_start ScanRelations_start send_all_quiet)

end

section \<open>Restoring an export\<close>

text \<open>The import requests of a client that sets every exported message.\<close>

definition restore_req :: "export_resp \<Rightarrow> import_req" where
  "restore_req m = \<lparr>ir_op = OPCODE_SET, ir_msg = (case m of
      EX_Object p \<Rightarrow> IR_Object p | EX_Relation p \<Rightarrow> IR_Relation p | EX_Stats _ \<Rightarrow> IR_other)\<rparr>"

definition restored_object :: "('mc, 'model, 'y) azm_scheme \<Rightarrow> timestamp \<Rightarrow> object \<Rightarrow> object" where
  "restored_object Z now x = (let y = obj0 (PatchObjectRead (Some x)) in
     (stamp_object now None y)\<lparr>o_etag := az_hash_obj Z y\<rparr>)"

definition restored_relation :: "('mc, 'model, 'y) azm_scheme \<Rightarrow> timestamp \<Rightarrow> relation \<Rightarrow> relation" where
  "restored_relation Z now r = (stamp_relation now None r)\<lparr>r_etag := az_hash_rel Z (ident_of r)\<rparr>"

lemma PatchObjectRead_Some:
  "PatchObjectRead (Some x) = Some (obj0 (PatchObjectRead (Some x)))"
  "object_ident (obj0 (PatchObjectRead (Some x))) = object_ident x"
  by (simp_all add: PatchObjectRead_def object_ident_def split: option.split)

lemma put_object_new: "O' (object_ident x) = None \<Longrightarrow> h \<noteq> [] \<Longrightarrow>
    put_object now h x O' = O'(object_ident x \<mapsto> (stamp_object now None x)\<lparr>o_etag := h\<rparr>)"
  by (simp add: put_object_def stamp_object_etag)

lemma put_relation_new: "R (ident_of r) = None \<Longrightarrow> h \<noteq> [] \<Longrightarrow>
    put_relation now h r R = R(ident_of r \<mapsto> (stamp_relation now None r)\<lparr>r_etag := h\<rparr>)"
  by (simp add: put_relation_def stamp_relation_etag)

lemma restore_objects:
  assumes "distinct (map object_ident xs)" "\<forall>x \<in> set xs. O' (object_ident x) = None"
    and "\<forall>x \<in> set xs. object_guard Z mc (PatchObjectRead (Some x)) = Inr (obj0 (PatchObjectRead (Some x))) \<and>
      az_hash_obj Z (obj0 (PatchObjectRead (Some x))) \<noteq> []"
  shows "fold (import_spec Z mc now) (map (\<lambda>x. restore_req (EX_Object (PatchObjectRead (Some x)))) xs) (O', R) =
    (O' ++ map_of (map (\<lambda>x. (object_ident x, restored_object Z now x)) xs), R)"
  using assms
proof (induction xs arbitrary: O')
  case (Cons x xs)
  let ?y = "obj0 (PatchObjectRead (Some x))"
  have step: "import_spec Z mc now (restore_req (EX_Object (PatchObjectRead (Some x)))) (O', R) =
      (O'(object_ident x \<mapsto> restored_object Z now x), R)"
    using Cons.prems put_object_new [of O' ?y "az_hash_obj Z ?y" now]
    by (simp add: import_spec_def restore_req_def restored_object_def PatchObjectRead_Some(2) Let_def)
  have "fold (import_spec Z mc now) (map (\<lambda>x. restore_req (EX_Object (PatchObjectRead (Some x)))) xs)
      (O'(object_ident x \<mapsto> restored_object Z now x), R) =
    (O'(object_ident x \<mapsto> restored_object Z now x) ++ map_of (map (\<lambda>x. (object_ident x, restored_object Z now x)) xs), R)"
    using Cons.prems by (intro Cons.IH) (auto, metis imageI)
  moreover have "object_ident x \<notin> dom (map_of (map (\<lambda>x. (object_ident x, restored_object Z now x)) xs))"
    using Cons.prems(1) by (simp add: dom_map_of_conv_image_fst image_image)
  ultimately show ?case
    using step by (auto simp: map_add_def fun_eq_iff dom_def split: option.split)
qed simp

lemma restore_relations:
  assumes "distinct (map ident_of rs)" "\<forall>r \<in> set rs. R (ident_of r) = None"
    and "\<forall>r \<in> set rs. relation_guard Z mc (Some r) = Inr r \<and> az_hash_rel Z (ident_of r) \<noteq> []"
  shows "fold (import_spec Z mc now) (map (\<lambda>r. restore_req (EX_Relation (Some r))) rs) (O', R) =
    (O', R ++ map_of (map (\<lambda>r. (ident_of r, restored_relation Z now r)) rs))"
  using assms
proof (induction rs arbitrary: R)
  case (Cons r rs)
  have step: "import_spec Z mc now (restore_req (EX_Relation (Some r))) (O', R) =
      (O', R(ident_of r \<mapsto> restored_relation Z now r))"
    using Cons.prems put_relation_new [of R r "az_hash_rel Z (ident_of r)" now]
    by (simp add: import_spec_def restore_req_def restored_relation_def)
  have "fold (import_spec Z mc now) (map (\<lambda>r. restore_req (EX_Relation (Some r))) rs)
      (O', R(ident_of r \<mapsto> restored_relation Z now r)) =
    (O', R(ident_of r \<mapsto> restored_relation Z now r) ++ map_of (map (\<lambda>r. (ident_of r, restored_relation Z now r)) rs))"
    using Cons.prems by (intro Cons.IH) (auto, metis imageI)
  moreover have "ident_of r \<notin> dom (map_of (map (\<lambda>r. (ident_of r, restored_relation Z now r)) rs))"
    using Cons.prems(1) by (simp add: dom_map_of_conv_image_fst image_image)
  ultimately show ?case
    using step by (auto simp: map_add_def fun_eq_iff dom_def split: option.split)
qed simp

lemma map_of_image:
  assumes "distinct (map key xs)" "\<And>k x. m k = Some x \<longleftrightarrow> x \<in> set xs \<and> key x = k"
  shows "map_of (map (\<lambda>x. (key x, f x)) xs) = (\<lambda>k. map_option f (m k))"
proof
  fix k
  have d: "distinct (map fst (map (\<lambda>x. (key x, f x)) xs))" using assms(1) by (simp add: comp_def)
  show "map_of (map (\<lambda>x. (key x, f x)) xs) k = map_option f (m k)"
  proof (cases "m k")
    case None
    then have "k \<notin> key ` set xs" using assms(2) [of k] by auto
    with None show ?thesis by (auto simp: map_of_eq_None_iff image_iff)
  next
    case (Some x)
    then have "(k, f x) \<in> set (map (\<lambda>x. (key x, f x)) xs)" using assms(2) [of k x] by force
    with Some show ?thesis using d by (simp add: map_of_is_SomeI)
  qed
qed

lemma somes_eq: "\<forall>w \<in> set ws. w \<noteq> None \<Longrightarrow> map Some (map the ws) = ws"
  by (induction ws) auto

text \<open>Objects and relations of a directory that the importing side accepts and can store.\<close>

definition accepted ::
  "('mc, 'model, 'y) azm_svc_scheme \<Rightarrow> 'mc \<Rightarrow> (object \<Rightarrow> bool) \<Rightarrow> (relation \<Rightarrow> bool) \<Rightarrow> tables \<Rightarrow> bool" where
  "accepted Z mc ok_obj ok_rel tb \<longleftrightarrow>
     (\<forall>k x. fst tb k = Some x \<longrightarrow> (let y = obj0 (PatchObjectRead (Some x)) in
        object_guard Z mc (Some y) = Inr y \<and> az_hash_obj Z y \<noteq> [] \<and> wf_side (object_ident y) \<and>
        (\<forall>now c. ok_obj ((stamp_object now c y)\<lparr>o_etag := az_hash_obj Z y\<rparr>)))) \<and>
     (\<forall>i r. snd tb i = Some r \<longrightarrow>
        relation_guard Z mc (Some r) = Inr r \<and> az_hash_rel Z (ident_of r) \<noteq> [] \<and> wf_rid r \<and>
        (\<forall>now c. ok_rel ((stamp_relation now c r)\<lparr>r_etag := az_hash_rel Z (ident_of r)\<rparr>)))"

lemma accepted_object:
  assumes "accepted Z mc ok_obj ok_rel tb" "fst tb k = Some x"
  defines "y \<equiv> obj0 (PatchObjectRead (Some x))"
  shows "object_guard Z mc (Some y) = Inr y" "az_hash_obj Z y \<noteq> []" "wf_side (object_ident y)"
    "ok_obj ((stamp_object now c y)\<lparr>o_etag := az_hash_obj Z y\<rparr>)"
  using assms unfolding accepted_def Let_def by blast+

lemma accepted_mono:
  assumes "accepted Z mc ok_obj ok_rel tb" "\<And>x. ok_obj x \<Longrightarrow> ok_obj' x" "\<And>r. ok_rel r \<Longrightarrow> ok_rel' r"
  shows "accepted Z mc ok_obj' ok_rel' tb"
  using assms unfolding accepted_def Let_def by blast

context tx_store
begin

lemma exported_objects:
  assumes "inv t"
  obtains xs where "map fst (orows t []) = map Some xs" "distinct (map object_ident xs)"
    "\<And>k x. objs t k = Some x \<longleftrightarrow> x \<in> set xs \<and> object_ident x = k"
proof
  let ?ws = "map fst (orows t [])"
  have set: "set ?ws = {Some x | x k. objs t k = Some x}" using orows_set [OF assms, of "[]"] by simp
  show eq: "?ws = map Some (map the ?ws)" using set by (intro somes_eq [symmetric]) auto
  have "map (object_ident \<circ> obj0) ?ws = map object_ident (map the ?ws)"
    by (subst eq) (simp add: obj0_def)
  with all_objects [OF assms] show "distinct (map object_ident (map the ?ws))" by (simp only:)
  show "objs t k = Some x \<longleftrightarrow> x \<in> set (map the ?ws) \<and> object_ident x = k" for k x
  proof -
    have "x \<in> set (map the ?ws) \<longleftrightarrow> Some x \<in> set ?ws"
      by (subst (2) eq) (auto simp del: map_map)
    then have "x \<in> set (map the ?ws) \<longleftrightarrow> (\<exists>l. objs t l = Some x)" unfolding set by simp
    then show ?thesis using objs_wf [OF assms] by metis
  qed
qed

lemma exported_relations:
  assumes "inv t"
  obtains rs where "map fst (rrows t ByObject empty_filter) = map Some rs" "distinct (map ident_of rs)"
    "\<And>i r. rels t i = Some r \<longleftrightarrow> r \<in> set rs \<and> ident_of r = i"
proof
  let ?ws = "map fst (rrows t ByObject empty_filter)"
  note rows = rows_relations [OF assms, of ByObject empty_filter]
  show eq: "?ws = map Some (map the ?ws)" using rows by (intro somes_eq [symmetric]) auto
  have "map (ident_of \<circ> rel0) ?ws = map ident_of (map the ?ws)"
    by (subst eq) (simp add: rel0_def)
  with all_relations [OF assms, of ByObject] show "distinct (map ident_of (map the ?ws))" by (simp only:)
  show "rels t i = Some r \<longleftrightarrow> r \<in> set (map the ?ws) \<and> ident_of r = i" for i r
  proof -
    have "r \<in> set (map the ?ws) \<longleftrightarrow> Some r \<in> set ?ws"
      by (subst (2) eq) (auto simp del: map_map)
    moreover have "rf_match empty_filter i" by (simp add: rf_match_def empty_filter_def)
    ultimately show ?thesis
      using rows rrows_complete [OF assms filter_ok_empty, of i r ByObject] rels_wf [OF assms, of i r]
      by (metis option.inject)
  qed
qed

lemma restore_spec:
  assumes "inv t" "accepted Z mc ok_obj ok_rel (tables_of t)"
  shows "fold (import_spec Z mc now) (map restore_req
      (map (EX_Object \<circ> PatchObjectRead) (map fst (orows t [])) @ map EX_Relation (map fst (rrows t ByObject empty_filter))))
      (Map.empty, Map.empty) =
    (\<lambda>k. map_option (restored_object Z now) (objs t k), \<lambda>i. map_option (restored_relation Z now) (rels t i))"
proof -
  obtain xs where xs: "map fst (orows t []) = map Some xs" "distinct (map object_ident xs)"
    "\<And>k x. objs t k = Some x \<longleftrightarrow> x \<in> set xs \<and> object_ident x = k"
    using exported_objects [OF assms(1)] by blast
  obtain rs where rs: "map fst (rrows t ByObject empty_filter) = map Some rs" "distinct (map ident_of rs)"
    "\<And>i r. rels t i = Some r \<longleftrightarrow> r \<in> set rs \<and> ident_of r = i"
    using exported_relations [OF assms(1)] by blast
  have x: "\<forall>x \<in> set xs. object_guard Z mc (PatchObjectRead (Some x)) = Inr (obj0 (PatchObjectRead (Some x))) \<and>
      az_hash_obj Z (obj0 (PatchObjectRead (Some x))) \<noteq> []"
  proof
    fix x assume "x \<in> set xs"
    then have "fst (tables_of t) (object_ident x) = Some x" using xs(3) by simp
    from accepted_object [OF assms(2) this] PatchObjectRead_Some(1) [of x]
    show "object_guard Z mc (PatchObjectRead (Some x)) = Inr (obj0 (PatchObjectRead (Some x))) \<and>
      az_hash_obj Z (obj0 (PatchObjectRead (Some x))) \<noteq> []" by simp
  qed
  have r: "\<forall>r \<in> set rs. relation_guard Z mc (Some r) = Inr r \<and> az_hash_rel Z (ident_of r) \<noteq> []"
    using assms(2) rs(3) unfolding accepted_def by (metis snd_conv)
  from restore_objects [OF xs(2) _ x, of Map.empty now Map.empty] restore_relations [OF rs(2) _ r, of Map.empty now]
  show ?thesis
    by (simp add: xs(1) rs(1) comp_def map_of_image [OF xs(2,3)] map_of_image [OF rs(2,3)])
qed

lemma restore_import_ok:
  assumes "inv t" "accepted Z mc ok_obj ok_rel (tables_of t)"
    and "m \<in> set (map (EX_Object \<circ> PatchObjectRead) (map fst (orows t [])) @ map EX_Relation (map fst (rrows t ByObject empty_filter)))"
  shows "import_ok Z mc ok_obj ok_rel (restore_req m)"
proof -
  obtain xs where xs: "map fst (orows t []) = map Some xs" "distinct (map object_ident xs)"
    "\<And>k x. objs t k = Some x \<longleftrightarrow> x \<in> set xs \<and> object_ident x = k"
    using exported_objects [OF assms(1)] by blast
  obtain rs where rs: "map fst (rrows t ByObject empty_filter) = map Some rs" "distinct (map ident_of rs)"
    "\<And>i r. rels t i = Some r \<longleftrightarrow> r \<in> set rs \<and> ident_of r = i"
    using exported_relations [OF assms(1)] by blast
  from assms(3) consider x where "x \<in> set xs" "m = EX_Object (PatchObjectRead (Some x))"
    | r where "r \<in> set rs" "m = EX_Relation (Some r)"
    unfolding xs(1) rs(1) by auto
  then show ?thesis
  proof cases
    case 1
    then have "fst (tables_of t) (object_ident x) = Some x" using xs(3) by simp
    note y = accepted_object [OF assms(2) this]
    have "restore_req m = \<lparr>ir_op = OPCODE_SET, ir_msg = IR_Object (Some (obj0 (PatchObjectRead (Some x))))\<rparr>"
      using 1(2) PatchObjectRead_Some(1) [of x] by (simp add: restore_req_def)
    then show ?thesis using y by (simp add: import_ok_def)
  next
    case 2
    then have "snd (tables_of t) (ident_of r) = Some r" using rs(3) by simp
    then have "relation_guard Z mc (Some r) = Inr r" "wf_rid r"
      "\<forall>now c. ok_rel ((stamp_relation now c r)\<lparr>r_etag := az_hash_rel Z (ident_of r)\<rparr>)"
      using assms(2) unfolding accepted_def by blast+
    then show ?thesis by (simp add: import_ok_def restore_req_def 2(2))
  qed
qed

lemma export_import:
  assumes "inv t" "inv u" "objs u = Map.empty" "rels u = Map.empty" "both_options Z opts"
    and "accepted Z mc (\<lambda>x. \<forall>t. inv t \<longrightarrow> okO t x) (\<lambda>r. \<forall>t. inv t \<longrightarrow> okR t r) (tables_of t)"
    and "Export_tx Z T send opts t = (None, sent)"
    and "import_loop Z T send' objFirst mc fin (map (\<lambda>m. Recv now (restore_req m)) sent) ctr out u = (err, res, u')"
  shows "inv u' \<and> objs u' = (\<lambda>k. map_option (restored_object Z now) (objs t k)) \<and>
    rels u' = (\<lambda>i. map_option (restored_relation Z now) (rels t i))"
proof -
  note sent = Export_tx_sent [OF assms(1,5,7)]
  have reqs: "recv_reqs (map (\<lambda>m. Recv now (restore_req m)) sent) = map (\<lambda>m. (now, restore_req m)) sent"
    by (induction sent) (simp_all add: recv_reqs_def)
  have ok: "\<forall>(now, req) \<in> set (recv_reqs (map (\<lambda>m. Recv now (restore_req m)) sent)).
      import_ok Z mc (\<lambda>x. \<forall>t. inv t \<longrightarrow> okO t x) (\<lambda>r. \<forall>t. inv t \<longrightarrow> okR t r) req"
    using restore_import_ok [OF assms(1,6), folded sent] by (auto simp: reqs)
  have "fold (\<lambda>(now, req). import_spec Z mc now req) (map (\<lambda>m. (now, restore_req m)) sent) tb
      = fold (import_spec Z mc now) (map restore_req sent) tb" for tb
    by (induction sent arbitrary: tb) simp_all
  with import_loop_post [OF assms(2,8) ok] restore_spec [OF assms(1,6), of now, folded sent] show ?thesis
    by (simp add: reqs assms(3,4))
qed

end

end
