(* ===== verification/ModelService.thy ===== *)
theory ModelService
  imports Stats Streams
begin

text \<open>
  The model service \<open>directory/v3/model.go\<close>: reading the manifest as a stream of chunks, replacing it
  from a stream of chunks (which also updates the model cache), and deleting it together with all
  data. \<open>withBody\<close> and \<open>withModel\<close> are what the request's headers ask for.
\<close>

section \<open>Reading\<close>

datatype manifest_resp =
    MR_Metadata metadata
  | MR_Body bytes
  | MR_Model pbstruct

text \<open>The loop that sends the body in chunks. With a chunk size of zero it would not end.\<close>

partial_function (option) body_loop ::
  "manifest_resp transport \<Rightarrow> nat \<Rightarrow> bytes \<Rightarrow> nat \<Rightarrow> manifest_resp list
     \<Rightarrow> (derror option \<times> manifest_resp list) option" where
  "body_loop send maxChunk data curByte sent =
     (if curByte < length data then
        (let chunk = (if curByte + maxChunk > length data then drop curByte data
               else take maxChunk (drop curByte data));
             out = Send send (MR_Body chunk) sent
         in if fst out \<noteq> None then Some out
            else body_loop send maxChunk data (curByte + maxChunk) (snd out))
      else Some (None, sent))"

definition getModel ::
  "('mc, 'model, 'y) azm_svc_scheme \<Rightarrow> ('tx, 'model, 'z) Tx_scheme \<Rightarrow> manifest_resp transport \<Rightarrow> 'tx
     \<Rightarrow> manifest_resp list \<Rightarrow> derror option \<times> manifest_resp list" where
  "getModel Z T send t sent = (case manifest_GetModel T t of
      Inl e \<Rightarrow> (Some (if status_code e = NotFound then DErr ''ErrNotFound'' ''model''
                 else PlainErr ''failed to get model''), sent)
    | Inr mdl \<Rightarrow> (case az_model_struct Z mdl of
          Inl e \<Rightarrow> (Some e, sent)
        | Inr m \<Rightarrow> Send send (MR_Model m) sent))"

definition GetManifest_tx ::
  "('mc, 'model, 'y) azm_svc_scheme \<Rightarrow> ('tx, 'model, 'z) Tx_scheme \<Rightarrow> manifest_resp transport \<Rightarrow> string list
     \<Rightarrow> bool \<Rightarrow> bool \<Rightarrow> 'tx \<Rightarrow> (derror option \<times> manifest_resp list) option" where
  "GetManifest_tx Z T send ifNone withBody withModel t =
     (case (case manifest_Get T t of
          Inr m \<Rightarrow> Inr m
        | Inl e \<Rightarrow> if status_code e = NotFound then Inr (Manifest zero_metadata)
            else Inl (PlainErr ''failed to get manifest'')) of
        Inl e \<Rightarrow> Some (Some e, [])
      | Inr m \<Rightarrow> (case Send send (MR_Metadata (m_md m)) [] of
            (Some e, sent) \<Rightarrow> Some (Some e, sent)
          | (None, sent) \<Rightarrow>
              (if md_etag (m_md m) \<in> set ifNone then Some (None, sent)
               else case (if withBody
                   then body_loop send (az_MaxChunkSizeBytes Z) (b_data (m_body m)) 0 sent
                   else Some (None, sent)) of
                   None \<Rightarrow> None
                 | Some (Some e, sent) \<Rightarrow> Some (Some e, sent)
                 | Some (None, sent) \<Rightarrow>
                     Some (if withModel then getModel Z T send t sent else (None, sent)))))"

definition Model_GetManifest ::
  "('mc, 'model, 'y) azm_svc_scheme \<Rightarrow> ('tx, 'model, 'z) Tx_scheme \<Rightarrow> manifest_resp transport \<Rightarrow> string list
     \<Rightarrow> bool \<Rightarrow> bool \<Rightarrow> 'tx \<Rightarrow> (derror option \<times> manifest_resp list) option" where
  "Model_GetManifest Z T send ifNone withBody withModel t =
     (case az_v_GetManifest Z of
        Some e \<Rightarrow> Some (Some e, [])
      | None \<Rightarrow>
          (if tx_begin T False t \<noteq> None then Some (View T [] (\<lambda>_. (None, [])) t)
           else map_option (\<lambda>out. View T [] (\<lambda>_. out) t)
             (GetManifest_tx Z T send ifNone withBody withModel t)))"

section \<open>Writing\<close>

datatype manifest_ev = SM_Body bytes | SM_Other | SM_Err derror

text \<open>
  Receiving the chunks up to the end of the stream. Every body message is appended to the buffer and
  then the whole buffer is written to the hash.
\<close>

fun recv_manifest ::
  "('mc, 'model, 'y) azm_svc_scheme \<Rightarrow> manifest_ev list \<Rightarrow> bytes \<Rightarrow> 64 word \<Rightarrow> (bytes \<times> 64 word) result" where
  "recv_manifest Z [] data h = Inr (data, h)"
| "recv_manifest Z (SM_Err e # evs) data h = Inl (WrapErr ''failed to receive manifest'' e)"
| "recv_manifest Z (SM_Other # evs) data h = recv_manifest Z evs data h"
| "recv_manifest Z (SM_Body b # evs) data h = (case az_v_Body Z b of
      Some e \<Rightarrow> Inl e
    | None \<Rightarrow> recv_manifest Z evs (data @ b) (fnv_write h (data @ b)))"

definition unknown_err :: "('mc, 'model, 'y) azm_svc_scheme \<Rightarrow> string \<Rightarrow> derror \<Rightarrow> derror" where
  "unknown_err Z what e = DErr ''ErrUnknown'' (what @ '': '' @ az_Error Z e)"

text \<open>The transaction returns the model as \<open>SetModel\<close> stamped it.\<close>

definition setManifest ::
  "('mc, 'model, 'y) azm_svc_scheme \<Rightarrow> ('tx, 'model, 'z) Tx_scheme \<Rightarrow> 'mc \<Rightarrow> 'model \<Rightarrow> metadata \<Rightarrow> bytes \<Rightarrow> 'tx
     \<Rightarrow> derror option \<times> 'model \<times> 'tx" where
  "setManifest Z T mc m md data t =
     (case CalculateStats T t of
        Inl e \<Rightarrow> (Some (unknown_err Z ''failed to calculate stats'' e), m, t)
      | Inr stats \<Rightarrow> (case az_CanUpdate Z mc m stats of
            Some e \<Rightarrow> (Some e, m, t)
          | None \<Rightarrow> (case manifest_Set T (Manifest md) t data of
                (Some e, t') \<Rightarrow> (Some (unknown_err Z ''failed to set manifest'' e), m, t')
              | (None, t') \<Rightarrow> (case manifest_SetModel Z T (Manifest md) t' m of
                    (Some e, m', t'') \<Rightarrow> (Some (unknown_err Z ''failed to set model'' e), m', t'')
                  | (None, m', t'') \<Rightarrow> (None, m', t'')))))"

definition Model_SetManifest ::
  "('mc, 'model, 'y) azm_svc_scheme \<Rightarrow> ('tx, 'model, 'z) Tx_scheme \<Rightarrow> 'mc \<Rightarrow> timestamp \<Rightarrow> string
     \<Rightarrow> derror option \<Rightarrow> manifest_ev list \<Rightarrow> 'tx \<Rightarrow> derror option \<times> 'mc \<times> 'tx" where
  "Model_SetManifest Z T mc now ifMatch closeErr evs t =
     (if ifMatch \<noteq> [] \<and> ifMatch \<noteq> az_etag Z mc then (Some (DErr ''ErrHashMismatch'' []), mc, t)
      else case recv_manifest Z evs [] fnv_offset of
          Inl e \<Rightarrow> (Some e, mc, t)
        | Inr (data, h) \<Rightarrow> (case closeErr of
              Some e \<Rightarrow> (Some e, mc, t)
            | None \<Rightarrow>
                (let md = \<lparr>md_updated = Some now, md_etag = FormatUint h\<rparr> in
                 case az_v_Metadata Z md of
                   Some e \<Rightarrow> (Some e, mc, t)
                 | None \<Rightarrow> (case az_load Z data of
                       Inl e \<Rightarrow> (Some (DErr ''ErrInvalidArgument'' (az_Error Z e)), mc, t)
                     | Inr m \<Rightarrow> (case Update T m (setManifest Z T mc m md data) t of
                           (Some e, _, t') \<Rightarrow> (Some e, mc, t')
                         | (None, m', t') \<Rightarrow> (case az_update Z mc m' of
                               (err, mc') \<Rightarrow> (err, mc', t')))))))"

definition DeleteManifest_tx ::
  "('mc, 'model, 'y) azm_svc_scheme \<Rightarrow> ('tx, 'model, 'z) Tx_scheme \<Rightarrow> string \<Rightarrow> 'model \<Rightarrow> metadata \<Rightarrow> 'tx
     \<Rightarrow> derror option \<times> unit \<times> 'tx" where
  "DeleteManifest_tx Z T ifMatch m md t =
     (let del = (case manifest_Delete T t of
          (Some e, t1) \<Rightarrow> (Some (unknown_err Z ''failed to delete manifest'' e), (), t1)
        | (None, t1) \<Rightarrow> (case manifest_Set T (Manifest md) t1 [] of
              (Some e, t2) \<Rightarrow> (Some (unknown_err Z ''failed to set manifest'' e), (), t2)
            | (None, t2) \<Rightarrow> (case manifest_SetModel Z T (Manifest md) t2 m of
                  (Some e, _, t3) \<Rightarrow> (Some (unknown_err Z ''failed to set model'' e), (), t3)
                | (None, _, t3) \<Rightarrow> (None, (), t3))))
      in if ifMatch \<noteq> []
         then (case manifest_Get T t of
             Inl _ \<Rightarrow> (None, (), t)
           | Inr db \<Rightarrow> if ifMatch \<noteq> md_etag (m_md db) then (Some (DErr ''ErrHashMismatch'' []), (), t) else del)
         else del)"

text \<open>The response is whether its \<open>Result\<close> was set. The model cache is not an output: this handler does
  not update it.\<close>

definition Model_DeleteManifest ::
  "('mc, 'model, 'y) azm_svc_scheme \<Rightarrow> ('tx, 'model, 'z) Tx_scheme \<Rightarrow> timestamp \<Rightarrow> string \<Rightarrow> 'tx
     \<Rightarrow> derror option \<times> bool \<times> 'tx" where
  "Model_DeleteManifest Z T now ifMatch t =
     (case az_v_DeleteManifest Z of
        Some e \<Rightarrow> (Some e, False, t)
      | None \<Rightarrow>
          (let md = \<lparr>md_updated = Some now, md_etag = FormatUint (fnv_write fnv_offset [])\<rparr> in
           case az_load Z [] of
             Inl e \<Rightarrow> (Some (DErr ''ErrInvalidArgument'' (az_Error Z e)), False, t)
           | Inr m \<Rightarrow> (case Update T () (DeleteManifest_tx Z T ifMatch m md) t of
                 (Some e, _, t') \<Rightarrow> (Some e, False, t')
               | (None, _, t') \<Rightarrow> (None, True, t'))))"

section \<open>Chunks\<close>

text \<open>The chunks a body of the given length is cut into.\<close>

function chunks :: "nat \<Rightarrow> bytes \<Rightarrow> bytes list" where
  "chunks n data = (if n = 0 \<or> data = [] then [] else take n data # chunks n (drop n data))"
  by auto
termination by (relation "measure (length \<circ> snd)") auto

declare chunks.simps [simp del]

lemma concat_chunks: "0 < n \<Longrightarrow> concat (chunks n data) = data"
  by (induction n data rule: chunks.induct) (subst chunks.simps, auto)

lemma chunks_bound: "c \<in> set (chunks n data) \<Longrightarrow> c \<noteq> [] \<and> length c \<le> n"
proof (induction n data rule: chunks.induct)
  case (1 n data)
  from 1(2) show ?case
    by (subst (asm) chunks.simps) (use 1(1) in \<open>auto split: if_splits\<close>)
qed

lemma body_loop_chunks:
  assumes "0 < n"
  shows "body_loop send n data cur sent = Some (send_all send (map MR_Body (chunks n (drop cur data))) sent)"
proof (induction "length data - cur" arbitrary: cur sent rule: less_induct)
  case less
  let ?c = "take n (drop cur data)"
  show ?case
  proof (cases "cur < length data")
    case True
    have c: "(if cur + n > length data then drop cur data else ?c) = ?c" by simp
    have "chunks n (drop cur data) = ?c # chunks n (drop (cur + n) data)"
      using True assms by (subst chunks.simps) (simp add: add.commute)
    moreover have "body_loop send n data (cur + n) s = Some (send_all send (map MR_Body (chunks n (drop (cur + n) data))) s)"
      for s using less [of "cur + n"] True assms by simp
    ultimately show ?thesis
      by (subst body_loop.simps) (simp add: True c Let_def split: prod.split option.split)
  next
    case False
    then show ?thesis by (subst body_loop.simps) (simp add: chunks.simps)
  qed
qed

section \<open>What the handlers do\<close>

definition body_data :: "manifest_ev list \<Rightarrow> bytes" where
  "body_data evs = concat (map (\<lambda>ev. case ev of SM_Body b \<Rightarrow> b | _ \<Rightarrow> []) evs)"

lemma recv_manifest_data: "recv_manifest Z evs data h = Inr (data', h') \<Longrightarrow> data' = data @ body_data evs"
  by (induction Z evs data h rule: recv_manifest.induct) (auto simp: body_data_def split: option.splits)

lemma recv_manifest_one:
  "az_v_Body Z b = None \<Longrightarrow> recv_manifest Z [SM_Body b] [] fnv_offset = Inr (b, fnv64a b)"
  by (simp add: fnv64a_def)

lemma recv_manifest_two:
  "az_v_Body Z b = None \<Longrightarrow> az_v_Body Z c = None \<Longrightarrow>
     recv_manifest Z [SM_Body b, SM_Body c] [] fnv_offset = Inr (b @ c, fnv64a (b @ b @ c))"
  by (simp add: fnv64a_def fnv_write_append)

context tx_manifest
begin

lemma setManifest_post:
  assumes "inv t" "setManifest Z T mc m md data t = (None, m', t')"
  shows "inv t' \<and> objs t' = objs t \<and> rels t' = rels t \<and> mmd (rest t') = Some md \<and>
    mbody (rest t') = Some \<lparr>b_data = data\<rparr> \<and> m' = az_stamp Z m (md_etag md) (md_updated md) \<and>
    mmodel (rest t') = Some m'"
proof -
  let ?m = "az_stamp Z m (md_etag md) (md_updated md)"
  obtain t1 where t1: "tx_SetManifest T t md \<lparr>b_data = data\<rparr> = (None, t1)"
    "tx_SetManifestModel T t1 ?m = (None, t')" "m' = ?m"
    using assms(2) by (auto simp: setManifest_def manifest_Set_def manifest_SetModel_def Manifest_def Let_def
        split: sum.splits option.splits prod.splits)
  from SetManifest_post [OF assms(1) t1(1)] SetManifestModel_post [of t1, OF _ t1(2)] t1(3) show ?thesis by simp
qed

lemma Model_SetManifest_post:
  assumes "inv t" "Model_SetManifest Z T mc now ifMatch closeErr evs t = (None, mc', t')"
  shows "\<exists>data h m. recv_manifest Z evs [] fnv_offset = Inr (data, h) \<and> az_load Z data = Inr m \<and>
    (let m' = az_stamp Z m (FormatUint h) (Some now) in
     inv t' \<and> objs t' = objs t \<and> rels t' = rels t \<and>
     mmd (rest t') = Some \<lparr>md_updated = Some now, md_etag = FormatUint h\<rparr> \<and>
     mbody (rest t') = Some \<lparr>b_data = data\<rparr> \<and> mmodel (rest t') = Some m' \<and> az_update Z mc m' = (None, mc'))"
proof -
  obtain data h m m' where s: "recv_manifest Z evs [] fnv_offset = Inr (data, h)" "az_load Z data = Inr m"
    "Update T m (setManifest Z T mc m \<lparr>md_updated = Some now, md_etag = FormatUint h\<rparr> data) t = (None, m', t')"
    "az_update Z mc m' = (None, mc')"
    using assms(2) by (auto simp: Model_SetManifest_def Let_def split: sum.splits option.splits prod.splits if_splits)
  have "setManifest Z T mc m \<lparr>md_updated = Some now, md_etag = FormatUint h\<rparr> data t = (None, m', t')"
    using Update_cases [OF s(3)] by simp
  from setManifest_post [OF assms(1) this] s show ?thesis by (auto simp: Let_def)
qed

lemma GetManifest_tx_hit:
  assumes "inv t" "mmd (rest t) = Some md" "mbody (rest t) = Some b" "md_etag md \<notin> set ifNone"
    and "0 < az_MaxChunkSizeBytes Z"
  shows "GetManifest_tx Z T (\<lambda>_ _. None) ifNone True False t =
    Some (None, MR_Metadata md # map MR_Body (chunks (az_MaxChunkSizeBytes Z) (b_data b)))"
proof -
  have "manifest_Get T t = Inr \<lparr>m_md = md, m_body = b\<rparr>"
    using ManifestExists_hit [OF assms(1,2)] GetManifestMetadata_hit [OF assms(1,2)]
      GetManifestBody_hit [OF assms(1,3)] by (simp add: manifest_Get_def)
  then show ?thesis
    using assms(4) by (simp add: GetManifest_tx_def Send_def body_loop_chunks [OF assms(5)] send_all_quiet)
qed

lemma Model_DeleteManifest_post:
  assumes "inv t" "Model_DeleteManifest Z T now [] t = (None, b, t')"
  shows "\<exists>m. az_load Z [] = Inr m \<and> b \<and> inv t' \<and> objs t' = Map.empty \<and> rels t' = Map.empty \<and>
    mmd (rest t') = Some \<lparr>md_updated = Some now, md_etag = FormatUint fnv_offset\<rparr> \<and>
    mbody (rest t') = Some \<lparr>b_data = []\<rparr> \<and> mmodel (rest t') = Some (az_stamp Z m (FormatUint fnv_offset) (Some now))"
proof -
  let ?md = "\<lparr>md_updated = Some now, md_etag = FormatUint (fnv_write fnv_offset [])\<rparr>"
  obtain m where m: "az_load Z [] = Inr m" "b" "Update T () (DeleteManifest_tx Z T [] m ?md) t = (None, (), t')"
    using assms(2) by (auto simp: Model_DeleteManifest_def Let_def split: sum.splits option.splits prod.splits)
  have "DeleteManifest_tx Z T [] m ?md t = (None, (), t')" using Update_cases [OF m(3)] by simp
  then obtain t1 t2 where t: "tx_DeleteManifest T t = (None, t1)" "tx_SetManifest T t1 ?md \<lparr>b_data = []\<rparr> = (None, t2)"
    "tx_SetManifestModel T t2 (az_stamp Z m (md_etag ?md) (md_updated ?md)) = (None, t')"
    by (auto simp: DeleteManifest_tx_def manifest_Delete_def manifest_Set_def manifest_SetModel_def Manifest_def Let_def
        split: option.splits prod.splits)
  note 1 = DeleteManifest_post [OF assms(1) t(1)]
  note 2 = SetManifest_post [OF conjunct1 [OF 1] t(2)]
  note 3 = SetManifestModel_post [OF conjunct1 [OF 2] t(3)]
  from 1 2 3 m show ?thesis by (simp add: fnv_write_def)
qed

end

end
