(* ===== verification/Adl.thy ===== *)
theory Adl
  imports Messages GoStrings
begin

text \<open>
  The Authorization Decision Log \<open>internal/adl\<close> and the W3C trace context \<open>internal/header/traceparent.go\<close>
  its records carry. A logger writes one record per decision to the outputs that are configured; what
  the outputs hold is explicit state.
\<close>

section \<open>Trace context\<close>

record TraceContext =
  tc_TraceID :: string
  tc_SpanID :: string
  tc_ParentSpanID :: string

definition traceIDBytes :: nat where "traceIDBytes = 16"
definition spanIDBytes :: nat where "spanIDBytes = 8"
definition traceFlagsBytes :: nat where "traceFlagsBytes = 1"

text \<open>\<open>hex.EncodedLen\<close>.\<close>

definition EncodedLen :: "nat \<Rightarrow> nat" where "EncodedLen n = 2 * n"

definition parseTraceParent :: "string \<Rightarrow> (string \<times> string) option" where
  "parseTraceParent v = (case split_on CHR ''-'' v of
      [version, traceID, parentID, flags] \<Rightarrow>
        (if version \<noteq> ''00'' \<or> length traceID \<noteq> EncodedLen traceIDBytes \<or>
            length parentID \<noteq> EncodedLen spanIDBytes \<or> length flags \<noteq> EncodedLen traceFlagsBytes
         then None
         else if \<not> list_all hex_decodes [traceID, parentID, flags] then None
         else if traceID = replicate (EncodedLen traceIDBytes) CHR ''0'' \<or>
            parentID = replicate (EncodedLen spanIDBytes) CHR ''0'' then None
         else Some (traceID, parentID))
    | _ \<Rightarrow> None)"

text \<open>\<open>headers\<close> are the values of the traceparent header, \<open>rndTrace\<close> and \<open>rndSpan\<close> the random bytes.\<close>

definition ExtractTraceContext :: "string list \<Rightarrow> bytes \<Rightarrow> bytes \<Rightarrow> TraceContext" where
  "ExtractTraceContext headers rndTrace rndSpan =
     (let (traceID, parentSpanID) = (case headers of
          [] \<Rightarrow> ([], [])
        | v # _ \<Rightarrow> (case parseTraceParent v of None \<Rightarrow> ([], []) | Some p \<Rightarrow> p));
          traceID = (if traceID = [] then EncodeToString rndTrace else traceID)
      in \<lparr>tc_TraceID = traceID, tc_SpanID = EncodeToString rndSpan, tc_ParentSpanID = parentSpanID\<rparr>)"

lemmas trace_sizes = traceIDBytes_def spanIDBytes_def traceFlagsBytes_def EncodedLen_def

lemma hex_no_dash: "list_all is_hex s \<Longrightarrow> CHR ''-'' \<notin> set s"
proof
  assume "list_all is_hex s" "CHR ''-'' \<in> set s"
  then have "is_hex CHR ''-''" by (auto simp: list_all_iff)
  moreover have "\<not> is_hex CHR ''-''" by code_simp
  ultimately show False by simp
qed

text \<open>A trace or span id as the W3C format has it, up to the case of the digits.\<close>

definition wf_trace_id :: "nat \<Rightarrow> string \<Rightarrow> bool" where
  "wf_trace_id n s \<longleftrightarrow> length s = 2 * n \<and> list_all is_hex s \<and> s \<noteq> replicate (2 * n) CHR ''0''"

lemma parseTraceParent_iff:
  "parseTraceParent v = Some (tid, pid) \<longleftrightarrow> wf_trace_id 16 tid \<and> wf_trace_id 8 pid \<and>
     (\<exists>flags. length flags = 2 \<and> list_all is_hex flags \<and>
        v = ''00-'' @ tid @ ''-'' @ pid @ ''-'' @ flags)" (is "?l \<longleftrightarrow> ?r")
proof
  assume ?l
  then obtain version flags where p: "split_on CHR ''-'' v = [version, tid, pid, flags]"
    by (auto simp: parseTraceParent_def split: list.splits if_splits)
  then have v: "v = version @ ''-'' @ tid @ ''-'' @ pid @ ''-'' @ flags"
    using join_split_on [of "CHR ''-''" v] by simp
  from \<open>?l\<close> p have "version = ''00''" "wf_trace_id 16 tid" "wf_trace_id 8 pid" "length flags = 2" "list_all is_hex flags"
    by (auto simp: parseTraceParent_def wf_trace_id_def hex_decodes_def trace_sizes split: if_splits)
  with v show ?r by auto
next
  assume ?r
  then obtain flags where f: "length flags = 2" "list_all is_hex flags"
    "v = ''00-'' @ tid @ ''-'' @ pid @ ''-'' @ flags" and w: "wf_trace_id 16 tid" "wf_trace_id 8 pid" by blast
  have "CHR ''-'' \<notin> set tid" "CHR ''-'' \<notin> set pid" "CHR ''-'' \<notin> set flags"
    using f(2) w by (auto simp: wf_trace_id_def dest!: hex_no_dash)
  then have "split_on CHR ''-'' v = [''00'', tid, pid, flags]"
    using f(3) by (simp add: split_on_append split_on_sep_free)
  with f w show ?l
    by (simp add: parseTraceParent_def wf_trace_id_def hex_decodes_def trace_sizes)
qed

lemma ExtractTraceContext_hex:
  fixes headers :: "string list"
  assumes "length rndTrace = 16" "length rndSpan = 8"
  defines "tc \<equiv> ExtractTraceContext headers rndTrace rndSpan"
  shows "length (tc_TraceID tc) = 32 \<and> list_all is_hex (tc_TraceID tc) \<and>
    length (tc_SpanID tc) = 16 \<and> list_all is_hex (tc_SpanID tc)"
proof -
  have r: "length (EncodeToString rndTrace) = 32" "length (EncodeToString rndSpan) = 16"
    using assms(1,2) by (simp_all add: EncodeToString_hex(1))
  show ?thesis
  proof (cases "\<exists>v vs tid pid. headers = v # vs \<and> parseTraceParent v = Some (tid, pid)")
    case True
    then obtain v vs tid pid where h: "headers = v # vs" "parseTraceParent v = Some (tid, pid)" by blast
    then have "wf_trace_id 16 tid" by (simp add: parseTraceParent_iff)
    then have "length tid = 32" "list_all is_hex tid" "tid \<noteq> []" by (auto simp: wf_trace_id_def)
    with h r show ?thesis by (simp add: tc_def ExtractTraceContext_def EncodeToString_hex(2))
  next
    case False
    then have "tc = \<lparr>tc_TraceID = EncodeToString rndTrace, tc_SpanID = EncodeToString rndSpan, tc_ParentSpanID = []\<rparr>"
      by (auto simp: tc_def ExtractTraceContext_def split: list.split option.split)
    with r show ?thesis by (simp add: EncodeToString_hex(2))
  qed
qed

section \<open>Configuration\<close>

text \<open>
  The fields the code reads. Resource maps are maps of strings; \<open>instanceID\<close> is what the host name
  lookup or the fresh UUID gives.
\<close>

record adl_config =
  cf_Enabled :: bool
  cf_Output :: string
  cf_Endpoint :: string
  cf_Resource :: "string \<rightharpoonup> string"
  cf_TypeKey :: string
  cf_IDKey :: string

definition OutputStdout :: string where "OutputStdout = ''stdout''"
definition OutputOTLP :: string where "OutputOTLP = ''otlp''"

definition defaultOutput :: string where
  "defaultOutput = OutputStdout @ '','' @ OutputOTLP"

definition resourceKeyInstanceID :: string where "resourceKeyInstanceID = ''instance_id''"

definition effectiveResource :: "adl_config \<Rightarrow> string \<Rightarrow> (string \<rightharpoonup> string)" where
  "effectiveResource c instanceID =
     (let resource = cf_Resource c in
      if resource resourceKeyInstanceID = None then resource(resourceKeyInstanceID \<mapsto> instanceID) else resource)"

definition instanceID :: "string result \<Rightarrow> string \<Rightarrow> string" where
  "instanceID hostname uuid = (case hostname of
      Inr h \<Rightarrow> (if h \<noteq> [] then h else uuid)
    | Inl _ \<Rightarrow> uuid)"

definition typeKey :: "adl_config \<Rightarrow> string" where
  "typeKey c = (if cf_TypeKey c = [] then ''object_type'' else cf_TypeKey c)"

definition idKey :: "adl_config \<Rightarrow> string" where
  "idKey c = (if cf_IDKey c = [] then ''object_id'' else cf_IDKey c)"

definition adl_outputs :: "adl_config \<Rightarrow> string set" where
  "adl_outputs c =
     (let raw = (if TrimSpace (cf_Output c) = [] then defaultOutput else cf_Output c)
      in set (filter (\<lambda>s. s \<noteq> []) (map TrimSpace (split_on CHR '','' raw))))"

text \<open>A resource context mapped onto an AuthZEN resource: type, id and properties.\<close>

definition stringField :: "pbstruct \<Rightarrow> string \<Rightarrow> string" where
  "stringField props key = (case props of
      None \<Rightarrow> []
    | Some flds \<Rightarrow> (case flds key of None \<Rightarrow> [] | Some v \<Rightarrow> pb_string (Some v)))"

definition AuthZENResource :: "adl_config \<Rightarrow> pbstruct \<Rightarrow> string \<times> string \<times> pbstruct" where
  "AuthZENResource c props = (stringField props (typeKey c), stringField props (idKey c), props)"

section \<open>Requests and responses\<close>

record entity =
  en_type :: string
  en_id :: string
  en_props :: pbstruct

record action =
  ac_name :: string
  ac_props :: pbstruct

record eval_req =
  eq_subject :: "entity option"
  eq_action :: "action option"
  eq_resource :: "entity option"
  eq_context :: pbstruct

record evals_req = eval_req +
  es_evaluations :: "eval_req list"

record eval_resp =
  ev_decision :: bool
  ev_context :: pbstruct

datatype adl_request =
    RQ_Evaluation eval_req
  | RQ_Evaluations evals_req
  | RQ_SubjectSearch eval_req
  | RQ_ResourceSearch eval_req
  | RQ_ActionSearch eval_req

datatype adl_response =
    RS_Evaluation eval_resp
  | RS_Evaluations "eval_resp list"
  | RS_SubjectSearch "entity list"
  | RS_ResourceSearch "entity list"
  | RS_ActionSearch "action list"

text \<open>What is marshalled as the response: the decision is a field that is always present, or the
  message as it is.\<close>

datatype json_response =
    JR_Evaluation bool pbstruct
  | JR_Evaluations "(bool \<times> pbstruct) list"
  | JR_AsIs adl_response

definition responseForJSON :: "adl_response \<Rightarrow> json_response" where
  "responseForJSON response = (case response of
      RS_Evaluation r \<Rightarrow> JR_Evaluation (ev_decision r) (ev_context r)
    | RS_Evaluations rs \<Rightarrow> JR_Evaluations (map (\<lambda>e. (ev_decision e, ev_context e)) rs)
    | _ \<Rightarrow> JR_AsIs response)"

section \<open>Records and the logger\<close>

datatype adl_status = StatusOk | StatusError

definition EventAccessEvaluation :: string where "EventAccessEvaluation = ''adl.access_evaluation''"
definition EventAccessEvaluations :: string where "EventAccessEvaluations = ''adl.access_evaluations''"
definition EventSearchSubject :: string where "EventSearchSubject = ''adl.search_subject''"
definition EventSearchAction :: string where "EventSearchAction = ''adl.search_action''"
definition EventSearchResource :: string where "EventSearchResource = ''adl.search_resource''"

record adl_record =
  rc_TraceID :: string
  rc_SpanID :: string
  rc_ParentSpanID :: string
  rc_EventName :: string
  rc_Timestamp :: int
  rc_Status :: adl_status
  rc_Resource :: "string \<rightharpoonup> string"
  rc_Request :: adl_request
  rc_Response :: "json_response option"

text \<open>
  A logger: its configuration and which outputs are up. \<open>lg_marshal\<close> is the outcome of encoding a
  record as JSON, \<open>lg_write\<close> the outcome of writing the line to standard output. The log is what
  standard output and the OTLP exporter received.
\<close>

record adl_logger =
  lg_cfg :: adl_config
  lg_stdout :: bool
  lg_otel :: bool
  lg_marshal :: "adl_record \<Rightarrow> derror option"
  lg_write :: "adl_record \<Rightarrow> derror option"

record adl_log =
  lo_stdout :: "adl_record list"
  lo_otel :: "adl_record list"

text \<open>
  \<open>New\<close>: \<open>otelUp\<close> is whether the exporter could be created. An output that cannot be brought up is
  skipped.
\<close>

definition adl_New ::
  "adl_config \<Rightarrow> string \<Rightarrow> bool \<Rightarrow> (adl_record \<Rightarrow> derror option) \<Rightarrow> (adl_record \<Rightarrow> derror option) \<Rightarrow> adl_logger" where
  "adl_New cfg inst otelUp marshal write =
     (let cfg' = cfg\<lparr>cf_Resource := effectiveResource cfg inst\<rparr>;
          l = \<lparr>lg_cfg = cfg', lg_stdout = False, lg_otel = False, lg_marshal = marshal, lg_write = write\<rparr>
      in if \<not> cf_Enabled cfg then l
         else l\<lparr>lg_stdout := OutputStdout \<in> adl_outputs cfg',
           lg_otel := OutputOTLP \<in> adl_outputs cfg' \<and> cf_Endpoint cfg \<noteq> [] \<and> otelUp\<rparr>)"

definition adl_active :: "adl_logger option \<Rightarrow> bool" where
  "adl_active l = (case l of None \<Rightarrow> False | Some l \<Rightarrow> cf_Enabled (lg_cfg l))"

definition adl_make_record ::
  "adl_logger \<Rightarrow> TraceContext \<Rightarrow> int \<Rightarrow> string \<Rightarrow> adl_request \<Rightarrow> adl_response \<Rightarrow> derror option \<Rightarrow> adl_record" where
  "adl_make_record l tc now eventName request response evalErr =
     (let rec = \<lparr>rc_TraceID = tc_TraceID tc, rc_SpanID = tc_SpanID tc, rc_ParentSpanID = tc_ParentSpanID tc,
            rc_EventName = eventName, rc_Timestamp = now, rc_Status = StatusOk,
            rc_Resource = cf_Resource (lg_cfg l), rc_Request = request, rc_Response = None\<rparr>
      in if evalErr \<noteq> None then rec\<lparr>rc_Status := StatusError\<rparr>
         else rec\<lparr>rc_Response := Some (responseForJSON response)\<rparr>)"

definition writeRecordStdout :: "adl_logger \<Rightarrow> adl_record \<Rightarrow> adl_log \<Rightarrow> derror option \<times> adl_log" where
  "writeRecordStdout l rec log = (case lg_marshal l rec of
      Some e \<Rightarrow> (Some (WrapErr ''error marshaling adl decision record'' e), log)
    | None \<Rightarrow>
        (if \<not> lg_stdout l then (None, log)
         else case lg_write l rec of
             Some e \<Rightarrow> (Some (WrapErr ''error writing adl decision record'' e), log)
           | None \<Rightarrow> (None, log\<lparr>lo_stdout := lo_stdout log @ [rec]\<rparr>)))"

definition otel_emit :: "adl_logger \<Rightarrow> adl_record \<Rightarrow> adl_log \<Rightarrow> derror option \<times> adl_log" where
  "otel_emit l rec log = (case lg_marshal l rec of
      Some e \<Rightarrow> (Some (WrapErr ''error marshaling adl decision record for otlp'' e), log)
    | None \<Rightarrow> (None, log\<lparr>lo_otel := lo_otel log @ [rec]\<rparr>))"

definition join_errors :: "derror option list \<Rightarrow> derror option" where
  "join_errors es = (let ds = map the (filter (\<lambda>e. e \<noteq> None) es) in if ds = [] then None else Some (JoinErr ds))"

definition adl_emit ::
  "adl_logger option \<Rightarrow> TraceContext \<Rightarrow> int \<Rightarrow> string \<Rightarrow> adl_request \<Rightarrow> adl_response \<Rightarrow> derror option \<Rightarrow> adl_log
     \<Rightarrow> derror option \<times> adl_log" where
  "adl_emit l tc now eventName request response evalErr log =
     (if \<not> adl_active l then (None, log)
      else let l = the l; rec = adl_make_record l tc now eventName request response evalErr;
             (e1, log) = writeRecordStdout l rec log;
             (e2, log) = (if lg_otel l then otel_emit l rec log else (None, log))
        in (join_errors [e1, e2], log))"

section \<open>One record per decision\<close>

text \<open>A successful emission of an active logger puts exactly this record on every output that is up.\<close>

lemma adl_emit_ok:
  assumes "adl_active (Some l)" "adl_emit (Some l) tc now ev req resp err log = (None, log')"
    and "rec = adl_make_record l tc now ev req resp err"
  shows "lo_stdout log' = lo_stdout log @ (if lg_stdout l then [rec] else []) \<and>
    lo_otel log' = lo_otel log @ (if lg_otel l then [rec] else [])"
  using assms
  by (auto simp: adl_emit_def Let_def writeRecordStdout_def otel_emit_def join_errors_def
      split: option.splits if_splits)

lemma adl_emit_inactive: "\<not> adl_active l \<Longrightarrow> adl_emit l tc now ev req resp err log = (None, log)"
  by (simp add: adl_emit_def)

end
