(* ===== verification/Access.thy ===== *)
theory Access
  imports Reader Adl
begin

text \<open>
  The AuthZEN access service \<open>directory/v3/access.go\<close>: single and batch evaluations and the three
  searches, on top of the reader service, with one decision log record per call. \<open>tc\<close> and \<open>ms\<close> are the
  trace context of the request and the time of the record in milliseconds. A handler that panics
  (a nil response of the engine, see \<open>Reader_Check\<close>) gives \<open>Inl\<close>.
\<close>

section \<open>Requests to the reader\<close>

definition extractCheck :: "'z eval_req_scheme \<Rightarrow> check_req" where
  "extractCheck req =
     (let c = zero_check;
          c = (case eq_resource req of None \<Rightarrow> c | Some r \<Rightarrow> c\<lparr>c_otype := en_type r, c_oid := en_id r\<rparr>);
          c = (case eq_action req of None \<Rightarrow> c | Some a \<Rightarrow> c\<lparr>c_rel := ac_name a\<rparr>)
      in case eq_subject req of None \<Rightarrow> c | Some s \<Rightarrow> c\<lparr>c_stype := en_type s, c_sid := en_id s\<rparr>)"

definition extractChecks :: "evals_req \<Rightarrow> check_req \<times> check_req list" where
  "extractChecks req =
     (let c = zero_check;
          c = (case eq_subject req of None \<Rightarrow> c | Some s \<Rightarrow> c\<lparr>c_stype := en_type s, c_sid := en_id s\<rparr>);
          c = (case eq_action req of None \<Rightarrow> c | Some a \<Rightarrow> c\<lparr>c_rel := ac_name a\<rparr>);
          c = (case eq_resource req of None \<Rightarrow> c | Some r \<Rightarrow> c\<lparr>c_otype := en_type r, c_oid := en_id r\<rparr>)
      in (c, map extractCheck (es_evaluations req)))"

definition extractDecisions :: "check_resp list \<Rightarrow> eval_resp list" where
  "extractDecisions rs = map (\<lambda>v. \<lparr>ev_decision = cr_check v, ev_context = cr_context v\<rparr>) rs"

definition zero_graph :: graph_req where
  "zero_graph = \<lparr>i_otype = [], i_oid = [], i_rel = [], i_stype = [], i_sid = [], i_srel = [],
     gq_explain = False, gq_trace = False\<rparr>"

definition extractSubjectSearch :: "eval_req \<Rightarrow> graph_req" where
  "extractSubjectSearch req =
     (let q = zero_graph;
          q = (case eq_resource req of None \<Rightarrow> q | Some r \<Rightarrow> q\<lparr>i_otype := en_type r, i_oid := en_id r\<rparr>);
          q = (case eq_action req of None \<Rightarrow> q | Some a \<Rightarrow> q\<lparr>i_rel := ac_name a\<rparr>);
          q = (case eq_subject req of None \<Rightarrow> q | Some s \<Rightarrow> q\<lparr>i_stype := en_type s\<rparr>)
      in q\<lparr>i_sid := [], i_srel := []\<rparr>)"

definition extractResourceSearch :: "eval_req \<Rightarrow> graph_req" where
  "extractResourceSearch req =
     (let q = zero_graph;
          q = (case eq_resource req of None \<Rightarrow> q | Some r \<Rightarrow> q\<lparr>i_otype := en_type r\<rparr>);
          q = (case eq_action req of None \<Rightarrow> q | Some a \<Rightarrow> q\<lparr>i_rel := ac_name a\<rparr>);
          q = (case eq_subject req of None \<Rightarrow> q | Some s \<Rightarrow> q\<lparr>i_stype := en_type s, i_sid := en_id s\<rparr>)
      in q\<lparr>i_oid := [], i_srel := []\<rparr>)"

definition extractActionSearch :: "eval_req \<Rightarrow> graph_req" where
  "extractActionSearch req =
     (let q = zero_graph;
          q = (case eq_resource req of None \<Rightarrow> q | Some r \<Rightarrow> q\<lparr>i_otype := en_type r, i_oid := en_id r\<rparr>);
          q = (case eq_subject req of None \<Rightarrow> q | Some s \<Rightarrow> q\<lparr>i_stype := en_type s, i_sid := en_id s\<rparr>)
      in q\<lparr>i_rel := [], i_srel := []\<rparr>)"

section \<open>Evaluation\<close>

definition evaluation ::
  "('mc, 'model, 'y) azm_graph_scheme \<Rightarrow> ('tx, 'model, 'z) Tx_scheme \<Rightarrow> 'mc \<Rightarrow> eval_req \<Rightarrow> 'tx
     \<Rightarrow> (derror option \<times> eval_resp) result" where
  "evaluation Z T mc req t = (case Reader_Check Z T mc (extractCheck req) t of
      Inl p \<Rightarrow> Inl p
    | Inr resp \<Rightarrow> (let r = (case resp of None \<Rightarrow> zero_check_resp | Some r \<Rightarrow> r) in
        Inr (None, \<lparr>ev_decision = cr_check r, ev_context = cr_context r\<rparr>)))"

definition evaluations ::
  "('mc, 'model, 'y) azm_graph_scheme \<Rightarrow> ('tx, 'model, 'z) Tx_scheme \<Rightarrow> 'mc \<Rightarrow> evals_req \<Rightarrow> 'tx
     \<Rightarrow> derror option \<times> eval_resp list" where
  "evaluations Z T mc req t = (case extractChecks req of (defCheck, checks) \<Rightarrow>
      (case Reader_Checks Z T mc (Some defCheck) checks t of
         (Some e, _) \<Rightarrow> (Some e, [])
       | (None, checksResp) \<Rightarrow> (None, extractDecisions checksResp)))"

definition entity_of :: "obj_id \<Rightarrow> entity" where
  "entity_of k = \<lparr>en_type = fst k, en_id = snd k, en_props = None\<rparr>"

definition subjectSearch ::
  "('mc, 'model, 'y) azm_graph_scheme \<Rightarrow> ('tx, 'model, 'z) Tx_scheme \<Rightarrow> 'mc \<Rightarrow> eval_req \<Rightarrow> 'tx
     \<Rightarrow> derror option \<times> entity list" where
  "subjectSearch Z T mc req t = (case Reader_GetGraph Z T mc (extractSubjectSearch req) t of
      (Some e, _) \<Rightarrow> (Some e, [])
    | (None, graphResp) \<Rightarrow> (None, map entity_of (gp_results graphResp)))"

definition resourceSearch ::
  "('mc, 'model, 'y) azm_graph_scheme \<Rightarrow> ('tx, 'model, 'z) Tx_scheme \<Rightarrow> 'mc \<Rightarrow> eval_req \<Rightarrow> 'tx
     \<Rightarrow> derror option \<times> entity list" where
  "resourceSearch Z T mc req t = (case Reader_GetGraph Z T mc (extractResourceSearch req) t of
      (Some e, _) \<Rightarrow> (Some e, [])
    | (None, graphResp) \<Rightarrow> (None, map entity_of (gp_results graphResp)))"

text \<open>
  The loop over the answers reads \<open>assignable[i]\<close>: an answer without a name for it is an index panic.
  The branch for assignable relations is switched off by a constant.
\<close>

fun allowed_actions :: "string list \<Rightarrow> check_resp list \<Rightarrow> action list result" where
  "allowed_actions names [] = Inr []"
| "allowed_actions (n # ns) (chk # chks) = (case allowed_actions ns chks of
      Inl p \<Rightarrow> Inl p
    | Inr rest \<Rightarrow> Inr (if cr_check chk then \<lparr>ac_name = n, ac_props = None\<rparr> # rest else rest))"
| "allowed_actions [] (chk # chks) =
     (if cr_check chk then Inl (Panic ''index out of range'') else allowed_actions [] chks)"

definition actionSearch ::
  "('mc, 'model, 'y) azm_graph_scheme \<Rightarrow> ('tx, 'model, 'z) Tx_scheme \<Rightarrow> 'mc \<Rightarrow> eval_req \<Rightarrow> 'tx
     \<Rightarrow> (derror option \<times> action list) result" where
  "actionSearch Z T mc req t =
     (let g = extractActionSearch req in
      case az_AvailablePermissions Z mc (i_otype g) (i_stype g) of
        Inl e \<Rightarrow> Inr (Some e, [])
      | Inr assignable \<Rightarrow>
          (case Reader_Checks Z T mc (Some (zero_check\<lparr>c_otype := i_otype g, c_oid := i_oid g,
                c_stype := i_stype g, c_sid := i_sid g\<rparr>)) (map (\<lambda>rel. zero_check\<lparr>c_rel := rel\<rparr>) assignable) t of
             (Some e, _) \<Rightarrow> Inr (Some e, [])
           | (None, chks) \<Rightarrow> (case allowed_actions assignable chks of
                 Inl p \<Rightarrow> Inl p
               | Inr results \<Rightarrow> Inr (None, results))))"

section \<open>Decision log\<close>

definition adlError :: "derror option \<Rightarrow> derror option \<Rightarrow> derror option" where
  "adlError evalErr logErr = (if logErr = None then evalErr else if evalErr \<noteq> None then evalErr else logErr)"

text \<open>A call's outcome: its error, its response and the decision log.\<close>

definition logged ::
  "adl_logger option \<Rightarrow> TraceContext \<Rightarrow> int \<Rightarrow> string \<Rightarrow> adl_request \<Rightarrow> ('r \<Rightarrow> adl_response) \<Rightarrow> adl_log
     \<Rightarrow> derror option \<times> 'r \<Rightarrow> derror option \<times> 'r \<times> adl_log" where
  "logged l tc ms ev req wrap log out = (case adl_emit l tc ms ev req (wrap (snd out)) (fst out) log of
      (logErr, log') \<Rightarrow> (adlError (fst out) logErr, snd out, log'))"

definition Access_Evaluation ::
  "('mc, 'model, 'y) azm_graph_scheme \<Rightarrow> ('tx, 'model, 'z) Tx_scheme \<Rightarrow> 'mc \<Rightarrow> adl_logger option \<Rightarrow> TraceContext
     \<Rightarrow> int \<Rightarrow> eval_req \<Rightarrow> 'tx \<Rightarrow> adl_log \<Rightarrow> (derror option \<times> eval_resp \<times> adl_log) result" where
  "Access_Evaluation Z T mc l tc ms req t log = (case evaluation Z T mc req t of
      Inl p \<Rightarrow> Inl p
    | Inr out \<Rightarrow> Inr (logged l tc ms EventAccessEvaluation (RQ_Evaluation req) RS_Evaluation log out))"

definition Access_Evaluations ::
  "('mc, 'model, 'y) azm_graph_scheme \<Rightarrow> ('tx, 'model, 'z) Tx_scheme \<Rightarrow> 'mc \<Rightarrow> adl_logger option \<Rightarrow> TraceContext
     \<Rightarrow> int \<Rightarrow> evals_req \<Rightarrow> 'tx \<Rightarrow> adl_log \<Rightarrow> derror option \<times> eval_resp list \<times> adl_log" where
  "Access_Evaluations Z T mc l tc ms req t log =
     logged l tc ms EventAccessEvaluations (RQ_Evaluations req) RS_Evaluations log (evaluations Z T mc req t)"

definition Access_SubjectSearch ::
  "('mc, 'model, 'y) azm_graph_scheme \<Rightarrow> ('tx, 'model, 'z) Tx_scheme \<Rightarrow> 'mc \<Rightarrow> adl_logger option \<Rightarrow> TraceContext
     \<Rightarrow> int \<Rightarrow> eval_req \<Rightarrow> 'tx \<Rightarrow> adl_log \<Rightarrow> derror option \<times> entity list \<times> adl_log" where
  "Access_SubjectSearch Z T mc l tc ms req t log =
     logged l tc ms EventSearchSubject (RQ_SubjectSearch req) RS_SubjectSearch log (subjectSearch Z T mc req t)"

definition Access_ResourceSearch ::
  "('mc, 'model, 'y) azm_graph_scheme \<Rightarrow> ('tx, 'model, 'z) Tx_scheme \<Rightarrow> 'mc \<Rightarrow> adl_logger option \<Rightarrow> TraceContext
     \<Rightarrow> int \<Rightarrow> eval_req \<Rightarrow> 'tx \<Rightarrow> adl_log \<Rightarrow> derror option \<times> entity list \<times> adl_log" where
  "Access_ResourceSearch Z T mc l tc ms req t log =
     logged l tc ms EventSearchResource (RQ_ResourceSearch req) RS_ResourceSearch log (resourceSearch Z T mc req t)"

definition Access_ActionSearch ::
  "('mc, 'model, 'y) azm_graph_scheme \<Rightarrow> ('tx, 'model, 'z) Tx_scheme \<Rightarrow> 'mc \<Rightarrow> adl_logger option \<Rightarrow> TraceContext
     \<Rightarrow> int \<Rightarrow> eval_req \<Rightarrow> 'tx \<Rightarrow> adl_log \<Rightarrow> (derror option \<times> action list \<times> adl_log) result" where
  "Access_ActionSearch Z T mc l tc ms req t log = (case actionSearch Z T mc req t of
      Inl p \<Rightarrow> Inl p
    | Inr out \<Rightarrow> Inr (logged l tc ms EventSearchAction (RQ_ActionSearch req) RS_ActionSearch log out))"

section \<open>Facts about decisions\<close>

lemma logged_ok:
  assumes "adl_active (Some l)" "logged (Some l) tc ms ev req wrap log out = (None, r, log')"
  shows "fst out = None \<and> r = snd out \<and>
    lo_stdout log' = lo_stdout log @ (if lg_stdout l then [adl_make_record l tc ms ev req (wrap r) None] else []) \<and>
    lo_otel log' = lo_otel log @ (if lg_otel l then [adl_make_record l tc ms ev req (wrap r) None] else [])"
proof -
  obtain logErr where e: "adl_emit (Some l) tc ms ev req (wrap (snd out)) (fst out) log = (logErr, log')"
    "adlError (fst out) logErr = None" "r = snd out"
    using assms(2) by (auto simp: logged_def split: prod.splits)
  then have "logErr = None" "fst out = None" by (auto simp: adlError_def split: if_splits)
  with adl_emit_ok [OF assms(1) _ refl] e show ?thesis by auto
qed

lemma logged_eval_error:
  "fst out = Some e \<Longrightarrow> fst (logged l tc ms ev req wrap log out) = Some e"
  by (simp add: logged_def adlError_def split: prod.split)

lemma allowed_actions_eq:
  "length chks = length names \<Longrightarrow> allowed_actions names chks =
     Inr (map (\<lambda>n. \<lparr>ac_name = fst n, ac_props = None\<rparr>) (filter (\<lambda>n. cr_check (snd n)) (zip names chks)))"
  by (induction names chks rule: allowed_actions.induct) auto

end
