(* ===== verification/ServiceProps.thy ===== *)
theory ServiceProps
  imports DirectoryProps Exporter ModelService Access
begin

text \<open>
  The properties of the import, export, model and access services over the BoltDB store, and of the
  way they work together: an export can be restored by an import, a manifest is read back as it was
  written, no decision is answered without a log record.
\<close>

section \<open>Import and export\<close>


definition alice_import :: "recv_ev list" where
  "alice_import = [RecvErr (ExtErr ''reset''), Recv ts0 \<lparr>ir_op = OPCODE_SET, ir_msg = IR_Object (Some alice)\<rparr>,
     Recv ts0 \<lparr>ir_op = OPCODE_SET, ir_msg = IR_Relation (Some alice_doc)\<rparr>,
     Recv ts0 \<lparr>ir_op = OPCODE_UNKNOWN, ir_msg = IR_Object (Some alice)\<rparr>]"

lemma alice_guards [simp]:
  "object_guard mem_azm mc (Some alice) = Inr alice" "relation_guard mem_azm mc (Some alice_doc) = Inr alice_doc"
  by (simp_all add: object_guard_def relation_guard_def)

lemma alice_doc_key: "length (objKeyOf alice_doc) < 1000" "objKeyOf alice_doc \<noteq> []"
  by code_simp+

lemma stamped_key: "objKeyOf ((stamp_relation now c r)\<lparr>r_etag := e\<rparr>) = objKeyOf r"
  using key_ident_of(1) [of "(stamp_relation now c r)\<lparr>r_etag := e\<rparr>"] key_ident_of(1) [of r] by simp

lemma alice_import_ok:
  "\<forall>(now, req) \<in> set (recv_reqs alice_import). import_ok mem_azm mc (\<lambda>x. \<forall>t. bdb_okO mem_env t x) (\<lambda>r. \<forall>t. bdb_okR mem_env t r) req"
  using alice_wf alice_doc_key(1)
  by (auto simp: recv_reqs_def alice_import_def import_ok_def stamped_key intro!: mem_okO mem_okR)

lemma mem_import_runs:
  "\<exists>res t'. Importer_Import mem_azm (bdb_tx mem_env) (\<lambda>_ _. None) objFirst mc fin evs t = (None, res, t')"
proof -
  obtain res t' where "import_loop mem_azm (bdb_tx mem_env) (\<lambda>_ _. None) objFirst mc fin evs zero_counters [] t = (None, res, t')"
    using import_loop_quiet [of mem_azm "bdb_tx mem_env" objFirst mc fin evs zero_counters "[]" t] by (metis prod.collapse)
  then show ?thesis by (simp add: Importer_Import_def Batch_def Update_ok)
qed


text \<open>
  C26: The import counters balance: for objects and for relations, the number received is the sum of
  set, deleted and failed (as 64-bit numbers), and it is the number of requests of that kind with an
  operation code the importer handles. Requests with another operation code are not counted.
\<close>

theorem Import_counters_balance:
  assumes "Importer_Import Z T send objFirst mc fin evs t = (None, (ctr, sent), t')"
  shows "ic_recv (ct_object ctr) = ic_set (ct_object ctr) + ic_delete (ct_object ctr) + ic_error (ct_object ctr) \<and>
    ic_recv (ct_relation ctr) = ic_set (ct_relation ctr) + ic_delete (ct_relation ctr) + ic_error (ct_relation ctr) \<and>
    ic_recv (ct_object ctr) = of_nat (length (filter (\<lambda>(_, req). counted req True) (recv_reqs evs))) \<and>
    ic_recv (ct_relation ctr) = of_nat (length (filter (\<lambda>(_, req). counted req False) (recv_reqs evs)))"
proof -
  have b: "balanced (ct_object zero_counters)" "balanced (ct_relation zero_counters)"
    and z: "ic_recv (ct_object zero_counters) = 0" "ic_recv (ct_relation zero_counters) = 0"
    by (simp_all add: balanced_def zero_counters_def new_counter_def)
  from import_loop_counters [OF Import_ok [OF assms] b] show ?thesis
    unfolding balanced_def z add_0_left by blast
qed

theorem Import_counters_balance_witness:
  "\<exists>ctr sent t'. Importer_Import mem_azm (bdb_tx mem_env) (\<lambda>_ _. None) True [] EOF alice_import mem_db0
      = (None, (ctr, sent), t') \<and> ic_recv (ct_object ctr) = 1 \<and> ic_recv (ct_relation ctr) = 1"
proof -
  obtain ctr sent t' where run: "Importer_Import mem_azm (bdb_tx mem_env) (\<lambda>_ _. None) True [] EOF alice_import mem_db0
      = (None, (ctr, sent), t')"
    using mem_import_runs by (metis surj_pair)
  have n: "length (filter (\<lambda>(_, req). counted req True) (recv_reqs alice_import)) = 1"
    "length (filter (\<lambda>(_, req). counted req False) (recv_reqs alice_import)) = 1"
    by (simp_all add: recv_reqs_def alice_import_def counted_def)
  have "ic_recv (ct_object ctr) = of_nat 1" "ic_recv (ct_relation ctr) = of_nat 1"
    using Import_counters_balance [OF run] unfolding n by blast+
  with run show ?thesis by simp
qed

text \<open>
  C28: Cancelling an import does not undo it. When the context is done before the client closes the
  stream, the import still reports success and commits everything handled so far: the state is the
  one a stream closed at that point leaves.
\<close>

theorem cancelled_import_commits:
  assumes "tx_begin T True t = None" "\<forall>t. tx_commit T t = None"
  shows "\<exists>res t'. Importer_Import Z T (\<lambda>_ _. None) objFirst mc CtxDone evs t = (None, res, t') \<and>
    snd (snd (Importer_Import Z T (\<lambda>_ _. None) objFirst mc EOF evs t)) = t'"
proof -
  have run: "Importer_Import Z T (\<lambda>_ _. None) objFirst mc fin evs t =
      import_loop Z T (\<lambda>_ _. None) objFirst mc fin evs zero_counters [] t" for fin
    using assms import_loop_quiet [of Z T objFirst mc fin evs zero_counters "[]" t]
    by (cases "import_loop Z T (\<lambda>_ _. None) objFirst mc fin evs zero_counters [] t")
      (simp add: Importer_Import_def Batch_def Update_def)
  obtain res t' where d: "import_loop Z T (\<lambda>_ _. None) objFirst mc CtxDone evs zero_counters [] t = (None, res, t')"
    using import_loop_quiet [of Z T objFirst mc CtxDone evs zero_counters "[]" t] by (metis prod.collapse)
  then show ?thesis
    using import_loop_state [of Z T "\<lambda>_ _. None" objFirst mc evs zero_counters "[]" t] by (simp add: run)
qed

theorem cancelled_import_commits_witness:
  "\<exists>res t'. Importer_Import mem_azm (bdb_tx mem_env) (\<lambda>_ _. None) True [] CtxDone alice_import mem_db0 = (None, res, t')"
  using cancelled_import_commits [of "bdb_tx mem_env" mem_db0 mem_azm True "[]" alice_import] by auto


lemma alice_accepted:
  assumes "bdb_inv mem_env t" "bdb_objs mem_env t = [(''user'', ''alice'') \<mapsto> y]"
    "bdb_rels mem_env t = [ident_of alice_doc \<mapsto> s]"
  shows "accepted mem_azm mc (\<lambda>x. \<forall>t. bdb_okO mem_env t x) (\<lambda>r. \<forall>t. bdb_okR mem_env t r) (bdb_objs mem_env t, bdb_rels mem_env t)"
proof -
  let ?y = "obj0 (PatchObjectRead (Some y))"
  have "object_ident y = (''user'', ''alice'')" using bdb.objs_wf [OF assms(1), of "(''user'', ''alice'')" y] assms(2) by simp
  then have y: "object_ident ?y = (''user'', ''alice'')" "o_type ?y = ''user''" "o_id ?y = ''alice''"
    using PatchObjectRead_Some(2) [of y] by (simp_all add: object_ident_def)
  have s: "ident_of s = ident_of alice_doc" using bdb.rels_wf [OF assms(1), of "ident_of alice_doc" s] assms(3) by simp
  then have "objKeyOf s = objKeyOf alice_doc" using key_ident_of(1) [of s] key_ident_of(1) [of alice_doc] by simp
  moreover have "wf_rid s" using alice_wf(3) s wf_rid_ident_of [of s] wf_rid_ident_of [of alice_doc] by simp
  ultimately show ?thesis
    using y alice_wf(2) alice_doc_key s unfolding accepted_def assms(2,3) Let_def
    by (auto simp: object_guard_def relation_guard_def stamped_key intro!: mem_okO mem_okR split: if_splits)
qed


text \<open>
  C24: The statistics are exact: \<open>CalculateStats\<close> succeeds and each of its counters is the number of
  stored objects or relations it stands for, as a 32-bit number. A subject with the id \<open>*\<close> is counted
  under its type followed by \<open>:*\<close>.
\<close>

theorem CalculateStats_exact:
  assumes "bdb_inv E t" "srel \<noteq> []"
  shows "\<exists>s. CalculateStats (bdb_tx E) t = Inr s \<and>
    object_count s ty = of_nat (card {k \<in> dom (bdb_objs E t). fst k = ty}) \<and>
    type_count s ty = of_nat (card {i \<in> dom (bdb_rels E t). i_otype i = ty}) \<and>
    relation_count s ty rel = of_nat (card {i \<in> dom (bdb_rels E t). i_otype i = ty \<and> i_rel i = rel}) \<and>
    subject_count s ty rel sub = of_nat (card {i \<in> dom (bdb_rels E t). i_otype i = ty \<and> i_rel i = rel \<and>
      (if i_sid i = ''*'' then i_stype i @ '':*'' else i_stype i) = sub}) \<and>
    subject_relation_count s ty rel sub srel = of_nat (card {i \<in> dom (bdb_rels E t). i_otype i = ty \<and> i_rel i = rel \<and>
      (if i_sid i = ''*'' then i_stype i @ '':*'' else i_stype i) = sub \<and> i_srel i = srel})"
proof -
  obtain s where s: "CalculateStats (bdb_tx E) t = Inr s" using bdb.CalculateStats_eq [OF assms(1)] by blast
  note c = bdb.stats_counts [OF assms(1) s, unfolded subject_key_def]
  show ?thesis by (intro exI [of _ s] conjI s c assms(2))
qed

theorem CalculateStats_exact_witness:
  "\<exists>(t :: (string \<times> string) mem_state) s. CalculateStats (bdb_tx mem_env) t = Inr s \<and>
     object_count s ''user'' = 1 \<and> relation_count s ''doc'' ''viewer'' = 1"
proof -
  obtain y s t where t: "bdb_inv mem_env (t :: (string \<times> string) mem_state)"
    "bdb_objs mem_env t = [(''user'', ''alice'') \<mapsto> y]" "bdb_rels mem_env t = [ident_of alice_doc \<mapsto> s]"
    by (rule alice_doc_stored)
  have c: "{k \<in> dom (bdb_objs mem_env t). fst k = ''user''} = {(''user'', ''alice'')}"
    "{i \<in> dom (bdb_rels mem_env t). i_otype i = ''doc'' \<and> i_rel i = ''viewer''} = {ident_of alice_doc}"
    unfolding t(2,3) by (auto simp: alice_doc_def split: if_splits)
  from CalculateStats_exact [OF t(1), of "''x''" "''user''" "''viewer''" "''user''"]
    CalculateStats_exact [OF t(1), of "''x''" "''doc''" "''viewer''" "''user''"]
  show ?thesis unfolding c by (intro exI [of _ t]) auto
qed

end
