(* ===== verification/ManifestProps.thy ===== *)
theory ManifestProps
  imports ServiceProps
begin

text \<open>
  The properties of the manifest handlers, of the access service with its decision log, and of the
  trace context.
\<close>

section \<open>Manifests\<close>

lemma mem_SetManifest:
  "\<exists>t1 t2. bdb_SetManifest mem_env mem_db0 md b = (None, t1) \<and> bdb_SetManifestModel mem_env t1 mdl = (None, t2)"
  by (simp add: bdb_SetManifest_def bdb_SetManifestModel_def CreateBucket_def Set_def SetAny_def SetKey_def
      SetBucket_def mem_db0_def path_defs mem_create_def mem_put_def mem_has_def mem_entries_def MaxKeySize_def)

lemma mem_Model_SetManifest:
  assumes "recv_manifest mem_azm evs [] fnv_offset = Inr (data, h)"
  shows "\<exists>t'. Model_SetManifest mem_azm (bdb_tx mem_env) mc now [] None evs mem_db0 = (None, FormatUint h, t')"
proof -
  let ?db = "mem_db0 :: (string \<times> string) mem_state"
  obtain st where st: "CalculateStats (bdb_tx mem_env) ?db = Inr st"
    using bdb.CalculateStats_eq [OF mem_db0_inv] by blast
  obtain t1 t2 where "bdb_SetManifest mem_env ?db \<lparr>md_updated = Some now, md_etag = FormatUint h\<rparr> \<lparr>b_data = data\<rparr> = (None, t1)"
    "bdb_SetManifestModel mem_env t1 (data, FormatUint h) = (None, t2)"
    using mem_SetManifest by metis
  with st assms show ?thesis
    by (simp add: Model_SetManifest_def setManifest_def manifest_Set_def manifest_SetModel_def Manifest_def Update_def Let_def)
qed

text \<open>
  C23: A manifest is read back as it was written: after a successful \<open>SetManifest\<close>, \<open>GetManifest\<close>
  with the body ends, sends the stored metadata and then non-empty chunks of at most the maximal
  size, and their concatenation is the concatenation of the body messages the client sent. Objects
  and relations are untouched.
\<close>

theorem SetManifest_GetManifest:
  assumes "bdb_inv E t" "Model_SetManifest Z (bdb_tx E) mc now ifMatch closeErr evs t = (None, mc', t')"
    and "0 < az_MaxChunkSizeBytes Z" "az_v_GetManifest Z = None"
    and "tx_begin (bdb_tx E) False t' = None" "tx_end_view (bdb_tx E) t' = None"
  shows "\<exists>md chks. Model_GetManifest Z (bdb_tx E) (\<lambda>_ _. None) [] True False t' =
      Some (None, MR_Metadata md # map MR_Body chks) \<and> md_updated md = Some now \<and>
    concat chks = body_data evs \<and> (\<forall>c \<in> set chks. c \<noteq> [] \<and> length c \<le> az_MaxChunkSizeBytes Z) \<and>
    bdb_objs E t' = bdb_objs E t \<and> bdb_rels E t' = bdb_rels E t"
proof -
  obtain data h where d: "recv_manifest Z evs [] fnv_offset = Inr (data, h)" "bdb_inv E t'"
    "bdb_objs E t' = bdb_objs E t" "bdb_rels E t' = bdb_rels E t"
    "bdb_mmd E (bdb_rest E t') = Some \<lparr>md_updated = Some now, md_etag = FormatUint h\<rparr>"
    "bdb_mbody E (bdb_rest E t') = Some \<lparr>b_data = data\<rparr>"
    using bdb.Model_SetManifest_post [OF assms(1,2)] by (auto simp: Let_def)
  let ?md = "\<lparr>md_updated = Some now, md_etag = FormatUint h\<rparr>" and ?n = "az_MaxChunkSizeBytes Z"
  have "Model_GetManifest Z (bdb_tx E) (\<lambda>_ _. None) [] True False t' =
      Some (None, MR_Metadata ?md # map MR_Body (chunks ?n data))"
    using bdb.GetManifest_tx_hit [OF d(2,5,6) _ assms(3), of "[]"] assms(4-6)
    by (simp add: Model_GetManifest_def View_ok)
  moreover have "concat (chunks ?n data) = body_data evs"
    using concat_chunks [OF assms(3)] recv_manifest_data [OF d(1)] by simp
  ultimately show ?thesis
    using d(3,4) chunks_bound by (intro exI [of _ ?md] exI [of _ "chunks ?n data"]) simp
qed

theorem SetManifest_GetManifest_witness:
  "\<exists>t' mc' md chks. Model_SetManifest mem_azm (bdb_tx mem_env) [] ts0 [] None [SM_Body ''model: '', SM_Body ''3''] mem_db0
      = (None, mc', t') \<and>
     Model_GetManifest mem_azm (bdb_tx mem_env) (\<lambda>_ _. None) [] True False t' = Some (None, MR_Metadata md # map MR_Body chks) \<and>
     concat chks = ''model: 3''"
proof -
  let ?evs = "[SM_Body ''model: '', SM_Body ''3'']"
  have "recv_manifest mem_azm ?evs [] fnv_offset = Inr (''model: 3'', fnv64a (''model: '' @ ''model: 3''))"
    using recv_manifest_two [of mem_azm "''model: ''" "''3''"] by simp
  from mem_Model_SetManifest [OF this] obtain t' mc' where
    set: "Model_SetManifest mem_azm (bdb_tx mem_env) [] ts0 [] None ?evs mem_db0 = (None, mc', t')" by blast
  have "body_data ?evs = ''model: 3''" by (simp add: body_data_def)
  with SetManifest_GetManifest [OF mem_db0_inv set] set show ?thesis by auto
qed

text \<open>
  C27: The etag depends on how the manifest was cut into messages. Sent as one message, a body is
  stored with the FNV-1a hash of its bytes; sent as two messages \<open>b\<close> and \<open>c\<close>, the same body is stored
  with the hash of \<open>b\<close> followed by the whole body, because every message writes the buffer
  received so far to the hash.
\<close>

theorem SetManifest_etag_by_chunks:
  assumes "bdb_inv E t" "az_v_Body Z b = None" "az_v_Body Z c = None" "az_v_Body Z (b @ c) = None"
    and "Model_SetManifest Z (bdb_tx E) mc now ifMatch closeErr [SM_Body (b @ c)] t = (None, mc1, t1)"
    and "Model_SetManifest Z (bdb_tx E) mc now ifMatch closeErr [SM_Body b, SM_Body c] t = (None, mc2, t2)"
  shows "bdb_mbody E (bdb_rest E t1) = bdb_mbody E (bdb_rest E t2) \<and>
    map_option md_etag (bdb_mmd E (bdb_rest E t1)) = Some (FormatUint (fnv64a (b @ c))) \<and>
    map_option md_etag (bdb_mmd E (bdb_rest E t2)) = Some (FormatUint (fnv64a (b @ b @ c)))"
  using bdb.Model_SetManifest_post [OF assms(1,5)] bdb.Model_SetManifest_post [OF assms(1,6)]
  unfolding recv_manifest_one [OF assms(4)] recv_manifest_two [OF assms(2,3)] by (auto simp: Let_def)

theorem SetManifest_etag_by_chunks_witness:
  "\<exists>t1 t2. map_option md_etag (bdb_mmd mem_env (bdb_rest mem_env (t1 :: (string \<times> string) mem_state))) \<noteq>
     map_option md_etag (bdb_mmd mem_env (bdb_rest mem_env (t2 :: (string \<times> string) mem_state))) \<and>
     bdb_mbody mem_env (bdb_rest mem_env t1) = bdb_mbody mem_env (bdb_rest mem_env t2)"
proof -
  have v: "az_v_Body mem_azm x = None" for x by simp
  obtain mc1 t1 where 1: "Model_SetManifest mem_azm (bdb_tx mem_env) [] ts0 [] None [SM_Body (''a'' @ ''b'')] mem_db0 = (None, mc1, t1)"
    using mem_Model_SetManifest [OF recv_manifest_one [OF v]] by blast
  obtain mc2 t2 where 2: "Model_SetManifest mem_azm (bdb_tx mem_env) [] ts0 [] None [SM_Body ''a'', SM_Body ''b''] mem_db0 = (None, mc2, t2)"
    using mem_Model_SetManifest [OF recv_manifest_two [OF v v]] by blast
  have "fnv64a (''a'' @ ''b'') \<noteq> fnv64a (''a'' @ ''a'' @ ''b'')" by code_simp
  with SetManifest_etag_by_chunks [OF mem_db0_inv _ _ _ 1 2] show ?thesis
    by (intro exI [of _ t1] exI [of _ t2]) (auto simp: FormatUint_inj)
qed

text \<open>
  C25: \<open>DeleteManifest\<close> without an If-Match header leaves an empty directory: no object, no relation,
  an empty body with the hash of the empty manifest as etag, and the model of the empty manifest.
  The model cache is not part of its result: the cache keeps the old model.
\<close>

theorem DeleteManifest_wipes:
  assumes "bdb_inv E t" "Model_DeleteManifest Z (bdb_tx E) now [] t = (None, b, t')"
  shows "b \<and> bdb_inv E t' \<and> bdb_objs E t' = Map.empty \<and> bdb_rels E t' = Map.empty \<and>
    bdb_mmd E (bdb_rest E t') = Some \<lparr>md_updated = Some now, md_etag = ''14695981039346656037''\<rparr> \<and>
    bdb_mbody E (bdb_rest E t') = Some \<lparr>b_data = []\<rparr> \<and>
    (\<exists>m. az_load Z [] = Inr m \<and>
      bdb_mmodel E (bdb_rest E t') = Some (az_stamp Z m ''14695981039346656037'' (Some now)))"
proof -
  have "FormatUint fnv_offset = ''14695981039346656037''"
    by (simp add: FormatUint_def fnv_offset_def show_nat.simps digit_def) code_simp
  with bdb.Model_DeleteManifest_post [OF assms] show ?thesis by auto
qed

lemma mem_DeleteManifest:
  "\<exists>t1 t2 t3. bdb_DeleteManifest mem_env mem_db0 = (None, t1) \<and> bdb_SetManifest mem_env t1 md b = (None, t2) \<and>
     bdb_SetManifestModel mem_env t2 mdl = (None, t3)"
  by (simp add: bdb_DeleteManifest_def DeleteBucket_def drop_result_def bdb_SetManifest_def bdb_SetManifestModel_def
      CreateBucket_def Set_def SetAny_def SetKey_def SetBucket_def mem_db0_def path_defs mem_create_def mem_put_def
      mem_has_def mem_entries_def mem_drop_def MaxKeySize_def)

theorem DeleteManifest_wipes_witness:
  "\<exists>t'. Model_DeleteManifest mem_azm (bdb_tx mem_env) ts0 [] mem_db0 = (None, True, t') \<and>
     bdb_mbody mem_env (bdb_rest mem_env t') = Some \<lparr>b_data = []\<rparr>"
proof -
  let ?db = "mem_db0 :: (string \<times> string) mem_state"
  let ?etag = "FormatUint (fnv_write fnv_offset [])"
  obtain t1 t2 t3 where "bdb_DeleteManifest mem_env ?db = (None, t1)"
    "bdb_SetManifest mem_env t1 \<lparr>md_updated = Some ts0, md_etag = ?etag\<rparr> \<lparr>b_data = []\<rparr> = (None, t2)"
    "bdb_SetManifestModel mem_env t2 ([], ?etag) = (None, t3)"
    using mem_DeleteManifest by metis
  then have run: "Model_DeleteManifest mem_azm (bdb_tx mem_env) ts0 [] mem_db0 = (None, True, t3)"
    by (simp add: Model_DeleteManifest_def DeleteManifest_tx_def manifest_Delete_def manifest_Set_def
        manifest_SetModel_def Manifest_def Update_def Let_def)
  with DeleteManifest_wipes [OF mem_db0_inv run] show ?thesis by blast
qed

section \<open>Decisions\<close>


definition demo_logger :: adl_logger where
  "demo_logger = adl_New \<lparr>cf_Enabled = True, cf_Output = '' stdout '', cf_Endpoint = [], cf_Resource = Map.empty,
     cf_TypeKey = [], cf_IDKey = []\<rparr> ''pod-0'' False (\<lambda>_. None) (\<lambda>_. None)"

definition demo_trace :: TraceContext where
  "demo_trace = \<lparr>tc_TraceID = ''t'', tc_SpanID = ''s'', tc_ParentSpanID = []\<rparr>"

definition demo_eval :: eval_req where
  "demo_eval = \<lparr>eq_subject = Some \<lparr>en_type = ''user'', en_id = ''bob'', en_props = None\<rparr>,
     eq_action = Some \<lparr>ac_name = ''viewer'', ac_props = None\<rparr>,
     eq_resource = Some \<lparr>en_type = ''doc'', en_id = ''d1'', en_props = None\<rparr>, eq_context = None\<rparr>"

lemma demo_logger_up: "adl_active (Some demo_logger)" "lg_stdout demo_logger" "lg_marshal demo_logger r = None"
  "lg_write demo_logger r = None" "\<not> lg_otel demo_logger"
proof -
  have "OutputStdout \<in> set (filter (\<lambda>s. s \<noteq> []) (map TrimSpace (split_on CHR '','' '' stdout '')))" "TrimSpace '' stdout '' \<noteq> []"
    by code_simp+
  then show "adl_active (Some demo_logger)" "lg_stdout demo_logger" "lg_marshal demo_logger r = None"
    "lg_write demo_logger r = None" "\<not> lg_otel demo_logger"
    by (simp_all add: demo_logger_def adl_New_def adl_active_def adl_outputs_def Let_def)
qed






section \<open>Trace context\<close>

text \<open>
  C31: \<open>parseTraceParent\<close> accepts exactly the version 00 headers: \<open>00-\<close>, a trace id of 32 and a parent
  id of 16 hexadecimal digits that are not all zero, and two digits of flags, joined by dashes; and
  it returns these two ids.
\<close>

theorem parseTraceParent_exact:
  "parseTraceParent v = Some (tid, pid) \<longleftrightarrow>
     length tid = 32 \<and> list_all is_hex tid \<and> tid \<noteq> replicate 32 CHR ''0'' \<and>
     length pid = 16 \<and> list_all is_hex pid \<and> pid \<noteq> replicate 16 CHR ''0'' \<and>
     (\<exists>flags. length flags = 2 \<and> list_all is_hex flags \<and> v = ''00-'' @ tid @ ''-'' @ pid @ ''-'' @ flags)"
  unfolding parseTraceParent_iff wf_trace_id_def by auto

end
