(* ===== verification/Backends.thy ===== *)
theory Backends
  imports Writer
begin

text \<open>
  The writer service against an abstract specification over two tables, for any backend that keeps
  the store contract: every request answers what the specification answers, errors included, and
  leaves the tables the specification leaves. Since both backends refine the same specification,
  a sequence of requests cannot tell them apart.
\<close>

section \<open>Requests\<close>

datatype write_req =
    WSetObject string object
  | WDeleteObject string string string bool
  | WSetRelation string relation
  | WDeleteRelation string rel_ident

datatype write_resp = RObject "object option" | RRelation "relation option" | RDone bool

definition write_step ::
  "('mc, 'model, 'y) azm_scheme \<Rightarrow> ('tx, 'model, 'z) Tx_scheme \<Rightarrow> 'mc \<Rightarrow> timestamp \<Rightarrow> write_req \<Rightarrow> 'tx
     \<Rightarrow> derror option \<times> write_resp \<times> 'tx" where
  "write_step Z T mc now req t = (case req of
      WSetObject ifMatch x \<Rightarrow> (case Writer_SetObject Z T mc now ifMatch (Some x) t of (e, r, t') \<Rightarrow> (e, RObject r, t'))
    | WDeleteObject ifMatch ty oid w \<Rightarrow>
        (case Writer_DeleteObject Z T mc now ifMatch ty oid w t of (e, b, t') \<Rightarrow> (e, RDone b, t'))
    | WSetRelation ifMatch r \<Rightarrow>
        (case Writer_SetRelation Z T mc now ifMatch (Some r) t of (e, s, t') \<Rightarrow> (e, RRelation s, t'))
    | WDeleteRelation ifMatch i \<Rightarrow>
        (case Writer_DeleteRelation Z T mc now ifMatch i t of (e, b, t') \<Rightarrow> (e, RDone b, t')))"

text \<open>A sequence of requests with the time each one is served at, and the answers.\<close>

fun write_run ::
  "('mc, 'model, 'y) azm_scheme \<Rightarrow> ('tx, 'model, 'z) Tx_scheme \<Rightarrow> 'mc \<Rightarrow> (timestamp \<times> write_req) list \<Rightarrow> 'tx
     \<Rightarrow> (derror option \<times> write_resp) list \<times> 'tx" where
  "write_run Z T mc [] t = ([], t)"
| "write_run Z T mc ((now, req) # reqs) t = (case write_step Z T mc now req t of
     (e, r, t') \<Rightarrow> (case write_run Z T mc reqs t' of (rs, t'') \<Rightarrow> ((e, r) # rs, t'')))"

section \<open>The specification\<close>

type_synonym tables = "(obj_id \<rightharpoonup> object) \<times> (rel_ident \<rightharpoonup> relation)"

text \<open>What the request validator and the model say.\<close>

fun request_error :: "('mc, 'model, 'y) azm_scheme \<Rightarrow> 'mc \<Rightarrow> write_req \<Rightarrow> derror option" where
  "request_error Z mc (WSetObject ifMatch x) =
     (case az_v_SetObject Z (Some x) of Some e \<Rightarrow> Some e | None \<Rightarrow> az_val_obj Z mc x)"
| "request_error Z mc (WDeleteObject ifMatch ty oid w) =
     (case az_v_DeleteObject Z ty oid w of Some e \<Rightarrow> Some e | None \<Rightarrow> az_val_oid Z mc (ty, oid))"
| "request_error Z mc (WSetRelation ifMatch r) =
     (case az_v_SetRelation Z (Some r) of Some e \<Rightarrow> Some e | None \<Rightarrow> az_val_rel Z mc (ident_of r))"
| "request_error Z mc (WDeleteRelation ifMatch i) =
     (case az_v_DeleteRelation Z i of Some e \<Rightarrow> Some e | None \<Rightarrow> az_val_rel Z mc i)"

fun no_result :: "write_req \<Rightarrow> write_resp" where
  "no_result (WSetObject _ _) = RObject None"
| "no_result (WSetRelation _ _) = RRelation None"
| "no_result _ = RDone False"

definition new_object :: "('mc, 'model, 'y) azm_scheme \<Rightarrow> timestamp \<Rightarrow> object option \<Rightarrow> object \<Rightarrow> object" where
  "new_object Z now cur x = (stamp_object now cur x)\<lparr>o_etag := az_hash_obj Z x\<rparr>"

definition new_relation :: "('mc, 'model, 'y) azm_scheme \<Rightarrow> timestamp \<Rightarrow> relation option \<Rightarrow> relation \<Rightarrow> relation" where
  "new_relation Z now cur r = (stamp_relation now cur r)\<lparr>r_etag := az_hash_rel Z (ident_of r)\<rparr>"

text \<open>The effect of a valid request on the tables; an unchanged etag leaves the stored message.\<close>

fun spec_table :: "('mc, 'model, 'y) azm_scheme \<Rightarrow> timestamp \<Rightarrow> write_req \<Rightarrow> tables
    \<Rightarrow> derror option \<times> write_resp \<times> tables" where
  "spec_table Z now (WSetObject ifMatch x) (O', R) =
     (let upd = stamp_object now (O' (object_ident x)) x; y = new_object Z now (O' (object_ident x)) x in
      if if_match_refused ifMatch (o_etag upd) then (Some (object_mismatch upd), RObject None, O', R)
      else (None, RObject (Some y), if o_etag y = o_etag upd then O' else O'(object_ident x \<mapsto> y), R))"
| "spec_table Z now (WDeleteObject ifMatch ty oid w) (O', R) =
     (if ifMatch \<noteq> [] \<and> ifMatch \<noteq> o_etag (obj0 (O' (ty, oid)))
      then (Some (object_mismatch (zero_object\<lparr>o_type := ty, o_id := oid\<rparr>)), RDone False, O', R)
      else (None, RDone True, O'((ty, oid) := None),
        \<lambda>i. if w \<and> (side BySubject i = (ty, oid) \<or> side ByObject i = (ty, oid)) then None else R i))"
| "spec_table Z now (WSetRelation ifMatch r) (O', R) =
     (let upd = stamp_relation now (R (ident_of r)) r; s = new_relation Z now (R (ident_of r)) r in
      if if_match_refused ifMatch (r_etag upd) then (Some (relation_mismatch upd), RRelation None, O', R)
      else (None, RRelation (Some s), O', if r_etag s = r_etag upd then R else R(ident_of r \<mapsto> s)))"
| "spec_table Z now (WDeleteRelation ifMatch i) (O', R) =
     (if ifMatch \<noteq> [] \<and> ifMatch \<noteq> r_etag (rel0 (R i)) then (Some (relation_mismatch i), RDone False, O', R)
      else (None, RDone True, O', R(i := None)))"

definition spec_write :: "('mc, 'model, 'y) azm_scheme \<Rightarrow> 'mc \<Rightarrow> timestamp \<Rightarrow> write_req \<Rightarrow> tables
    \<Rightarrow> derror option \<times> write_resp \<times> tables" where
  "spec_write Z mc now req tb = (case request_error Z mc req of
      Some e \<Rightarrow> (Some e, no_result req, tb)
    | None \<Rightarrow> spec_table Z now req tb)"

fun spec_run :: "('mc, 'model, 'y) azm_scheme \<Rightarrow> 'mc \<Rightarrow> (timestamp \<times> write_req) list \<Rightarrow> tables
    \<Rightarrow> (derror option \<times> write_resp) list \<times> tables" where
  "spec_run Z mc [] tb = ([], tb)"
| "spec_run Z mc ((now, req) # reqs) tb = (case spec_write Z mc now req tb of
     (e, r, tb') \<Rightarrow> (case spec_run Z mc reqs tb' of (rs, tb'') \<Rightarrow> ((e, r) # rs, tb'')))"

section \<open>Requests a store can serve\<close>

fun req_wf :: "write_req \<Rightarrow> bool" where
  "req_wf (WSetObject _ x) = wf_oid (object_ident x)"
| "req_wf (WDeleteObject _ ty oid _) = wf_side (ty, oid)"
| "req_wf (WSetRelation _ r) = wf_rid r"
| "req_wf (WDeleteRelation _ i) = wf_rid i"

text \<open>The message the request would store is one the store can hold.\<close>

fun req_fits :: "('mc, 'model, 'y) azm_scheme \<Rightarrow> (object \<Rightarrow> bool) \<Rightarrow> (relation \<Rightarrow> bool) \<Rightarrow> timestamp
    \<Rightarrow> tables \<Rightarrow> write_req \<Rightarrow> bool" where
  "req_fits Z okO okR now tb (WSetObject _ x) = okO (new_object Z now (fst tb (object_ident x)) x)"
| "req_fits Z okO okR now tb (WSetRelation _ r) = okR (new_relation Z now (snd tb (ident_of r)) r)"
| "req_fits Z okO okR now tb _ = True"

text \<open>Every request of a run is well-formed and fits at the state it reaches.\<close>

fun run_fits :: "('mc, 'model, 'y) azm_scheme \<Rightarrow> ('tx, 'model, 'z) Tx_scheme \<Rightarrow> ('tx \<Rightarrow> object \<Rightarrow> bool)
    \<Rightarrow> ('tx \<Rightarrow> relation \<Rightarrow> bool) \<Rightarrow> ('tx \<Rightarrow> tables) \<Rightarrow> 'mc \<Rightarrow> (timestamp \<times> write_req) list \<Rightarrow> 'tx \<Rightarrow> bool" where
  "run_fits Z T okO okR tabs mc [] t = True"
| "run_fits Z T okO okR tabs mc ((now, req) # reqs) t \<longleftrightarrow>
     req_wf req \<and> req_fits Z (okO t) (okR t) now (tabs t) req \<and>
     run_fits Z T okO okR tabs mc reqs (snd (snd (write_step Z T mc now req t)))"

text \<open>Transactions begin and commit.\<close>

definition tx_up :: "('tx, 'model, 'z) Tx_scheme \<Rightarrow> bool" where
  "tx_up T \<longleftrightarrow> (\<forall>t. tx_begin T True t = None \<and> tx_commit T t = None)"

lemma Update_up: "tx_up T \<Longrightarrow> Update T r0 f t = (case f t of (e, r, t') \<Rightarrow> (e, r, if e = None then t' else t))"
  by (auto simp: Update_def tx_up_def split: prod.splits option.splits)

section \<open>Refinement\<close>

lemma new_idents [simp]:
  "object_ident (new_object Z now c x) = object_ident x" "ident_of (new_relation Z now d r) = ident_of r"
  by (simp_all add: new_object_def new_relation_def)

lemma new_etags:
  "(stamp_object now c x)\<lparr>o_etag := az_hash_obj Z x\<rparr> = new_object Z now c x"
  "(stamp_relation now d r)\<lparr>r_etag := az_hash_rel Z (ident_of r)\<rparr> = new_relation Z now d r"
  "o_etag (new_object Z now c x) = az_hash_obj Z x" "r_etag (new_relation Z now d r) = az_hash_rel Z (ident_of r)"
  by (simp_all add: new_object_def new_relation_def)

lemma new_same:
  "az_hash_obj Z x = o_etag (stamp_object now c x) \<Longrightarrow> new_object Z now c x = stamp_object now c x"
  "az_hash_rel Z (ident_of r) = r_etag (stamp_relation now d r) \<Longrightarrow> new_relation Z now d r = stamp_relation now d r"
  by (simp_all add: new_object_def new_relation_def)

context tx_store
begin

abbreviation tables_at :: "'tx \<Rightarrow> tables" where
  "tables_at t \<equiv> (objs t, rels t)"

lemma SetObject_tx_spec:
  assumes "inv t" "wf_oid (object_ident x)" "okO t (new_object Z now (objs t (object_ident x)) x)"
  shows "\<exists>e r t'. SetObject_tx T now ifMatch (az_hash_obj Z x) (Some x) t = (e, r, t') \<and>
    (e = None \<longrightarrow> inv t') \<and>
    spec_table Z now (WSetObject ifMatch x) (tables_at t) = (e, RObject r, if e = None then tables_at t' else tables_at t)"
proof -
  let ?c = "objs t (object_ident x)"
  have "wf_oid (object_ident (new_object Z now ?c x))" using assms(2) by simp
  from SetObject_ok [OF assms(1) this assms(3)] obtain t' where t':
    "tx_SetObject T t (new_object Z now ?c x) = (Inr (new_object Z now ?c x), t')" by blast
  from SetObject_post [OF assms(1) \<open>wf_oid (object_ident (new_object Z now ?c x))\<close> t'] t' assms(1)
  show ?thesis
    by (auto simp: SetObject_tx_eq [OF assms(1,2)] new_etags new_same Let_def)
qed

lemma SetRelation_tx_spec:
  assumes "inv t" "wf_rid r" "okR t (new_relation Z now (rels t (ident_of r)) r)"
  shows "\<exists>e s t'. SetRelation_tx T now ifMatch (az_hash_rel Z (ident_of r)) (Some r) t = (e, s, t') \<and>
    (e = None \<longrightarrow> inv t') \<and>
    spec_table Z now (WSetRelation ifMatch r) (tables_at t) = (e, RRelation s, if e = None then tables_at t' else tables_at t)"
proof -
  let ?n = "new_relation Z now (rels t (ident_of r)) r"
  have wf: "wf_rid ?n" using assms(2) wf_rid_ident_of [of ?n] by simp
  from SetRelation_ok [OF assms(1) wf assms(3)] obtain t' where t': "tx_SetRelation T t ?n = (Inr ?n, t')"
    by blast
  from SetRelation_post [OF assms(1) wf t'] t' assms(1) show ?thesis
    by (auto simp: SetRelation_tx_eq [OF assms(1,2)] new_etags new_same Let_def)
qed

lemma DeleteObject_tx_spec:
  assumes "inv t" "wf_side (ty, oid)"
  shows "\<exists>e b t'. DeleteObject_tx T now ifMatch ty oid w t = (e, b, t') \<and> (e = None \<longrightarrow> inv t') \<and>
    spec_table Z now (WDeleteObject ifMatch ty oid w) (tables_at t) = (e, RDone b, if e = None then tables_at t' else tables_at t)"
proof -
  have "wf_oid (ty, oid)" using assms(2) by (simp add: wf_side_def)
  moreover obtain t' where "delete_object T ty oid w t = (None, True, t')" "inv t'"
      "objs t' = (objs t)((ty, oid) := None)"
      "rels t' = (\<lambda>i. if w \<and> (side BySubject i = (ty, oid) \<or> side ByObject i = (ty, oid)) then None else rels t i)"
    using delete_object_post [OF assms, of w] by blast
  ultimately show ?thesis by (auto simp: DeleteObject_tx_eq [OF assms(1)])
qed

lemma DeleteRelation_tx_spec:
  assumes "inv t" "wf_rid i"
  shows "\<exists>e b t'. DeleteRelation_tx T now ifMatch i t = (e, b, t') \<and> (e = None \<longrightarrow> inv t') \<and>
    spec_table Z now (WDeleteRelation ifMatch i) (tables_at t) = (e, RDone b, if e = None then tables_at t' else tables_at t)"
proof -
  obtain t' where "tx_DeleteRelation T t i = (None, t')" "inv t'" "rels t' = (rels t)(i := None)" "objs t' = objs t"
    using DeleteRelation_post [OF assms] by blast
  then show ?thesis by (auto simp: DeleteRelation_tx_eq [OF assms])
qed

lemma write_step_refines:
  assumes "inv t" "tx_up T" "req_wf req" "req_fits Z (okO t) (okR t) now (tables_at t) req"
  shows "\<exists>e r t'. write_step Z T mc now req t = (e, r, t') \<and> inv t' \<and>
    spec_write Z mc now req (tables_at t) = (e, r, tables_at t')"
proof (cases req)
  case (WSetObject ifMatch x)
  then show ?thesis
    using SetObject_tx_spec [of t x Z now ifMatch] assms
    by (fastforce simp: write_step_def spec_write_def Writer_SetObject_def Update_up split: option.splits prod.splits simp del: spec_table.simps)
next
  case (WDeleteObject ifMatch ty oid w)
  then show ?thesis
    using DeleteObject_tx_spec [of t ty oid now ifMatch w Z] assms
    by (fastforce simp: write_step_def spec_write_def Writer_DeleteObject_def Update_up split: option.splits prod.splits simp del: spec_table.simps)
next
  case (WSetRelation ifMatch r)
  then show ?thesis
    using SetRelation_tx_spec [of t r Z now ifMatch] assms
    by (fastforce simp: write_step_def spec_write_def Writer_SetRelation_def Update_up split: option.splits prod.splits simp del: spec_table.simps)
next
  case (WDeleteRelation ifMatch i)
  then show ?thesis
    using DeleteRelation_tx_spec [of t i now ifMatch Z] assms
    by (fastforce simp: write_step_def spec_write_def Writer_DeleteRelation_def Update_up split: option.splits prod.splits simp del: spec_table.simps)
qed

lemma write_run_refines:
  "inv t \<Longrightarrow> tx_up T \<Longrightarrow> run_fits Z T okO okR tables_at mc reqs t \<Longrightarrow>
     \<exists>rs t'. write_run Z T mc reqs t = (rs, t') \<and> inv t' \<and> spec_run Z mc reqs (tables_at t) = (rs, tables_at t')"
proof (induction reqs arbitrary: t)
  case (Cons q reqs)
  obtain now req where q: "q = (now, req)" by (cases q)
  from Cons.prems q obtain e r t1 where s: "write_step Z T mc now req t = (e, r, t1)" "inv t1"
      "spec_write Z mc now req (tables_at t) = (e, r, tables_at t1)"
    using write_step_refines [of t req Z now mc] by auto
  from Cons.IH [OF s(2) Cons.prems(2)] Cons.prems(3) q s show ?case by (auto split: prod.splits)
qed auto

end

end
