(* ===== verification/MemPg.thy ===== *)
theory MemPg
  imports PgStore MemStore "HOL-Library.AList"
begin

text \<open>
  A concrete database of the Postgres store: each table is a list of rows with distinct keys, a
  query filters and sorts them by the bytes of the order columns, and a text with an invalid
  encoding is refused. It shows that the assumptions of \<open>pg_engine\<close> can hold.
\<close>

record 'v pg_mem =
  pm_objs :: "(obj_id \<times> 'v) list"
  pm_rels :: "(rel_ident \<times> 'v) list"
  pm_man :: "(string \<times> ('v \<times> 'v \<times> 'v)) list"

definition pm_live :: "'v pg_mem \<Rightarrow> bool" where
  "pm_live db \<longleftrightarrow> distinct (map fst (pm_objs db)) \<and> distinct (map fst (pm_rels db)) \<and>
     list_all (\<lambda>k. text_ok (fst k) \<and> text_ok (snd k)) (map fst (pm_objs db)) \<and>
     list_all rid_text (map fst (pm_rels db))"

definition pm_query :: "('k \<Rightarrow> string \<Rightarrow> string) \<Rightarrow> ('k \<times> 'v) list \<Rightarrow> pg_cond list \<Rightarrow> string list
    \<Rightarrow> ('k \<times> 'v) list" where
  "pm_query col tab conds cols = sort_key (\<lambda>r. map (col (fst r)) cols)
     (filter (\<lambda>r. list_all (cond_holds (\<le>) (col (fst r))) conds) tab)"

definition bad_text :: derror where
  "bad_text = ExtErr ''invalid byte sequence for encoding UTF8''"

definition mem_pg :: "'model \<Rightarrow> ('model stored pg_mem, 'model stored, 'model) pg_env" where
  "mem_pg m0 = \<lparr>pg_live = pm_live, pg_otab = (\<lambda>db. map_of (pm_objs db)), pg_rtab = (\<lambda>db. map_of (pm_rels db)),
     pg_mtab = (\<lambda>db. map_of (pm_man db)), pg_le = (\<le>),
     sel_object = (\<lambda>db ty oid. if text_ok ty \<and> text_ok oid then Inr (map_of (pm_objs db) (ty, oid)) else Inl bad_text),
     ups_object = (\<lambda>db k v etag _ _. if text_ok (fst k) \<and> text_ok (snd k) \<and> text_ok etag
       then (None, db\<lparr>pm_objs := AList.update k v (pm_objs db)\<rparr>) else (Some bad_text, db)),
     del_object = (\<lambda>db ty oid. if text_ok ty \<and> text_ok oid
       then (None, db\<lparr>pm_objs := AList.delete (ty, oid) (pm_objs db)\<rparr>) else (Some bad_text, db)),
     query_objects = (\<lambda>db conds cols. if list_all cond_text conds
       then Inr (pm_query obj_col (pm_objs db) conds cols) else Inl bad_text),
     sel_relation = (\<lambda>db i. if rid_text i then Inr (map_of (pm_rels db) i) else Inl bad_text),
     ups_relation = (\<lambda>db i v etag _ _. if rid_text i \<and> text_ok etag
       then (None, db\<lparr>pm_rels := AList.update i v (pm_rels db)\<rparr>) else (Some bad_text, db)),
     del_relation = (\<lambda>db i. if rid_text i then (None, db\<lparr>pm_rels := AList.delete i (pm_rels db)\<rparr>)
       else (Some bad_text, db)),
     query_relations = (\<lambda>db conds cols. if list_all cond_text conds
       then Inr (pm_query rel_col (pm_rels db) conds cols) else Inl bad_text),
     exists_relation = (\<lambda>db conds. if list_all cond_text conds
       then Inr (pm_query rel_col (pm_rels db) conds [] \<noteq> []) else Inl bad_text),
     exists_manifest = (\<lambda>db n. Inr (map_of (pm_man db) n \<noteq> None)),
     sel_manifest = (\<lambda>db n. Inr (map_of (pm_man db) n)),
     ups_manifest = (\<lambda>db n md body. (None, db\<lparr>pm_man := AList.update n
       (md, body, case map_of (pm_man db) n of None \<Rightarrow> SModel m0 | Some (_, _, m) \<Rightarrow> m) (pm_man db)\<rparr>)),
     upd_model = (\<lambda>db n m. case map_of (pm_man db) n of
         None \<Rightarrow> (Inr 0, db)
       | Some (md, body, _) \<Rightarrow> (Inr 1, db\<lparr>pm_man := AList.update n (md, body, m) (pm_man db)\<rparr>)),
     del_manifest = (\<lambda>db n. (None, db\<lparr>pm_man := AList.delete n (pm_man db)\<rparr>)),
     del_relations = (\<lambda>db. (None, db\<lparr>pm_rels := []\<rparr>)),
     del_objects = (\<lambda>db. (None, db\<lparr>pm_objs := []\<rparr>)),
     pg_begin = (\<lambda>_ _. None), pg_commit = (\<lambda>_. None),
     pe_obj = (\<lambda>x. Inr (SObj x)), pd_obj = dec_obj mem_env,
     pe_rel = (\<lambda>r. Inr (SRel r)), pd_rel = dec_rel mem_env,
     pe_md = (\<lambda>m. Inr (SMd m)), pd_md = dec_md mem_env,
     pe_body = (\<lambda>b. Inr (SBody b)), pd_body = dec_body mem_env,
     pe_model = (\<lambda>m. Inr (SModel m)), pd_model = dec_model mem_env\<rparr>"

definition pm_db0 :: "'v pg_mem" where
  "pm_db0 = \<lparr>pm_objs = [], pm_rels = [], pm_man = []\<rparr>"

lemma lex_le_bytes: "lex_le (\<le>) xs ys \<longleftrightarrow> xs \<le> ys" for xs ys :: "string list"
proof (induction xs arbitrary: ys)
  case (Cons x xs)
  then show ?case by (cases ys) auto
qed simp

lemma pm_query_result:
  assumes "distinct (map fst tab)"
  shows "query_result (\<le>) col (map_of tab) conds cols (pm_query col tab conds cols)"
proof -
  let ?f = "\<lambda>r. map (col (fst r)) cols" and ?rows = "filter (\<lambda>r. list_all (cond_holds (\<le>) (col (fst r))) conds) tab"
  have "sorted (map ?f (sort_key ?f ?rows))" by (rule sorted_sort_key)
  then have "sorted_wrt (\<lambda>a b. ?f a \<le> ?f b) (sort_key ?f ?rows)" by (simp only: sorted_wrt_map)
  moreover have "distinct (map fst (sort_key ?f ?rows))"
    using assms distinct_map_filter [of fst tab] by (simp add: distinct_map)
  ultimately show ?thesis
    using assms by (auto simp: query_result_def pm_query_def lex_le_bytes)
qed

lemma mem_collation: "collation ((\<le>) :: string \<Rightarrow> string \<Rightarrow> bool)"
  by (auto simp: collation_def)

lemma pm_liveD:
  assumes "pm_live db"
  shows "distinct (map fst (pm_objs db))" "distinct (map fst (pm_rels db))"
    and "map_of (pm_objs db) k = Some v \<Longrightarrow> text_ok (fst k) \<and> text_ok (snd k)"
    and "map_of (pm_rels db) i = Some w \<Longrightarrow> rid_text i"
  using assms map_of_SomeD [of "pm_objs db" k v] map_of_SomeD [of "pm_rels db" i w]
  by (auto simp: pm_live_def list_all_iff)

lemma pm_live_update:
  assumes "pm_live db"
  shows "text_ok (fst k) \<Longrightarrow> text_ok (snd k) \<Longrightarrow> pm_live (db\<lparr>pm_objs := AList.update k v (pm_objs db)\<rparr>)"
    and "pm_live (db\<lparr>pm_objs := AList.delete k (pm_objs db)\<rparr>)"
    and "rid_text i \<Longrightarrow> pm_live (db\<lparr>pm_rels := AList.update i w (pm_rels db)\<rparr>)"
    and "pm_live (db\<lparr>pm_rels := AList.delete i (pm_rels db)\<rparr>)"
    and "pm_live (db\<lparr>pm_man := m\<rparr>)" "pm_live (db\<lparr>pm_objs := []\<rparr>)" "pm_live (db\<lparr>pm_rels := []\<rparr>)"
  using assms
  by (auto simp: pm_live_def list_all_iff update_keys delete_keys distinct_removeAll simp del: set_map)

lemma mem_pg_sel [simp]:
  "pg_live (mem_pg m0) = pm_live" "pg_otab (mem_pg m0) db = map_of (pm_objs db)"
  "pg_rtab (mem_pg m0) db = map_of (pm_rels db)" "pg_mtab (mem_pg m0) db = map_of (pm_man db)"
  "pg_le (mem_pg m0) = (\<le>)" "pg_begin (mem_pg m0) = (\<lambda>_ _. None)" "pg_commit (mem_pg m0) = (\<lambda>_. None)"
  "pe_obj (mem_pg m0) x = Inr (SObj x)" "pd_obj (mem_pg m0) = dec_obj mem_env"
  "pe_rel (mem_pg m0) r = Inr (SRel r)" "pd_rel (mem_pg m0) = dec_rel mem_env"
  "pe_md (mem_pg m0) md = Inr (SMd md)" "pd_md (mem_pg m0) = dec_md mem_env"
  "pe_body (mem_pg m0) b = Inr (SBody b)" "pd_body (mem_pg m0) = dec_body mem_env"
  "pe_model (mem_pg m0) d = Inr (SModel d)" "pd_model (mem_pg m0) = dec_model mem_env"
  by (simp_all add: mem_pg_def)

interpretation mem_pg: pg_engine "mem_pg m0" for m0 :: 'model
proof (unfold_locales, goal_cases)
  case 1
  show ?case by (simp add: mem_collation)
next
  case (2 db k v)
  then show ?case using pm_liveD(3) by simp
next
  case (3 db i v)
  then show ?case using pm_liveD(4) by simp
next
  case (12 db conds)
  let ?q = "pm_query rel_col (pm_rels db) conds []"
  have "pm_live db" using 12(1) by simp
  note query_dom [OF pm_query_result [OF pm_liveD(2) [OF this]], of rel_col conds "[]"]
  moreover have "?q = [] \<longleftrightarrow> set (map fst ?q) = {}" by simp
  ultimately have "?q \<noteq> [] \<longleftrightarrow>
      (\<exists>i. map_of (pm_rels db) i \<noteq> None \<and> list_all (cond_holds (\<le>) (rel_col i)) conds)"
    by (auto simp only: dom_def)
  with 12 show ?case by (simp add: mem_pg_def)
qed (auto simp: mem_pg_def update_conv' delete_conv' pm_live_update pm_query_result pm_liveD split: if_splits option.splits)

end
