(* ===== verification/PgProps.thy ===== *)
theory PgProps
  imports ManifestProps Backends MemPg
begin

text \<open>
  The properties of the Postgres backend, and of both backends together: a client of the writer
  and the authorization engine cannot tell them apart, page tokens survive the round trip, and the
  two places where the backends do differ.
\<close>

section \<open>Inputs for the witnesses\<close>

abbreviation mpg :: "((string \<times> string) stored pg_mem, (string \<times> string) stored, string \<times> string) pg_env" where
  "mpg \<equiv> mem_pg ([], [])"

lemma pm_db0_inv: "pg_inv mpg pm_db0"
  using mem_pg.pg_engine_axioms mem_env_codec
  by (auto simp: pg_inv_def pm_db0_def pm_live_def pg_codec_ok_def codec_ok_def)

lemma pm_db0_tables: "pg_objs mpg pm_db0 = Map.empty" "pg_rels mpg pm_db0 = Map.empty"
  by (auto simp: pg_objs_def pg_rels_def pm_db0_def fun_eq_iff)

lemma mem_up: "tx_up (bdb_tx mem_env)" "tx_up (pg_tx mpg)"
  by (simp_all add: tx_up_def)

lemma mem_pg_ok:
  "text_ok (o_type x) \<Longrightarrow> text_ok (o_id x) \<Longrightarrow> text_ok (o_etag x) \<Longrightarrow> pg_okO mpg t x"
  "wf_rid r \<Longrightarrow> text_ok (r_etag r) \<Longrightarrow> pg_okR mpg t r"
  using wf_texts(2) [of "ident_of r"]
  by (simp_all add: pg_okO_def pg_okR_def mem_pg_def object_ident_def)

section \<open>Both backends\<close>

text \<open>
  C4: The backends are indistinguishable: started on the same tables, a sequence of writer requests
  that both stores can hold gets the same answers, errors included, from the BoltDB and from the
  Postgres backend, leaves the same tables in both, and afterwards the authorization engine reads the
  same relations from both.
\<close>

theorem backends_agree:
  assumes "bdb_inv E t" "pg_inv F u" "bdb_objs E t = pg_objs F u" "bdb_rels E t = pg_rels F u"
    and "tx_up (bdb_tx E)" "tx_up (pg_tx F)"
    and "run_fits Z (bdb_tx E) (bdb_okO E) (bdb_okR E) (\<lambda>t. (bdb_objs E t, bdb_rels E t)) mc reqs t"
    and "run_fits Z (pg_tx F) (pg_okO F) (pg_okR F) (\<lambda>u. (pg_objs F u, pg_rels F u)) mc reqs u"
    and "write_run Z (bdb_tx E) mc reqs t = (rs, t')" "write_run Z (pg_tx F) mc reqs u = (ss, u')"
    and "filter_ok (relation_asFilter (RelationIdentifier r))"
  shows "rs = ss \<and> bdb_objs E t' = pg_objs F u' \<and> bdb_rels E t' = pg_rels F u' \<and>
    (\<exists>is js. getRelations Z (bdb_tx E) t' r [] = Inr is \<and> getRelations Z (pg_tx F) u' r [] = Inr js \<and>
      mset is = mset js)"
proof -
  from bdb.write_run_refines [OF assms(1,5,7)] assms(9)
  have b: "bdb_inv E t'" "spec_run Z mc reqs (bdb_objs E t, bdb_rels E t) = (rs, bdb_objs E t', bdb_rels E t')"
    by auto
  from pgs.write_run_refines [OF assms(2,6,8)] assms(10)
  have p: "pg_inv F u'" "spec_run Z mc reqs (pg_objs F u, pg_rels F u) = (ss, pg_objs F u', pg_rels F u')"
    by auto
  from b(2) p(2) assms(3,4) have eq: "rs = ss" "bdb_objs E t' = pg_objs F u'" "bdb_rels E t' = pg_rels F u'"
    by auto
  obtain xs ys where "getRelations Z (bdb_tx E) t' r [] = Inr xs" "distinct xs"
      "set xs = {i \<in> dom (bdb_rels E t'). relation_valueFilter (RelationIdentifier r) i}"
      "getRelations Z (pg_tx F) u' r [] = Inr ys" "distinct ys"
      "set ys = {i \<in> dom (pg_rels F u'). relation_valueFilter (RelationIdentifier r) i}"
    using bdb.getRelations_exact [OF b(1) assms(11), of Z "[]"] pgs.getRelations_exact [OF p(1) assms(11), of Z "[]"]
    by auto
  with eq show ?thesis by (auto simp: set_eq_iff_mset_eq_distinct [symmetric])
qed

definition two_writes :: "(timestamp \<times> write_req) list" where
  "two_writes = [(ts0, WSetObject [] alice), (ts1, WSetRelation [] alice_doc)]"

theorem backends_agree_witness:
  "\<exists>rs t' u'. write_run mem_azm (bdb_tx mem_env) [] two_writes mem_db0 = (rs, t') \<and>
     write_run mem_azm (pg_tx mpg) [] two_writes pm_db0 = (rs, u') \<and>
     bdb_objs mem_env t' = pg_objs mpg u' \<and> bdb_rels mem_env t' = pg_rels mpg u'"
proof -
  have n: "wf_rid (new_relation mem_azm ts1 d alice_doc)" for d
    using alice_wf(3) wf_rid_ident_of [of "new_relation mem_azm ts1 d alice_doc"] by simp
  have "objKeyOf (new_relation mem_azm ts1 d alice_doc) = objKeyOf alice_doc" for d
    using key_ident_of(1) [of "new_relation mem_azm ts1 d alice_doc"] key_ident_of(1) [of alice_doc] by simp
  moreover have "length (objKeyOf alice_doc) < 1000" by code_simp
  ultimately have okR: "bdb_okR mem_env t (new_relation mem_azm ts1 d alice_doc)" for t d
    by (intro mem_okR) simp
  have okO: "bdb_okO mem_env t (new_object mem_azm ts0 c alice)" for t c
    by (intro mem_okO) (simp add: new_object_def)
  have tx: "text_ok ''user''" "text_ok ''alice''" "text_ok ''user:alice/Alice''" "text_ok (objKeyOf alice_doc)"
    by code_simp+
  have fits: "run_fits mem_azm (bdb_tx mem_env) (bdb_okO mem_env) (bdb_okR mem_env)
      (\<lambda>t. (bdb_objs mem_env t, bdb_rels mem_env t)) [] two_writes mem_db0"
    using alice_wf by (simp add: two_writes_def okO okR)
  have fits': "run_fits mem_azm (pg_tx mpg) (pg_okO mpg) (pg_okR mpg)
      (\<lambda>t. (pg_objs mpg t, pg_rels mpg t)) [] two_writes pm_db0"
    using alice_wf tx n by (simp add: two_writes_def mem_pg_ok new_object_def new_relation_def)
  obtain rs t' ss u' where run: "write_run mem_azm (bdb_tx mem_env) [] two_writes mem_db0 = (rs, t')"
      "write_run mem_azm (pg_tx mpg) [] two_writes pm_db0 = (ss, u')"
    by (metis prod.exhaust)
  have "filter_ok (relation_asFilter (RelationIdentifier (ident_of alice_doc)))" by code_simp
  from backends_agree [OF mem_db0_inv pm_db0_inv _ _ mem_up fits fits' run this] run
  show ?thesis by (auto simp: mem_db0_tables pm_db0_tables)
qed

text \<open>
  \<open>GetRelation\<close> with a complete identifier: on a directory whose only relation is that of a
  subject whose id properly extends the requested subject id, the BoltDB backend answers the other
  subject's relation (its prefix scan leaves the last id open and \<open>GetRelation\<close> applies no value
  filter), the Postgres backend answers that there is none.
\<close>

theorem GetRelation_backends_differ:
  fixes q :: safe_rel
  assumes "bdb_inv E t" "pg_inv F u" "bdb_rels E t = [ident_of r \<mapsto> r]" "pg_rels F u = [ident_of r \<mapsto> r]"
    and "wf_rid r" "i_otype q = i_otype r" "i_oid q = i_oid r" "i_rel q = i_rel r" "i_stype q = i_stype r"
    and "strict_prefix (i_sid q) (i_sid r)" "IsSet (i_sid q)" "text_ok (i_sid q)" "text_ok (i_srel q)"
  shows "GetRelation_tx (bdb_tx E) [] ByObject (relation_asFilter q) False t =
      (None, \<lparr>gr_result = Some r, gr_objects = Map.empty, gr_304 = False\<rparr>) \<and>
    fst (GetRelation_tx (pg_tx F) [] ByObject (relation_asFilter q) False u) = Some ErrKeyNotFound"
proof -
  let ?f = "relation_asFilter q"
  have ok: "filter_ok ?f"
    using assms(5-13) by (simp add: relation_asFilter_def filter_ok_def wf_rid_def wf_side_def wf_oid_def)
  have "prefix (scan_prefix ByObject ?f) (dirKey ByObject r)"
    using assms(5-11)
    by (auto simp: relation_asFilter_def scan_prefix_def writeObjFilter_def objKeyOf_eq dirKey_def Let_def
        wf_rid_def wf_side_def wf_oid_def strict_prefix_def prefix_def)
  moreover have "bdb_rels E t (ident_of s) = Some s \<longleftrightarrow> s = r" for s by (auto simp: assms(3))
  ultimately have "w \<in> set (bdb_rrows E t ByObject ?f) \<longleftrightarrow> w = (Some r, dirKey ByObject r)" for w
    using bdb_rrows_iff [OF assms(1), of "fst w" "snd w" ByObject ?f] by (cases w) auto
  then have "set (bdb_rrows E t ByObject ?f) = {(Some r, dirKey ByObject r)}" by blast
  then have "set (map fst (bdb_rrows E t ByObject ?f)) = {Some r}" by simp
  then have "map fst (bdb_rrows E t ByObject ?f) = [Some r]"
    by (rule distinct_set_singleton [OF bdb.rrows_distinct [OF assms(1)]])
  moreover have "set (map fst (pg_rrows F u ByObject ?f)) = {}"
    unfolding pg_rrows_set [OF assms(2) ok] using assms(4,10,11)
    by (auto simp: relation_asFilter_def rf_match_def strict_prefix_def split: if_splits)
  then have "pg_rrows F u ByObject ?f = []" by simp
  ultimately show ?thesis
    by (simp add: GetRelation_tx_def bdb.ScanRelations_start [OF assms(1) ok] pgs.ScanRelations_start [OF assms(2) ok]
        del: bdb_tx_sel pg_tx_sel)
qed

definition bobby_doc :: relation where
  "bobby_doc = zero_relation\<lparr>i_otype := ''doc'', i_oid := ''d1'', i_rel := ''viewer'',
     i_stype := ''user'', i_sid := ''bobby''\<rparr>"

definition bob_query :: safe_rel where
  "bob_query = RelationIdentifier ((ident_of bobby_doc)\<lparr>i_sid := ''bob''\<rparr>)"

theorem GetRelation_backends_differ_witness:
  "\<exists>t u s. i_sid s = ''bobby'' \<and>
     gr_result (snd (GetRelation_tx (bdb_tx mem_env) [] ByObject (relation_asFilter bob_query) False
       (t :: (string \<times> string) mem_state))) = Some s \<and>
     fst (GetRelation_tx (pg_tx mpg) [] ByObject (relation_asFilter bob_query) False u) = Some ErrKeyNotFound"
proof -
  have wf: "wf_rid bobby_doc" by code_simp
  have "length (objKeyOf bobby_doc) < 1000" by code_simp
  then have "bdb_okR mem_env mem_db0 bobby_doc" by (rule mem_okR)
  from bdb.SetRelation_ok [OF mem_db0_inv wf this] obtain t :: "(string \<times> string) mem_state"
    where t: "tx_SetRelation (bdb_tx mem_env) mem_db0 bobby_doc = (Inr bobby_doc, t)" by blast
  have "text_ok (r_etag bobby_doc)" by code_simp
  from pgs.SetRelation_ok [OF pm_db0_inv wf mem_pg_ok(2) [OF wf this]] obtain u
    where u: "tx_SetRelation (pg_tx mpg) pm_db0 bobby_doc = (Inr bobby_doc, u)" by blast
  note bt = bdb.SetRelation_post [OF mem_db0_inv wf t] and pt = pgs.SetRelation_post [OF pm_db0_inv wf u]
  have q: "i_otype bob_query = i_otype bobby_doc" "i_oid bob_query = i_oid bobby_doc"
    "i_rel bob_query = i_rel bobby_doc" "i_stype bob_query = i_stype bobby_doc"
    "strict_prefix (i_sid bob_query) (i_sid bobby_doc)" "IsSet (i_sid bob_query)" "text_ok (i_sid bob_query)"
    "text_ok (i_srel bob_query)"
    by code_simp+
  from GetRelation_backends_differ [of mem_env t mpg u bobby_doc bob_query, OF _ _ _ _ wf q] bt pt
  show ?thesis
    by (intro exI [of _ t] exI [of _ u] exI [of _ bobby_doc]) (simp add: mem_db0_tables pm_db0_tables bobby_doc_def)
qed

text \<open>
  C32: A page token of the Postgres store is decoded to the values it was encoded from, whatever
  characters they contain (quotes, brackets and commas included), and a token with another number of
  values is refused.
\<close>

theorem page_token_roundtrip:
  assumes "list_all utf8_valid vals"
  shows "decodeToken (encodeToken vals) n =
    (if length vals = n then Inr vals else Inl (WrapErr ''unexpected value count'' errTokenSize))"
  using assms by (simp add: decodeToken_def encodeToken_def json_roundtrip)

theorem page_token_roundtrip_witness:
  "decodeToken (encodeToken [''a,b'', CHR 0x22 # '']<'']) 2 = Inr [''a,b'', CHR 0x22 # '']<'']"
proof -
  have "list_all utf8_valid [''a,b'', CHR 0x22 # '']<'']" by code_simp
  from page_token_roundtrip [OF this, of 2] show ?thesis by simp
qed

text \<open>
  C33: After a manifest is deleted the backends disagree on whether one exists: the BoltDB store has
  recreated the manifest's bucket and answers yes, the Postgres store has deleted the row and answers
  no.
\<close>

theorem ManifestExists_after_delete:
  assumes "bdb_inv E t" "bdb_DeleteManifest E t = (None, t')"
    and "pg_inv F u" "pg_DeleteManifest F u = (None, u')"
  shows "tx_ManifestExists (bdb_tx E) t' = Inr True \<and> tx_ManifestExists (pg_tx F) u' = Inr False"
proof -
  note b = bdb_DeleteManifest_post [OF assms(1,2)]
  note o = bdb_openD [OF bdb_invD(1) [OF conjunct1 [OF b]]]
  have "bdb_ManifestExists E t' = Inr True"
    using b by (simp add: bdb_ManifestExists_def BucketExists_def bolt_engine.SetBucket_eq [OF o(1,2)])
  moreover have inv: "pg_inv F u'"
    using pgs.DeleteManifest_post [OF assms(3)] assms(4) by auto
  moreover have "pg_rest F u' = None"
  proof -
    note e = pg_invD [OF assms(3)]
    obtain u1 u2 where d: "del_manifest F u manifestName = (None, u1)" "del_relations F u1 = (None, u2)"
        "del_objects F u2 = (None, u')"
      using assms(4) by (auto simp: pg_DeleteManifest_def split: prod.splits option.splits)
    note d1 = pg_engine.del_manifest [OF e(1,3) d(1)]
    note d2 = pg_engine.del_relations [OF e(1) conjunct1 [OF d1] d(2)]
    from d1 d2 pg_engine.del_objects [OF e(1) conjunct1 [OF d2] d(3)] show ?thesis by (simp add: pg_rest_def)
  qed
  ultimately show ?thesis
    using pg_engine.exists_manifest [OF pg_invD(1,3) [OF inv], of manifestName] by (simp add: pg_ManifestExists_def pg_rest_def)
qed

theorem ManifestExists_after_delete_witness:
  "\<exists>t' u'. tx_DeleteManifest (bdb_tx mem_env) (mem_db0 :: (string \<times> string) mem_state) = (None, t') \<and>
     tx_ManifestExists (bdb_tx mem_env) t' = Inr True \<and>
     tx_DeleteManifest (pg_tx mpg) pm_db0 = (None, u') \<and> tx_ManifestExists (pg_tx mpg) u' = Inr False"
proof -
  have "fst (bdb_DeleteManifest mem_env (mem_db0 :: (string \<times> string) mem_state)) = None"
    by (simp add: bdb_DeleteManifest_def) code_simp
  then obtain t' where t: "bdb_DeleteManifest mem_env (mem_db0 :: (string \<times> string) mem_state) = (None, t')"
    by (metis prod.collapse)
  obtain u' where u: "pg_DeleteManifest mpg pm_db0 = (None, u')"
    by (simp add: pg_DeleteManifest_def mem_pg_def)
  from ManifestExists_after_delete [OF mem_db0_inv t pm_db0_inv u] t u show ?thesis by auto
qed

end
