(* ===== verification/GoTime.thy ===== *)
theory GoTime
  imports Messages Hash
begin

text \<open>
  What the synchronisation uses of Go's \<open>time\<close> package: \<open>AsTime().Format(time.RFC3339Nano)\<close> of a
  protobuf timestamp, in UTC. Days are counted in the proleptic Gregorian calendar from 0001-01-01,
  cut into cycles of 400, 100, 4 and 1 years the way \<open>time\<close> does it.
\<close>

definition is_leap :: "int \<Rightarrow> bool" where
  "is_leap y \<longleftrightarrow> y mod 4 = 0 \<and> (y mod 100 \<noteq> 0 \<or> y mod 400 = 0)"

definition month_days :: "int \<Rightarrow> int list" where
  "month_days y = [31, if is_leap y then 29 else 28, 31, 30, 31, 30, 31, 31, 30, 31, 30, 31]"

fun month_day :: "int list \<Rightarrow> int \<Rightarrow> int \<Rightarrow> int \<times> int" where
  "month_day [] m d = (m, d + 1)"
| "month_day (n # ns) m d = (if d < n then (m, d + 1) else month_day ns (m + 1) (d - n))"

text \<open>The year and the day of that year (from 0) of a day.\<close>

definition year_yday :: "int \<Rightarrow> int \<times> int" where
  "year_yday d =
     (let n400 = d div 146097; d = d mod 146097;
          n100 = d div 36524; n100 = n100 - n100 div 4; d = d - 36524 * n100;
          n4 = d div 1461; d = d mod 1461;
          n = d div 365; n = n - n div 4; d = d - 365 * n
      in (400 * n400 + 100 * n100 + 4 * n4 + n + 1, d))"

text \<open>Year, month and day of the day \<open>d\<close> after 1970-01-01.\<close>

definition civil_date :: "int \<Rightarrow> int \<times> int \<times> int" where
  "civil_date d = (case year_yday (d + 719162) of (y, yday) \<Rightarrow> (y, month_day (month_days y) 1 yday))"

definition pad :: "nat \<Rightarrow> int \<Rightarrow> string" where
  "pad w i = (let s = show_nat (nat \<bar>i\<bar>) in
     (if i < 0 then ''-'' else []) @ replicate (w - length s) CHR ''0'' @ s)"

text \<open>The fraction \<open>.999999999\<close>: trailing zeros are dropped, and the dot with them.\<close>

definition fraction :: "int \<Rightarrow> string" where
  "fraction n = (let ds = rev (dropWhile (\<lambda>c. c = CHR ''0'') (rev (pad 9 n))) in
     if ds = [] then [] else CHR ''.'' # ds)"

definition RFC3339Nano :: "timestamp \<Rightarrow> string" where
  "RFC3339Nano ts =
     (let s = secs ts + nanos ts div 1000000000; ns = nanos ts mod 1000000000; sod = s mod 86400
      in case civil_date (s div 86400) of (y, m, d) \<Rightarrow>
        pad 4 y @ ''-'' @ pad 2 m @ ''-'' @ pad 2 d @ ''T'' @ pad 2 (sod div 3600) @ '':'' @
        pad 2 (sod mod 3600 div 60) @ '':'' @ pad 2 (sod mod 60) @ fraction ns @ ''Z'')"

lemma RFC3339Nano_epoch: "RFC3339Nano \<lparr>secs = 0, nanos = 0\<rparr> = ''1970-01-01T00:00:00Z''"
  by code_simp

lemma RFC3339Nano_leap: "RFC3339Nano \<lparr>secs = 1709210096, nanos = 120\<rparr> = ''2024-02-29T12:34:56.00000012Z''"
  by code_simp

end
