(* ===== verification/Watermark.thy ===== *)
theory Watermark
  imports GoTime BdbStore
begin

text \<open>
  The modes of a synchronisation (\<open>datasync/datasync.go\<close>) and its watermark file
  (\<open>datasync/watermark.go\<close>). The file is what \<open>getWatermark\<close> decodes from it: \<open>None\<close> when it cannot
  be opened or is not the JSON of a watermark.
\<close>

unbundle bit_operations_syntax

section \<open>Modes\<close>

type_synonym Mode = "32 word"

definition Mode_Unknown :: Mode where "Mode_Unknown = 0"
definition Mode_Manifest :: Mode where "Mode_Manifest = push_bit 1 1"
definition Mode_Full :: Mode where "Mode_Full = push_bit 2 1"
definition Mode_Diff :: Mode where "Mode_Diff = push_bit 3 1"
definition Mode_Watermark :: Mode where "Mode_Watermark = push_bit 4 1"

lemma Mode_values [simp]:
  "Mode_Unknown = 0" "Mode_Manifest = 2" "Mode_Full = 4" "Mode_Diff = 8" "Mode_Watermark = 16"
  by (simp_all add: Mode_Unknown_def Mode_Manifest_def Mode_Full_def Mode_Diff_def Mode_Watermark_def
      push_bit_eq_mult)

definition Mode_Set :: "Mode \<Rightarrow> Mode \<Rightarrow> Mode" where "Mode_Set b flag = b OR flag"
definition Mode_Clear :: "Mode \<Rightarrow> Mode \<Rightarrow> Mode" where "Mode_Clear b flag = b AND NOT flag"
definition Mode_Toggle :: "Mode \<Rightarrow> Mode \<Rightarrow> Mode" where "Mode_Toggle b flag = b XOR flag"
definition Mode_Has :: "Mode \<Rightarrow> Mode \<Rightarrow> bool" where "Mode_Has b flag \<longleftrightarrow> b AND flag \<noteq> 0"

definition modes :: "(Mode \<times> string) list" where
  "modes = [(Mode_Manifest, ''MANIFEST''), (Mode_Full, ''FULL''), (Mode_Diff, ''DIFF''),
     (Mode_Watermark, ''WATERMARK'')]"

text \<open>Go ranges over the map in an order of its own: \<open>order\<close> is that permutation of \<open>modes\<close>.\<close>

definition Mode_String :: "(Mode \<times> string) list \<Rightarrow> Mode \<Rightarrow> string" where
  "Mode_String order m = join ''|'' (map snd (filter (\<lambda>(k, v). Mode_Has m k) order))"

definition RunMode :: "(Mode \<times> string) list \<Rightarrow> Mode \<Rightarrow> string" where
  "RunMode order m = (let mode = Mode_Clear m Mode_Manifest in
     join ''|'' (map snd (filter (\<lambda>(k, v). Mode_Has mode k) order)))"

definition StrToMode :: "(Mode \<times> string) list \<Rightarrow> string \<Rightarrow> Mode" where
  "StrToMode order s = (case List.find (\<lambda>(k, v). v = s) order of None \<Rightarrow> Mode_Unknown | Some (k, _) \<Rightarrow> k)"

text \<open>The options of \<open>Client.Sync\<close>: each \<open>WithMode\<close> adds its flag to the zero options.\<close>

definition WithMode :: "Mode \<Rightarrow> Mode \<Rightarrow> Mode" where
  "WithMode mode o' = Mode_Set o' mode"

definition sync_options :: "Mode list \<Rightarrow> Mode" where
  "sync_options ms = fold WithMode ms Mode_Unknown"

lemma filter_single:
  assumes "distinct xs" "x \<in> set xs" "\<And>y. y \<in> set xs \<Longrightarrow> P y \<longleftrightarrow> y = x"
  shows "filter P xs = [x]"
  using assms
proof (induction xs)
  case (Cons a xs)
  show ?case
  proof (cases "a = x")
    case True
    moreover have "filter P xs = []" using Cons.prems True by (auto simp: filter_empty_conv)
    ultimately show ?thesis using Cons.prems(3) [of a] by simp
  next
    case False
    with Cons show ?thesis by simp
  qed
qed simp

lemma modes_flags: "\<forall>x \<in> set modes. \<forall>y \<in> set modes. Mode_Has (fst x) (fst y) = (y = x) \<and> (snd y = snd x) = (y = x)"
  by code_simp

lemma StrToMode_String:
  assumes "distinct order" "set order = set modes" "(m, s) \<in> set modes"
  shows "Mode_String order m = s" "StrToMode order s = m"
proof -
  have flags: "Mode_Has m (fst y) = (y = (m, s))" "(snd y = s) = (y = (m, s))" if "y \<in> set order" for y
    using modes_flags assms(2,3) that by force+
  have "filter (\<lambda>(k, v). Mode_Has m k) order = [(m, s)]"
    using assms flags(1) by (intro filter_single) (simp_all add: split_beta)
  then show "Mode_String order m = s" by (simp add: Mode_String_def)
  have "List.find (\<lambda>(k, v). v = s) order \<noteq> None"
    using assms(2,3) by (auto simp: find_None_iff)
  then obtain y where y: "List.find (\<lambda>(k, v). v = s) order = Some y" by blast
  then have "y \<in> set order" "snd y = s" by (auto simp: find_Some_iff) (metis nth_mem)
  with flags(2) y show "StrToMode order s = m" by (simp add: StrToMode_def)
qed

section \<open>The watermark\<close>

record watermark =
  wm_LastUpdated :: string
  wm_Timestamp :: "timestamp option"
  wm_TotalCount :: "64 word"
  wm_ObjectCount :: "64 word"
  wm_RelationCount :: "64 word"

definition zero_ts :: timestamp where
  "zero_ts = \<lparr>secs = 0, nanos = 0\<rparr>"

definition newWatermark :: watermark where
  "newWatermark = \<lparr>wm_LastUpdated = [], wm_Timestamp = Some zero_ts, wm_TotalCount = 0, wm_ObjectCount = 0,
     wm_RelationCount = 0\<rparr>"

definition getFilterSize :: "watermark \<Rightarrow> 64 word" where
  "getFilterSize wm =
     (let initFilterSize = 100000; growthFactor = 2; rounding = 1000 in
      if wm_TotalCount wm = 0 then initFilterSize
      else let growthSize = wm_TotalCount wm * growthFactor in
        if growthSize < initFilterSize then initFilterSize
        else let remainder = growthSize mod rounding in growthSize + (rounding - remainder))"

definition maxTS :: "timestamp option \<Rightarrow> timestamp option \<Rightarrow> timestamp option" where
  "maxTS lhs rhs =
     (if ts_secs lhs > ts_secs rhs then lhs
      else if ts_secs lhs = ts_secs rhs \<and> ts_nanos lhs > ts_nanos rhs then lhs else rhs)"

definition getWatermark :: "watermark option \<Rightarrow> watermark" where
  "getWatermark file = (case file of None \<Rightarrow> newWatermark | Some wm \<Rightarrow> wm)"

text \<open>\<open>Stats().KeyN\<close> is the number of keys of the bucket.\<close>

definition bucketStats :: "('db, 'v, 'model, 'z) bdb_env_scheme \<Rightarrow> 'db \<Rightarrow> path \<Rightarrow> nat" where
  "bucketStats E db path = (case SetBucket E db path of
      Inl _ \<Rightarrow> 0
    | Inr b \<Rightarrow> length (bolt_entries E db b))"

definition dbStats :: "('db, 'v, 'model, 'z) bdb_env_scheme \<Rightarrow> 'db \<Rightarrow> path \<Rightarrow> derror option \<times> nat" where
  "dbStats E db path = View (bdb_tx E) 0 (\<lambda>db. (None, bucketStats E db path)) db"

text \<open>
  \<open>created\<close> and \<open>encoded\<close> are the errors of creating the file, which truncates it, and of writing to it.
\<close>

definition setWatermark ::
  "('db, 'v, 'model, 'z) bdb_env_scheme \<Rightarrow> derror option \<Rightarrow> derror option \<Rightarrow> timestamp option \<Rightarrow> 'db
     \<Rightarrow> watermark option \<Rightarrow> derror option \<times> watermark option" where
  "setWatermark E created encoded ts db file =
     (if ts = None then (Some (Panic ''ts is nil''), file)
      else let newTS = maxTS (wm_Timestamp (getWatermark file)) ts;
               wm = newWatermark\<lparr>wm_Timestamp := newTS,
                 wm_LastUpdated := RFC3339Nano (case newTS of None \<Rightarrow> zero_ts | Some x \<Rightarrow> x)\<rparr>
      in case dbStats E db ObjectsPath of
           (Some e, _) \<Rightarrow> (Some e, file)
         | (None, objN) \<Rightarrow> (case dbStats E db RelationsObjPath of
               (Some e, _) \<Rightarrow> (Some e, file)
             | (None, relN) \<Rightarrow>
                 (let wm = wm\<lparr>wm_ObjectCount := of_nat objN, wm_RelationCount := of_nat relN\<rparr>;
                      wm = wm\<lparr>wm_TotalCount := wm_ObjectCount wm + wm_RelationCount wm\<rparr>
                  in if created \<noteq> None then (created, file)
                     else if encoded \<noteq> None then (encoded, None)
                     else (None, Some wm))))"

section \<open>Filter size\<close>

lemma getFilterSize_unat:
  assumes "unat (wm_TotalCount wm) < 2 ^ 62"
  shows "unat (getFilterSize wm) =
    (let n = 2 * unat (wm_TotalCount wm) in if n < 100000 then 100000 else n + (1000 - n mod 1000))"
proof -
  let ?w = "wm_TotalCount wm" and ?n = "2 * unat (wm_TotalCount wm)"
  have g: "unat (?w * 2) = ?n" using assms by (subst unat_mult_lem [THEN iffD1]) auto
  have r: "unat ((?w * 2) mod 1000) = ?n mod 1000" by (simp add: unat_mod g)
  have "(?w * 2) mod 1000 \<le> 1000" by (simp add: word_le_nat_alt r less_imp_le)
  then have d: "unat (1000 - (?w * 2) mod 1000) = 1000 - ?n mod 1000" by (simp add: unat_sub r)
  have "unat (?w * 2 + (1000 - (?w * 2) mod 1000)) = ?n + (1000 - ?n mod 1000)"
    using assms by (subst unat_add_lem [THEN iffD1]) (auto simp: g d)
  then show ?thesis by (auto simp: getFilterSize_def Let_def word_less_nat_alt g unat_eq_0)
qed

section \<open>The order of watermarks\<close>

definition ts_le :: "timestamp option \<Rightarrow> timestamp option \<Rightarrow> bool" where
  "ts_le a b \<longleftrightarrow> ts_secs a < ts_secs b \<or> (ts_secs a = ts_secs b \<and> ts_nanos a \<le> ts_nanos b)"

lemma ts_le_refl [simp]: "ts_le a a" by (simp add: ts_le_def)

lemma ts_le_trans: "ts_le a b \<Longrightarrow> ts_le b c \<Longrightarrow> ts_le a c" by (auto simp: ts_le_def)

lemma maxTS_upper: "ts_le a (maxTS a b)" "ts_le b (maxTS a b)" by (auto simp: maxTS_def ts_le_def)

lemma maxTS_in: "maxTS a b \<in> {a, b}" by (simp add: maxTS_def)

lemma setWatermark_saved:
  assumes "setWatermark E created encoded ts db file = (None, file')"
  shows "\<exists>wm. file' = Some wm \<and> wm_Timestamp wm = maxTS (wm_Timestamp (getWatermark file)) ts \<and>
    wm_ObjectCount wm = of_nat (bucketStats E db ObjectsPath) \<and>
    wm_RelationCount wm = of_nat (bucketStats E db RelationsObjPath) \<and>
    wm_TotalCount wm = wm_ObjectCount wm + wm_RelationCount wm"
proof -
  have st: "n = bucketStats E db p" if "dbStats E db p = (None, n)" for p n
    using View_cases [OF that [unfolded dbStats_def]] by simp
  from assms show ?thesis
    by (auto simp: setWatermark_def Let_def split: if_splits prod.splits option.splits dest!: st)
qed

end
