(* ===== verification/Pipeline.thy ===== *)
theory Pipeline
  imports Main
begin

text \<open>
  A producer and a consumer that run concurrently over a bounded Go channel, as \<open>syncDirectory\<close> starts
  them in an \<open>errgroup\<close>: the producer sends its messages and closes the channel when it returns; the
  consumer handles one message after the other until the channel is closed and empty. The steps may
  interleave in any way. Every run of the two ends, and ends with all messages handled in order; if
  the consumer has given up before the producer closed the channel, a producer with more messages than
  the channel holds blocks for ever.
\<close>

record ('m, 's) pipe =
  pp_todo :: "'m list"
  pp_open :: bool
  pp_chan :: "'m list"
  pp_state :: 's
  pp_done :: bool

inductive pipe_step :: "nat \<Rightarrow> ('m \<Rightarrow> 's \<Rightarrow> 's) \<Rightarrow> ('m, 's) pipe \<Rightarrow> ('m, 's) pipe \<Rightarrow> bool"
  for cap :: nat and handle :: "'m \<Rightarrow> 's \<Rightarrow> 's" where
  send: "pp_todo p = m # ms \<Longrightarrow> pp_open p \<Longrightarrow> length (pp_chan p) < cap \<Longrightarrow>
    pipe_step cap handle p (p\<lparr>pp_todo := ms, pp_chan := pp_chan p @ [m]\<rparr>)"
| close: "pp_todo p = [] \<Longrightarrow> pp_open p \<Longrightarrow> pipe_step cap handle p (p\<lparr>pp_open := False\<rparr>)"
| recv: "pp_chan p = m # ms \<Longrightarrow> \<not> pp_done p \<Longrightarrow>
    pipe_step cap handle p (p\<lparr>pp_chan := ms, pp_state := handle m (pp_state p)\<rparr>)"
| finish: "pp_chan p = [] \<Longrightarrow> \<not> pp_open p \<Longrightarrow> \<not> pp_done p \<Longrightarrow> pipe_step cap handle p (p\<lparr>pp_done := True\<rparr>)"

definition pipe_start :: "'m list \<Rightarrow> 's \<Rightarrow> ('m, 's) pipe" where
  "pipe_start msgs s = \<lparr>pp_todo = msgs, pp_open = True, pp_chan = [], pp_state = s, pp_done = False\<rparr>"

text \<open>Both have returned.\<close>

definition pipe_over :: "('m, 's) pipe \<Rightarrow> bool" where
  "pipe_over p \<longleftrightarrow> \<not> pp_open p \<and> pp_done p"

section \<open>Runs end with every message handled\<close>

definition pipe_inv :: "('m \<Rightarrow> 's \<Rightarrow> 's) \<Rightarrow> 'm list \<Rightarrow> 's \<Rightarrow> nat \<Rightarrow> ('m, 's) pipe \<Rightarrow> bool" where
  "pipe_inv handle msgs s cap p \<longleftrightarrow> length (pp_chan p) \<le> cap \<and>
     fold handle (pp_chan p @ pp_todo p) (pp_state p) = fold handle msgs s \<and>
     (\<not> pp_open p \<longrightarrow> pp_todo p = []) \<and> (pp_done p \<longrightarrow> pp_chan p = [] \<and> \<not> pp_open p)"

lemma pipe_step_inv: "pipe_step cap handle p q \<Longrightarrow> pipe_inv handle msgs s cap p \<Longrightarrow> pipe_inv handle msgs s cap q"
  by (induction rule: pipe_step.induct) (auto simp: pipe_inv_def)

lemma pipe_reach_inv: "(pipe_step cap handle)\<^sup>*\<^sup>* (pipe_start msgs s) p \<Longrightarrow> pipe_inv handle msgs s cap p"
proof (induction rule: rtranclp_induct)
  case base
  show ?case by (simp add: pipe_inv_def pipe_start_def)
next
  case (step p q)
  then show ?case by (blast intro: pipe_step_inv)
qed

lemma pipe_result: "(pipe_step cap handle)\<^sup>*\<^sup>* (pipe_start msgs s) p \<Longrightarrow> pipe_over p \<Longrightarrow> pp_state p = fold handle msgs s"
  using pipe_reach_inv [of cap handle msgs s p] by (auto simp: pipe_inv_def pipe_over_def)

lemma pipe_progress:
  assumes "0 < cap" "pipe_inv handle msgs s cap p" "\<not> pipe_over p"
  shows "\<exists>q. pipe_step cap handle p q"
proof (cases "pp_done p")
  case True
  with assms show ?thesis by (simp add: pipe_inv_def pipe_over_def)
next
  case False
  show ?thesis
  proof (cases "pp_chan p")
    case (Cons m ms)
    from pipe_step.recv [OF this False] show ?thesis by blast
  next
    case Nil
    show ?thesis
    proof (cases "pp_open p")
      case closed: False
      from pipe_step.finish [OF Nil this False] show ?thesis by blast
    next
      case True
      show ?thesis
      proof (cases "pp_todo p")
        case Nil
        from pipe_step.close [OF this True] show ?thesis by blast
      next
        case (Cons m ms)
        from pipe_step.send [OF this True] Nil assms(1) show ?thesis by auto
      qed
    qed
  qed
qed

definition pipe_measure :: "('m, 's) pipe \<Rightarrow> nat" where
  "pipe_measure p = 2 * length (pp_todo p) + length (pp_chan p) + (if pp_open p then 1 else 0) +
     (if pp_done p then 0 else 1)"

lemma pipe_step_measure: "pipe_step cap handle p q \<Longrightarrow> pipe_measure q < pipe_measure p"
  by (induction rule: pipe_step.induct) (auto simp: pipe_measure_def)

lemma pipe_run_length: "(pipe_step cap handle ^^ n) p q \<Longrightarrow> n + pipe_measure q \<le> pipe_measure p"
proof (induction n arbitrary: q)
  case (Suc n)
  then obtain r where "(pipe_step cap handle ^^ n) p r" "pipe_step cap handle r q" by auto
  with Suc.IH [of r] pipe_step_measure [of cap handle r q] show ?case by simp
qed simp

section \<open>A consumer that gave up\<close>

definition pipe_dead :: "'m list \<Rightarrow> 's \<Rightarrow> ('m, 's) pipe" where
  "pipe_dead msgs s = (pipe_start msgs s)\<lparr>pp_done := True\<rparr>"

lemma pipe_dead_fill:
  "k \<le> cap \<Longrightarrow> k \<le> length msgs \<Longrightarrow> (pipe_step cap handle)\<^sup>*\<^sup>* (pipe_dead msgs s)
     ((pipe_dead msgs s)\<lparr>pp_todo := drop k msgs, pp_chan := take k msgs\<rparr>)"
proof (induction k)
  case 0
  have "pipe_dead msgs s = (pipe_dead msgs s)\<lparr>pp_todo := drop 0 msgs, pp_chan := take 0 msgs\<rparr>"
    by (simp add: pipe_dead_def pipe_start_def)
  then show ?case by (metis rtranclp.rtrancl_refl)
next
  case (Suc k)
  let ?p = "(pipe_dead msgs s)\<lparr>pp_todo := drop k msgs, pp_chan := take k msgs\<rparr>"
  have "pp_todo ?p = msgs ! k # drop (Suc k) msgs" using Suc.prems by (simp add: Cons_nth_drop_Suc)
  from pipe_step.send [OF this, of cap handle] Suc.prems
  have "pipe_step cap handle ?p
      ((pipe_dead msgs s)\<lparr>pp_todo := drop (Suc k) msgs, pp_chan := take (Suc k) msgs\<rparr>)"
    by (simp add: pipe_dead_def pipe_start_def take_Suc_conv_app_nth)
  with Suc show ?case by (auto intro: rtranclp.rtrancl_into_rtrancl)
qed

lemma pipe_dead_stuck:
  assumes "cap < length msgs"
  shows "\<exists>p. (pipe_step cap handle)\<^sup>*\<^sup>* (pipe_dead msgs s) p \<and> pp_open p \<and> (\<nexists>q. pipe_step cap handle p q)"
proof -
  let ?p = "(pipe_dead msgs s)\<lparr>pp_todo := drop cap msgs, pp_chan := take cap msgs\<rparr>"
  have "\<not> pipe_step cap handle ?p q" for q
    using assms by (auto simp: pipe_dead_def pipe_start_def elim!: pipe_step.cases)
  then show ?thesis
    using pipe_dead_fill [of cap cap msgs handle s] assms by (auto simp: pipe_dead_def pipe_start_def)
qed

text \<open>Every maximal run of that system ends blocked: the producer never closes the channel.\<close>

lemma pipe_dead_open:
  "(pipe_step cap handle)\<^sup>*\<^sup>* (pipe_dead msgs s) p \<Longrightarrow> cap < length msgs \<Longrightarrow>
     pp_done p \<and> pp_open p \<and> pp_chan p @ pp_todo p = msgs \<and> length (pp_chan p) \<le> cap"
proof (induction rule: rtranclp_induct)
  case base
  then show ?case by (simp add: pipe_dead_def pipe_start_def)
next
  case (step p q)
  then have "pp_done p" "pp_open p" "pp_chan p @ pp_todo p = msgs" "length (pp_chan p) \<le> cap" by auto
  with step.hyps(2) step.prems show ?case by (auto elim!: pipe_step.cases)
qed

end
