(* ===== verification/Datasync.thy ===== *)
theory Datasync
  imports Watermark Exporter ModelService Pipeline
begin

text \<open>
  The synchronisation of an edge directory with a remote one: \<open>datasync/handlers.go\<close>,
  \<open>datasync/directory.go\<close>, \<open>datasync/manifest.go\<close> and \<open>Run\<close> of \<open>datasync/datasync.go\<close>.

  The remote services are parameters: what opening their stream returns, the messages it delivers (each
  with the time at which the edge handles it) and how it ends. The cuckoo filter is third-party code and
  a parameter too, the record \<open>cuckoo\<close> with the locale \<open>cuckoo_filter\<close>. What is only logged is left out.
\<close>

section \<open>Handlers\<close>

text \<open>The guards of the handlers: those of the importer, with the model's error returned as it is.\<close>

definition sync_object_guard :: "('mc, 'model, 'y) azm_svc_scheme \<Rightarrow> 'mc \<Rightarrow> object option \<Rightarrow> object result" where
  "sync_object_guard Z mc req = (case req of
      None \<Rightarrow> Inl (ErrInvalidObject ''nil'')
    | Some x \<Rightarrow> (case az_v_Object Z x of
          Some e \<Rightarrow> Inl e
        | None \<Rightarrow> (case az_val_obj Z mc x of Some e \<Rightarrow> Inl e | None \<Rightarrow> Inr x)))"

definition sync_relation_guard :: "('mc, 'model, 'y) azm_svc_scheme \<Rightarrow> 'mc \<Rightarrow> relation option \<Rightarrow> relation result" where
  "sync_relation_guard Z mc req = (case req of
      None \<Rightarrow> Inl (ErrInvalidRelation ''nil'')
    | Some r \<Rightarrow> (case az_v_Relation Z r of
          Some e \<Rightarrow> Inl e
        | None \<Rightarrow> (case az_val_rel Z mc (ident_of r) of Some e \<Rightarrow> Inl e | None \<Rightarrow> Inr r)))"

text \<open>The set handlers stamp the message in place, so they also return what it became.\<close>

definition sync_objectSetHandler ::
  "('mc, 'model, 'y) azm_svc_scheme \<Rightarrow> ('tx, 'model, 'z) Tx_scheme \<Rightarrow> 'mc \<Rightarrow> timestamp \<Rightarrow> object option
     \<Rightarrow> 'tx \<Rightarrow> derror option \<times> object option \<times> 'tx" where
  "sync_objectSetHandler Z T mc now req t = (case sync_object_guard Z mc req of
      Inl e \<Rightarrow> (Some e, req, t)
    | Inr obj \<Rightarrow>
        (let etag = az_hash_obj Z obj in
         case UpdateMetadataObject T t now req of
           Inl e \<Rightarrow> (Some e, req, t)
         | Inr updReq \<Rightarrow>
             (if etag = o_etag updReq then (None, Some updReq, t)
              else let updReq = updReq\<lparr>o_etag := etag\<rparr> in
                case tx_SetObject T t updReq of
                  (Inl _, t') \<Rightarrow> (Some (ErrInvalidObject ''set''), Some updReq, t')
                | (Inr _, t') \<Rightarrow> (None, Some updReq, t'))))"

definition sync_objectDeleteHandler ::
  "('mc, 'model, 'y) azm_svc_scheme \<Rightarrow> ('tx, 'model, 'z) Tx_scheme \<Rightarrow> 'mc \<Rightarrow> object option \<Rightarrow> 'tx
     \<Rightarrow> derror option \<times> 'tx" where
  "sync_objectDeleteHandler Z T mc req t = (case sync_object_guard Z mc req of
      Inl e \<Rightarrow> (Some e, t)
    | Inr obj \<Rightarrow> (case tx_DeleteObject T t (o_type obj) (o_id obj) of
          (Some _, t') \<Rightarrow> (Some (ErrInvalidObject ''delete''), t')
        | (None, t') \<Rightarrow> (None, t')))"

definition sync_relationSetHandler ::
  "('mc, 'model, 'y) azm_svc_scheme \<Rightarrow> ('tx, 'model, 'z) Tx_scheme \<Rightarrow> 'mc \<Rightarrow> timestamp \<Rightarrow> relation option
     \<Rightarrow> 'tx \<Rightarrow> derror option \<times> relation option \<times> 'tx" where
  "sync_relationSetHandler Z T mc now req t = (case sync_relation_guard Z mc req of
      Inl e \<Rightarrow> (Some e, req, t)
    | Inr rel \<Rightarrow>
        (let etag = az_hash_rel Z (ident_of rel) in
         case UpdateMetadataRelation T t now req of
           Inl e \<Rightarrow> (Some e, req, t)
         | Inr updReq \<Rightarrow>
             (if etag = r_etag updReq then (None, Some updReq, t)
              else let updReq = updReq\<lparr>r_etag := etag\<rparr> in
                case tx_SetRelation T t updReq of
                  (Inl _, t') \<Rightarrow> (Some (ErrInvalidRelation ''set''), Some updReq, t')
                | (Inr _, t') \<Rightarrow> (None, Some updReq, t'))))"

definition sync_relationDeleteHandler ::
  "('mc, 'model, 'y) azm_svc_scheme \<Rightarrow> ('tx, 'model, 'z) Tx_scheme \<Rightarrow> 'mc \<Rightarrow> relation option \<Rightarrow> 'tx
     \<Rightarrow> derror option \<times> 'tx" where
  "sync_relationDeleteHandler Z T mc req t = (case sync_relation_guard Z mc req of
      Inl e \<Rightarrow> (Some e, t)
    | Inr rel \<Rightarrow> (case tx_DeleteRelation T t (ident_of rel) of
          (Some _, t') \<Rightarrow> (Some (ErrInvalidRelation ''delete''), t')
        | (None, t') \<Rightarrow> (None, t')))"

section \<open>The filter\<close>

record 'f cuckoo =
  cf_NewFilter :: "64 word \<Rightarrow> 'f"
  cf_Insert :: "'f \<Rightarrow> bytes \<Rightarrow> bool \<times> 'f"
  cf_Lookup :: "'f \<Rightarrow> bytes \<Rightarrow> bool"

text \<open>The documented behaviour: while every insertion succeeds there are no false negatives.\<close>

locale cuckoo_filter =
  fixes C :: "('f, 'z) cuckoo_scheme"
  assumes insert_lookup: "cf_Insert C f k = (True, f') \<Longrightarrow> cf_Lookup C f' k"
    and insert_keeps: "cf_Insert C f k = (True, f') \<Longrightarrow> cf_Lookup C f j \<Longrightarrow> cf_Lookup C f' j"

definition getObjectKey :: "object option \<Rightarrow> bytes" where
  "getObjectKey obj = o_type (obj0 obj) @ '':'' @ o_id (obj0 obj)"

definition getRelationKey :: "relation option \<Rightarrow> bytes" where
  "getRelationKey p = (let rel = rel0 p in
     i_otype rel @ '':'' @ i_oid rel @ ''#'' @ i_rel rel @ ''@'' @ i_stype rel @ '':'' @ i_sid rel @
     (if i_srel rel = [] then [] else ''#'' @ i_srel rel))"

section \<open>Producer and subscriber\<close>

definition channelSize :: nat where "channelSize = 10000"

type_synonym sync_msg = "timestamp \<times> export_resp"

text \<open>The remote exporter, asked for what changed since a time: the error of opening the stream, or its
  messages and the error it ends with, \<open>None\<close> for the end of the stream.\<close>

type_synonym remote_export = "timestamp option \<Rightarrow> derror + (sync_msg list \<times> derror option)"

fun is_data :: "export_resp \<Rightarrow> bool" where
  "is_data (EX_Object _) = True"
| "is_data (EX_Relation _) = True"
| "is_data (EX_Stats _) = False"

fun filter_insert :: "('f, 'z) cuckoo_scheme \<Rightarrow> export_resp \<Rightarrow> 'f \<Rightarrow> 'f" where
  "filter_insert C (EX_Object p) f = snd (cf_Insert C f (getObjectKey p))"
| "filter_insert C (EX_Relation p) f = snd (cf_Insert C f (getRelationKey p))"
| "filter_insert C (EX_Stats _) f = f"

text \<open>The error, what it sends to the export channel and the filter.\<close>

definition producer ::
  "('f, 'z) cuckoo_scheme \<Rightarrow> Mode \<Rightarrow> remote_export \<Rightarrow> watermark option
     \<Rightarrow> derror option \<times> sync_msg list \<times> 'f option" where
  "producer C mode remote file =
     (let wm = getWatermark file;
          ts = (if Mode_Has mode Mode_Watermark then wm_Timestamp wm else Some zero_ts);
          f = (if Mode_Has mode Mode_Diff then Some (cf_NewFilter C (getFilterSize wm)) else None)
      in case remote ts of
           Inl e \<Rightarrow> (Some e, [], f)
         | Inr (msgs, err) \<Rightarrow>
             (err, filter (is_data \<circ> snd) msgs,
              if Mode_Has mode Mode_Diff then map_option (fold (filter_insert C \<circ> snd) msgs) f else f))"

text \<open>One turn of the subscriber's loop, over the largest time so far and the transaction.\<close>

definition sub_handle ::
  "('mc, 'model, 'y) azm_svc_scheme \<Rightarrow> ('tx, 'model, 'z) Tx_scheme \<Rightarrow> 'mc \<Rightarrow> sync_msg
     \<Rightarrow> timestamp option \<times> 'tx \<Rightarrow> timestamp option \<times> 'tx" where
  "sub_handle Z T mc m s = (case snd m of
      EX_Object p \<Rightarrow> (case sync_objectSetHandler Z T mc (fst m) p (snd s) of
          (None, p', t') \<Rightarrow> (maxTS (fst s) (o_updated (obj0 p')), t')
        | (Some _, _, t') \<Rightarrow> (fst s, t'))
    | EX_Relation p \<Rightarrow> (case sync_relationSetHandler Z T mc (fst m) p (snd s) of
          (None, p', t') \<Rightarrow> (maxTS (fst s) (r_updated (rel0 p')), t')
        | (Some _, _, t') \<Rightarrow> (fst s, t'))
    | EX_Stats _ \<Rightarrow> s)"

definition subscriber ::
  "('mc, 'model, 'y) azm_svc_scheme \<Rightarrow> ('tx, 'model, 'z) Tx_scheme \<Rightarrow> 'mc \<Rightarrow> sync_msg list \<Rightarrow> 'tx
     \<Rightarrow> derror option \<times> timestamp option \<times> 'tx" where
  "subscriber Z T mc msgs t =
     Batch T (Some zero_ts) (\<lambda>t. case fold (sub_handle Z T mc) msgs (Some zero_ts, t) of (ts, t') \<Rightarrow> (None, ts, t')) t"

section \<open>Removing what the remote no longer has\<close>

definition diffObjects ::
  "('mc, 'model, 'y) azm_svc_scheme \<Rightarrow> ('tx, 'model, 'z) Tx_scheme \<Rightarrow> ('f, 'c) cuckoo_scheme \<Rightarrow> 'mc \<Rightarrow> 'f \<Rightarrow> 'tx
     \<Rightarrow> derror option \<times> 'tx" where
  "diffObjects Z T C mc f t = (case tx_ScanObjects T t [] [] of
      Inl e \<Rightarrow> (Some e, t)
    | Inr it \<Rightarrow>
        (let stale = filter (\<lambda>obj. \<not> cf_Lookup C f (getObjectKey obj)) (drain it)
         in (None, fold (\<lambda>obj t. snd (sync_objectDeleteHandler Z T mc obj t)) stale t)))"

definition diffRelations ::
  "('mc, 'model, 'y) azm_svc_scheme \<Rightarrow> ('tx, 'model, 'z) Tx_scheme \<Rightarrow> ('f, 'c) cuckoo_scheme \<Rightarrow> 'mc \<Rightarrow> 'f \<Rightarrow> 'tx
     \<Rightarrow> derror option \<times> 'tx" where
  "diffRelations Z T C mc f t = (case tx_ScanRelations T t ByObject empty_filter [] of
      Inl e \<Rightarrow> (Some e, t)
    | Inr it \<Rightarrow>
        (let stale = filter (\<lambda>rel. \<not> cf_Lookup C f (getRelationKey rel)) (drain it)
         in (None, fold (\<lambda>rel t. snd (sync_relationDeleteHandler Z T mc rel t)) stale t)))"

definition sync_diff ::
  "('mc, 'model, 'y) azm_svc_scheme \<Rightarrow> ('tx, 'model, 'z) Tx_scheme \<Rightarrow> ('f, 'c) cuckoo_scheme \<Rightarrow> 'mc \<Rightarrow> 'f option
     \<Rightarrow> 'tx \<Rightarrow> derror option \<times> 'tx" where
  "sync_diff Z T C mc flt t = (case flt of
      None \<Rightarrow> (Some (PlainErr ''filter not initialized''), t)
    | Some f \<Rightarrow>
        (case Batch T () (\<lambda>t. case diffObjects Z T C mc f t of
              (Some e, t1) \<Rightarrow> (Some e, (), t1)
            | (None, t1) \<Rightarrow> (case diffRelations Z T C mc f t1 of (err, t2) \<Rightarrow> (err, (), t2))) t of
           (err, _, t') \<Rightarrow> (err, t')))"

section \<open>A run\<close>

record ('db, 'mc) edge =
  ed_db :: 'db
  ed_mc :: 'mc
  ed_file :: "watermark option"

text \<open>
  The producer and the subscriber run concurrently; by the theory \<open>Pipeline\<close> the subscriber handles what
  the producer sends in order. When the subscriber's transaction does not begin nobody empties the
  channel, and with more messages than it holds the run never returns: the result is \<open>None\<close>. When both
  fail, \<open>subFirst\<close> says whose error the group reports. \<open>created\<close> and \<open>encoded\<close> are the errors of
  writing the watermark file.
\<close>

definition syncDirectory ::
  "('mc, 'model, 'y) azm_svc_scheme \<Rightarrow> ('db, 'v, 'model, 'z) bdb_env_scheme \<Rightarrow> ('f, 'c) cuckoo_scheme \<Rightarrow> bool
     \<Rightarrow> derror option \<Rightarrow> derror option \<Rightarrow> Mode \<Rightarrow> remote_export \<Rightarrow> ('db, 'mc) edge
     \<Rightarrow> (derror option \<times> ('db, 'mc) edge) option" where
  "syncDirectory Z E C subFirst created encoded mode remote s =
     (case producer C mode remote (ed_file s) of (perr, msgs, flt) \<Rightarrow>
        if tx_begin (bdb_tx E) True (ed_db s) \<noteq> None \<and> channelSize < length msgs then None
        else case subscriber Z (bdb_tx E) (ed_mc s) msgs (ed_db s) of (serr, ts, db1) \<Rightarrow>
          (let s1 = s\<lparr>ed_db := db1\<rparr> in
           if perr \<noteq> None \<or> serr \<noteq> None
           then Some (if perr = None \<or> (subFirst \<and> serr \<noteq> None) then serr else perr, s1)
           else case (if Mode_Has mode Mode_Diff then sync_diff Z (bdb_tx E) C (ed_mc s) flt db1 else (None, db1)) of
               (Some e, db2) \<Rightarrow> Some (Some e, s1\<lparr>ed_db := db2\<rparr>)
             | (None, db2) \<Rightarrow> (case setWatermark E created encoded ts db2 (ed_file s) of
                   (err, file') \<Rightarrow> Some (err, s1\<lparr>ed_db := db2, ed_file := file'\<rparr>))))"

section \<open>The manifest\<close>

text \<open>The remote model service: the error of opening the stream, or its messages and how it ends.\<close>

type_synonym remote_manifest = "derror + (manifest_resp list \<times> derror option)"

fun recv_remote :: "manifest_resp list \<Rightarrow> metadata \<Rightarrow> bytes \<Rightarrow> metadata \<times> bytes" where
  "recv_remote [] md data = (md, data)"
| "recv_remote (MR_Metadata m # ms) md data = recv_remote ms m data"
| "recv_remote (MR_Body b # ms) md data = recv_remote ms md (data @ b)"
| "recv_remote (MR_Model _ # ms) md data = recv_remote ms md data"

definition sync_getManifest :: "remote_manifest \<Rightarrow> (metadata \<times> bytes) result" where
  "sync_getManifest remote = (case remote of
      Inl e \<Rightarrow> Inl e
    | Inr (msgs, Some e) \<Rightarrow> Inl e
    | Inr (msgs, None) \<Rightarrow> Inr (recv_remote msgs zero_metadata []))"

text \<open>The transaction is the one of the model service.\<close>

definition sync_setManifest ::
  "('mc, 'model, 'y) azm_svc_scheme \<Rightarrow> ('tx, 'model, 'z) Tx_scheme \<Rightarrow> 'mc \<Rightarrow> timestamp \<Rightarrow> bytes \<Rightarrow> 'tx
     \<Rightarrow> 'model result \<times> 'tx" where
  "sync_setManifest Z T mc now remoteBuf t =
     (let md = \<lparr>md_updated = Some now, md_etag = FormatUint (fnv_write fnv_offset remoteBuf)\<rparr> in
      case az_v_Metadata Z md of
        Some e \<Rightarrow> (Inl e, t)
      | None \<Rightarrow> (case az_load Z remoteBuf of
            Inl e \<Rightarrow> (Inl (DErr ''ErrInvalidArgument'' (az_Error Z e)), t)
          | Inr m \<Rightarrow> (case Update T m (setManifest Z T mc m md remoteBuf) t of
                (Some e, _, t') \<Rightarrow> (Inl e, t')
              | (None, m', t') \<Rightarrow> (Inr m', t'))))"

definition local_manifest :: "('tx, 'model, 'z) Tx_scheme \<Rightarrow> 'tx \<Rightarrow> derror option \<times> metadata" where
  "local_manifest T t = View T zero_metadata (\<lambda>t. case manifest_Get T t of
      Inr m \<Rightarrow> (None, m_md m)
    | Inl e \<Rightarrow> if status_code e = NotFound then (None, zero_metadata)
        else (Some (PlainErr ''failed to get manifest''), zero_metadata)) t"

definition syncManifest ::
  "('mc, 'model, 'y) azm_svc_scheme \<Rightarrow> ('tx, 'model, 'z) Tx_scheme \<Rightarrow> timestamp \<Rightarrow> remote_manifest \<Rightarrow> 'tx \<Rightarrow> 'mc
     \<Rightarrow> derror option \<times> 'tx \<times> 'mc" where
  "syncManifest Z T now remote t mc = (case sync_getManifest remote of
      Inl e \<Rightarrow> (Some e, t, mc)
    | Inr (remoteMD, remoteBuf) \<Rightarrow> (case local_manifest T t of
          (Some e, _) \<Rightarrow> (Some e, t, mc)
        | (None, localMD) \<Rightarrow>
            (if md_etag localMD = md_etag remoteMD then (None, t, mc)
             else case sync_setManifest Z T mc now remoteBuf t of
                 (Inl e, t') \<Rightarrow> (Some e, t', mc)
               | (Inr m, t') \<Rightarrow> (case az_update Z mc m of (err, mc') \<Rightarrow> (err, t', mc')))))"

unbundle bit_operations_syntax

definition Sync_Run ::
  "('mc, 'model, 'y) azm_svc_scheme \<Rightarrow> ('db, 'v, 'model, 'z) bdb_env_scheme \<Rightarrow> ('f, 'c) cuckoo_scheme \<Rightarrow> bool
     \<Rightarrow> derror option \<Rightarrow> derror option \<Rightarrow> timestamp \<Rightarrow> Mode \<Rightarrow> remote_manifest \<Rightarrow> remote_export \<Rightarrow> ('db, 'mc) edge
     \<Rightarrow> (derror option \<times> ('db, 'mc) edge) option" where
  "Sync_Run Z E C subFirst created encoded now mode remoteM remoteX s =
     (case (if Mode_Has mode Mode_Manifest
          then (case syncManifest Z (bdb_tx E) now remoteM (ed_db s) (ed_mc s) of
              (err, db, mc) \<Rightarrow> (err, s\<lparr>ed_db := db, ed_mc := mc\<rparr>))
          else (None, s)) of
        (Some e, s1) \<Rightarrow> Some (Some e, s1)
      | (None, s1) \<Rightarrow>
          (if Mode_Has mode (Mode_Full OR Mode_Diff OR Mode_Watermark)
           then syncDirectory Z E C subFirst created encoded mode remoteX s1
           else Some (None, s1)))"

definition Client_Sync ::
  "('mc, 'model, 'y) azm_svc_scheme \<Rightarrow> ('db, 'v, 'model, 'z) bdb_env_scheme \<Rightarrow> ('f, 'c) cuckoo_scheme \<Rightarrow> bool
     \<Rightarrow> derror option \<Rightarrow> derror option \<Rightarrow> timestamp \<Rightarrow> Mode list \<Rightarrow> remote_manifest \<Rightarrow> remote_export \<Rightarrow> ('db, 'mc) edge
     \<Rightarrow> (derror option \<times> ('db, 'mc) edge) option" where
  "Client_Sync Z E C subFirst created encoded now opts remoteM remoteX s =
     Sync_Run Z E C subFirst created encoded now (sync_options opts) remoteM remoteX s"

end
