(* ===== verification/SyncSpec.thy ===== *)
theory SyncSpec
  imports Datasync MemAzm MemStore
begin

text \<open>
  What a synchronisation does to the tables of the edge, for any store that keeps the contract: the
  subscriber imports the remote's messages, and the difference removes what the filter did not see.
\<close>

section \<open>The handlers are those of the importer\<close>

lemma sync_guards:
  "sync_object_guard Z mc p = Inr x \<longleftrightarrow> object_guard Z mc p = Inr x"
  "sync_relation_guard Z mc q = Inr r \<longleftrightarrow> relation_guard Z mc q = Inr r"
  by (auto simp: sync_object_guard_def object_guard_def sync_relation_guard_def relation_guard_def
      split: option.splits)

lemma sync_guard_cases:
  obtains e e' where "sync_object_guard Z mc p = Inl e" "object_guard Z mc p = Inl e'"
  | x where "sync_object_guard Z mc p = Inr x" "object_guard Z mc p = Inr x" "p = Some x"
proof (cases "sync_object_guard Z mc p")
  case (Inl e)
  then obtain e' where "object_guard Z mc p = Inl e'" using sync_guards(1) [of Z mc p] by (cases "object_guard Z mc p") auto
  with Inl that(1) show thesis by blast
next
  case (Inr x)
  then have "object_guard Z mc p = Inr x" by (simp add: sync_guards)
  with Inr guard_request(1) [OF this] that(2) show thesis by blast
qed

lemma sync_rguard_cases:
  obtains e e' where "sync_relation_guard Z mc p = Inl e" "relation_guard Z mc p = Inl e'"
  | r where "sync_relation_guard Z mc p = Inr r" "relation_guard Z mc p = Inr r" "p = Some r"
proof (cases "sync_relation_guard Z mc p")
  case (Inl e)
  then obtain e' where "relation_guard Z mc p = Inl e'" using sync_guards(2) [of Z mc p] by (cases "relation_guard Z mc p") auto
  with Inl that(1) show thesis by blast
next
  case (Inr r)
  then have "relation_guard Z mc p = Inr r" by (simp add: sync_guards)
  with Inr guard_request(2) [OF this] that(2) show thesis by blast
qed

lemma sync_objectSetHandler_import:
  "snd (sync_objectSetHandler Z T mc now p t) = snd (objectSetHandler Z T mc now p t)"
  by (rule sync_guard_cases [of Z mc p]) (simp_all add: sync_objectSetHandler_def objectSetHandler_def)

lemma sync_relationSetHandler_import:
  "snd (sync_relationSetHandler Z T mc now p t) = snd (relationSetHandler Z T mc now p t)"
  by (rule sync_rguard_cases [of Z mc p]) (simp_all add: sync_relationSetHandler_def relationSetHandler_def)

lemma sub_handle_state:
  "snd (sub_handle Z T mc m s) =
     snd (snd (snd (handleImportRequest Z T mc (fst m) (restore_req (snd m)) ctr (snd s))))"
proof (cases "snd m")
  case (EX_Object p)
  then show ?thesis using sync_objectSetHandler_import [of Z T mc "fst m" p "snd s"]
    by (auto simp: sub_handle_def handleImportRequest_def restore_req_def Let_def split: prod.split option.split)
next
  case (EX_Relation p)
  then show ?thesis using sync_relationSetHandler_import [of Z T mc "fst m" p "snd s"]
    by (auto simp: sub_handle_def handleImportRequest_def restore_req_def Let_def split: prod.split option.split)
qed (simp add: sub_handle_def handleImportRequest_def restore_req_def)

section \<open>The time of a run\<close>

lemma sync_objectSetHandler_updated:
  "sync_objectSetHandler Z T mc now p t = (None, p', t') \<Longrightarrow> o_updated (obj0 p') = Some now"
  by (rule sync_guard_cases [of Z mc p])
    (auto simp: sync_objectSetHandler_def UpdateMetadataObject_def obj0_def Let_def
      split: sum.splits if_splits prod.splits option.splits)

lemma sync_relationSetHandler_updated:
  "sync_relationSetHandler Z T mc now p t = (None, p', t') \<Longrightarrow> r_updated (rel0 p') = Some now"
  by (rule sync_rguard_cases [of Z mc p])
    (auto simp: sync_relationSetHandler_def UpdateMetadataRelation_def rel0_def Let_def
      split: sum.splits if_splits prod.splits option.splits)

lemma sub_handle_ts: "fst (sub_handle Z T mc m s) \<in> {fst s, maxTS (fst s) (Some (fst m))}"
  by (auto simp: sub_handle_def split: export_resp.split prod.split option.split
      dest: sync_objectSetHandler_updated sync_relationSetHandler_updated)

lemma sub_fold_ts:
  "fst (fold (sub_handle Z T mc) msgs s) \<in> insert (fst s) (Some ` fst ` set msgs)"
proof (induction msgs arbitrary: s)
  case (Cons m msgs)
  have "fst (sub_handle Z T mc m s) \<in> {fst s, Some (fst m)}"
    using sub_handle_ts [of Z T mc m s] maxTS_in [of "fst s" "Some (fst m)"] by auto
  with Cons.IH [of "sub_handle Z T mc m s"] show ?case by auto
qed simp

section \<open>The tables\<close>

definition sync_spec ::
  "('mc, 'model, 'y) azm_svc_scheme \<Rightarrow> 'mc \<Rightarrow> sync_msg list \<Rightarrow> tables \<Rightarrow> tables" where
  "sync_spec Z mc msgs tb = fold (\<lambda>m. import_spec Z mc (fst m) (restore_req (snd m))) msgs tb"

text \<open>What the difference leaves: what the filter saw, and what the handlers refuse to delete.\<close>

definition diff_spec ::
  "('mc, 'model, 'y) azm_svc_scheme \<Rightarrow> ('f, 'c) cuckoo_scheme \<Rightarrow> 'mc \<Rightarrow> 'f \<Rightarrow> tables \<Rightarrow> tables" where
  "diff_spec Z C mc f tb =
     (\<lambda>k. case fst tb k of None \<Rightarrow> None | Some x \<Rightarrow>
        if \<not> cf_Lookup C f (getObjectKey (Some x)) \<and> sync_object_guard Z mc (Some x) = Inr x then None else Some x,
      \<lambda>i. case snd tb i of None \<Rightarrow> None | Some r \<Rightarrow>
        if \<not> cf_Lookup C f (getRelationKey (Some r)) \<and> sync_relation_guard Z mc (Some r) = Inr r then None else Some r)"

lemma remove_stale:
  assumes "\<And>k x. m k = Some x \<longleftrightarrow> x \<in> set xs \<and> key x = k"
  shows "(\<lambda>k. if \<exists>x \<in> set (filter P xs). key x = k \<and> Q x then None else m k) =
    (\<lambda>k. case m k of None \<Rightarrow> None | Some x \<Rightarrow> if P x \<and> Q x then None else Some x)"
proof
  fix k
  have "(\<exists>x \<in> set (filter P xs). key x = k \<and> Q x) \<longleftrightarrow> (\<exists>x. m k = Some x \<and> P x \<and> Q x)"
    unfolding assms by auto
  then show "(if \<exists>x \<in> set (filter P xs). key x = k \<and> Q x then None else m k) =
      (case m k of None \<Rightarrow> None | Some x \<Rightarrow> if P x \<and> Q x then None else Some x)"
    by (cases "m k") simp_all
qed

context tx_store
begin

lemma sub_fold_post:
  assumes "inv (snd s)"
    and "\<forall>m \<in> set msgs. import_ok Z mc (\<lambda>x. \<forall>t. inv t \<longrightarrow> okO t x) (\<lambda>r. \<forall>t. inv t \<longrightarrow> okR t r) (restore_req (snd m))"
  shows "inv (snd (fold (sub_handle Z T mc) msgs s)) \<and> rest (snd (fold (sub_handle Z T mc) msgs s)) = rest (snd s) \<and>
    tables_of (snd (fold (sub_handle Z T mc) msgs s)) = sync_spec Z mc msgs (tables_of (snd s))"
  using assms
proof (induction msgs arbitrary: s)
  case Nil
  then show ?case by (simp add: sync_spec_def)
next
  case (Cons m msgs)
  obtain e req ctr t1 where h: "handleImportRequest Z T mc (fst m) (restore_req (snd m)) zero_counters (snd s) = (e, req, ctr, t1)"
    by (metis surj_pair)
  have t1: "snd (sub_handle Z T mc m s) = t1" using sub_handle_state [of Z T mc m s zero_counters] h by simp
  have "import_ok Z mc (\<lambda>x. \<forall>t. inv t \<longrightarrow> okO t x) (\<lambda>r. \<forall>t. inv t \<longrightarrow> okR t r) (restore_req (snd m))"
    using Cons.prems(2) by simp
  note 1 = handleImportRequest_post [OF Cons.prems(1) this h]
  from Cons.IH [of "sub_handle Z T mc m s"] Cons.prems(2) 1 t1 show ?case by (simp add: sync_spec_def)
qed

lemma subscriber_post:
  assumes "inv t" "subscriber Z T mc msgs t = (None, ts, t')"
    and "\<forall>m \<in> set msgs. import_ok Z mc (\<lambda>x. \<forall>t. inv t \<longrightarrow> okO t x) (\<lambda>r. \<forall>t. inv t \<longrightarrow> okR t r) (restore_req (snd m))"
  shows "inv t' \<and> rest t' = rest t \<and> tables_of t' = sync_spec Z mc msgs (tables_of t)"
proof -
  have "snd (fold (sub_handle Z T mc) msgs (Some zero_ts, t)) = t'"
    using Update_cases [OF assms(2) [unfolded subscriber_def Batch_def]] by (auto split: prod.splits)
  with sub_fold_post [of "(Some zero_ts, t)" msgs Z mc] assms(1,3) show ?thesis by simp
qed

lemma object_deletes:
  assumes "inv t" "\<forall>x \<in> set xs. wf_oid (object_ident x)"
  shows "\<exists>t'. fold (\<lambda>obj t. snd (sync_objectDeleteHandler Z T mc obj t)) (map Some xs) t = t' \<and> inv t' \<and>
    rest t' = rest t \<and> rels t' = rels t \<and>
    objs t' = (\<lambda>k. if \<exists>x \<in> set xs. object_ident x = k \<and> sync_object_guard Z mc (Some x) = Inr x then None else objs t k)"
  using assms
proof (induction xs arbitrary: t)
  case Nil
  then show ?case by simp
next
  case (Cons x xs)
  let ?t = "snd (sync_objectDeleteHandler Z T mc (Some x) t)"
  have 1: "inv ?t \<and> rest ?t = rest t \<and> rels ?t = rels t \<and>
      objs ?t = (if sync_object_guard Z mc (Some x) = Inr x then (objs t)(object_ident x := None) else objs t)"
  proof (rule sync_guard_cases [of Z mc "Some x"])
    fix y assume y: "sync_object_guard Z mc (Some x) = Inr y" "Some x = Some y"
    obtain t1 where "tx_DeleteObject T t (o_type x) (o_id x) = (None, t1)" "inv t1"
      "objs t1 = (objs t)(object_ident x := None)" "rels t1 = rels t" "rest t1 = rest t"
      using DeleteObject_post [OF Cons.prems(1), of "o_type x" "o_id x"] Cons.prems(2) by (auto simp: object_ident_def)
    with y show ?thesis by (simp add: sync_objectDeleteHandler_def)
  qed (use Cons.prems(1) in \<open>simp add: sync_objectDeleteHandler_def\<close>)
  from Cons.IH [of ?t] 1 Cons.prems(2) show ?case by (auto simp: fun_eq_iff)
qed

lemma relation_deletes:
  assumes "inv t" "\<forall>r \<in> set rs. wf_rid (ident_of r)"
  shows "\<exists>t'. fold (\<lambda>rel t. snd (sync_relationDeleteHandler Z T mc rel t)) (map Some rs) t = t' \<and> inv t' \<and>
    rest t' = rest t \<and> objs t' = objs t \<and>
    rels t' = (\<lambda>i. if \<exists>r \<in> set rs. ident_of r = i \<and> sync_relation_guard Z mc (Some r) = Inr r then None else rels t i)"
  using assms
proof (induction rs arbitrary: t)
  case Nil
  then show ?case by simp
next
  case (Cons r rs)
  let ?t = "snd (sync_relationDeleteHandler Z T mc (Some r) t)"
  have 1: "inv ?t \<and> rest ?t = rest t \<and> objs ?t = objs t \<and>
      rels ?t = (if sync_relation_guard Z mc (Some r) = Inr r then (rels t)(ident_of r := None) else rels t)"
  proof (rule sync_rguard_cases [of Z mc "Some r"])
    fix y assume y: "sync_relation_guard Z mc (Some r) = Inr y" "Some r = Some y"
    obtain t1 where "tx_DeleteRelation T t (ident_of r) = (None, t1)" "inv t1"
      "rels t1 = (rels t)(ident_of r := None)" "objs t1 = objs t" "rest t1 = rest t"
      using DeleteRelation_post [OF Cons.prems(1), of "ident_of r"] Cons.prems(2) by auto
    with y show ?thesis by (simp add: sync_relationDeleteHandler_def)
  qed (use Cons.prems(1) in \<open>simp add: sync_relationDeleteHandler_def\<close>)
  from Cons.IH [of ?t] 1 Cons.prems(2) show ?case by (auto simp: fun_eq_iff)
qed

lemma diffObjects_post:
  assumes "inv t"
  shows "\<exists>t'. diffObjects Z T C mc f t = (None, t') \<and> inv t' \<and> rest t' = rest t \<and>
    tables_of t' = (fst (diff_spec Z C mc f (tables_of t)), rels t)"
proof -
  obtain xs where xs: "map fst (orows t []) = map Some xs" "distinct (map object_ident xs)"
    "\<And>k x. objs t k = Some x \<longleftrightarrow> x \<in> set xs \<and> object_ident x = k"
    using exported_objects [OF assms] by blast
  let ?stale = "filter (\<lambda>x. \<not> cf_Lookup C f (getObjectKey (Some x))) xs"
  have wf: "\<forall>x \<in> set ?stale. wf_oid (object_ident x)" using xs(3) objs_wf [OF assms] by auto
  have "filter (\<lambda>obj. \<not> cf_Lookup C f (getObjectKey obj)) (map fst (orows t [])) = map Some ?stale"
    by (simp add: xs(1) filter_map comp_def)
  moreover have "(\<lambda>k. if \<exists>x \<in> set ?stale. object_ident x = k \<and> sync_object_guard Z mc (Some x) = Inr x then None else objs t k)
      = fst (diff_spec Z C mc f (tables_of t))"
    by (simp only: remove_stale [OF xs(3)] diff_spec_def fst_conv snd_conv)
  ultimately show ?thesis
    using object_deletes [OF assms wf, of Z mc] by (simp add: diffObjects_def ScanObjects_start [OF assms])
qed

lemma diffRelations_post:
  assumes "inv t"
  shows "\<exists>t'. diffRelations Z T C mc f t = (None, t') \<and> inv t' \<and> rest t' = rest t \<and>
    tables_of t' = (objs t, snd (diff_spec Z C mc f (tables_of t)))"
proof -
  obtain rs where rs: "map fst (rrows t ByObject empty_filter) = map Some rs" "distinct (map ident_of rs)"
    "\<And>i r. rels t i = Some r \<longleftrightarrow> r \<in> set rs \<and> ident_of r = i"
    using exported_relations [OF assms] by blast
  let ?stale = "filter (\<lambda>r. \<not> cf_Lookup C f (getRelationKey (Some r))) rs"
  have wf: "\<forall>r \<in> set ?stale. wf_rid (ident_of r)" using rs(3) rels_wf [OF assms] by auto
  have "filter (\<lambda>rel. \<not> cf_Lookup C f (getRelationKey rel)) (map fst (rrows t ByObject empty_filter)) = map Some ?stale"
    by (simp add: rs(1) filter_map comp_def)
  moreover have "(\<lambda>i. if \<exists>r \<in> set ?stale. ident_of r = i \<and> sync_relation_guard Z mc (Some r) = Inr r then None else rels t i)
      = snd (diff_spec Z C mc f (tables_of t))"
    by (simp only: remove_stale [OF rs(3)] diff_spec_def fst_conv snd_conv)
  ultimately show ?thesis
    using relation_deletes [OF assms wf, of Z mc] by (simp add: diffRelations_def ScanRelations_start [OF assms])
qed

lemma sync_diff_post:
  assumes "inv t" "sync_diff Z T C mc (Some f) t = (None, t')"
  shows "inv t' \<and> rest t' = rest t \<and> tables_of t' = diff_spec Z C mc f (tables_of t)"
proof -
  obtain t1 where 1: "diffObjects Z T C mc f t = (None, t1)" "inv t1" "rest t1 = rest t"
    "tables_of t1 = (fst (diff_spec Z C mc f (tables_of t)), rels t)"
    using diffObjects_post [OF assms(1), of Z C mc f] by (elim exE conjE)
  obtain t2 where 2: "diffRelations Z T C mc f t1 = (None, t2)" "inv t2" "rest t2 = rest t1"
    "tables_of t2 = (objs t1, snd (diff_spec Z C mc f (tables_of t1)))"
    using diffRelations_post [OF 1(2), of Z C mc f] by (elim exE conjE)
  have "t' = t2"
    using assms(2) 1(1) 2(1) by (auto simp: sync_diff_def Batch_def Update_def split: option.splits prod.splits)
  with 1 2 show ?thesis by (simp add: diff_spec_def)
qed

end

section \<open>The filter\<close>

definition msg_key :: "export_resp \<Rightarrow> bytes" where
  "msg_key m = (case m of EX_Object p \<Rightarrow> getObjectKey p | EX_Relation p \<Rightarrow> getRelationKey p | EX_Stats _ \<Rightarrow> [])"

text \<open>Every insertion of the run succeeds.\<close>

fun inserts_ok :: "('f, 'z) cuckoo_scheme \<Rightarrow> export_resp list \<Rightarrow> 'f \<Rightarrow> bool" where
  "inserts_ok C [] f \<longleftrightarrow> True"
| "inserts_ok C (m # ms) f \<longleftrightarrow> (is_data m \<longrightarrow> fst (cf_Insert C f (msg_key m))) \<and> inserts_ok C ms (filter_insert C m f)"

context cuckoo_filter
begin

lemma filter_insert_keeps:
  "is_data m \<longrightarrow> fst (cf_Insert C f (msg_key m)) \<Longrightarrow> cf_Lookup C f k \<Longrightarrow> cf_Lookup C (filter_insert C m f) k"
  using insert_keeps [of f "msg_key m"] by (cases m) (auto simp: msg_key_def prod_eq_iff)

lemma inserts_keep: "inserts_ok C ms f \<Longrightarrow> cf_Lookup C f k \<Longrightarrow> cf_Lookup C (fold (filter_insert C) ms f) k"
proof (induction ms arbitrary: f)
  case (Cons m ms)
  then show ?case using filter_insert_keeps [of m f k] by simp
qed simp

lemma inserts_lookup:
  "inserts_ok C ms f \<Longrightarrow> m \<in> set ms \<Longrightarrow> is_data m \<Longrightarrow> cf_Lookup C (fold (filter_insert C) ms f) (msg_key m)"
proof (induction ms arbitrary: f)
  case (Cons a ms)
  show ?case
  proof (cases "m = a")
    case True
    with Cons.prems have "cf_Insert C f (msg_key a) = (True, filter_insert C a f)"
      by (cases a) (auto simp: msg_key_def prod_eq_iff)
    with True Cons.prems(1) insert_lookup inserts_keep [of ms "filter_insert C a f" "msg_key a"] show ?thesis by simp
  next
    case False
    with Cons show ?thesis by simp
  qed
qed simp

end

text \<open>A filter of bounded capacity that keeps its keys: an insertion into a full one fails.\<close>

definition list_filter :: "(nat \<times> bytes list) cuckoo" where
  "list_filter = \<lparr>cf_NewFilter = (\<lambda>n. (unat n, [])),
     cf_Insert = (\<lambda>(n, ks) k. if length ks < n then (True, n, k # ks) else (False, n, ks)),
     cf_Lookup = (\<lambda>(n, ks) k. k \<in> set ks)\<rparr>"

interpretation list_filter: cuckoo_filter list_filter
  by unfold_locales (auto simp: list_filter_def split: if_splits)

end
