(* ===== verification/SyncLemmas.thy ===== *)
theory SyncLemmas
  imports SyncSpec
begin

text \<open>
  Consequences of the specification of a synchronisation: which identifiers the edge has afterwards, what
  the stages of \<open>syncDirectory\<close> were when it succeeded, and what \<open>syncManifest\<close> stores.
\<close>

section \<open>Identifiers\<close>

definition sync_ok :: "('mc, 'model, 'y) azm_svc_scheme \<Rightarrow> 'mc \<Rightarrow> export_resp \<Rightarrow> bool" where
  "sync_ok Z mc m \<longleftrightarrow> (case m of
      EX_Object p \<Rightarrow> \<exists>x. p = Some x \<and> object_guard Z mc p = Inr x \<and> az_hash_obj Z x \<noteq> []
    | EX_Relation p \<Rightarrow> \<exists>r. p = Some r \<and> relation_guard Z mc p = Inr r \<and> az_hash_rel Z (ident_of r) \<noteq> []
    | EX_Stats _ \<Rightarrow> True)"

definition sent_objects :: "export_resp set \<Rightarrow> obj_id set" where
  "sent_objects ms = {object_ident x | x. EX_Object (Some x) \<in> ms}"

definition sent_relations :: "export_resp set \<Rightarrow> rel_ident set" where
  "sent_relations ms = {ident_of r | r. EX_Relation (Some r) \<in> ms}"

lemma sent_insert [simp]:
  "sent_objects (insert (EX_Object (Some x)) ms) = insert (object_ident x) (sent_objects ms)"
  "sent_objects (insert (EX_Relation q) ms) = sent_objects ms" "sent_objects (insert (EX_Stats st) ms) = sent_objects ms"
  "sent_relations (insert (EX_Relation (Some r)) ms) = insert (ident_of r) (sent_relations ms)"
  "sent_relations (insert (EX_Object p) ms) = sent_relations ms" "sent_relations (insert (EX_Stats st) ms) = sent_relations ms"
  "sent_objects {} = {}" "sent_relations {} = {}"
  by (auto simp: sent_objects_def sent_relations_def)

lemma put_object_dom: "h \<noteq> [] \<Longrightarrow> dom (put_object now h x O') = insert (object_ident x) (dom O')"
  by (cases "O' (object_ident x)") (auto simp: put_object_def stamp_object_etag Let_def)

lemma put_relation_dom: "h \<noteq> [] \<Longrightarrow> dom (put_relation now h r R) = insert (ident_of r) (dom R)"
  by (cases "R (ident_of r)") (auto simp: put_relation_def stamp_relation_etag Let_def)

lemma import_spec_dom:
  assumes "sync_ok Z mc m"
  shows "dom (fst (import_spec Z mc now (restore_req m) tb)) = dom (fst tb) \<union> sent_objects {m} \<and>
    dom (snd (import_spec Z mc now (restore_req m) tb)) = dom (snd tb) \<union> sent_relations {m}"
proof (cases m)
  case (EX_Object p)
  with assms obtain x where x: "p = Some x" "object_guard Z mc (Some x) = Inr x" "az_hash_obj Z x \<noteq> []"
    by (auto simp: sync_ok_def)
  then show ?thesis by (simp add: EX_Object import_spec_def restore_req_def put_object_dom)
next
  case (EX_Relation p)
  with assms obtain r where r: "p = Some r" "relation_guard Z mc (Some r) = Inr r" "az_hash_rel Z (ident_of r) \<noteq> []"
    by (auto simp: sync_ok_def)
  then show ?thesis by (simp add: EX_Relation import_spec_def restore_req_def put_relation_dom)
qed (simp add: import_spec_def restore_req_def)

lemma sent_Un: "sent_objects (A \<union> B) = sent_objects A \<union> sent_objects B" "sent_relations (A \<union> B) = sent_relations A \<union> sent_relations B"
  by (auto simp: sent_objects_def sent_relations_def)

lemma sent_image:
  "sent_objects ((\<lambda>x. EX_Object (Some (f x))) ` A) = (\<lambda>x. object_ident (f x)) ` A"
  "sent_relations ((\<lambda>x. EX_Object (Some (f x))) ` A) = {}"
  "sent_objects ((\<lambda>r. EX_Relation (Some r)) ` B) = {}" "sent_relations ((\<lambda>r. EX_Relation (Some r)) ` B) = ident_of ` B"
  by (simp_all add: sent_objects_def sent_relations_def image_iff set_eq_iff) blast+

lemma sync_spec_dom:
  assumes "\<forall>m \<in> set msgs. sync_ok Z mc (snd m)"
  shows "dom (fst (sync_spec Z mc msgs tb)) = dom (fst tb) \<union> sent_objects (snd ` set msgs) \<and>
    dom (snd (sync_spec Z mc msgs tb)) = dom (snd tb) \<union> sent_relations (snd ` set msgs)"
  using assms
proof (induction msgs arbitrary: tb)
  case (Cons m msgs)
  have u: "snd ` set (m # msgs) = {snd m} \<union> snd ` set msgs" by simp
  let ?tb = "import_spec Z mc (fst m) (restore_req (snd m)) tb"
  have step: "sync_spec Z mc (m # msgs) tb = sync_spec Z mc msgs ?tb" by (simp add: sync_spec_def)
  have "sync_ok Z mc (snd m)" using Cons.prems by simp
  note d = import_spec_dom [OF this, of "fst m" tb]
  from Cons.IH [of ?tb] Cons.prems d show ?case unfolding step u sent_Un by (simp add: Un_assoc)
qed (simp add: sync_spec_def)

lemma keys_by_ident:
  "object_ident x = object_ident y \<Longrightarrow> getObjectKey (Some x) = getObjectKey (Some y)"
  by (simp add: getObjectKey_def obj0_def object_ident_def)

lemma rkeys_by_ident:
  assumes "ident_of r = ident_of q"
  shows "getRelationKey (Some r) = getRelationKey (Some q)"
proof -
  have "i_otype r = i_otype q" "i_oid r = i_oid q" "i_rel r = i_rel q" "i_stype r = i_stype q" "i_sid r = i_sid q"
    "i_srel r = i_srel q"
    using arg_cong [OF assms, of i_otype] arg_cong [OF assms, of i_oid] arg_cong [OF assms, of i_rel]
      arg_cong [OF assms, of i_stype] arg_cong [OF assms, of i_sid] arg_cong [OF assms, of i_srel] by simp_all
  then show ?thesis by (simp add: getRelationKey_def rel0_def Let_def)
qed

section \<open>What was exported\<close>

lemma dom_by_key: "(\<And>k x. m k = Some x \<longleftrightarrow> x \<in> set xs \<and> key x = k) \<Longrightarrow> dom m = key ` set xs"
  by (simp add: set_eq_iff domIff image_iff not_None_eq [symmetric]) (metis not_None_eq)

context tx_store
begin

lemma row_counts: "inv t \<Longrightarrow> length (orows t []) = card (dom (objs t))"
  "inv t \<Longrightarrow> length (rrows t ByObject empty_filter) = card (dom (rels t))"
proof -
  assume i: "inv t"
  obtain xs where xs: "map fst (orows t []) = map Some xs" "distinct (map object_ident xs)"
    "\<And>k x. objs t k = Some x \<longleftrightarrow> x \<in> set xs \<and> object_ident x = k"
    using exported_objects [OF i] by blast
  have "dom (objs t) = set (map object_ident xs)" using dom_by_key [OF xs(3)] by simp
  then have "card (dom (objs t)) = length xs" using distinct_card [OF xs(2)] by simp
  then show "length (orows t []) = card (dom (objs t))" using arg_cong [OF xs(1), of length] by simp
  obtain rs where rs: "map fst (rrows t ByObject empty_filter) = map Some rs" "distinct (map ident_of rs)"
    "\<And>i r. rels t i = Some r \<longleftrightarrow> r \<in> set rs \<and> ident_of r = i"
    using exported_relations [OF i] by blast
  have "dom (rels t) = set (map ident_of rs)" using dom_by_key [OF rs(3)] by simp
  then have "card (dom (rels t)) = length rs" using distinct_card [OF rs(2)] by simp
  then show "length (rrows t ByObject empty_filter) = card (dom (rels t))" using arg_cong [OF rs(1), of length] by simp
qed

lemma exported_sync:
  assumes "inv t" "accepted Z mc ok_obj ok_rel (tables_of t)"
    and "sent = map (EX_Object \<circ> PatchObjectRead) (map fst (orows t [])) @ map EX_Relation (map fst (rrows t ByObject empty_filter))"
  shows "\<forall>m \<in> set sent. is_data m \<and> sync_ok Z mc m" "sent_objects (set sent) = dom (objs t)"
    "sent_relations (set sent) = dom (rels t)"
proof -
  obtain xs where xs: "map fst (orows t []) = map Some xs" "distinct (map object_ident xs)"
    "\<And>k x. objs t k = Some x \<longleftrightarrow> x \<in> set xs \<and> object_ident x = k"
    using exported_objects [OF assms(1)] by blast
  obtain rs where rs: "map fst (rrows t ByObject empty_filter) = map Some rs" "distinct (map ident_of rs)"
    "\<And>i r. rels t i = Some r \<longleftrightarrow> r \<in> set rs \<and> ident_of r = i"
    using exported_relations [OF assms(1)] by blast
  define p where "p x = obj0 (PatchObjectRead (Some x))" for x
  have p: "PatchObjectRead (Some x) = Some (p x)" "object_ident (p x) = object_ident x" for x
    using PatchObjectRead_Some by (simp_all add: p_def)
  have sent: "set sent = (\<lambda>x. EX_Object (Some (p x))) ` set xs \<union> (\<lambda>r. EX_Relation (Some r)) ` set rs"
    unfolding assms(3) xs(1) rs(1) by (auto simp: p(1))
  have "sync_ok Z mc (EX_Object (Some (p x)))" if "x \<in> set xs" for x
    using accepted_object(1,2) [OF assms(2), of "object_ident x" x] that xs(3) by (simp add: sync_ok_def p_def)
  moreover have "sync_ok Z mc (EX_Relation (Some r))" if "r \<in> set rs" for r
    using assms(2) that rs(3) [of "ident_of r" r] by (simp add: sync_ok_def accepted_def)
  ultimately show "\<forall>m \<in> set sent. is_data m \<and> sync_ok Z mc m" unfolding sent by auto
  show "sent_objects (set sent) = dom (objs t)" unfolding sent dom_by_key [OF xs(3)] by (simp add: sent_Un sent_image p(2))
  show "sent_relations (set sent) = dom (rels t)" unfolding sent dom_by_key [OF rs(3)] by (simp add: sent_Un sent_image)
qed

end

section \<open>A difference after an import\<close>

text \<open>Everything that was sent passes the filter.\<close>

lemma seen_keys:
  assumes "cuckoo_filter C" "inserts_ok C sent f0" "\<forall>m \<in> set sent. is_data m"
  shows "object_ident x \<in> sent_objects (set sent) \<Longrightarrow> cf_Lookup C (fold (filter_insert C) sent f0) (getObjectKey (Some x))"
    "ident_of r \<in> sent_relations (set sent) \<Longrightarrow> cf_Lookup C (fold (filter_insert C) sent f0) (getRelationKey (Some r))"
proof -
  note seen = cuckoo_filter.inserts_lookup [OF assms(1,2)]
  {
    assume "object_ident x \<in> sent_objects (set sent)"
    then obtain y where y: "EX_Object (Some y) \<in> set sent" "object_ident x = object_ident y"
      by (auto simp: sent_objects_def)
    with seen [OF y(1)] keys_by_ident [OF y(2)]
    show "cf_Lookup C (fold (filter_insert C) sent f0) (getObjectKey (Some x))" by (simp add: msg_key_def)
  }
  {
    assume "ident_of r \<in> sent_relations (set sent)"
    then obtain q where q: "EX_Relation (Some q) \<in> set sent" "ident_of r = ident_of q"
      by (auto simp: sent_relations_def)
    with seen [OF q(1)] rkeys_by_ident [OF q(2)]
    show "cf_Lookup C (fold (filter_insert C) sent f0) (getRelationKey (Some r))" by (simp add: msg_key_def)
  }
qed

context tx_store
begin

lemma diff_keeps_seen:
  assumes "inv t" "sync_diff Z T C mc (Some f) t = (None, t')" "A \<subseteq> dom (objs t)" "B \<subseteq> dom (rels t)"
    and "\<And>x. object_ident x \<in> A \<Longrightarrow> cf_Lookup C f (getObjectKey (Some x))"
    and "\<And>r. ident_of r \<in> B \<Longrightarrow> cf_Lookup C f (getRelationKey (Some r))"
  shows "inv t' \<and> A \<subseteq> dom (objs t') \<and> B \<subseteq> dom (rels t') \<and>
    (\<forall>k x. objs t' k = Some x \<longrightarrow> cf_Lookup C f (getObjectKey (Some x)) \<or> sync_object_guard Z mc (Some x) \<noteq> Inr x) \<and>
    (\<forall>i r. rels t' i = Some r \<longrightarrow> cf_Lookup C f (getRelationKey (Some r)) \<or> sync_relation_guard Z mc (Some r) \<noteq> Inr r)"
proof -
  from sync_diff_post [OF assms(1,2)] have i: "inv t'" and tb: "tables_of t' = diff_spec Z C mc f (tables_of t)" by auto
  have objs: "objs t' k = (case objs t k of None \<Rightarrow> None | Some x \<Rightarrow>
      if \<not> cf_Lookup C f (getObjectKey (Some x)) \<and> sync_object_guard Z mc (Some x) = Inr x then None else Some x)" for k
    using arg_cong [OF tb, of fst] by (simp add: diff_spec_def)
  have rels: "rels t' i = (case rels t i of None \<Rightarrow> None | Some r \<Rightarrow>
      if \<not> cf_Lookup C f (getRelationKey (Some r)) \<and> sync_relation_guard Z mc (Some r) = Inr r then None else Some r)" for i
    using arg_cong [OF tb, of snd] by (simp add: diff_spec_def)
  have "k \<in> dom (objs t')" if k: "k \<in> A" for k
  proof -
    obtain x where x: "objs t k = Some x" using k assms(3) by blast
    with objs_wf [OF assms(1) x] k assms(5) [of x] show ?thesis by (simp add: domIff objs)
  qed
  moreover have "i \<in> dom (rels t')" if i: "i \<in> B" for i
  proof -
    obtain r where r: "rels t i = Some r" using i assms(4) by blast
    with rels_wf [OF assms(1) r] i assms(6) [of r] show ?thesis by (simp add: domIff rels)
  qed
  ultimately show ?thesis using i by (auto simp: objs rels split: option.splits if_splits)
qed

end

section \<open>The stages of a successful run\<close>

definition run_filter :: "('f, 'z) cuckoo_scheme \<Rightarrow> watermark option \<Rightarrow> export_resp list \<Rightarrow> 'f" where
  "run_filter C file ms = fold (filter_insert C) ms (cf_NewFilter C (getFilterSize (getWatermark file)))"

lemma syncDirectory_stages:
  assumes "syncDirectory Z E C subFirst created encoded mode (\<lambda>_. Inr (msgs, merr)) s = Some (None, s')"
  obtains ts db1 where "merr = None"
    "subscriber Z (bdb_tx E) (ed_mc s) (filter (is_data \<circ> snd) msgs) (ed_db s) = (None, ts, db1)"
    "if Mode_Has mode Mode_Diff then sync_diff Z (bdb_tx E) C (ed_mc s) (Some (run_filter C (ed_file s) (map snd msgs))) db1
       = (None, ed_db s') else ed_db s' = db1"
    "setWatermark E created encoded ts (ed_db s') (ed_file s) = (None, ed_file s')" "ed_mc s' = ed_mc s"
proof -
  have "fold (filter_insert C \<circ> snd) msgs f = fold (filter_insert C) (map snd msgs) f" for f
    by (simp add: fold_map comp_def)
  then have p: "producer C mode (\<lambda>_. Inr (msgs, merr)) (ed_file s) = (merr, filter (is_data \<circ> snd) msgs,
      if Mode_Has mode Mode_Diff then Some (run_filter C (ed_file s) (map snd msgs)) else None)"
    by (simp add: producer_def run_filter_def Let_def)
  obtain serr ts db1 where sub: "subscriber Z (bdb_tx E) (ed_mc s) (filter (is_data \<circ> snd) msgs) (ed_db s) = (serr, ts, db1)"
    by (metis surj_pair)
  from assms have ok: "merr = None" "serr = None"
    by (auto simp: syncDirectory_def p sub Let_def split: if_splits)
  note p' = p [unfolded ok] and sub' = sub [unfolded ok]
  show thesis
  proof (rule that [OF ok(1) sub'])
    from assms [unfolded ok(1) syncDirectory_def p' prod.case sub' Let_def]
    show "if Mode_Has mode Mode_Diff then sync_diff Z (bdb_tx E) C (ed_mc s) (Some (run_filter C (ed_file s) (map snd msgs))) db1
         = (None, ed_db s') else ed_db s' = db1"
      "setWatermark E created encoded ts (ed_db s') (ed_file s) = (None, ed_file s')" "ed_mc s' = ed_mc s"
      by (auto split: if_splits prod.splits option.splits)
  qed
qed

lemma subscriber_ts:
  assumes "subscriber Z T mc msgs t = (None, ts, t')"
  shows "ts \<in> insert (Some zero_ts) (Some ` fst ` set msgs)"
proof -
  have "ts = fst (fold (sub_handle Z T mc) msgs (Some zero_ts, t))"
    using Update_cases [OF assms [unfolded subscriber_def Batch_def]] by (auto split: prod.splits)
  with sub_fold_ts [of Z T mc msgs "(Some zero_ts, t)"] show ?thesis by simp
qed

lemma bucketStats_card:
  assumes "bdb_inv E db"
  shows "bucketStats E db ObjectsPath = card (dom (bdb_objs E db))"
    "bucketStats E db RelationsObjPath = card (dom (bdb_rels E db))"
proof -
  note o = bdb_openD [OF bdb_invD(1) [OF assms]]
  have b: "bucketStats E db p = length (bolt_entries E db p)" if "p \<in> set data_paths" for p
    using bolt_engine.SetBucket_eq [OF o(1,2), of p] o(3,4) [OF that] by (simp add: bucketStats_def)
  have "length (bdb_orows E db []) = length (bolt_entries E db ObjectsPath)" by (simp add: bdb_orows_def)
  with bdb.row_counts(1) [OF assms] b [of ObjectsPath] show "bucketStats E db ObjectsPath = card (dom (bdb_objs E db))"
    by (simp add: data_paths_def)
  have "length (bdb_rrows E db ByObject empty_filter) = length (bolt_entries E db RelationsObjPath)"
    by (simp add: bdb_rrows_def scan_prefix_def writeObjFilter_def empty_filter_def directionPath_def)
  with bdb.row_counts(2) [OF assms] b [of RelationsObjPath]
  show "bucketStats E db RelationsObjPath = card (dom (bdb_rels E db))" by (simp add: data_paths_def)
qed

section \<open>The manifest\<close>

context tx_manifest
begin

lemma sync_setManifest_post:
  assumes "inv t" "sync_setManifest Z T mc now buf t = (Inr m', t')"
  shows "inv t' \<and> objs t' = objs t \<and> rels t' = rels t \<and>
    mmd (rest t') = Some \<lparr>md_updated = Some now, md_etag = FormatUint (fnv64a buf)\<rparr> \<and>
    mbody (rest t') = Some \<lparr>b_data = buf\<rparr> \<and> mmodel (rest t') = Some m'"
proof -
  let ?md = "\<lparr>md_updated = Some now, md_etag = FormatUint (fnv_write fnv_offset buf)\<rparr>"
  obtain m where "Update T m (setManifest Z T mc m ?md buf) t = (None, m', t')"
    using assms(2) by (auto simp: sync_setManifest_def Let_def split: option.splits sum.splits prod.splits)
  then have "setManifest Z T mc m ?md buf t = (None, m', t')" using Update_cases by fastforce
  from setManifest_post [OF assms(1) this] show ?thesis by (simp add: fnv64a_def)
qed

lemma local_manifest_total:
  assumes "inv t" "mmd (rest t) = Some md" "mbody (rest t) = Some b" "tx_begin T False t = None" "tx_end_view T t = None"
  shows "local_manifest T t = (None, md)"
  using assms(4,5) ManifestExists_hit [OF assms(1,2)] GetManifestMetadata_hit [OF assms(1,2)] GetManifestBody_hit [OF assms(1,3)]
  by (simp add: local_manifest_def View_def manifest_Get_def)

lemma local_manifest_hit:
  assumes "inv t" "mmd (rest t) = Some md" "mbody (rest t) = Some b" "local_manifest T t = (None, md')"
  shows "md' = md"
  using assms(4) ManifestExists_hit [OF assms(1,2)] GetManifestMetadata_hit [OF assms(1,2)] GetManifestBody_hit [OF assms(1,3)]
  by (auto simp: local_manifest_def View_def manifest_Get_def split: option.splits)

end

end
