(* ===== verification/Authn.thy ===== *)
theory Authn
  imports GoStrings
begin

text \<open>
  API-key authentication: the options of \<open>pkg/config/topaz_config.go\<close> with the defaults that validating
  the configuration fills in, and the gRPC and HTTP middleware of \<open>daemon/authentication\<close>. Method names
  and paths are ASCII, the only case \<open>ToLower\<close> covers.
\<close>

section \<open>Configuration\<close>

record auth_options =
  op_EnableAPIKey :: bool
  op_EnableAnonymous :: bool

record option_overrides =
  ov_Paths :: "string list"
  ov_Override :: auth_options

record call_options =
  co_Default :: auth_options
  co_Overrides :: "option_overrides list"

text \<open>The accounts the API keys map to are not read.\<close>

record authn_config =
  ac_APIKeys :: "string list"
  ac_Options :: call_options
  ac_Keys :: "string list"

definition ForPath :: "call_options \<Rightarrow> string \<Rightarrow> auth_options" where
  "ForPath co path =
     (case List.find (\<lambda>ov. \<exists>p \<in> set (ov_Paths ov). prefix p (ToLower path)) (co_Overrides co) of
        Some ov \<Rightarrow> ov_Override ov
      | None \<Rightarrow> co_Default co)"

definition transposeKeys :: "authn_config \<Rightarrow> authn_config" where
  "transposeKeys c = c\<lparr>ac_APIKeys := ac_APIKeys c @ filter (\<lambda>k. k \<notin> set (ac_APIKeys c)) (ac_Keys c)\<rparr>"

definition info_path :: option_overrides where
  "info_path = \<lparr>ov_Paths = [''/grpc.reflection.v1alpha.ServerReflection/ServerReflectionInfo'',
       ''/grpc.reflection.v1.ServerReflection.ServerReflectionInfo''],
     ov_Override = \<lparr>op_EnableAPIKey = False, op_EnableAnonymous = True\<rparr>\<rparr>"

definition pipe_to_dot :: "string \<Rightarrow> string" where
  "pipe_to_dot s = map (\<lambda>c. if c = CHR ''|'' then CHR ''.'' else c) s"

definition setDefaultCallsAuthz :: "call_options \<Rightarrow> call_options" where
  "setDefaultCallsAuthz co =
     (let ovs = (if co_Overrides co = [] then [info_path] else co_Overrides co)
      in co\<lparr>co_Overrides := map (\<lambda>ov. ov\<lparr>ov_Paths := map (ToLower \<circ> pipe_to_dot) (ov_Paths ov)\<rparr>) ovs\<rparr>)"

text \<open>What validation reads of the rest of the configuration.\<close>

record app_config =
  cfg_services :: "string list"
  cfg_mode_run :: bool
  cfg_instance_id :: string
  cfg_bundles :: nat
  cfg_auth :: authn_config

definition ConfigFileVersion :: int where "ConfigFileVersion = 2"

definition validateVersion :: "int \<Rightarrow> derror option" where
  "validateVersion version = (if version \<noteq> ConfigFileVersion then Some (PlainErr ''unsupported config version'') else None)"

definition config_validation :: "app_config \<Rightarrow> app_config result" where
  "config_validation c =
     (if ''authorizer'' \<in> set (cfg_services c) \<and> cfg_mode_run c \<and> cfg_instance_id c = []
      then Inl (PlainErr ''opa.instance_id not set'')
      else if ''authorizer'' \<in> set (cfg_services c) \<and> cfg_bundles c > 1
      then Inl (PlainErr ''opa.config.bundles - too many bundles'')
      else if cfg_services c = [] then Inl (PlainErr ''no api services configured'')
      else let a = (cfg_auth c)\<lparr>ac_Options := setDefaultCallsAuthz (ac_Options (cfg_auth c))\<rparr>;
               a = transposeKeys a;
               o' = ac_Options a;
               d = (if ac_APIKeys a \<noteq> [] then (co_Default o')\<lparr>op_EnableAPIKey := True\<rparr>
                    else (co_Default o')\<lparr>op_EnableAnonymous := True\<rparr>)
        in Inr (c\<lparr>cfg_auth := a\<lparr>ac_Options := o'\<lparr>co_Default := d\<rparr>\<rparr>\<rparr>))"

section \<open>Authorization headers\<close>

text \<open>
  \<open>strings.EqualFold\<close> with an ASCII string: letters match in either case, and under Unicode folding
  the long s (C5 BF) also matches \<open>s\<close> and the Kelvin sign (E2 84 AA) also matches \<open>k\<close>.
\<close>

fun EqualFold :: "string \<Rightarrow> string \<Rightarrow> bool" where
  "EqualFold [] t \<longleftrightarrow> t = []"
| "EqualFold s [] \<longleftrightarrow> s = []"
| "EqualFold (a # s) (b # t) \<longleftrightarrow>
     (if lower_char a = lower_char b then EqualFold s t
      else case s of
          a2 # s2 \<Rightarrow>
            (if a = CHR 0xC5 \<and> a2 = CHR 0xBF then lower_char b = CHR ''s'' \<and> EqualFold s2 t
             else (case s2 of
                 a3 # s3 \<Rightarrow> a = CHR 0xE2 \<and> a2 = CHR 0x84 \<and> a3 = CHR 0xAA \<and> lower_char b = CHR ''k'' \<and> EqualFold s3 t
               | [] \<Rightarrow> False))
        | [] \<Rightarrow> False)"

definition ErrAuthenticationFailed :: "string \<Rightarrow> derror" where
  "ErrAuthenticationFailed msg = DErr ''ErrAuthenticationFailed'' msg"

definition parseAuthHeader :: "string \<Rightarrow> string \<Rightarrow> string result" where
  "parseAuthHeader val expectedScheme = (case Cut CHR '' '' val of
      None \<Rightarrow> Inl (ErrAuthenticationFailed ''Bad authorization string'')
    | Some (scheme, header) \<Rightarrow>
        (if \<not> EqualFold scheme expectedScheme
         then Inl (ErrAuthenticationFailed
           (''Request unauthenticated with expected scheme, expected: '' @ expectedScheme))
         else Inr header))"

section \<open>Middleware\<close>

text \<open>The error, if the request is refused. The key of an unparsable header is the empty string.\<close>

definition authenticate :: "authn_config \<Rightarrow> string \<Rightarrow> string \<Rightarrow> derror option" where
  "authenticate cfg path authHeader =
     (let options = ForPath (ac_Options cfg) path in
      if op_EnableAnonymous options then None
      else if ac_APIKeys cfg = [] \<or> \<not> op_EnableAPIKey options then None
      else let basicAPIKey = (case parseAuthHeader authHeader ''basic'' of Inl _ \<Rightarrow> [] | Inr k \<Rightarrow> k)
        in if basicAPIKey \<in> set (ac_APIKeys cfg) then None else Some (ErrAuthenticationFailed []))"

text \<open>The interceptors and the HTTP handler: the wrapped handler runs only when authentication passes.\<close>

definition Authn_Unary :: "authn_config \<Rightarrow> string \<Rightarrow> string \<Rightarrow> ('s \<Rightarrow> derror option \<times> 'r \<times> 's) \<Rightarrow> 'r \<Rightarrow> 's
    \<Rightarrow> derror option \<times> 'r \<times> 's" where
  "Authn_Unary cfg rpc authHeader handler nil s = (case authenticate cfg rpc authHeader of
      Some e \<Rightarrow> (Some e, nil, s)
    | None \<Rightarrow> handler s)"

definition Authn_Stream :: "authn_config \<Rightarrow> string \<Rightarrow> string \<Rightarrow> ('s \<Rightarrow> derror option \<times> 's) \<Rightarrow> 's \<Rightarrow> derror option \<times> 's" where
  "Authn_Stream cfg rpc authHeader handler s = (case authenticate cfg rpc authHeader of
      Some e \<Rightarrow> (Some e, s)
    | None \<Rightarrow> handler s)"

text \<open>The HTTP handler answers 401 with the quoted text of the error, \<open>errBody\<close>.\<close>

definition Authn_Handler :: "(derror \<Rightarrow> string) \<Rightarrow> authn_config \<Rightarrow> string \<Rightarrow> string \<Rightarrow> ('s \<Rightarrow> 's) \<Rightarrow> 's \<Rightarrow> string option \<times> 's" where
  "Authn_Handler errBody cfg path authHeader next s = (case authenticate cfg path authHeader of
      Some e \<Rightarrow> (Some (errBody e), s)
    | None \<Rightarrow> (None, next s))"

datatype http_auth =
    Unauthorized string
  | Serve bool bool

text \<open>
  \<open>Serve enabled authenticated\<close>: the next handler runs, with the context's flags \<open>AuthEnabled\<close> and
  \<open>AuthenticatedUser\<close>.
\<close>

definition ConfigAuth :: "authn_config \<Rightarrow> string \<Rightarrow> string \<Rightarrow> http_auth" where
  "ConfigAuth authCfg path authHeader =
     (let options = ForPath (ac_Options authCfg) path in
      if op_EnableAnonymous options then Serve False True
      else if ac_APIKeys authCfg = [] \<or> \<not> op_EnableAPIKey options then Serve False True
      else if authHeader = [] then Serve True False
      else case parseAuthHeader authHeader ''basic'' of
          Inl _ \<Rightarrow> Unauthorized ''Invalid authorization header. expected 'basic' scheme.''
        | Inr basicAPIKey \<Rightarrow>
            (if basicAPIKey \<in> set (ac_APIKeys authCfg) then Serve True True
             else Unauthorized ''The API key is invalid.''))"

section \<open>Headers that carry a key\<close>

lemma parseAuthHeader_iff:
  "parseAuthHeader h sch = Inr k \<longleftrightarrow> (\<exists>s. h = s @ CHR '' '' # k \<and> CHR '' '' \<notin> set s \<and> EqualFold s sch)"
proof
  assume "parseAuthHeader h sch = Inr k"
  then obtain s where "Cut CHR '' '' h = Some (s, k)" "EqualFold s sch"
    by (auto simp: parseAuthHeader_def split: option.splits prod.splits if_splits)
  then show "\<exists>s. h = s @ CHR '' '' # k \<and> CHR '' '' \<notin> set s \<and> EqualFold s sch" using Cut_SomeD by blast
next
  assume "\<exists>s. h = s @ CHR '' '' # k \<and> CHR '' '' \<notin> set s \<and> EqualFold s sch"
  then show "parseAuthHeader h sch = Inr k" by (auto simp: parseAuthHeader_def Cut_append)
qed

text \<open>An override of the path that matches first decides; the options without one.\<close>

definition guarded :: "authn_config \<Rightarrow> string \<Rightarrow> bool" where
  "guarded cfg path \<longleftrightarrow> (let o' = ForPath (ac_Options cfg) path in
     \<not> op_EnableAnonymous o' \<and> op_EnableAPIKey o' \<and> ac_APIKeys cfg \<noteq> [])"

lemma authenticate_iff:
  "authenticate cfg path h = None \<longleftrightarrow> \<not> guarded cfg path \<or>
     (case parseAuthHeader h ''basic'' of Inl _ \<Rightarrow> [] | Inr k \<Rightarrow> k) \<in> set (ac_APIKeys cfg)"
  by (auto simp: authenticate_def guarded_def Let_def)

text \<open>A header that carries the key \<open>k\<close> under the scheme \<open>basic\<close>.\<close>

definition basic_header :: "string \<Rightarrow> string \<Rightarrow> bool" where
  "basic_header h k \<longleftrightarrow> (\<exists>s. h = s @ CHR '' '' # k \<and> CHR '' '' \<notin> set s \<and> EqualFold s ''basic'')"

lemma parse_basic: "parseAuthHeader h ''basic'' = Inr k \<longleftrightarrow> basic_header h k"
  by (simp add: parseAuthHeader_iff basic_header_def)

lemma authenticate_keys:
  "authenticate cfg path h = None \<longleftrightarrow> \<not> guarded cfg path \<or> (\<exists>k. basic_header h k \<and> k \<in> set (ac_APIKeys cfg)) \<or>
     [] \<in> set (ac_APIKeys cfg) \<and> (\<nexists>k. basic_header h k)"
  by (cases "parseAuthHeader h ''basic''") (auto simp: authenticate_iff parse_basic [symmetric])

lemma authenticate_refuses: "authenticate cfg path h = Some e \<Longrightarrow> e = ErrAuthenticationFailed []"
  by (auto simp: authenticate_def Let_def split: if_splits)

lemma ConfigAuth_iff:
  "ConfigAuth cfg path h = Serve en True \<longleftrightarrow>
     (if guarded cfg path then en \<and> h \<noteq> [] \<and> (\<exists>k. parseAuthHeader h ''basic'' = Inr k \<and> k \<in> set (ac_APIKeys cfg))
      else \<not> en)"
  by (auto simp: ConfigAuth_def guarded_def Let_def split: sum.split)

end
