(* ===== verification/Identity.thy ===== *)
theory Identity
  imports Reader GoStrings
begin

text \<open>
  From the identity of a request to the directory's user: \<open>daemon/authorizer/impl/jwt-resolver.go\<close>,
  \<open>daemon/directory/identity.go\<close> and \<open>daemon/authorizer/impl/identity.go\<close>. The JWT library and the
  directory's client are parameters.
\<close>

section \<open>Tokens\<close>

text \<open>The claims the code reads of a parsed token.\<close>

record jwt_token =
  jt_issuer :: "string option"
  jt_subject :: "string option"

text \<open>
  \<open>jwt.ParseString\<close> without any check, with validation of the claims only, and with a key set and
  possibly an audience; \<open>jl_Fetch\<close> is the cache of key sets by URI.
\<close>

record 'keys jwt_lib =
  jl_Parse :: "string \<Rightarrow> jwt_token result"
  jl_Validate :: "int \<Rightarrow> string \<Rightarrow> jwt_token result"
  jl_Verify :: "int \<Rightarrow> 'keys \<Rightarrow> string option \<Rightarrow> string \<Rightarrow> jwt_token result"
  jl_Fetch :: "string \<Rightarrow> 'keys result"

record jwt_resolver =
  jr_skew :: int
  jr_audience :: string
  jr_issuers :: "(string \<times> string) list"

definition token_subject :: "jwt_token result \<Rightarrow> string result" where
  "token_subject t = (case t of
      Inl e \<Rightarrow> Inl e
    | Inr v \<Rightarrow> (case jt_subject v of None \<Rightarrow> Inl (PlainErr ''no verified subject found'') | Some s \<Rightarrow> Inr s))"

definition resolveSubjectInsecure :: "('keys, 'z) jwt_lib_scheme \<Rightarrow> jwt_resolver \<Rightarrow> string \<Rightarrow> string result" where
  "resolveSubjectInsecure J r token = token_subject (jl_Validate J (jr_skew r) token)"

definition ResolveSubject :: "('keys, 'z) jwt_lib_scheme \<Rightarrow> jwt_resolver \<Rightarrow> string \<Rightarrow> string result" where
  "ResolveSubject J r token = (case jl_Parse J token of
      Inl e \<Rightarrow> Inl e
    | Inr unverified \<Rightarrow>
        (case jt_issuer unverified of
           None \<Rightarrow> Inl (PlainErr ''unverified token does not contain an issuer field'')
         | Some iss \<Rightarrow>
             (if iss = [] then Inl (PlainErr ''unverified token does not contain an issuer field'')
              else if jr_issuers r = [] then resolveSubjectInsecure J r token
              else case map_of (jr_issuers r) iss of
                  None \<Rightarrow> Inl (PlainErr (''No mapping found of issuer '' @ Quote iss @ '' to JWKS URI''))
                | Some uri \<Rightarrow> (case jl_Fetch J uri of
                      Inl e \<Rightarrow> Inl e
                    | Inr keySet \<Rightarrow> token_subject
                        (jl_Verify J (jr_skew r) keySet (if jr_audience r \<noteq> [] then Some (jr_audience r) else None) token)))))"

section \<open>Users\<close>

text \<open>
  The reader's client. \<open>dc_GetRelation\<close> returns the relation and its objects in the order in which Go
  ranges over them.
\<close>

record dir_client =
  dc_Check :: "check_req \<Rightarrow> check_resp option"
  dc_GetRelation :: "rel_req \<Rightarrow> (relation option \<times> (string \<times> object option) list) result"
  dc_RelationTypeNotFound :: string

datatype identityResolutionDirection = identityToUser | userToIdentity

definition dirUser :: string where "dirUser = ''user''"
definition dirIdentity :: string where "dirIdentity = ''identity''"
definition dirIdentifier :: string where "dirIdentifier = ''identifier''"

definition resolutionDirection :: "dir_client \<Rightarrow> identityResolutionDirection" where
  "resolutionDirection D =
     (let resp = dc_Check D (zero_check\<lparr>c_otype := dirUser, c_oid := ''topaz-user'', c_rel := dirIdentifier,
            c_stype := dirIdentity, c_sid := ''topaz-identity''\<rparr>);
          fields = (case resp of None \<Rightarrow> Map.empty | Some r \<Rightarrow> pb_fields (cr_context r))
      in case fields ''reason'' of
           Some v \<Rightarrow> (if prefix (dc_RelationTypeNotFound D) (pb_string (Some v)) then identityToUser else userToIdentity)
         | None \<Rightarrow> userToIdentity)"

definition ErrDirectoryObjectNotFound :: derror where
  "ErrDirectoryObjectNotFound = DErr ''ErrDirectoryObjectNotFound'' []"

definition resolveIdentityToUser :: "dir_client \<Rightarrow> rel_req \<Rightarrow> object option result" where
  "resolveIdentityToUser D relReq = (case dc_GetRelation D relReq of
      Inl e \<Rightarrow> (if status_code e = NotFound then Inl ErrDirectoryObjectNotFound else Inl e)
    | Inr (None, _) \<Rightarrow> Inl ErrDirectoryObjectNotFound
    | Inr (Some rel, objects) \<Rightarrow>
        (if objects = [] then Inr (Some (zero_object\<lparr>o_type := dirUser,
            o_id := (if i_otype rel = dirUser then i_oid rel else i_sid rel)\<rparr>))
         else case List.find (\<lambda>(k, v). prefix (dirUser @ '':'') k) objects of
             Some (_, v) \<Rightarrow> Inr v
           | None \<Rightarrow> Inl ErrDirectoryObjectNotFound))"

definition zero_rel_req :: rel_req where
  "zero_rel_req = \<lparr>i_otype = [], i_oid = [], i_rel = [], i_stype = [], i_sid = [], i_srel = [],
     g_with_empty = False, g_with_objects = False, g_page = None\<rparr>"

definition resolveIdentity :: "dir_client \<Rightarrow> string \<Rightarrow> object option result" where
  "resolveIdentity D identity = resolveIdentityToUser D (zero_rel_req\<lparr>i_otype := dirUser, i_rel := dirIdentifier,
     i_stype := dirIdentity, i_sid := identity, g_with_objects := True\<rparr>)"

definition resolveIdentityLegacy :: "dir_client \<Rightarrow> string \<Rightarrow> object option result" where
  "resolveIdentityLegacy D identity = resolveIdentityToUser D (zero_rel_req\<lparr>i_otype := dirIdentity, i_oid := identity,
     i_rel := dirIdentifier, i_stype := dirUser, g_with_objects := True\<rparr>)"

definition ResolveIdentity :: "dir_client \<Rightarrow> string \<Rightarrow> object option result" where
  "ResolveIdentity D identity = (case resolutionDirection D of
      identityToUser \<Rightarrow> resolveIdentityLegacy D identity
    | userToIdentity \<Rightarrow> resolveIdentity D identity)"

section \<open>Identity contexts\<close>

datatype identity_type = IT_UNKNOWN | IT_NONE | IT_SUB | IT_JWT | IT_MANUAL

record identity_ctx =
  id_type :: identity_type
  id_value :: string

fun identity_type_String :: "identity_type \<Rightarrow> string" where
  "identity_type_String IT_UNKNOWN = ''IDENTITY_TYPE_UNKNOWN''"
| "identity_type_String IT_NONE = ''IDENTITY_TYPE_NONE''"
| "identity_type_String IT_SUB = ''IDENTITY_TYPE_SUB''"
| "identity_type_String IT_JWT = ''IDENTITY_TYPE_JWT''"
| "identity_type_String IT_MANUAL = ''IDENTITY_TYPE_MANUAL''"

text \<open>
  The identity side of the authorizer: its JWT resolver, its directory client, and the conversion of
  protobuf messages to values through JSON.
\<close>

record identity_env =
  ie_ResolveSubject :: "string \<Rightarrow> string result"
  ie_dir :: dir_client
  ie_identity_any :: "identity_ctx \<Rightarrow> pbval"
  ie_object_any :: "object option \<Rightarrow> pbval"

definition subject_err :: "string \<Rightarrow> derror" where
  "subject_err msg = WrapErr msg (DErr ''ErrResolvingSubjectFromIdentityContext'' [])"

definition resolveSubjectFromIdentityContext :: "('z) identity_env_scheme \<Rightarrow> identity_ctx \<Rightarrow> string result" where
  "resolveSubjectFromIdentityContext I c =
     (if id_value c = [] then Inl (subject_err (''identity value not set (type: '' @ identity_type_String (id_type c) @ '')''))
      else case id_type c of
          IT_SUB \<Rightarrow> Inr (id_value c)
        | IT_JWT \<Rightarrow> ie_ResolveSubject I (id_value c)
        | IT_MANUAL \<Rightarrow> Inr (id_value c)
        | t \<Rightarrow> Inl (subject_err (''invalid identity type '' @ identity_type_String t)))"

definition resolveUserFromSubject :: "('z) identity_env_scheme \<Rightarrow> string \<Rightarrow> object option result" where
  "resolveUserFromSubject I subject = (case ResolveIdentity (ie_dir I) subject of
      Inl e \<Rightarrow> Inl (JoinErr [DErr ''ErrResolvingUserFromSubject'' [], e])
    | Inr obj \<Rightarrow> Inr obj)"

text \<open>The user, if there is one, and the input with what was added to it.\<close>

definition resolveIdentityContext ::
  "('z) identity_env_scheme \<Rightarrow> identity_ctx option \<Rightarrow> (string \<rightharpoonup> pbval) \<Rightarrow> object option result \<times> (string \<rightharpoonup> pbval)" where
  "resolveIdentityContext I ctx input = (case ctx of
      None \<Rightarrow> (Inl (DErr ''ErrInvalidArgument'' ''identity context not set''), input)
    | Some c \<Rightarrow>
        (if id_type c = IT_NONE then (Inr None, input)
         else let input = input(''identity'' \<mapsto> ie_identity_any I c) in
           case resolveSubjectFromIdentityContext I c of
             Inl e \<Rightarrow> (Inl e, input)
           | Inr identity \<Rightarrow>
               (if id_type c = IT_MANUAL then (Inr None, input(''user'' \<mapsto> PStruct Map.empty))
                else case resolveUserFromSubject I identity of
                    Inl e \<Rightarrow> (Inl e, input)
                  | Inr user \<Rightarrow> (Inr user, input(''user'' \<mapsto> ie_object_any I user)))))"

section \<open>Only verified tokens\<close>

lemma ResolveSubject_verified:
  assumes "ResolveSubject J r token = Inr s" "jr_issuers r \<noteq> []"
  shows "\<exists>u iss uri keys v. jl_Parse J token = Inr u \<and> jt_issuer u = Some iss \<and> (iss, uri) \<in> set (jr_issuers r) \<and>
    jl_Fetch J uri = Inr keys \<and>
    jl_Verify J (jr_skew r) keys (if jr_audience r \<noteq> [] then Some (jr_audience r) else None) token = Inr v \<and>
    jt_subject v = Some s"
  using assms
  by (auto simp: ResolveSubject_def token_subject_def split: sum.splits option.splits if_splits dest: map_of_SomeD)

end
