(* ===== verification/Bundles.thy ===== *)
theory Bundles
  imports Messages GoStrings Hash "HOL-Library.Sublist"
begin

text \<open>
  The policies a runtime has loaded: \<open>internal/runtime/bundles.go\<close>, with the query entry points of
  \<open>internal/runtime/query.go\<close>. The OPA engine is the parameter \<open>rego_rt\<close>: what its store lists and
  returns, and what parsing a module or a query and preparing and evaluating a query yield. Values of the
  policy language are \<open>pbval\<close>s.
\<close>

section \<open>The engine\<close>

record rego_module =
  rm_Package :: string
  rm_Rules :: "string list"

record ('body, 'q) rego_rt =
  rg_ListPolicies :: "string list result"
  rg_GetPolicy :: "string \<Rightarrow> string result"
  rg_ParseModule :: "string \<Rightarrow> rego_module result"
  rg_ParseBody :: "string \<Rightarrow> 'body result"
  rg_ParseRef :: "string \<Rightarrow> string list result"
  rg_GetRules :: "string list \<Rightarrow> nat"
  rg_NewTransaction :: "derror option"
  rg_execQuery :: "'body \<Rightarrow> (string \<rightharpoonup> pbval) list result"
  rg_Prepare :: "'body \<Rightarrow> 'q result"
  rg_Eval :: "'q \<Rightarrow> (string \<rightharpoonup> pbval) \<Rightarrow> (string \<rightharpoonup> pbval) list result"
  rg_NewStruct :: "(string \<rightharpoonup> pbval) \<Rightarrow> pbstruct result"
  rg_uuid :: "string \<Rightarrow> bool"
  rg_cancelled :: "derror \<Rightarrow> bool"
  rg_opa :: bool
  rg_manager :: bool
  rg_PolicyRoot :: string

text \<open>
  \<open>rm_Package\<close> is the path of the package as the engine prints it, \<open>rm_Rules\<close> the heads of its rules in
  order; \<open>rg_GetRules\<close> is the number of rules the compiler has for a reference; \<open>rg_uuid\<close> tells whether a
  string parses as a UUID, \<open>rg_cancelled\<close> whether the text of an error contains the engine's cancellation
  code. \<open>rg_opa\<close> and \<open>rg_manager\<close> say that the engine and its plugin manager are set;
  \<open>rg_PolicyRoot\<close> is the configured \<open>opa.policy_root\<close>.
\<close>

definition ValidateQuery :: "('body, 'q, 'z) rego_rt_scheme \<Rightarrow> string \<Rightarrow> 'body result" where
  "ValidateQuery rt query = rg_ParseBody rt query"

definition ValidateRule :: "('body, 'q, 'z) rego_rt_scheme \<Rightarrow> string \<Rightarrow> bool \<times> derror option" where
  "ValidateRule rt rule = (case rg_ParseRef rt rule of
      Inl e \<Rightarrow> (False, Some (WrapErr ''invalid ref'' e))
    | Inr ref \<Rightarrow> (rg_GetRules rt ref > 0, None))"

definition Query :: "('body, 'q, 'z) rego_rt_scheme \<Rightarrow> string \<Rightarrow> (string \<rightharpoonup> pbval) list result" where
  "Query rt qStr = (case ValidateQuery rt qStr of
      Inl e \<Rightarrow> Inl (WrapErr ''failed to validate query'' e)
    | Inr parsedQuery \<Rightarrow> (case rg_NewTransaction rt of
          Some e \<Rightarrow> Inl (WrapErr ''failed to create new OPA store transaction'' e)
        | None \<Rightarrow> (case rg_execQuery rt parsedQuery of
              Inl e \<Rightarrow> Inl (WrapErr ''query execution failed'' e)
            | Inr results \<Rightarrow> Inr results)))"

section \<open>Identifiers\<close>

text \<open>\<open>hash/adler32\<close>.\<close>

definition adler32 :: "string \<Rightarrow> nat" where
  "adler32 v = (case fold (\<lambda>c (a, b). let a = (a + of_char c) mod 65521 in (a, (b + a) mod 65521)) v (1, 0) of
      (a, b) \<Rightarrow> b * 65536 + a)"

definition calcID :: "('body, 'q, 'z) rego_rt_scheme \<Rightarrow> string \<Rightarrow> string" where
  "calcID rt v = (if rg_uuid rt v then v else show_nat (adler32 v))"

text \<open>\<open>base64.URLEncoding\<close>: the URL alphabet, with padding. The decoder skips line breaks.\<close>

definition b64_char :: "nat \<Rightarrow> char" where
  "b64_char n = (if n < 26 then char_of (65 + n) else if n < 52 then char_of (71 + n)
     else if n < 62 then char_of (n - 4) else if n = 62 then CHR ''-'' else CHR ''_'')"

definition b64_val :: "char \<Rightarrow> nat option" where
  "b64_val c = (let n = of_char c in
     if 65 \<le> n \<and> n \<le> 90 then Some (n - 65) else if 97 \<le> n \<and> n \<le> 122 then Some (n - 71)
     else if 48 \<le> n \<and> n \<le> 57 then Some (n + 4) else if c = CHR ''-'' then Some 62
     else if c = CHR ''_'' then Some 63 else None)"

fun b64_encode :: "string \<Rightarrow> string" where
  "b64_encode [] = []"
| "b64_encode [a] = [b64_char (of_char a div 4), b64_char (of_char a mod 4 * 16), CHR ''='', CHR ''='']"
| "b64_encode [a, b] = [b64_char (of_char a div 4), b64_char (of_char a mod 4 * 16 + of_char b div 16),
     b64_char (of_char b mod 16 * 4), CHR ''='']"
| "b64_encode (a # b # c # s) = [b64_char (of_char a div 4), b64_char (of_char a mod 4 * 16 + of_char b div 16),
     b64_char (of_char b mod 16 * 4 + of_char c div 64), b64_char (of_char c mod 64)] @ b64_encode s"

fun b64_quanta :: "string \<Rightarrow> string option" where
  "b64_quanta [] = Some []"
| "b64_quanta (p # q # r # t # s) = (case (b64_val p, b64_val q) of
      (Some p, Some q) \<Rightarrow>
        (if r = CHR ''='' then (if t = CHR ''='' \<and> s = [] then Some [char_of (p * 4 + q div 16)] else None)
         else case b64_val r of
             None \<Rightarrow> None
           | Some r \<Rightarrow>
               (if t = CHR ''='' then (if s = [] then Some [char_of (p * 4 + q div 16), char_of (q mod 16 * 16 + r div 4)] else None)
                else case (b64_val t, b64_quanta s) of
                    (Some t, Some rest) \<Rightarrow>
                      Some (char_of (p * 4 + q div 16) # char_of (q mod 16 * 16 + r div 4) # char_of (r mod 4 * 64 + t) # rest)
                  | _ \<Rightarrow> None))
    | _ \<Rightarrow> None)"
| "b64_quanta _ = None"

definition b64_decode :: "string \<Rightarrow> string option" where
  "b64_decode s = b64_quanta (filter (\<lambda>c. c \<noteq> CHR 0x0A \<and> c \<noteq> CHR 0x0D) s)"

definition decID :: "string \<Rightarrow> string" where
  "decID pid = (case b64_decode pid of None \<Rightarrow> [] | Some b \<Rightarrow> b)"

definition encID :: "string \<Rightarrow> string" where
  "encID pid = b64_encode pid"

section \<open>Policies and bundles\<close>

record PolicyItem =
  pi_Name :: string
  pi_ID :: string

record Bundle =
  bu_ID :: string
  bu_Name :: string
  bu_Path :: string

record Module =
  mo_ID :: string
  mo_Name :: string
  mo_Content :: string
  mo_Rules :: "string list"

record Policy =
  po_PackageName :: string
  po_Location :: string

definition TrimPrefix :: "string \<Rightarrow> string \<Rightarrow> string" where
  "TrimPrefix s p = (if prefix p s then drop (length p) s else s)"

definition Policy_Name :: "Policy \<Rightarrow> string" where
  "Policy_Name p = (case split_on CHR ''.'' (po_PackageName p) of s # _ \<Rightarrow> s | [] \<Rightarrow> [])"

definition getPackageFromPolicyID :: "('body, 'q, 'z) rego_rt_scheme \<Rightarrow> string \<Rightarrow> string result" where
  "getPackageFromPolicyID rt policyID = (case rg_GetPolicy rt policyID of
      Inl e \<Rightarrow> Inl (WrapErr ''store.GetPolicy'' e)
    | Inr buf \<Rightarrow> (case rg_ParseModule rt buf of
          Inl e \<Rightarrow> Inl (WrapErr ''ast.ParseModule'' e)
        | Inr module \<Rightarrow> Inr (TrimPrefix (rm_Package module) ''data.'')))"

definition getRootFromPolicyID :: "('body, 'q, 'z) rego_rt_scheme \<Rightarrow> string \<Rightarrow> string result" where
  "getRootFromPolicyID rt policyID = (case getPackageFromPolicyID rt policyID of
      Inl e \<Rightarrow> Inl e
    | Inr packageName \<Rightarrow> Inr (case Cut CHR ''.'' packageName of None \<Rightarrow> packageName | Some (root, _) \<Rightarrow> root))"

definition errListPolicies :: "derror \<Rightarrow> derror" where
  "errListPolicies e = WrapErr ''error listing policies from storage'' e"

fun policy_list :: "('body, 'q, 'z) rego_rt_scheme \<Rightarrow> (string \<Rightarrow> bool) \<Rightarrow> string list \<Rightarrow> Policy list result" where
  "policy_list rt fn [] = Inr []"
| "policy_list rt fn (v # vs) = (case getPackageFromPolicyID rt v of
      Inl e \<Rightarrow> Inl e
    | Inr packageName \<Rightarrow> (case policy_list rt fn vs of
          Inl e \<Rightarrow> Inl e
        | Inr rest \<Rightarrow> Inr (if fn packageName then \<lparr>po_PackageName = packageName, po_Location = v\<rparr> # rest else rest)))"

definition GetPolicyList :: "('body, 'q, 'z) rego_rt_scheme \<Rightarrow> (string \<Rightarrow> bool) option \<Rightarrow> Policy list result" where
  "GetPolicyList rt fn = (case fn of
      None \<Rightarrow> Inl (PlainErr ''path filter is nil'')
    | Some fn \<Rightarrow> (case rg_ListPolicies rt of
          Inl e \<Rightarrow> Inl (errListPolicies e)
        | Inr policiesList \<Rightarrow> policy_list rt fn policiesList))"

text \<open>\<open>sort.Slice\<close> may leave items of equal names in either order; here they stay in the order listed.\<close>

definition GetPolicies :: "('body, 'q, 'z) rego_rt_scheme \<Rightarrow> PolicyItem list result" where
  "GetPolicies rt = (case GetPolicyList rt (Some (\<lambda>_. True)) of
      Inl e \<Rightarrow> Inl e
    | Inr policyList \<Rightarrow> Inr (sort_key pi_Name
        (map (\<lambda>policy. \<lparr>pi_Name = po_PackageName policy, pi_ID = encID (po_Location policy)\<rparr>) policyList)))"

fun collect_packages :: "('body, 'q, 'z) rego_rt_scheme \<Rightarrow> string list \<Rightarrow> string list \<Rightarrow> string list result" where
  "collect_packages rt [] packages = Inr packages"
| "collect_packages rt (pid # pids) packages = (case getPackageFromPolicyID rt pid of
      Inl e \<Rightarrow> Inl e
    | Inr pkg \<Rightarrow> collect_packages rt pids
        (if pkg \<noteq> [] \<and> pkg \<notin> set packages then packages @ [pkg] else packages))"

definition GetPolicyPackages :: "('body, 'q, 'z) rego_rt_scheme \<Rightarrow> string list result" where
  "GetPolicyPackages rt = (case rg_ListPolicies rt of
      Inl e \<Rightarrow> Inl (errListPolicies e)
    | Inr pids \<Rightarrow> (case collect_packages rt pids [] of Inl e \<Rightarrow> Inl e | Inr ps \<Rightarrow> Inr (sort ps)))"

definition PolicyRoots :: "string list \<Rightarrow> string list" where
  "PolicyRoots packages = fold (\<lambda>pkg roots.
     let root = (case Cut CHR ''.'' pkg of None \<Rightarrow> pkg | Some (root, _) \<Rightarrow> root) in
     if root \<noteq> [] \<and> root \<notin> set roots then roots @ [root] else roots) packages []"

definition GetPolicyRoots :: "('body, 'q, 'z) rego_rt_scheme \<Rightarrow> string list result" where
  "GetPolicyRoots rt = (case GetPolicyPackages rt of Inl e \<Rightarrow> Inl e | Inr packages \<Rightarrow> Inr (PolicyRoots packages))"

definition SelectPolicyRoot :: "('body, 'q, 'z) rego_rt_scheme \<Rightarrow> string list \<Rightarrow> string result" where
  "SelectPolicyRoot rt roots =
     (let configured = rg_PolicyRoot rt in
      if length roots = 0 then Inl (PlainErr ''no policy loaded'')
      else if configured \<noteq> [] then
        (if configured \<notin> set roots
         then Inl (PlainErr (''opa.policy_root '' @ Quote configured @ '' is not loaded; loaded policies are ['' @ join '', '' roots @ '']''))
         else Inr configured)
      else if length roots = 1 then Inr (hd roots)
      else Inl (PlainErr (show_nat (length roots) @ '' policies are loaded ['' @ join '', '' roots @
        ''] and the request selected none: set opa.policy_root, or select one per request'')))"

definition PDPPolicyRoot :: "('body, 'q, 'z) rego_rt_scheme \<Rightarrow> string result" where
  "PDPPolicyRoot rt = (case GetPolicyRoots rt of Inl e \<Rightarrow> Inl e | Inr roots \<Rightarrow> SelectPolicyRoot rt roots)"

fun root_for_path :: "('body, 'q, 'z) rego_rt_scheme \<Rightarrow> string \<Rightarrow> string list \<Rightarrow> string result" where
  "root_for_path rt path [] = Inr []"
| "root_for_path rt path (v # vs) =
     (if \<not> prefix (TrimPrefix path ''/'') (TrimPrefix v ''/'') then root_for_path rt path vs
      else case getRootFromPolicyID rt v of
          Inl e \<Rightarrow> Inl e
        | Inr policyRoot \<Rightarrow> (if policyRoot \<noteq> [] then Inr policyRoot else root_for_path rt path vs))"

definition GetPolicyRootForPath :: "('body, 'q, 'z) rego_rt_scheme \<Rightarrow> string \<Rightarrow> string result" where
  "GetPolicyRootForPath rt path = (case rg_ListPolicies rt of
      Inl e \<Rightarrow> Inl (errListPolicies e)
    | Inr policiesList \<Rightarrow> root_for_path rt path policiesList)"

fun bundle_list :: "('body, 'q, 'z) rego_rt_scheme \<Rightarrow> (string \<rightharpoonup> pbval) list \<Rightarrow> Bundle list result" where
  "bundle_list rt [] = Inr []"
| "bundle_list rt (rs # rss) = (case rs ''x'' of
      Some (PStr v) \<Rightarrow>
        (let path = TrimPrefix v ''./'' in
         case GetPolicyRootForPath rt path of
           Inl e \<Rightarrow> Inl (WrapErr ''get policy name'' e)
         | Inr name \<Rightarrow> (case bundle_list rt rss of
               Inl e \<Rightarrow> Inl e
             | Inr rest \<Rightarrow> Inr (\<lparr>bu_ID = calcID rt v, bu_Name = name, bu_Path = path\<rparr> # rest)))
    | _ \<Rightarrow> bundle_list rt rss)"

definition getBundles :: "('body, 'q, 'z) rego_rt_scheme \<Rightarrow> Bundle list result" where
  "getBundles rt = (case Query rt ''data.system.bundles[x]'' of
      Inl e \<Rightarrow> Inl (WrapErr ''query bundles'' e)
    | Inr queryResults \<Rightarrow> bundle_list rt queryResults)"

definition GetBundles :: "('body, 'q, 'z) rego_rt_scheme \<Rightarrow> PolicyItem list result" where
  "GetBundles rt =
     (if \<not> rg_opa rt then Inl (PlainErr ''OPA instance not initialized'')
      else if \<not> rg_manager rt then Inl (PlainErr ''plugin manager not initialized'')
      else case getBundles rt of
          Inl e \<Rightarrow> (if rg_cancelled rt e then Inr [] else Inl (WrapErr ''get bundles'' e))
        | Inr bundles \<Rightarrow> Inr (map (\<lambda>b. \<lparr>pi_Name = bu_Name b, pi_ID = bu_ID b\<rparr>) bundles))"

definition GetBundleByID :: "('body, 'q, 'z) rego_rt_scheme \<Rightarrow> string \<Rightarrow> Bundle result" where
  "GetBundleByID rt bid = (case getBundles rt of
      Inl e \<Rightarrow> Inl e
    | Inr bundles \<Rightarrow> (case find (\<lambda>v. bu_ID v = bid) bundles of
          Some v \<Rightarrow> Inr v
        | None \<Rightarrow> Inl (PlainErr (''bundle for policy id not found ['' @ bid @ '']''))))"

definition policyExists :: "('body, 'q, 'z) rego_rt_scheme \<Rightarrow> string \<Rightarrow> bool" where
  "policyExists rt pid = (case rg_GetPolicy rt pid of Inl _ \<Rightarrow> False | Inr _ \<Rightarrow> True)"

definition getModule :: "('body, 'q, 'z) rego_rt_scheme \<Rightarrow> string \<Rightarrow> Module result" where
  "getModule rt pid = (case rg_GetPolicy rt pid of
      Inl e \<Rightarrow> Inl (WrapErr ''failed to get policy'' e)
    | Inr policy \<Rightarrow> (case rg_ParseModule rt policy of
          Inl e \<Rightarrow> Inl (WrapErr ''parse module'' e)
        | Inr module \<Rightarrow> Inr \<lparr>mo_ID = encID pid, mo_Name = TrimPrefix (rm_Package module) ''data.'',
            mo_Content = policy, mo_Rules = rm_Rules module\<rparr>))"

definition GetModule :: "('body, 'q, 'z) rego_rt_scheme \<Rightarrow> string \<Rightarrow> Module result" where
  "GetModule rt pid =
     (let pid = decID pid in
      if \<not> policyExists rt pid then Inl (PlainErr (''policy not found ['' @ pid @ '']''))
      else getModule rt pid)"

section \<open>The identifiers decode to what they encode\<close>

lemma of_char_char_of: "n < 256 \<Longrightarrow> of_char (char_of n :: char) = (n :: nat)"
  by (simp add: of_char_of)

lemma b64_char_code: "of_char (b64_char n) = (if n < 26 then 65 + n else if n < 52 then 71 + n
    else if n < 62 then n - 4 else if n = 62 then 45 else 95 :: nat)"
  by (simp add: b64_char_def of_char_char_of)

lemma b64_val_char [simp]: "n < 64 \<Longrightarrow> b64_val (b64_char n) = Some n"
  by (cases "n < 62") (auto simp: b64_val_def b64_char_code Let_def, auto simp: b64_char_def split: if_splits)

lemma b64_char_plain [simp]:
  "b64_char n \<noteq> CHR ''=''" "b64_char n \<noteq> CHR 0x0A" "b64_char n \<noteq> CHR 0x0D"
proof -
  have ne: "of_char c \<noteq> (of_char d :: nat) \<Longrightarrow> c \<noteq> d" for c d :: char by auto
  show "b64_char n \<noteq> CHR ''=''" "b64_char n \<noteq> CHR 0x0A" "b64_char n \<noteq> CHR 0x0D"
    by (rule ne, simp add: b64_char_code, linarith?)+
qed

lemma b64_bytes:
  fixes a b c :: nat
  assumes "a < 256" "b < 256" "c < 256"
  shows "a div 4 < 64" "a mod 4 * 16 + b div 16 < 64" "b mod 16 * 4 + c div 64 < 64" "a mod 4 * 16 < 64" "b mod 16 * 4 < 64"
    "a div 4 * 4 + (a mod 4 * 16 + b div 16) div 16 = a"
    "(a mod 4 * 16 + b div 16) mod 16 * 16 + (b mod 16 * 4 + c div 64) div 4 = b"
    "(b mod 16 * 4 + c div 64) mod 4 * 64 + c mod 64 = c"
proof -
  have d: "a div 4 < 64" "b div 16 < 16" "c div 64 < 4" using assms by (simp_all add: less_mult_imp_div_less)
  have m: "a mod 4 < 4" "b mod 16 < 16" by simp_all
  from d show "a div 4 < 64" "a mod 4 * 16 + b div 16 < 64" "b mod 16 * 4 + c div 64 < 64" "a mod 4 * 16 < 64" "b mod 16 * 4 < 64"
    using m by linarith+
  show "a div 4 * 4 + (a mod 4 * 16 + b div 16) div 16 = a" using d by simp
  show "(a mod 4 * 16 + b div 16) mod 16 * 16 + (b mod 16 * 4 + c div 64) div 4 = b" using d by simp
  show "(b mod 16 * 4 + c div 64) mod 4 * 64 + c mod 64 = c" using d by simp
qed

lemma b64_chars:
  fixes a b c :: char
  obtains p q r t :: nat where "of_char a div 4 = p" "of_char a mod 4 * 16 + of_char b div 16 = q"
    "of_char b mod 16 * 4 + of_char c div 64 = r" "of_char c mod 64 = t"
    "b64_val (b64_char p) = Some p" "b64_val (b64_char q) = Some q" "b64_val (b64_char r) = Some r" "b64_val (b64_char t) = Some t"
    "char_of (p * 4 + q div 16) = a" "char_of (q mod 16 * 16 + r div 4) = b" "char_of (r mod 4 * 64 + t) = c"
proof (rule that)
  note B = b64_bytes [OF of_char_lt [of a] of_char_lt [of b] of_char_lt [of c]]
  show "b64_val (b64_char (of_char a div 4)) = Some (of_char a div 4)" using B(1) by simp
  show "b64_val (b64_char (of_char a mod 4 * 16 + of_char b div 16)) = Some (of_char a mod 4 * 16 + of_char b div 16)" using B(2) by simp
  show "b64_val (b64_char (of_char b mod 16 * 4 + of_char c div 64)) = Some (of_char b mod 16 * 4 + of_char c div 64)" using B(3) by simp
  show "b64_val (b64_char (of_char c mod 64)) = Some (of_char c mod 64)" by simp
  show "char_of (of_char a div 4 * 4 + (of_char a mod 4 * 16 + of_char b div 16) div (16 :: nat)) = a" unfolding B(6) by simp
  show "char_of ((of_char a mod 4 * 16 + of_char b div 16) mod 16 * 16 + (of_char b mod 16 * 4 + of_char c div 64) div (4 :: nat)) = b"
    unfolding B(7) by simp
  show "char_of ((of_char b mod 16 * 4 + of_char c div 64) mod 4 * 64 + of_char c mod (64 :: nat)) = c" unfolding B(8) by simp
qed simp_all

lemma b64_quanta_encode: "b64_quanta (b64_encode s) = Some s"
proof (induction s rule: b64_encode.induct)
  case (2 a)
  obtain p q r t :: nat where "of_char a div 4 = p" "of_char a mod 4 * 16 + of_char CHR 0x00 div 16 = q"
    "b64_val (b64_char p) = Some p" "b64_val (b64_char q) = Some q" "char_of (p * 4 + q div 16) = a"
    by (rule b64_chars [of a "CHR 0x00" "CHR 0x00"])
  then show ?case by simp
next
  case (3 a b)
  obtain p q r t :: nat where "of_char a div 4 = p" "of_char a mod 4 * 16 + of_char b div 16 = q"
    "of_char b mod 16 * 4 + of_char CHR 0x00 div 64 = r" "b64_val (b64_char p) = Some p" "b64_val (b64_char q) = Some q" 
    "b64_val (b64_char r) = Some r" "char_of (p * 4 + q div 16) = a" "char_of (q mod 16 * 16 + r div 4) = b"
    by (rule b64_chars [of a b "CHR 0x00"])
  then show ?case by simp
next
  case (4 a b c s)
  obtain p q r t :: nat where "of_char a div 4 = p" "of_char a mod 4 * 16 + of_char b div 16 = q"
    "of_char b mod 16 * 4 + of_char c div 64 = r" "of_char c mod 64 = t"
    "b64_val (b64_char p) = Some p" "b64_val (b64_char q) = Some q" "b64_val (b64_char r) = Some r" "b64_val (b64_char t) = Some t"
    "char_of (p * 4 + q div 16) = a" "char_of (q mod 16 * 16 + r div 4) = b" "char_of (r mod 4 * 64 + t) = c"
    by (rule b64_chars [of a b c])
  with 4 show ?case by simp
qed simp

lemma b64_encode_no_breaks: "filter (\<lambda>c. c \<noteq> CHR 0x0A \<and> c \<noteq> CHR 0x0D) (b64_encode s) = b64_encode s"
  by (induction s rule: b64_encode.induct) simp_all

lemma decID_encID [simp]: "decID (encID pid) = pid"
  by (simp add: decID_def encID_def b64_decode_def b64_encode_no_breaks b64_quanta_encode)

lemma adler32_bound: "adler32 v < 2 ^ 32"
proof -
  define f where "f = (\<lambda>c (a, b). let a = (a + of_char c) mod 65521 in (a, (b + a) mod 65521 :: nat))"
  have "fst p < 65521 \<and> snd p < 65521 \<Longrightarrow> fst (fold f v p) < 65521 \<and> snd (fold f v p) < 65521" for p
    by (induction v arbitrary: p) (auto simp: f_def Let_def split_def)
  from this [of "(1, 0)"] show ?thesis unfolding adler32_def f_def [symmetric] by (simp add: split_def)
qed

section \<open>What is listed can be opened\<close>

lemma policy_list_member:
  assumes "policy_list rt fn vs = Inr ps"
  shows "p \<in> set ps \<longleftrightarrow> po_Location p \<in> set vs \<and> getPackageFromPolicyID rt (po_Location p) = Inr (po_PackageName p) \<and>
    fn (po_PackageName p)"
  using assms
proof (induction vs arbitrary: ps)
  case (Cons v vs)
  then obtain n rest where n: "getPackageFromPolicyID rt v = Inr n" "policy_list rt fn vs = Inr rest"
    "ps = (if fn n then \<lparr>po_PackageName = n, po_Location = v\<rparr> # rest else rest)"
    by (auto split: sum.splits)
  note IH = Cons.IH [OF n(2)]
  have e: "p = \<lparr>po_PackageName = n, po_Location = v\<rparr> \<longleftrightarrow> po_PackageName p = n \<and> po_Location p = v" by (cases p) auto
  show ?case using n(1) by (auto simp: n(3) IH e split: if_splits)
qed simp

lemma policy_list_locations: "policy_list rt (\<lambda>_. True) vs = Inr ps \<Longrightarrow> map po_Location ps = vs"
  by (induction vs arbitrary: ps) (auto split: sum.splits)

lemma getPackage_getModule:
  "getPackageFromPolicyID rt v = Inr n \<Longrightarrow>
     policyExists rt v \<and> (\<exists>m. getModule rt v = Inr m \<and> mo_ID m = encID v \<and> mo_Name m = n \<and> rg_GetPolicy rt v = Inr (mo_Content m))"
  by (auto simp: getPackageFromPolicyID_def policyExists_def getModule_def split: sum.splits)

section \<open>The loaded packages\<close>

lemma collect_packages_spec:
  "collect_packages rt pids acc = Inr ps \<Longrightarrow> distinct acc \<Longrightarrow>
     distinct ps \<and> set ps = set acc \<union> {pkg. pkg \<noteq> [] \<and> (\<exists>pid \<in> set pids. getPackageFromPolicyID rt pid = Inr pkg)}"
proof (induction pids arbitrary: acc)
  case (Cons pid pids)
  then obtain pkg where pkg: "getPackageFromPolicyID rt pid = Inr pkg" by (auto split: sum.splits)
  with Cons.prems have c: "collect_packages rt pids (if pkg \<noteq> [] \<and> pkg \<notin> set acc then acc @ [pkg] else acc) = Inr ps" by simp
  show ?case using Cons.IH [OF c] Cons.prems(2) pkg by (auto split: if_splits)
qed simp

lemma GetPolicyPackages_spec:
  assumes "GetPolicyPackages rt = Inr ps"
  obtains pids where "rg_ListPolicies rt = Inr pids"
    "ps = sorted_list_of_set {pkg. pkg \<noteq> [] \<and> (\<exists>pid \<in> set pids. getPackageFromPolicyID rt pid = Inr pkg)}"
proof -
  from assms obtain pids qs where q: "rg_ListPolicies rt = Inr pids" "collect_packages rt pids [] = Inr qs" "ps = sort qs"
    by (auto simp: GetPolicyPackages_def split: sum.splits)
  let ?S = "{pkg. pkg \<noteq> [] \<and> (\<exists>pid \<in> set pids. getPackageFromPolicyID rt pid = Inr pkg)}"
  from collect_packages_spec [OF q(2)] have "distinct qs" "set qs = ?S" by simp_all
  then have "sorted_list_of_set ?S = sort qs"
    by (metis sorted_list_of_set_sort_remdups distinct_remdups_id)
  with q show ?thesis using that by simp
qed

lemma PolicyRoots_fold:
  "set (fold (\<lambda>pkg roots.
     let root = (case Cut CHR ''.'' pkg of None \<Rightarrow> pkg | Some (root, _) \<Rightarrow> root) in
     if root \<noteq> [] \<and> root \<notin> set roots then roots @ [root] else roots) packages acc) =
   set acc \<union> {root. root \<noteq> [] \<and> (\<exists>pkg \<in> set packages. root = (case Cut CHR ''.'' pkg of None \<Rightarrow> pkg | Some (root, _) \<Rightarrow> root))}"
  by (induction packages arbitrary: acc) (auto simp: Let_def)

lemma PolicyRoots_set:
  "set (PolicyRoots packages) =
     {root. root \<noteq> [] \<and> (\<exists>pkg \<in> set packages. root = (case Cut CHR ''.'' pkg of None \<Rightarrow> pkg | Some (root, _) \<Rightarrow> root))}"
  unfolding PolicyRoots_def by (simp add: PolicyRoots_fold)

lemma SelectPolicyRoot_member: "SelectPolicyRoot rt roots = Inr root \<Longrightarrow> root \<in> set roots"
  by (auto simp: SelectPolicyRoot_def Let_def length_Suc_conv split: if_splits)

end
