(* ===== verification/Authorizer.thy ===== *)
theory Authorizer
  imports Identity Access Bundles
begin

text \<open>
  The AuthZEN access service of the policy engine: \<open>daemon/authorizer/impl/access.go\<close> with
  \<open>adl.go\<close> and \<open>prepared_query_cache.go\<close>. One runtime with its plugin manager serves all requests, as
  the runtime resolver of the service returns it.
\<close>

section \<open>Prepared queries\<close>

record 'q query_cache =
  qc_entries :: "string \<rightharpoonup> 'q"
  qc_packages :: "string list option"
  qc_watched :: bool

definition newPreparedQueryCache :: "'q query_cache" where
  "newPreparedQueryCache = \<lparr>qc_entries = Map.empty, qc_packages = None, qc_watched = False\<rparr>"

definition ensureCompilerWatcher :: "'q query_cache \<Rightarrow> 'q query_cache" where
  "ensureCompilerWatcher c = c\<lparr>qc_watched := True\<rparr>"

text \<open>The trigger that the watcher registered, when the compiler is replaced.\<close>

definition compiler_trigger :: "'q query_cache \<Rightarrow> 'q query_cache" where
  "compiler_trigger c = (if qc_watched c then c\<lparr>qc_entries := Map.empty, qc_packages := None\<rparr> else c)"

definition policyPackages :: "('body, 'q, 'z) rego_rt_scheme \<Rightarrow> 'q query_cache \<Rightarrow> string list result \<times> 'q query_cache" where
  "policyPackages rt c =
     (let c = ensureCompilerWatcher c in
      case qc_packages c of
        Some ps \<Rightarrow> (Inr ps, c)
      | None \<Rightarrow> (case GetPolicyPackages rt of
            Inl e \<Rightarrow> (Inl e, c)
          | Inr ps \<Rightarrow> (Inr ps, c\<lparr>qc_packages := Some ps\<rparr>)))"

definition bindingName :: "nat \<Rightarrow> string" where
  "bindingName i = ''x'' @ show_nat i"

definition cacheKey :: "string \<Rightarrow> string list \<Rightarrow> string" where
  "cacheKey path decisions = path @ [CHR 0x1F] @ join [CHR 0x1E] decisions"

text \<open>A single caller: concurrent misses on a key share one call of the factory.\<close>

definition getOrPrepare :: "string \<Rightarrow> 'q result \<Rightarrow> 'q query_cache \<Rightarrow> 'q result \<times> 'q query_cache" where
  "getOrPrepare key factory c =
     (let c = ensureCompilerWatcher c in
      case qc_entries c key of
        Some q \<Rightarrow> (Inr q, c)
      | None \<Rightarrow> (case factory of
            Inl e \<Rightarrow> (Inl e, c)
          | Inr q \<Rightarrow> (Inr q, c\<lparr>qc_entries := (qc_entries c)(key \<mapsto> q)\<rparr>)))"

definition ErrBadQuery :: "string \<Rightarrow> derror" where
  "ErrBadQuery msg = DErr ''ErrBadQuery'' msg"

fun query_stmt :: "('body, 'q, 'z) rego_rt_scheme \<Rightarrow> string \<Rightarrow> nat \<Rightarrow> string list \<Rightarrow> string \<Rightarrow> string result" where
  "query_stmt rt path i [] acc = Inr acc"
| "query_stmt rt path i (decision # ds) acc =
     (let rule = ''data.'' @ path @ ''.'' @ decision @ [CHR 0x0A] in
      if \<not> fst (ValidateRule rt rule) then Inl (ErrBadQuery (''invalid rule: '' @ Quote rule))
      else let q = bindingName i @ '' = '' @ rule @ [CHR 0x0A] in
        case ValidateQuery rt q of
          Inl _ \<Rightarrow> Inl (ErrBadQuery (''invalid query: '' @ Quote q))
        | Inr _ \<Rightarrow> query_stmt rt path (i + 1) ds (acc @ q))"

definition prepare_query :: "('body, 'q, 'z) rego_rt_scheme \<Rightarrow> string \<Rightarrow> string list \<Rightarrow> 'q result" where
  "prepare_query rt path decisions = (case query_stmt rt path 0 decisions [] of
      Inl e \<Rightarrow> Inl e
    | Inr stmt \<Rightarrow> (case ValidateQuery rt stmt of
          Inl _ \<Rightarrow> Inl (ErrBadQuery (''invalid query batch: '' @ Quote stmt))
        | Inr body \<Rightarrow> (case rg_Prepare rt body of
              Inl _ \<Rightarrow> Inl (ErrBadQuery stmt)
            | Inr q \<Rightarrow> Inr q)))"

definition decisionQuery ::
  "('body, 'q, 'z) rego_rt_scheme \<Rightarrow> string \<Rightarrow> string list \<Rightarrow> 'q query_cache \<Rightarrow> 'q result \<times> 'q query_cache" where
  "decisionQuery rt path decisions c = getOrPrepare (cacheKey path decisions) (prepare_query rt path decisions) c"

section \<open>Selecting the policy\<close>

definition stringProperty :: "pbstruct \<Rightarrow> string \<Rightarrow> string" where
  "stringProperty properties key = pb_string (pb_fields properties key)"

definition doelbindingKey :: string where "doelbindingKey = ''doelbinding''"
definition doelbindingPrefix :: string where "doelbindingPrefix = ''doelbinding''"

definition defaultPolicyRoots :: "string list \<Rightarrow> string list" where
  "defaultPolicyRoots packages = filter (\<lambda>root. root \<noteq> doelbindingPrefix) (PolicyRoots packages)"

definition doelbindingPolicy :: "string list \<Rightarrow> string \<Rightarrow> string result" where
  "doelbindingPolicy packages selected =
     (let path = doelbindingPrefix @ ''.'' @ selected in
      if path \<notin> set packages
      then Inl (DErr ''ErrInvalidArgument'' (''doelbinding '' @ Quote selected @
        '' selects no loaded policy; expected a bundle carrying `package '' @ path @ ''`''))
      else Inr path)"

definition policyPath ::
  "('body, 'q, 'z) rego_rt_scheme \<Rightarrow> pbstruct \<Rightarrow> 'q query_cache \<Rightarrow> string result \<times> 'q query_cache" where
  "policyPath rt reqContext c = (case policyPackages rt c of
      (Inl e, c) \<Rightarrow> (Inl (DErr ''ErrBadRuntime'' ''failed to list the loaded policies''), c)
    | (Inr packages, c) \<Rightarrow>
        (let selected = stringProperty reqContext doelbindingKey in
         if selected = [] then
           (case SelectPolicyRoot rt (defaultPolicyRoots packages) of
              Inl e \<Rightarrow> (Inl (DErr ''ErrBadRuntime'' ''no policy to evaluate''), c)
            | Inr root \<Rightarrow> (Inr root, c))
         else (doelbindingPolicy packages selected, c)))"

section \<open>Evaluation\<close>

record eval_meta =
  em_policyPath :: string
  em_identity :: identity_ctx
  em_user :: "object option"

definition ent0 :: "entity option \<Rightarrow> entity" where
  "ent0 e = (case e of None \<Rightarrow> \<lparr>en_type = [], en_id = [], en_props = None\<rparr> | Some e \<Rightarrow> e)"

definition act0 :: "action option \<Rightarrow> action" where
  "act0 a = (case a of None \<Rightarrow> \<lparr>ac_name = [], ac_props = None\<rparr> | Some a \<Rightarrow> a)"

definition subjectJWTProperty :: string where "subjectJWTProperty = ''jwt''"

definition identityContext :: "entity option \<Rightarrow> identity_ctx" where
  "identityContext subject =
     (let jwt = stringProperty (en_props (ent0 subject)) subjectJWTProperty in
      if jwt \<noteq> [] then \<lparr>id_type = IT_JWT, id_value = jwt\<rparr>
      else if en_id (ent0 subject) \<noteq> [] then \<lparr>id_type = IT_SUB, id_value = en_id (ent0 subject)\<rparr>
      else \<lparr>id_type = IT_NONE, id_value = []\<rparr>)"

text \<open>\<open>structural\<close> are the structural fields, in the order Go ranges over them.\<close>

definition flatten :: "pbstruct \<Rightarrow> (string \<times> string) list \<Rightarrow> (string \<rightharpoonup> pbval)" where
  "flatten properties structural = fold (\<lambda>(name, value) out.
     if value = [] then out else if out name = None then out(name \<mapsto> PStr value) else out) structural (pb_fields properties)"

definition authz_input ::
  "('i) identity_env_scheme \<Rightarrow> eval_req \<Rightarrow> identity_ctx \<Rightarrow> ((string \<rightharpoonup> pbval) \<times> object option) result" where
  "authz_input I req identity = (case resolveIdentityContext I (Some identity) Map.empty of
      (Inl e, _) \<Rightarrow> Inl e
    | (Inr user, input) \<Rightarrow>
        (let s = ent0 (eq_subject req); a = act0 (eq_action req); r = ent0 (eq_resource req);
             input = input(''subject'' \<mapsto> PStruct (flatten (en_props s) [(''type'', en_type s), (''id'', en_id s)]));
             input = input(''action'' \<mapsto> PStruct (flatten (ac_props a) [(''name'', ac_name a)]));
             input = input(''resource'' \<mapsto> PStruct (flatten (en_props r) [(''type'', en_type r), (''id'', en_id r)]));
             input = input(''context'' \<mapsto> PStruct (pb_fields (eq_context req)))
         in Inr (input, user)))"

definition zero_eval_resp :: eval_resp where
  "zero_eval_resp = \<lparr>ev_decision = False, ev_context = None\<rparr>"

text \<open>\<open>%T\<close> of a value.\<close>

fun go_type :: "pbval \<Rightarrow> string" where
  "go_type PNull = ''<nil>''"
| "go_type (PNum _) = ''json.Number''"
| "go_type (PStr _) = ''string''"
| "go_type (PBool _) = ''bool''"
| "go_type (PStruct _) = ''map[string]interface {}''"
| "go_type (PList _) = ''[]interface {}''"

definition evaluationResponse ::
  "('body, 'q, 'z) rego_rt_scheme \<Rightarrow> string \<Rightarrow> pbval \<Rightarrow> derror option \<times> eval_resp" where
  "evaluationResponse rt action binding = (case binding of
      PBool b \<Rightarrow> (None, \<lparr>ev_decision = b, ev_context = None\<rparr>)
    | PStruct result \<Rightarrow> (case result ''decision'' of
          Some (PBool decision) \<Rightarrow> (case result ''context'' of
              Some (PStruct ctx) \<Rightarrow> (case rg_NewStruct rt ctx of
                  Inl _ \<Rightarrow> (Some (ErrBadQuery (''rule for action ['' @ action @ ''] returned a '' @ Quote ''context'' @
                      '' that is not representable as JSON'')), zero_eval_resp)
                | Inr properties \<Rightarrow> (None, \<lparr>ev_decision = decision, ev_context = properties\<rparr>))
            | _ \<Rightarrow> (None, \<lparr>ev_decision = decision, ev_context = None\<rparr>))
        | _ \<Rightarrow> (Some (ErrBadQuery (''rule for action ['' @ action @ ''] returned an object without a boolean '' @
            Quote ''decision'' @ '' field'')), zero_eval_resp))
    | v \<Rightarrow> (Some (ErrBadQuery (''rule for action ['' @ action @ ''] returned '' @ go_type v @
        '', want a boolean or a decision object'')), zero_eval_resp))"

type_synonym 'q eval_out = "(derror option \<times> eval_resp) \<times> eval_meta \<times> 'q query_cache"

definition evaluate ::
  "('body, 'q, 'z) rego_rt_scheme \<Rightarrow> ('i) identity_env_scheme \<Rightarrow> eval_req \<Rightarrow> 'q query_cache \<Rightarrow> 'q eval_out" where
  "evaluate rt I req c =
     (let meta = \<lparr>em_policyPath = [], em_identity = identityContext (eq_subject req), em_user = None\<rparr>;
          action = ac_name (act0 (eq_action req));
          fail = (\<lambda>e. (Some e, zero_eval_resp))
      in if action = [] then (fail (DErr ''ErrInvalidArgument'' ''action name not set''), meta, c)
         else case policyPath rt (eq_context req) c of
           (Inl e, c) \<Rightarrow> (fail e, meta, c)
         | (Inr path, c) \<Rightarrow>
             (let meta = meta\<lparr>em_policyPath := path\<rparr> in
              case authz_input I req (em_identity meta) of
                Inl e \<Rightarrow> (fail e, meta, c)
              | Inr (input, user) \<Rightarrow>
                  (let meta = meta\<lparr>em_user := user\<rparr>; at = ''path='' @ path @ '' action='' @ action in
                   case decisionQuery rt path [action] c of
                     (Inl e, c) \<Rightarrow> (fail e, meta, c)
                   | (Inr query, c) \<Rightarrow> (case rg_Eval rt query input of
                         Inl _ \<Rightarrow> (fail (ErrBadQuery (''query evaluation failed: '' @ at)), meta, c)
                       | Inr [] \<Rightarrow> (fail (ErrBadQuery (''undefined results: '' @ at)), meta, c)
                       | Inr (bindings # _) \<Rightarrow> (case bindings (bindingName 0) of
                             None \<Rightarrow> (fail (ErrBadQuery (''failed getting binding for action ['' @ action @ '']'')), meta, c)
                           | Some binding \<Rightarrow> (evaluationResponse rt action binding, meta, c))))))"

definition getRuntime :: "('body, 'q, 'z) rego_rt_scheme result \<Rightarrow> ('body, 'q, 'z) rego_rt_scheme result" where
  "getRuntime r = (case r of Inl _ \<Rightarrow> Inl (DErr ''ErrInvalidPolicyID'' ''undefined policy context'') | Inr rt \<Rightarrow> Inr rt)"

definition authz_evaluation ::
  "('body, 'q, 'z) rego_rt_scheme result \<Rightarrow> ('i) identity_env_scheme \<Rightarrow> eval_req \<Rightarrow> 'q query_cache \<Rightarrow> 'q eval_out" where
  "authz_evaluation res I req c = (case getRuntime res of
      Inl e \<Rightarrow> ((Some e, zero_eval_resp),
        \<lparr>em_policyPath = [], em_identity = identityContext (eq_subject req), em_user = None\<rparr>, c)
    | Inr rt \<Rightarrow> evaluate rt I req c)"

text \<open>\<open>cmp.Or\<close> of two pointers.\<close>

definition Or :: "'a option \<Rightarrow> 'a option \<Rightarrow> 'a option" where
  "Or a b = (case a of None \<Rightarrow> b | Some x \<Rightarrow> Some x)"

definition defaulted :: "evals_req \<Rightarrow> eval_req \<Rightarrow> eval_req" where
  "defaulted batch req = \<lparr>eq_subject = Or (eq_subject req) (eq_subject batch), eq_action = Or (eq_action req) (eq_action batch),
     eq_resource = Or (eq_resource req) (eq_resource batch), eq_context = Or (eq_context req) (eq_context batch)\<rparr>"

fun evaluations_loop ::
  "('body, 'q, 'z) rego_rt_scheme \<Rightarrow> ('i) identity_env_scheme \<Rightarrow> evals_req \<Rightarrow> eval_req list \<Rightarrow> eval_resp list \<Rightarrow> eval_meta
     \<Rightarrow> 'q query_cache \<Rightarrow> (derror option \<times> eval_resp list) \<times> eval_meta \<times> 'q query_cache" where
  "evaluations_loop rt I batch [] out meta c = ((None, out), meta, c)"
| "evaluations_loop rt I batch (ev # evs) out meta c = (case evaluate rt I (defaulted batch ev) c of
      ((Some e, _), _, c) \<Rightarrow> ((Some e, out), meta, c)
    | ((None, outcome), m, c) \<Rightarrow> evaluations_loop rt I batch evs (out @ [outcome])
        (if em_user meta = None \<and> eq_subject ev = None then meta\<lparr>em_user := em_user m\<rparr> else meta) c)"

definition authz_evaluations ::
  "('body, 'q, 'z) rego_rt_scheme result \<Rightarrow> ('i) identity_env_scheme \<Rightarrow> evals_req \<Rightarrow> 'q query_cache
     \<Rightarrow> (derror option \<times> eval_resp list) \<times> eval_meta \<times> 'q query_cache" where
  "authz_evaluations res I req c =
     (let meta = \<lparr>em_policyPath = [], em_identity = identityContext (eq_subject req), em_user = None\<rparr> in
      if es_evaluations req = [] then ((Some (DErr ''ErrInvalidArgument'' ''evaluations not set''), []), meta, c)
      else case getRuntime res of
          Inl e \<Rightarrow> ((Some e, []), meta, c)
        | Inr rt \<Rightarrow> (case policyPath rt (eq_context req) c of (p, c) \<Rightarrow>
            evaluations_loop rt I req (es_evaluations req) []
              (meta\<lparr>em_policyPath := (case p of Inl _ \<Rightarrow> [] | Inr path \<Rightarrow> path)\<rparr>) c))"

section \<open>The decision log\<close>

definition policyPathKey :: string where "policyPathKey = ''policy_path''"

definition adlSubject :: "identity_ctx \<Rightarrow> object option \<Rightarrow> entity" where
  "adlSubject c user = (case user of
      Some u \<Rightarrow> \<lparr>en_type = o_type u, en_id = o_id u, en_props = None\<rparr>
    | None \<Rightarrow> \<lparr>en_type = identity_type_String (id_type c), en_id = (if id_type c \<noteq> IT_JWT then id_value c else []), en_props = None\<rparr>)"

definition withPolicyPath :: "pbstruct \<Rightarrow> string \<Rightarrow> pbstruct" where
  "withPolicyPath base path = (if path = [] then base else Some ((pb_fields base)(policyPathKey \<mapsto> PStr path)))"

definition scrubSubject :: "entity option \<Rightarrow> entity option" where
  "scrubSubject subject = map_option (\<lambda>s. \<lparr>en_type = en_type s, en_id = en_id s, en_props = None\<rparr>) subject"

definition meta_request :: "eval_meta \<Rightarrow> eval_req \<Rightarrow> eval_req" where
  "meta_request m req = \<lparr>eq_subject = Some (adlSubject (em_identity m) (em_user m)), eq_action = eq_action req,
     eq_resource = eq_resource req, eq_context = withPolicyPath (eq_context req) (em_policyPath m)\<rparr>"

definition meta_requests :: "eval_meta \<Rightarrow> evals_req \<Rightarrow> evals_req" where
  "meta_requests m req = \<lparr>eq_subject = Some (adlSubject (em_identity m) (em_user m)), eq_action = eq_action req,
     eq_resource = eq_resource req, eq_context = withPolicyPath (eq_context req) (em_policyPath m),
     es_evaluations = map (\<lambda>ev. \<lparr>eq_subject = scrubSubject (eq_subject ev), eq_action = eq_action ev,
       eq_resource = eq_resource ev, eq_context = eq_context ev\<rparr>) (es_evaluations req)\<rparr>"

definition authz_adlError :: "derror option \<Rightarrow> derror option \<Rightarrow> derror option" where
  "authz_adlError evalErr logErr = (if logErr = None then evalErr else if evalErr \<noteq> None then evalErr else logErr)"

definition authz_logged ::
  "adl_logger option \<Rightarrow> TraceContext \<Rightarrow> int \<Rightarrow> string \<Rightarrow> adl_request \<Rightarrow> ('r \<Rightarrow> adl_response) \<Rightarrow> adl_log
     \<Rightarrow> derror option \<times> 'r \<Rightarrow> derror option \<times> 'r \<times> adl_log" where
  "authz_logged l tc ms ev req mk log out = (case adl_emit l tc ms ev req (mk (snd out)) (fst out) log of
      (logErr, log') \<Rightarrow> (authz_adlError (fst out) logErr, snd out, log'))"

definition Authz_Evaluation ::
  "('body, 'q, 'z) rego_rt_scheme result \<Rightarrow> ('i) identity_env_scheme \<Rightarrow> adl_logger option \<Rightarrow> TraceContext \<Rightarrow> int \<Rightarrow> eval_req
     \<Rightarrow> 'q query_cache \<Rightarrow> adl_log \<Rightarrow> (derror option \<times> eval_resp \<times> adl_log) \<times> 'q query_cache" where
  "Authz_Evaluation res I l tc ms req c log = (case authz_evaluation res I req c of (out, meta, c') \<Rightarrow>
      (authz_logged l tc ms EventAccessEvaluation (RQ_Evaluation (meta_request meta req)) RS_Evaluation log out, c'))"

definition Authz_Evaluations ::
  "('body, 'q, 'z) rego_rt_scheme result \<Rightarrow> ('i) identity_env_scheme \<Rightarrow> adl_logger option \<Rightarrow> TraceContext \<Rightarrow> int \<Rightarrow> evals_req
     \<Rightarrow> 'q query_cache \<Rightarrow> adl_log \<Rightarrow> (derror option \<times> eval_resp list \<times> adl_log) \<times> 'q query_cache" where
  "Authz_Evaluations res I l tc ms req c log = (case authz_evaluations res I req c of (out, meta, c') \<Rightarrow>
      (authz_logged l tc ms EventAccessEvaluations (RQ_Evaluations (meta_requests meta req)) RS_Evaluations log out, c'))"

definition errSearchUnsupported :: "string \<Rightarrow> derror" where
  "errSearchUnsupported api = AErr [] Unimplemented
     (api @ '' search is not available from the policy engine; use the directory's Access API'')"

definition Authz_SubjectSearch ::
  "adl_logger option \<Rightarrow> TraceContext \<Rightarrow> int \<Rightarrow> eval_req \<Rightarrow> adl_log \<Rightarrow> derror option \<times> entity list \<times> adl_log" where
  "Authz_SubjectSearch l tc ms req log =
     authz_logged l tc ms EventSearchSubject (RQ_SubjectSearch req) RS_SubjectSearch log (Some (errSearchUnsupported ''subject''), [])"

definition Authz_ResourceSearch ::
  "adl_logger option \<Rightarrow> TraceContext \<Rightarrow> int \<Rightarrow> eval_req \<Rightarrow> adl_log \<Rightarrow> derror option \<times> entity list \<times> adl_log" where
  "Authz_ResourceSearch l tc ms req log =
     authz_logged l tc ms EventSearchResource (RQ_ResourceSearch req) RS_ResourceSearch log (Some (errSearchUnsupported ''resource''), [])"

definition Authz_ActionSearch ::
  "adl_logger option \<Rightarrow> TraceContext \<Rightarrow> int \<Rightarrow> eval_req \<Rightarrow> adl_log \<Rightarrow> derror option \<times> action list \<times> adl_log" where
  "Authz_ActionSearch l tc ms req log =
     authz_logged l tc ms EventSearchAction (RQ_ActionSearch req) RS_ActionSearch log (Some (errSearchUnsupported ''action''), [])"

section \<open>The cache answers as the engine would\<close>

text \<open>
  What the cache holds agrees with the runtime, and the trigger is registered once it holds anything.
\<close>

definition cache_ok :: "('body, 'q, 'z) rego_rt_scheme \<Rightarrow> 'q query_cache \<Rightarrow> bool" where
  "cache_ok rt c \<longleftrightarrow>
     (\<forall>key q. qc_entries c key = Some q \<longrightarrow>
        (\<exists>p d. key = cacheKey p [d] \<and> CHR 0x1F \<notin> set p \<and> prepare_query rt p [d] = Inr q)) \<and>
     (\<forall>ps. qc_packages c = Some ps \<longrightarrow> GetPolicyPackages rt = Inr ps) \<and>
     (qc_watched c \<or> qc_entries c = Map.empty \<and> qc_packages c = None)"

text \<open>Packages print as identifiers and quoted strings: the unit separator is not in them.\<close>

definition plain_packages :: "('body, 'q, 'z) rego_rt_scheme \<Rightarrow> bool" where
  "plain_packages rt \<longleftrightarrow> (\<forall>src m. rg_ParseModule rt src = Inr m \<longrightarrow> CHR 0x1F \<notin> set (rm_Package m))"

lemma cache_ok_new: "cache_ok rt newPreparedQueryCache"
  by (simp add: cache_ok_def newPreparedQueryCache_def)

lemma compiler_trigger_ok: "cache_ok rt c \<Longrightarrow> cache_ok rt' (compiler_trigger c)"
  by (auto simp: cache_ok_def compiler_trigger_def)

lemma cacheKey_inj:
  assumes "CHR 0x1F \<notin> set p" "CHR 0x1F \<notin> set p'" "cacheKey p [d] = cacheKey p' [d']"
  shows "p = p' \<and> d = d'"
proof -
  have "Cut CHR 0x1F (cacheKey a [b]) = Some (a, b)" if "CHR 0x1F \<notin> set a" for a b
    unfolding cacheKey_def join.simps append.simps by (rule Cut_append [OF that])
  from this [OF assms(1)] this [OF assms(2)] assms(3) show ?thesis by (metis Pair_inject option.inject)
qed

lemma policyPackages_cached:
  assumes "cache_ok rt c" "policyPackages rt c = (r, c')"
  shows "r = GetPolicyPackages rt" "cache_ok rt c'"
proof -
  show "r = GetPolicyPackages rt"
    using assms by (auto simp: policyPackages_def ensureCompilerWatcher_def cache_ok_def Let_def split: option.splits sum.splits)
  show "cache_ok rt c'"
    using assms by (auto simp: policyPackages_def ensureCompilerWatcher_def cache_ok_def Let_def split: option.splits sum.splits)
qed

lemma decisionQuery_cached:
  assumes "cache_ok rt c" "CHR 0x1F \<notin> set p" "decisionQuery rt p [d] c = (r, c')"
  shows "r = prepare_query rt p [d]" "cache_ok rt c'"
proof -
  have w: "cache_ok rt (ensureCompilerWatcher c)" "qc_entries (ensureCompilerWatcher c) = qc_entries c"
    using assms(1) by (auto simp: cache_ok_def ensureCompilerWatcher_def)
  show "r = prepare_query rt p [d]"
  proof (cases "qc_entries c (cacheKey p [d])")
    case None
    then show ?thesis using assms(3) by (auto simp: decisionQuery_def getOrPrepare_def Let_def w split: sum.splits)
  next
    case (Some q)
    then obtain p' d' where "cacheKey p [d] = cacheKey p' [d']" "CHR 0x1F \<notin> set p'" "prepare_query rt p' [d'] = Inr q"
      using assms(1) unfolding cache_ok_def by blast
    with cacheKey_inj [OF assms(2)] have "prepare_query rt p [d] = Inr q" by metis
    with Some show ?thesis using assms(3) by (simp add: decisionQuery_def getOrPrepare_def Let_def w)
  qed
  show "cache_ok rt c'"
  proof (cases "qc_entries c (cacheKey p [d])")
    case None
    show ?thesis
    proof (cases "prepare_query rt p [d]")
      case (Inr q)
      then have c': "c' = (ensureCompilerWatcher c)\<lparr>qc_entries := (qc_entries c)(cacheKey p [d] \<mapsto> q)\<rparr>"
        using None assms(3) by (simp add: decisionQuery_def getOrPrepare_def Let_def w)
      show ?thesis using assms(1,2) Inr by (auto simp: c' cache_ok_def ensureCompilerWatcher_def)
    qed (use None assms(3) w in \<open>simp add: decisionQuery_def getOrPrepare_def Let_def\<close>)
  qed (use assms(3) w in \<open>simp add: decisionQuery_def getOrPrepare_def Let_def\<close>)
qed

section \<open>The selected policy\<close>

text \<open>The policies a request with this context may be decided by.\<close>

definition selectable :: "('body, 'q, 'z) rego_rt_scheme \<Rightarrow> pbstruct \<Rightarrow> string \<Rightarrow> bool" where
  "selectable rt ctx path \<longleftrightarrow> (\<exists>packages. GetPolicyPackages rt = Inr packages \<and>
     (let selected = stringProperty ctx doelbindingKey in
      if selected \<noteq> [] then path = ''doelbinding.'' @ selected \<and> path \<in> set packages
      else path \<in> set (PolicyRoots packages) \<and> path \<noteq> ''doelbinding'' \<and>
        (if rg_PolicyRoot rt \<noteq> [] then path = rg_PolicyRoot rt
         else filter (\<lambda>root. root \<noteq> ''doelbinding'') (PolicyRoots packages) = [path])))"

lemma policyPath_cached:
  assumes "cache_ok rt c" "policyPath rt ctx c = (r, c')"
  shows "cache_ok rt c'" "r = fst (policyPath rt ctx newPreparedQueryCache)" "r = Inr path \<Longrightarrow> selectable rt ctx path"
proof -
  obtain pr where pr: "policyPackages rt c = (pr, c')"
    using assms(2) by (auto simp: policyPath_def Let_def split: prod.splits sum.splits if_splits)
  note ok = policyPackages_cached [OF assms(1) pr]
  obtain c0 where c0: "policyPackages rt newPreparedQueryCache = (pr, c0)"
    using policyPackages_cached(1) [OF cache_ok_new, of rt] ok(1) by (metis prod.exhaust)
  show "cache_ok rt c'" by (rule ok(2))
  show "r = fst (policyPath rt ctx newPreparedQueryCache)"
    using assms(2) by (auto simp: policyPath_def pr c0 Let_def split: sum.splits if_splits)
  assume r: "r = Inr path"
  show "selectable rt ctx path"
  proof (cases pr)
    case (Inr packages)
    with ok(1) have g: "GetPolicyPackages rt = Inr packages" by simp
    show ?thesis
    proof (cases "stringProperty ctx doelbindingKey = []")
      case True
      then have sel: "SelectPolicyRoot rt (defaultPolicyRoots packages) = Inr path"
        using assms(2) by (auto simp: policyPath_def pr Inr r split: sum.splits)
      from SelectPolicyRoot_member [OF sel] sel show ?thesis
        using g True
        by (auto simp: selectable_def defaultPolicyRoots_def doelbindingPrefix_def SelectPolicyRoot_def Let_def
            length_Suc_conv split: if_splits)
    next
      case False
      then have "doelbindingPolicy packages (stringProperty ctx doelbindingKey) = Inr path"
        using assms(2) by (simp add: policyPath_def pr Inr r)
      then show ?thesis using g False
        by (simp add: selectable_def doelbindingPolicy_def doelbindingPrefix_def Let_def split: if_splits)
    qed
  qed (use assms(2) in \<open>simp add: policyPath_def pr r\<close>)
qed

lemma TrimPrefix_subset: "set (TrimPrefix s p) \<subseteq> set s"
  by (auto simp: TrimPrefix_def dest: in_set_dropD)

lemma plain_loaded:
  assumes "plain_packages rt" "GetPolicyPackages rt = Inr packages" "pkg \<in> set packages"
  shows "CHR 0x1F \<notin> set pkg"
proof -
  from assms(2) obtain pids where p: "rg_ListPolicies rt = Inr pids"
    "packages = sorted_list_of_set {pkg. pkg \<noteq> [] \<and> (\<exists>pid \<in> set pids. getPackageFromPolicyID rt pid = Inr pkg)}"
    by (rule GetPolicyPackages_spec)
  have "finite {pkg. pkg \<noteq> [] \<and> (\<exists>pid \<in> set pids. getPackageFromPolicyID rt pid = Inr pkg)}"
    by (rule finite_subset [of _ "(\<lambda>pid. projr (getPackageFromPolicyID rt pid)) ` set pids"]) force+
  with assms(3) p(2) obtain pid where "getPackageFromPolicyID rt pid = Inr pkg" by auto
  then show ?thesis using assms(1) TrimPrefix_subset
    by (fastforce simp: getPackageFromPolicyID_def plain_packages_def split: sum.splits)
qed

lemma Cut_root_subset: "set (case Cut ch s of None \<Rightarrow> s | Some (root, _) \<Rightarrow> root) \<subseteq> set s"
  by (auto split: option.splits prod.splits dest: Cut_SomeD)

lemma selectable_plain:
  assumes "plain_packages rt" "selectable rt ctx path"
  shows "CHR 0x1F \<notin> set path"
proof -
  from assms(2) obtain packages pkg where "GetPolicyPackages rt = Inr packages" "pkg \<in> set packages" "set path \<subseteq> set pkg"
    using Cut_root_subset by (fastforce simp: selectable_def PolicyRoots_set Let_def split: if_splits)
  with plain_loaded [OF assms(1)] show ?thesis by blast
qed

section \<open>Evaluations\<close>

lemma evaluationResponse_ok:
  "evaluationResponse rt a v = (None, resp) \<longleftrightarrow>
     v = PBool (ev_decision resp) \<and> ev_context resp = None \<or>
     (\<exists>m. v = PStruct m \<and> m ''decision'' = Some (PBool (ev_decision resp)) \<and>
        (case m ''context'' of Some (PStruct ctx) \<Rightarrow> rg_NewStruct rt ctx = Inr (ev_context resp) | _ \<Rightarrow> ev_context resp = None))"
  by (cases resp) (auto simp: evaluationResponse_def split: pbval.splits option.splits sum.splits)

lemma evaluationResponse_error: "evaluationResponse rt a v = (Some e, resp) \<Longrightarrow> resp = zero_eval_resp"
  by (auto simp: evaluationResponse_def split: pbval.splits option.splits sum.splits)

lemma evaluate_cached:
  assumes "plain_packages rt" "cache_ok rt c" "evaluate rt I req c = (out, meta, c')"
  shows "cache_ok rt c' \<and> (\<exists>c0. evaluate rt I req newPreparedQueryCache = (out, meta, c0))"
proof (cases "ac_name (act0 (eq_action req)) = []")
  case True
  then show ?thesis using assms by (simp add: evaluate_def Let_def)
next
  case act: False
  obtain r c1 where p1: "policyPath rt (eq_context req) c = (r, c1)" by fastforce
  obtain r2 c2 where p2': "policyPath rt (eq_context req) newPreparedQueryCache = (r2, c2)" by fastforce
  with policyPath_cached(2) [OF assms(2) p1] have p2: "policyPath rt (eq_context req) newPreparedQueryCache = (r, c2)" by simp
  note ok = policyPath_cached(1) [OF assms(2) p1] policyPath_cached(1) [OF cache_ok_new p2]
  show ?thesis
  proof (cases r)
    case Inl
    then show ?thesis using assms(3) act p1 p2 ok by (simp add: evaluate_def Let_def)
  next
    case (Inr path)
    have plain: "CHR 0x1F \<notin> set path"
      by (rule selectable_plain [OF assms(1) policyPath_cached(3) [OF assms(2) p1 Inr]])
    obtain q c3 where q1: "decisionQuery rt path [ac_name (act0 (eq_action req))] c1 = (q, c3)" by fastforce
    obtain q2 c4 where q2: "decisionQuery rt path [ac_name (act0 (eq_action req))] c2 = (q2, c4)" by fastforce
    have "q2 = q" "cache_ok rt c3"
      using decisionQuery_cached [OF ok(1) plain q1] decisionQuery_cached [OF ok(2) plain q2] by simp_all
    with assms(3) act p1 p2 q1 q2 Inr ok show ?thesis
      by (cases "authz_input I req (identityContext (eq_subject req))"; cases q)
        (auto simp: evaluate_def Let_def split: sum.splits list.splits option.splits)
  qed
qed

lemma evaluate_ok:
  assumes "plain_packages rt" "cache_ok rt c" "evaluate rt I req c = ((None, resp), meta, c')"
  obtains input user q b bs v where "ac_name (act0 (eq_action req)) \<noteq> []" "selectable rt (eq_context req) (em_policyPath meta)"
    "authz_input I req (identityContext (eq_subject req)) = Inr (input, user)"
    "prepare_query rt (em_policyPath meta) [ac_name (act0 (eq_action req))] = Inr q" "rg_Eval rt q input = Inr (b # bs)"
    "b (bindingName 0) = Some v" "evaluationResponse rt (ac_name (act0 (eq_action req))) v = (None, resp)"
    "em_identity meta = identityContext (eq_subject req)" "em_user meta = user"
proof -
  have act: "ac_name (act0 (eq_action req)) \<noteq> []" using assms(3) by (auto simp: evaluate_def Let_def)
  obtain path c1 where p1: "policyPath rt (eq_context req) c = (Inr path, c1)"
    using assms(3) act by (auto simp: evaluate_def Let_def split: prod.splits sum.splits)
  note sel = policyPath_cached(3) [OF assms(2) p1 refl] and ok = policyPath_cached(1) [OF assms(2) p1]
  obtain input user where inp: "authz_input I req (identityContext (eq_subject req)) = Inr (input, user)"
    using assms(3) act p1 by (auto simp: evaluate_def Let_def split: prod.splits sum.splits)
  obtain q c3 where q1: "decisionQuery rt path [ac_name (act0 (eq_action req))] c1 = (q, c3)" by fastforce
  then have q: "prepare_query rt path [ac_name (act0 (eq_action req))] = q"
    by (rule decisionQuery_cached(1) [OF ok selectable_plain [OF assms(1) sel], symmetric])
  obtain q' b bs v where q': "q = Inr q'" "rg_Eval rt q' input = Inr (b # bs)" "b (bindingName 0) = Some v"
    "evaluationResponse rt (ac_name (act0 (eq_action req))) v = (None, resp)"
    "meta = \<lparr>em_policyPath = path, em_identity = identityContext (eq_subject req), em_user = user\<rparr>"
    using assms(3) act p1 inp q1 by (auto simp: evaluate_def Let_def split: sum.splits list.splits option.splits)
  with act sel inp q [unfolded q'] show ?thesis using that by simp
qed

lemma evaluate_error: "evaluate rt I req c = ((Some e, resp), meta, c') \<Longrightarrow> resp = zero_eval_resp"
  by (auto simp: evaluate_def Let_def dest!: evaluationResponse_error split: prod.splits if_splits sum.splits list.splits option.splits)

lemma evaluations_loop_cached:
  assumes "plain_packages rt" "cache_ok rt c" "evaluations_loop rt I batch evs acc meta c = (out, meta', c')"
    and "cache_ok rt d"
  shows "cache_ok rt c' \<and> (\<exists>d'. evaluations_loop rt I batch evs acc meta d = (out, meta', d'))"
  using assms(2-)
proof (induction evs arbitrary: acc meta c d)
  case (Cons ev evs)
  obtain e r m c1 where e1: "evaluate rt I (defaulted batch ev) c = ((e, r), m, c1)" by (metis prod.exhaust)
  obtain e' r' m' d1 where e2: "evaluate rt I (defaulted batch ev) d = ((e', r'), m', d1)" by (metis prod.exhaust)
  have same: "e' = e" "r' = r" "m' = m" and ok: "cache_ok rt c1" "cache_ok rt d1"
    using evaluate_cached [OF assms(1) Cons.prems(1) e1] evaluate_cached [OF assms(1) Cons.prems(3) e2] by auto
  show ?case
  proof (cases e)
    case None
    from Cons.prems(2) have "evaluations_loop rt I batch evs (acc @ [r])
      (if em_user meta = None \<and> eq_subject ev = None then meta\<lparr>em_user := em_user m\<rparr> else meta) c1 = (out, meta', c')"
      by (simp add: e1 None)
    from Cons.IH [OF ok(1) this ok(2)] show ?thesis by (simp add: e2 same None)
  next
    case (Some x)
    with Cons.prems ok show ?thesis by (simp add: e1 e2 same)
  qed
qed simp

lemma authz_evaluations_cached:
  assumes "plain_packages rt" "cache_ok rt c" "authz_evaluations (Inr rt) I req c = (out, meta, c')"
  shows "cache_ok rt c' \<and> (\<exists>c0. authz_evaluations (Inr rt) I req newPreparedQueryCache = (out, meta, c0))"
proof (cases "es_evaluations req = []")
  case True
  then show ?thesis using assms by (simp add: authz_evaluations_def Let_def)
next
  case False
  obtain r c1 where p1: "policyPath rt (eq_context req) c = (r, c1)" by fastforce
  obtain r2 c2 where p2': "policyPath rt (eq_context req) newPreparedQueryCache = (r2, c2)" by fastforce
  with policyPath_cached(2) [OF assms(2) p1] have p2: "policyPath rt (eq_context req) newPreparedQueryCache = (r, c2)" by simp
  note ok = policyPath_cached(1) [OF assms(2) p1] policyPath_cached(1) [OF cache_ok_new p2]
  from assms(3) False have "evaluations_loop rt I req (es_evaluations req) []
      (\<lparr>em_policyPath = (case r of Inl _ \<Rightarrow> [] | Inr path \<Rightarrow> path), em_identity = identityContext (eq_subject req), em_user = None\<rparr>) c1
      = (out, meta, c')"
    by (simp add: authz_evaluations_def getRuntime_def Let_def p1)
  from evaluations_loop_cached [OF assms(1) ok(1) this ok(2)] show ?thesis
    using False by (simp add: authz_evaluations_def getRuntime_def Let_def p2)
qed

section \<open>Requests and reloads\<close>

text \<open>
  What the service sees over time: evaluations, batches, and compilers that replace the runtime's state
  and fire the trigger. \<open>serve\<close> threads one cache through them; \<open>answers\<close> prepares every query anew.
\<close>

datatype ('body, 'q) authz_event =
    Ev_Evaluation eval_req
  | Ev_Evaluations evals_req
  | Ev_Reload "('body, 'q) rego_rt"

datatype authz_outcome =
    Oc_Evaluation "derror option \<times> eval_resp" eval_meta
  | Oc_Evaluations "derror option \<times> eval_resp list" eval_meta

fun serve ::
  "('i) identity_env_scheme \<Rightarrow> ('body, 'q) rego_rt \<Rightarrow> 'q query_cache \<Rightarrow> ('body, 'q) authz_event list \<Rightarrow> authz_outcome list" where
  "serve I rt c [] = []"
| "serve I rt c (Ev_Evaluation req # es) = (case authz_evaluation (Inr rt) I req c of
      (out, meta, c') \<Rightarrow> Oc_Evaluation out meta # serve I rt c' es)"
| "serve I rt c (Ev_Evaluations req # es) = (case authz_evaluations (Inr rt) I req c of
      (out, meta, c') \<Rightarrow> Oc_Evaluations out meta # serve I rt c' es)"
| "serve I rt c (Ev_Reload rt' # es) = serve I rt' (compiler_trigger c) es"

fun answers :: "('i) identity_env_scheme \<Rightarrow> ('body, 'q) rego_rt \<Rightarrow> ('body, 'q) authz_event list \<Rightarrow> authz_outcome list" where
  "answers I rt [] = []"
| "answers I rt (Ev_Evaluation req # es) = (case authz_evaluation (Inr rt) I req newPreparedQueryCache of
      (out, meta, _) \<Rightarrow> Oc_Evaluation out meta # answers I rt es)"
| "answers I rt (Ev_Evaluations req # es) = (case authz_evaluations (Inr rt) I req newPreparedQueryCache of
      (out, meta, _) \<Rightarrow> Oc_Evaluations out meta # answers I rt es)"
| "answers I rt (Ev_Reload rt' # es) = answers I rt' es"

lemma serve_answers:
  assumes "cache_ok rt c" "plain_packages rt" "\<And>rt'. Ev_Reload rt' \<in> set es \<Longrightarrow> plain_packages rt'"
  shows "serve I rt c es = answers I rt es"
  using assms
proof (induction I rt c es rule: serve.induct)
  case (2 I rt c req es)
  obtain out meta c' where e: "authz_evaluation (Inr rt) I req c = (out, meta, c')" by (metis prod.exhaust)
  with evaluate_cached [OF 2(3,2), of I req out meta c'] 2 show ?case
    by (auto simp: authz_evaluation_def getRuntime_def)
next
  case (3 I rt c req es)
  obtain out meta c' where e: "authz_evaluations (Inr rt) I req c = (out, meta, c')" by (metis prod.exhaust)
  with authz_evaluations_cached [OF 3(3,2) e] 3 show ?case by auto
next
  case (4 I rt c rt' es)
  then show ?case using compiler_trigger_ok by force
qed simp

section \<open>What is logged\<close>

lemma authz_logged_eq: "authz_logged = logged"
  by (intro ext) (simp add: authz_logged_def logged_def authz_adlError_def adlError_def)

lemma logged_records:
  assumes "logged l tc ms ev req mk log out = (err, resp, log')" "rec \<in> set (lo_stdout log') \<union> set (lo_otel log')"
  shows "rec \<in> set (lo_stdout log) \<union> set (lo_otel log) \<or> rc_Request rec = req"
proof -
  have "rc_Request (adl_make_record l' tc ms ev req r e) = req" for l' r e by (simp add: adl_make_record_def Let_def)
  then show ?thesis using assms
    by (auto simp: logged_def adl_emit_def writeRecordStdout_def otel_emit_def Let_def split: prod.splits if_splits option.splits)
qed

lemma evaluate_identity: "evaluate rt I req c = (out, meta, c') \<Longrightarrow> em_identity meta = identityContext (eq_subject req)"
  by (auto simp: evaluate_def Let_def split: prod.splits sum.splits list.splits option.splits if_splits)

lemma evaluations_loop_identity: "em_identity (fst (snd (evaluations_loop rt I b evs acc m c))) = em_identity m"
proof (induction evs arbitrary: acc m c)
  case (Cons ev evs)
  obtain e r m1 c1 where e1: "evaluate rt I (defaulted b ev) c = ((e, r), m1, c1)" by (metis prod.exhaust)
  show ?case by (cases e) (simp_all add: e1 Cons.IH)
qed simp

lemma authz_evaluation_identity:
  "authz_evaluation res I req c = (out, meta, c') \<Longrightarrow> em_identity meta = identityContext (eq_subject req)"
  by (auto simp: authz_evaluation_def split: sum.splits dest: evaluate_identity)

lemma authz_evaluations_identity:
  assumes "authz_evaluations res I req c = (out, meta, c')"
  shows "em_identity meta = identityContext (eq_subject req)"
proof (cases "es_evaluations req = [] \<or> (\<exists>e. getRuntime res = Inl e)")
  case True
  with assms show ?thesis by (auto simp: authz_evaluations_def Let_def split: if_splits)
next
  case False
  then obtain rt where rt: "getRuntime res = Inr rt" by (cases "getRuntime res") auto
  obtain p c1 where p: "policyPath rt (eq_context req) c = (p, c1)" by fastforce
  from assms False rt p have "evaluations_loop rt I req (es_evaluations req) []
      (\<lparr>em_policyPath = (case p of Inl _ \<Rightarrow> [] | Inr path \<Rightarrow> path), em_identity = identityContext (eq_subject req), em_user = None\<rparr>) c1
      = (out, meta, c')"
    by (simp add: authz_evaluations_def Let_def)
  from arg_cong [OF this, of "\<lambda>x. em_identity (fst (snd x))"] show ?thesis by (simp add: evaluations_loop_identity)
qed

lemma evaluate_user:
  assumes "evaluate rt I req c = (out, meta, c')" "em_user meta = Some u"
  shows "\<exists>inp. resolveIdentityContext I (Some (identityContext (eq_subject req))) Map.empty = (Inr (Some u), inp)"
proof -
  have "\<exists>input. authz_input I req (identityContext (eq_subject req)) = Inr (input, Some u)"
    using assms by (auto simp: evaluate_def Let_def split: prod.splits sum.splits list.splits option.splits if_splits)
  then show ?thesis by (auto simp: authz_input_def Let_def split: prod.splits sum.splits)
qed

lemma evaluations_loop_user:
  assumes "evaluations_loop rt I b evs acc m c = (out, meta, c')" "em_user meta = Some u"
  shows "em_user m = Some u \<or>
    (\<exists>inp. resolveIdentityContext I (Some (identityContext (eq_subject b))) Map.empty = (Inr (Some u), inp))"
  using assms(1)
proof (induction evs arbitrary: acc m c)
  case (Cons ev evs)
  obtain e r m1 c1 where e1: "evaluate rt I (defaulted b ev) c = ((e, r), m1, c1)" by (metis prod.exhaust)
  show ?case
  proof (cases e)
    case None
    let ?m = "if em_user m = None \<and> eq_subject ev = None then m\<lparr>em_user := em_user m1\<rparr> else m"
    from Cons.prems None e1 have "evaluations_loop rt I b evs (acc @ [r]) ?m c1 = (out, meta, c')" by simp
    from Cons.IH [OF this] show ?thesis
    proof
      assume user: "em_user ?m = Some u"
      show ?thesis
      proof (cases "em_user m = None \<and> eq_subject ev = None")
        case True
        then have "eq_subject (defaulted b ev) = eq_subject b" "em_user m1 = Some u" using user by (simp_all add: defaulted_def Or_def)
        with evaluate_user [OF e1] show ?thesis by simp
      qed (use user in auto)
    qed blast
  qed (use Cons.prems assms(2) e1 in simp)
qed (use assms(2) in simp)

lemma authz_evaluation_user:
  "authz_evaluation res I req c = (out, meta, c') \<Longrightarrow> em_user meta = Some u \<Longrightarrow>
     \<exists>inp. resolveIdentityContext I (Some (identityContext (eq_subject req))) Map.empty = (Inr (Some u), inp)"
  by (auto simp: authz_evaluation_def split: sum.splits dest: evaluate_user)

lemma authz_evaluations_user:
  assumes "authz_evaluations res I req c = (out, meta, c')" "em_user meta = Some u"
  shows "\<exists>inp. resolveIdentityContext I (Some (identityContext (eq_subject req))) Map.empty = (Inr (Some u), inp)"
proof (cases "es_evaluations req = [] \<or> (\<exists>e. getRuntime res = Inl e)")
  case True
  with assms show ?thesis by (auto simp: authz_evaluations_def Let_def split: if_splits)
next
  case False
  then obtain rt where rt: "getRuntime res = Inr rt" by (cases "getRuntime res") auto
  obtain p c1 where p: "policyPath rt (eq_context req) c = (p, c1)" by fastforce
  from assms(1) False rt p have "evaluations_loop rt I req (es_evaluations req) []
      (\<lparr>em_policyPath = (case p of Inl _ \<Rightarrow> [] | Inr path \<Rightarrow> path), em_identity = identityContext (eq_subject req), em_user = None\<rparr>) c1
      = (out, meta, c')"
    by (simp add: authz_evaluations_def Let_def)
  from evaluations_loop_user [OF this assms(2)] show ?thesis by simp
qed

end
