(* ===== verification/AuthzProps.thy ===== *)
theory AuthzProps
  imports Authn Authorizer ManifestProps
begin

text \<open>
  Properties of authentication, of the policy engine's access service and of the loaded policies, with
  their witnesses on a small runtime.
\<close>

section \<open>Authentication\<close>

text \<open>
  C7: Who gets through the middleware. On a path that requires an API key the wrapped handler runs
  exactly when the header carries a configured key under the scheme basic, or when the empty string is
  a configured key and the header carries no basic key at all; otherwise the call is refused and no
  state changes. On the other paths it always runs. The unary, stream and HTTP forms agree. The HTTP
  form of the console accepts only a header that carries a configured key.
\<close>

theorem authn_exact:
  fixes cfg path h
  defines "pass \<equiv> \<not> guarded cfg path \<or> (\<exists>k. basic_header h k \<and> k \<in> set (ac_APIKeys cfg)) \<or>
    [] \<in> set (ac_APIKeys cfg) \<and> (\<nexists>k. basic_header h k)"
  shows "Authn_Unary cfg path h handler nil s = (if pass then handler s else (Some (ErrAuthenticationFailed []), nil, s)) \<and>
    Authn_Stream cfg path h shandler s = (if pass then shandler s else (Some (ErrAuthenticationFailed []), s)) \<and>
    Authn_Handler body cfg path h next s = (if pass then (None, next s) else (Some (body (ErrAuthenticationFailed [])), s)) \<and>
    (ConfigAuth cfg path h = Serve True True \<longleftrightarrow>
       guarded cfg path \<and> h \<noteq> [] \<and> (\<exists>k. basic_header h k \<and> k \<in> set (ac_APIKeys cfg)))"
proof -
  have p: "authenticate cfg path h = None \<longleftrightarrow> pass" unfolding pass_def by (rule authenticate_keys)
  have c: "ConfigAuth cfg path h = Serve True True \<longleftrightarrow>
       guarded cfg path \<and> h \<noteq> [] \<and> (\<exists>k. basic_header h k \<and> k \<in> set (ac_APIKeys cfg))"
    by (simp add: ConfigAuth_iff parse_basic)
  show ?thesis
  proof (cases "authenticate cfg path h")
    case None
    with p have pass by simp
    with None c show ?thesis by (simp add: Authn_Unary_def Authn_Stream_def Authn_Handler_def)
  next
    case (Some e)
    with p have "\<not> pass" by simp
    with Some c authenticate_refuses [OF Some] show ?thesis by (simp add: Authn_Unary_def Authn_Stream_def Authn_Handler_def)
  qed
qed

text \<open>The default override for server reflection misses the v1 method, whose name has a slash.\<close>

lemma reflection_v1_not_exempt:
  "ForPath (setDefaultCallsAuthz \<lparr>co_Default = d, co_Overrides = []\<rparr>)
     ''/grpc.reflection.v1.ServerReflection/ServerReflectionInfo'' = d"
  "op_EnableAnonymous (ForPath (setDefaultCallsAuthz \<lparr>co_Default = d, co_Overrides = []\<rparr>)
     ''/grpc.reflection.v1alpha.ServerReflection/ServerReflectionInfo'')"
  by (simp_all add: ForPath_def setDefaultCallsAuthz_def info_path_def pipe_to_dot_def ToLower_def lower_char_def Let_def)

definition demo_authn :: "string list \<Rightarrow> authn_config" where
  "demo_authn keys = \<lparr>ac_APIKeys = keys, ac_Options = \<lparr>co_Default = \<lparr>op_EnableAPIKey = True, op_EnableAnonymous = False\<rparr>,
     co_Overrides = []\<rparr>, ac_Keys = []\<rparr>"

lemma demo_guarded: "keys \<noteq> [] \<Longrightarrow> guarded (demo_authn keys) p"
  by (simp add: guarded_def demo_authn_def ForPath_def)

theorem authn_exact_witness:
  "Authn_Unary (demo_authn [''k1'']) ''/x'' ''Basic k1'' (\<lambda>s :: nat. (None, ''ok'', s + 1)) [] 4 = (None, ''ok'', 5) \<and>
   Authn_Unary (demo_authn [''k1'']) ''/x'' ''Basic k2'' (\<lambda>s :: nat. (None, ''ok'', s + 1)) [] 4
     = (Some (ErrAuthenticationFailed []), [], 4) \<and>
   Authn_Unary (demo_authn [[]]) ''/x'' [] (\<lambda>s :: nat. (None, ''ok'', s + 1)) [] 4 = (None, ''ok'', 5)"
proof -
  have P: "parseAuthHeader ''Basic k1'' ''basic'' = Inr ''k1''" "parseAuthHeader ''Basic k2'' ''basic'' = Inr ''k2''" by code_simp+
  have b: "basic_header ''Basic k1'' k \<longleftrightarrow> k = ''k1''" "basic_header ''Basic k2'' k \<longleftrightarrow> k = ''k2''" "\<not> basic_header [] k" for k
    unfolding parse_basic [symmetric] using P by (auto simp: parseAuthHeader_def)
  have k: "ac_APIKeys (demo_authn keys) = keys" for keys by (simp add: demo_authn_def)
  let ?h = "\<lambda>s :: nat. (None :: derror option, ''ok'', s + 1)"
  show ?thesis
    using authn_exact [of "demo_authn [''k1'']" "''/x''" "''Basic k1''" ?h "[]" 4, THEN conjunct1]
      authn_exact [of "demo_authn [''k1'']" "''/x''" "''Basic k2''" ?h "[]" 4, THEN conjunct1]
      authn_exact [of "demo_authn [[]]" "''/x''" "[]" ?h "[]" 4, THEN conjunct1]
    by (simp add: b demo_guarded k)
qed

section \<open>Policies\<close>

text \<open>
  Every policy that is listed can be opened. For each item of \<open>GetPolicies\<close>, its identifier
  given back to \<open>GetModule\<close> decodes to the policy it was made from: the module has the item's
  identifier and name and the content of a policy of the store, and no loaded policy is left out.
\<close>

theorem GetPolicies_GetModule:
  assumes "GetPolicies rt = Inr items" "rg_ListPolicies rt = Inr pids"
  shows "pi_ID ` set items = encID ` set pids \<and>
    (\<forall>it \<in> set items. \<exists>m pid. GetModule rt (pi_ID it) = Inr m \<and> mo_ID m = pi_ID it \<and> mo_Name m = pi_Name it \<and>
       pid \<in> set pids \<and> pi_ID it = encID pid \<and> rg_GetPolicy rt pid = Inr (mo_Content m))"
proof -
  from assms obtain ps where ps: "policy_list rt (\<lambda>_. True) pids = Inr ps"
    "set items = (\<lambda>p. \<lparr>pi_Name = po_PackageName p, pi_ID = encID (po_Location p)\<rparr>) ` set ps"
    by (auto simp: GetPolicies_def GetPolicyList_def split: sum.splits)
  note mem = policy_list_member [OF ps(1)] and loc = policy_list_locations [OF ps(1)]
  have "\<exists>m pid. GetModule rt (pi_ID it) = Inr m \<and> mo_ID m = pi_ID it \<and> mo_Name m = pi_Name it \<and>
       pid \<in> set pids \<and> pi_ID it = encID pid \<and> rg_GetPolicy rt pid = Inr (mo_Content m)" if it: "it \<in> set items" for it
  proof -
    from it ps(2) obtain p where p: "p \<in> set ps" "it = \<lparr>pi_Name = po_PackageName p, pi_ID = encID (po_Location p)\<rparr>" by auto
    with mem have "getPackageFromPolicyID rt (po_Location p) = Inr (po_PackageName p)" "po_Location p \<in> set pids" by auto
    with getPackage_getModule [OF this(1)] p(2) show ?thesis by (auto simp: GetModule_def Let_def)
  qed
  moreover have "pi_ID ` set items = encID ` set pids"
    using loc by (simp add: ps(2) image_image flip: loc)
  ultimately show ?thesis by blast
qed

text \<open>A runtime with one loaded policy, \<open>package authz\<close>, whose rules all hold.\<close>

definition demo_rt :: "(string, string) rego_rt" where
  "demo_rt = \<lparr>rg_ListPolicies = Inr [''a.rego''],
     rg_GetPolicy = (\<lambda>v. if v = ''a.rego'' then Inr ''package authz'' else Inl (PlainErr ''not found'')),
     rg_ParseModule = (\<lambda>_. Inr \<lparr>rm_Package = ''data.authz'', rm_Rules = [''allow'']\<rparr>),
     rg_ParseBody = Inr, rg_ParseRef = (\<lambda>s. Inr [s]), rg_GetRules = (\<lambda>_. 1), rg_NewTransaction = None,
     rg_execQuery = (\<lambda>_. Inr []), rg_Prepare = Inr, rg_Eval = (\<lambda>q i. Inr [[''x0'' \<mapsto> PBool True]]),
     rg_NewStruct = (\<lambda>m. Inr (Some m)), rg_uuid = (\<lambda>_. False), rg_cancelled = (\<lambda>_. False), rg_opa = True, rg_manager = True,
     rg_PolicyRoot = []\<rparr>"

lemma demo_rt_fields:
  "rg_ListPolicies demo_rt = Inr [''a.rego'']" "rg_ParseBody demo_rt = Inr" "rg_ParseRef demo_rt r = Inr [r]"
  "rg_GetRules demo_rt x = 1" "rg_Prepare demo_rt = Inr" "rg_Eval demo_rt q i = Inr [[''x0'' \<mapsto> PBool True]]"
  "rg_PolicyRoot demo_rt = []"
  by (simp_all add: demo_rt_def)

lemma demo_rt_plain: "plain_packages demo_rt"
  by (auto simp: plain_packages_def demo_rt_def)

lemma demo_rt_package: "getPackageFromPolicyID demo_rt ''a.rego'' = Inr ''authz''"
  by (simp add: getPackageFromPolicyID_def demo_rt_def TrimPrefix_def)

lemma demo_rt_packages: "GetPolicyPackages demo_rt = Inr [''authz'']"
  by (simp add: GetPolicyPackages_def demo_rt_package demo_rt_fields)

theorem GetPolicies_GetModule_witness:
  "\<exists>m. GetModule demo_rt (encID ''a.rego'') = Inr m \<and> mo_Name m = ''authz''"
proof -
  note l = demo_rt_fields(1)
  then have "GetPolicies demo_rt = Inr [\<lparr>pi_Name = ''authz'', pi_ID = encID ''a.rego''\<rparr>]"
    by (simp add: GetPolicies_def GetPolicyList_def demo_rt_package)
  from GetPolicies_GetModule [OF this l] show ?thesis by auto
qed

section \<open>Decisions of the policy engine\<close>

lemma bindingName_0: "bindingName 0 = ''x0''"
  by code_simp

text \<open>
  C6: A decision is the policy's. When \<open>Evaluation\<close> answers without an error, the action is named,
  the policy is one the request may select (the loaded package under \<open>doelbinding\<close> that its context
  names, or else the configured or the only other root), the query is the prepared form of exactly that
  package's rule for the action, and the first result binds \<open>x0\<close> to the decision of the response or to an
  object with that decision. The record on every output carries the decision and the policy it came from.
\<close>

theorem policy_decides:
  assumes "plain_packages rt" "cache_ok rt c" "adl_active (Some l)"
    and "Authz_Evaluation (Inr rt) I (Some l) tc ms req c log = ((None, resp, log'), c')"
  shows "\<exists>path input user q b bs rec. selectable rt (eq_context req) path \<and>
    ac_name (act0 (eq_action req)) \<noteq> [] \<and> prepare_query rt path [ac_name (act0 (eq_action req))] = Inr q \<and>
    authz_input I req (identityContext (eq_subject req)) = Inr (input, user) \<and> rg_Eval rt q input = Inr (b # bs) \<and>
    (b ''x0'' = Some (PBool (ev_decision resp)) \<or>
     (\<exists>m. b ''x0'' = Some (PStruct m) \<and> m ''decision'' = Some (PBool (ev_decision resp)))) \<and>
    rc_Request rec = RQ_Evaluation (meta_request
      \<lparr>em_policyPath = path, em_identity = identityContext (eq_subject req), em_user = user\<rparr> req) \<and>
    rc_Response rec = Some (JR_Evaluation (ev_decision resp) (ev_context resp)) \<and>
    lo_stdout log' = lo_stdout log @ (if lg_stdout l then [rec] else []) \<and>
    lo_otel log' = lo_otel log @ (if lg_otel l then [rec] else [])"
proof -
  obtain out meta where e: "evaluate rt I req c = (out, meta, c')"
    and g: "logged (Some l) tc ms EventAccessEvaluation (RQ_Evaluation (meta_request meta req)) RS_Evaluation log out = (None, resp, log')"
    using assms(4) by (auto simp: Authz_Evaluation_def authz_evaluation_def getRuntime_def authz_logged_eq split: prod.splits)
  note L = logged_ok [OF assms(3) g]
  then have out: "out = (None, resp)" by (metis prod.collapse)
  from e [unfolded out] obtain input user q b bs v where
    v: "ac_name (act0 (eq_action req)) \<noteq> []" "selectable rt (eq_context req) (em_policyPath meta)"
    "authz_input I req (identityContext (eq_subject req)) = Inr (input, user)"
    "prepare_query rt (em_policyPath meta) [ac_name (act0 (eq_action req))] = Inr q" "rg_Eval rt q input = Inr (b # bs)"
    "b (bindingName 0) = Some v" "evaluationResponse rt (ac_name (act0 (eq_action req))) v = (None, resp)"
    "em_identity meta = identityContext (eq_subject req)" "em_user meta = user"
    by (rule evaluate_ok [OF assms(1,2)])
  have meta: "meta_request \<lparr>em_policyPath = em_policyPath meta, em_identity = identityContext (eq_subject req), em_user = user\<rparr> req
      = meta_request meta req"
    by (simp add: meta_request_def v(8,9))
  have b: "b ''x0'' = Some (PBool (ev_decision resp)) \<or>
     (\<exists>m. b ''x0'' = Some (PStruct m) \<and> m ''decision'' = Some (PBool (ev_decision resp)))"
    using v(6,7) unfolding bindingName_0 evaluationResponse_ok by auto
  show ?thesis
    by (rule exI [of _ "em_policyPath meta"], rule exI [of _ input], rule exI [of _ user], rule exI [of _ q], rule exI [of _ b],
        rule exI [of _ bs], rule exI [of _ "adl_make_record l tc ms EventAccessEvaluation (RQ_Evaluation (meta_request meta req))
          (RS_Evaluation resp) None"])
      (use v b L meta in \<open>simp add: adl_make_record_def responseForJSON_def Let_def\<close>)
qed

definition demo_policy_req :: eval_req where
  "demo_policy_req = \<lparr>eq_subject = None, eq_action = Some \<lparr>ac_name = ''allow'', ac_props = None\<rparr>, eq_resource = None, eq_context = None\<rparr>"

definition demo_dir :: dir_client where
  "demo_dir = \<lparr>dc_Check = (\<lambda>_. None), dc_GetRelation = (\<lambda>_. Inl (PlainErr ''down'')), dc_RelationTypeNotFound = ''E20036''\<rparr>"

definition demo_identity :: identity_env where
  "demo_identity = \<lparr>ie_ResolveSubject = (\<lambda>_. Inl (PlainErr ''expired'')), ie_dir = demo_dir, ie_identity_any = (\<lambda>_. PNull),
     ie_object_any = (\<lambda>_. PNull)\<rparr>"

definition demo_log :: adl_log where "demo_log = \<lparr>lo_stdout = [], lo_otel = []\<rparr>"

lemma demo_policy_path: "policyPath demo_rt None newPreparedQueryCache = (Inr ''authz'', (newPreparedQueryCache\<lparr>qc_packages := Some [''authz''], qc_watched := True\<rparr>))"
  by (simp add: policyPath_def policyPackages_def ensureCompilerWatcher_def newPreparedQueryCache_def demo_rt_packages
      stringProperty_def pb_string_def SelectPolicyRoot_def defaultPolicyRoots_def PolicyRoots_def doelbindingPrefix_def
      demo_rt_fields Let_def)

lemma demo_cache_entries: "qc_entries newPreparedQueryCache = Map.empty"
  by (simp add: newPreparedQueryCache_def)

lemma demo_decision:
  "\<exists>m c'. evaluate demo_rt demo_identity demo_policy_req newPreparedQueryCache = ((None, \<lparr>ev_decision = True, ev_context = None\<rparr>), m, c')"
  by (simp add: evaluate_def demo_policy_req_def act0_def demo_policy_path identityContext_def ent0_def stringProperty_def pb_string_def
      authz_input_def resolveIdentityContext_def decisionQuery_def getOrPrepare_def ensureCompilerWatcher_def
      demo_cache_entries prepare_query_def ValidateRule_def ValidateQuery_def demo_rt_fields bindingName_0
      evaluationResponse_def Let_def)

theorem policy_decides_witness:
  "\<exists>log' c' rec. Authz_Evaluation (Inr demo_rt) demo_identity (Some demo_logger) demo_trace 5 demo_policy_req newPreparedQueryCache demo_log
      = ((None, \<lparr>ev_decision = True, ev_context = None\<rparr>, log'), c') \<and> lo_stdout log' = [rec] \<and>
     rc_Response rec = Some (JR_Evaluation True None)"
proof -
  from demo_decision obtain m c' where
    e: "evaluate demo_rt demo_identity demo_policy_req newPreparedQueryCache = ((None, \<lparr>ev_decision = True, ev_context = None\<rparr>), m, c')"
    by blast
  then obtain log' where run: "Authz_Evaluation (Inr demo_rt) demo_identity (Some demo_logger) demo_trace 5 demo_policy_req
      newPreparedQueryCache demo_log = ((None, \<lparr>ev_decision = True, ev_context = None\<rparr>, log'), c')"
    by (simp add: Authz_Evaluation_def authz_evaluation_def getRuntime_def authz_logged_def adl_emit_def demo_logger_up
        writeRecordStdout_def join_errors_def authz_adlError_def Let_def)
  from policy_decides [OF demo_rt_plain cache_ok_new demo_logger_up(1) run] run show ?thesis
    by (auto simp: demo_logger_up demo_log_def)
qed





section \<open>Tokens stay out of the log\<close>

text \<open>
  What a record may say of the subject of a request: no properties, and when the request's subject carries
  a bearer token, no identifier but that of the user the directory resolved the token to.
\<close>

definition scrubbed :: "('i) identity_env_scheme \<Rightarrow> entity option \<Rightarrow> entity option \<Rightarrow> bool" where
  "scrubbed I subject logged_subject \<longleftrightarrow> (\<exists>s. logged_subject = Some s \<and> en_props s = None \<and>
     (stringProperty (en_props (ent0 subject)) subjectJWTProperty \<noteq> [] \<longrightarrow> en_id s = [] \<or>
       (\<exists>u inp. resolveIdentityContext I (Some (identityContext subject)) Map.empty = (Inr (Some u), inp) \<and> en_id s = o_id u)))"

lemma adlSubject_scrubbed:
  assumes "\<And>u. user = Some u \<Longrightarrow> \<exists>inp. resolveIdentityContext I (Some (identityContext subject)) Map.empty = (Inr (Some u), inp)"
  shows "scrubbed I subject (Some (adlSubject (identityContext subject) user))"
  using assms by (cases user) (auto simp: scrubbed_def adlSubject_def identityContext_def Let_def)


definition demo_token_req :: eval_req where
  "demo_token_req = demo_policy_req\<lparr>eq_subject := Some \<lparr>en_type = ''user'', en_id = ''bob'', en_props = Some [''jwt'' \<mapsto> PStr ''ey.secret'']\<rparr>\<rparr>"

lemma demo_token_identity: "identityContext (eq_subject demo_token_req) = \<lparr>id_type = IT_JWT, id_value = ''ey.secret''\<rparr>"
  by (simp add: demo_token_req_def identityContext_def ent0_def stringProperty_def pb_string_def subjectJWTProperty_def Let_def)

lemma demo_token_unresolved:
  "resolveIdentityContext demo_identity (Some \<lparr>id_type = IT_JWT, id_value = ''ey.secret''\<rparr>) Map.empty
     = (Inl (PlainErr ''expired''), [''identity'' \<mapsto> PNull])"
  by (simp add: resolveIdentityContext_def resolveSubjectFromIdentityContext_def demo_identity_def Let_def)


section \<open>A query prepared across a reload\<close>

text \<open>
  \<open>getOrPrepare\<close> with other requests and reloads between its parts: a request that misses prepares its
  query and only later stores it, one preparation per key at a time; a reload fires the trigger.
\<close>

inductive cache_step ::
  "('body, 'q) rego_rt \<times> 'q query_cache \<times> (string \<times> 'q) list \<Rightarrow> ('body, 'q) rego_rt \<times> 'q query_cache \<times> (string \<times> 'q) list \<Rightarrow> bool" where
  cs_prepare: "qc_entries c (cacheKey p ds) = None \<Longrightarrow> cacheKey p ds \<notin> fst ` set pending \<Longrightarrow> prepare_query rt p ds = Inr q \<Longrightarrow>
    cache_step (rt, c, pending) (rt, ensureCompilerWatcher c, (cacheKey p ds, q) # pending)"
| cs_store: "(key, q) \<in> set pending \<Longrightarrow>
    cache_step (rt, c, pending) (rt, c\<lparr>qc_entries := (qc_entries c)(key \<mapsto> q)\<rparr>, removeAll (key, q) pending)"
| cs_reload: "cache_step (rt, c, pending) (rt', compiler_trigger c, pending)"

text \<open>
  A query that was being prepared while the policies were reloaded is stored after the trigger has run,
  and is then served although the loaded policies prepare a different one.
\<close>

lemma stale_query_served:
  assumes "prepare_query rt p [d] = Inr q" "prepare_query rt' p [d] \<noteq> Inr q"
  shows "\<exists>c. cache_step\<^sup>*\<^sup>* (rt, newPreparedQueryCache, []) (rt', c, []) \<and> fst (decisionQuery rt' p [d] c) = Inr q"
proof -
  let ?k = "cacheKey p [d]" and ?c = "ensureCompilerWatcher newPreparedQueryCache :: 'a query_cache"
  have "cache_step (rt, newPreparedQueryCache, []) (rt, ?c, [(?k, q)])"
    by (rule cs_prepare) (simp_all add: assms(1) newPreparedQueryCache_def)
  moreover have "cache_step (rt, ?c, [(?k, q)]) (rt', compiler_trigger ?c, [(?k, q)])" by (rule cs_reload)
  moreover have "cache_step (rt', compiler_trigger ?c, [(?k, q)])
      (rt', (compiler_trigger ?c)\<lparr>qc_entries := (qc_entries (compiler_trigger ?c))(?k \<mapsto> q)\<rparr>, removeAll (?k, q) [(?k, q)])"
    by (rule cs_store) simp
  ultimately have "cache_step\<^sup>*\<^sup>* (rt, newPreparedQueryCache, [])
      (rt', (compiler_trigger ?c)\<lparr>qc_entries := (qc_entries (compiler_trigger ?c))(?k \<mapsto> q)\<rparr>, [])"
    by simp
  moreover have "fst (decisionQuery rt' p [d] ((compiler_trigger ?c)\<lparr>qc_entries := (qc_entries (compiler_trigger ?c))(?k \<mapsto> q)\<rparr>)) = Inr q"
    by (simp add: decisionQuery_def getOrPrepare_def ensureCompilerWatcher_def Let_def)
  ultimately show ?thesis by blast
qed

end
