(* ===== verification/Migrations.thy ===== *)
theory Migrations
  imports BdbStore Ds
begin

text \<open>
  Schema migrations of the BoltDB file: \<open>bdb/migrations/common\<close>, the migrations \<open>mig004\<close> to
  \<open>mig010\<close> and \<open>bdb/migrations/migrate\<close>, and \<open>openBoltDB\<close> of \<open>directory/directory.go\<close>, which runs them.
  A migration reads a read-only backup and rewrites the live file, one transaction per step. The files are
  the state: the live database and the backups, which are named by the version they were taken at. The
  semantic-version library, the codecs and the operating system's answers are parameters.
\<close>

section \<open>The environment\<close>

record ('db, 'v, 'model, 'ver) mig_env = "('db, 'v, 'model) bdb_env" +
  mg_json_body :: "'v option \<Rightarrow> body result"
  mg_json_md :: "'v option \<Rightarrow> metadata result"
  mg_json_obj :: "'v \<Rightarrow> object result"
  mg_json_rel :: "'v \<Rightarrow> relation result"
  mg_nil :: 'v
  mg_Load :: "body \<Rightarrow> 'model result"
  mg_of_string :: "string \<Rightarrow> 'v"
  mg_to_string :: "'v \<Rightarrow> string"
  sv_New :: "string \<Rightarrow> 'ver option"
  sv_String :: "'ver \<Rightarrow> string"
  sv_Patch :: "'ver \<Rightarrow> nat"
  sv_IncPatch :: "'ver \<Rightarrow> 'ver"
  sv_Equal :: "'ver \<Rightarrow> 'ver \<Rightarrow> bool"
  sv_LessThan :: "'ver \<Rightarrow> 'ver \<Rightarrow> bool"
  sv_GreaterThan :: "'ver \<Rightarrow> 'ver \<Rightarrow> bool"
  os_empty :: 'db
  os_open :: "derror option"
  os_backup :: "string \<Rightarrow> derror option"
  os_open_ro :: "string \<Rightarrow> derror option"
  os_sync :: "derror option"

text \<open>
  The \<open>mg_json\<close> codecs decode the encoding before version 0.0.7; \<open>mg_nil\<close> is the empty value that a nil
  slice stores, \<open>mg_of_string\<close> the bytes of a string. \<open>os_empty\<close> is what a new file holds; a backup that
  fails does so before it replaces an earlier one.
\<close>

record 'db mig_files =
  mf_db :: "'db option"
  mf_backup :: "string \<rightharpoonup> 'db"

type_synonym 'db migration = "'db option \<Rightarrow> 'db \<Rightarrow> derror option \<times> 'db"

definition ErrNotExist :: derror where
  "ErrNotExist = PlainErr ''file does not exist''"

text \<open>\<open>bolt.DB.Update\<close> and \<open>View\<close>.\<close>

definition db_Update :: "('db, 'v, 'z) bolt_scheme \<Rightarrow> 'db \<Rightarrow> ('db \<Rightarrow> derror option \<times> 'db) \<Rightarrow> derror option \<times> 'db" where
  "db_Update E db f = (case bolt_begin E True db of
      Some e \<Rightarrow> (Some e, db)
    | None \<Rightarrow> (case f db of
          (Some e, _) \<Rightarrow> (Some e, db)
        | (None, db') \<Rightarrow> (case bolt_commit E db' of Some e \<Rightarrow> (Some e, db) | None \<Rightarrow> (None, db'))))"

definition db_View :: "('db, 'v, 'z) bolt_scheme \<Rightarrow> 'db \<Rightarrow> ('db \<Rightarrow> 'a result) \<Rightarrow> 'a result" where
  "db_View E db f = (case bolt_begin E False db of
      Some e \<Rightarrow> Inl e
    | None \<Rightarrow> (case f db of
          Inl e \<Rightarrow> Inl e
        | Inr x \<Rightarrow> (case bolt_rollback E db of Some e \<Rightarrow> Inl e | None \<Rightarrow> Inr x)))"

text \<open>A write transaction on the live file inside a view of the backup, rolled back unless it commits.\<close>

definition copy_tx ::
  "('db, 'v, 'z) bolt_scheme \<Rightarrow> ('db \<Rightarrow> 'db \<Rightarrow> derror option \<times> 'db) \<Rightarrow> 'db \<Rightarrow> 'db \<Rightarrow> derror option \<times> 'db" where
  "copy_tx E f ro rw = (case bolt_begin E False ro of
      Some e \<Rightarrow> (Some e, rw)
    | None \<Rightarrow> (case bolt_begin E True rw of
          Some e \<Rightarrow> (Some e, rw)
        | None \<Rightarrow> (case f ro rw of
              (Some e, _) \<Rightarrow> (Some e, rw)
            | (None, w) \<Rightarrow> (case bolt_commit E w of
                  Some e \<Rightarrow> (Some e, rw)
                | None \<Rightarrow> (bolt_rollback E ro, w)))))"

section \<open>Steps\<close>

definition versionKey :: bytes where "versionKey = ''version''"
definition baseVersion :: string where "baseVersion = ''0.0.4''"

definition mig_SetBucket :: "('db, 'v, 'z) bolt_scheme \<Rightarrow> 'db \<Rightarrow> path \<Rightarrow> path result" where
  "mig_SetBucket E db path = (case SetBucket E db path of Inl _ \<Rightarrow> Inl ErrNotExist | Inr b \<Rightarrow> Inr b)"

definition mig_SetKey :: "('db, 'v, 'z) bolt_scheme \<Rightarrow> 'db \<Rightarrow> path \<Rightarrow> bytes \<Rightarrow> 'v \<Rightarrow> derror option \<times> 'db" where
  "mig_SetKey E db path key val = (case mig_SetBucket E db path of
      Inl e \<Rightarrow> (Some e, db)
    | Inr b \<Rightarrow> (case bolt_put E db b key val of Inl e \<Rightarrow> (Some e, db) | Inr db' \<Rightarrow> (None, db')))"

definition mig_CreateBucket :: "('db, 'v, 'z) bolt_scheme \<Rightarrow> path \<Rightarrow> 'db migration" where
  "mig_CreateBucket E path ro rw = db_Update E rw (\<lambda>db. case CreateBucket E db path of
      (Inl e, db') \<Rightarrow> (Some e, db') | (Inr _, db') \<Rightarrow> (None, db'))"

definition mig_DeleteBucket :: "('db, 'v, 'z) bolt_scheme \<Rightarrow> path \<Rightarrow> 'db migration" where
  "mig_DeleteBucket E path ro rw = db_Update E rw (\<lambda>db. DeleteBucket E db path)"

text \<open>The version of a file; a value that is not a version gives nil.\<close>

definition GetVersion :: "('db, 'v, 'model, 'ver, 'z) mig_env_scheme \<Rightarrow> 'db \<Rightarrow> 'ver option result" where
  "GetVersion E db = db_View E db (\<lambda>db. case mig_SetBucket E db SystemPath of
      Inl _ \<Rightarrow> Inr (sv_New E baseVersion)
    | Inr b \<Rightarrow> (case bolt_get E db b versionKey of
          None \<Rightarrow> Inr (sv_New E baseVersion)
        | Some v \<Rightarrow> Inr (sv_New E (mg_to_string E v))))"

definition put_version :: "('db, 'v, 'model, 'ver, 'z) mig_env_scheme \<Rightarrow> string \<Rightarrow> 'db \<Rightarrow> derror option \<times> 'db" where
  "put_version E s db = db_Update E db (\<lambda>db. case mig_SetBucket E db SystemPath of
      Inl _ \<Rightarrow> (None, db)
    | Inr b \<Rightarrow> (case bolt_put E db b versionKey (mg_of_string E s) of Inl e \<Rightarrow> (Some e, db) | Inr db' \<Rightarrow> (None, db')))"

definition SetVersion :: "('db, 'v, 'model, 'ver, 'z) mig_env_scheme \<Rightarrow> 'db \<Rightarrow> 'ver \<Rightarrow> derror option \<times> 'db" where
  "SetVersion E db version = put_version E (sv_String E version) db"

definition EnsureBaseVersion :: "('db, 'v, 'model, 'ver, 'z) mig_env_scheme \<Rightarrow> 'db migration" where
  "EnsureBaseVersion E ro rw = put_version E baseVersion rw"

definition loadModel_at :: "('db, 'v, 'model, 'ver, 'z) mig_env_scheme \<Rightarrow> path \<Rightarrow> 'db \<Rightarrow> 'model result" where
  "loadModel_at E path ro = db_View E ro (\<lambda>rtx. case Get E (dec_body E) rtx path BodyKey of
      Inl e \<Rightarrow> Inl e
    | Inr manifestBody \<Rightarrow> mg_Load E manifestBody)"

definition MigrateModel_at :: "('db, 'v, 'model, 'ver, 'z) mig_env_scheme \<Rightarrow> path \<Rightarrow> 'db migration" where
  "MigrateModel_at E path ro rw = (case ro of
      None \<Rightarrow> (None, rw)
    | Some ro \<Rightarrow> (case loadModel_at E path ro of
          Inl e \<Rightarrow> (Some e, rw)
        | Inr m \<Rightarrow> db_Update E rw (\<lambda>tx. case SetAny E (enc_model E) tx path ModelKey m of
              (Inl e, tx') \<Rightarrow> (Some e, tx') | (Inr _, tx') \<Rightarrow> (None, tx'))))"

definition MigrateModelV1 :: "('db, 'v, 'model, 'ver, 'z) mig_env_scheme \<Rightarrow> 'db migration" where
  "MigrateModelV1 E = MigrateModel_at E ManifestPathV1"

definition MigrateModelV2 :: "('db, 'v, 'model, 'ver, 'z) mig_env_scheme \<Rightarrow> 'db migration" where
  "MigrateModelV2 E = MigrateModel_at E ManifestPathV2"

section \<open>Copies from the backup\<close>

definition encodeBody :: "('db, 'v, 'model, 'ver, 'z) mig_env_scheme \<Rightarrow> 'db \<Rightarrow> path \<Rightarrow> path \<Rightarrow> 'db \<Rightarrow> derror option \<times> 'db" where
  "encodeBody E ro b path w = (case mg_json_body E (bolt_get E ro b BodyKey) of
      Inl e \<Rightarrow> (Some e, w)
    | Inr body \<Rightarrow> (case enc_body E body of Inl e \<Rightarrow> (Some e, w) | Inr buf \<Rightarrow> mig_SetKey E w path BodyKey buf))"

definition encodeMetaData :: "('db, 'v, 'model, 'ver, 'z) mig_env_scheme \<Rightarrow> 'db \<Rightarrow> path \<Rightarrow> path \<Rightarrow> 'db \<Rightarrow> derror option \<times> 'db" where
  "encodeMetaData E ro b path w = (case mg_json_md E (bolt_get E ro b MetadataKey) of
      Inl e \<Rightarrow> (Some e, w)
    | Inr md \<Rightarrow> (case enc_md E md of Inl e \<Rightarrow> (Some e, w) | Inr buf \<Rightarrow> mig_SetKey E w path MetadataKey buf))"

definition mig007_updateManifest :: "('db, 'v, 'model, 'ver, 'z) mig_env_scheme \<Rightarrow> path \<Rightarrow> 'db migration" where
  "mig007_updateManifest E path ro rw = (case ro of
      None \<Rightarrow> (None, rw)
    | Some ro \<Rightarrow> copy_tx E (\<lambda>ro w. case mig_SetBucket E ro path of
          Inl e \<Rightarrow> (Some e, w)
        | Inr b \<Rightarrow> (case encodeBody E ro b path w of
              (Some e, w) \<Rightarrow> (Some e, w)
            | (None, w) \<Rightarrow> (case encodeMetaData E ro b path w of
                  (Some e, w) \<Rightarrow> (Some e, w)
                | (None, w) \<Rightarrow> mig_SetKey E w path ModelKey (case bolt_get E ro b ModelKey of None \<Rightarrow> mg_nil E | Some v \<Rightarrow> v)))) ro rw)"

fun copy_objects ::
  "('db, 'v, 'z) bolt_scheme \<Rightarrow> ('v \<Rightarrow> 'v result) \<Rightarrow> (bytes \<times> 'v) list \<Rightarrow> 'db \<Rightarrow> derror option \<times> 'db" where
  "copy_objects E recode [] w = (None, w)"
| "copy_objects E recode ((key, value) # es) w = (case recode value of
      Inl e \<Rightarrow> (Some e, w)
    | Inr val \<Rightarrow> (case mig_SetKey E w ObjectsPath key val of
          (Some e, w) \<Rightarrow> (Some e, w)
        | (None, w) \<Rightarrow> copy_objects E recode es w))"

definition copy_objects_from :: "('db, 'v, 'z) bolt_scheme \<Rightarrow> ('v \<Rightarrow> 'v result) \<Rightarrow> 'db migration" where
  "copy_objects_from E recode ro rw = (case ro of
      None \<Rightarrow> (None, rw)
    | Some ro \<Rightarrow> copy_tx E (\<lambda>ro w. case mig_SetBucket E ro ObjectsPath of
          Inl e \<Rightarrow> (Some e, w)
        | Inr b \<Rightarrow> copy_objects E recode (bolt_entries E ro b) w) ro rw)"

definition updateEncodingObjects :: "('db, 'v, 'model, 'ver, 'z) mig_env_scheme \<Rightarrow> 'db migration" where
  "updateEncodingObjects E = copy_objects_from E
     (\<lambda>value. case mg_json_obj E value of Inl e \<Rightarrow> Inl e | Inr obj \<Rightarrow> enc_obj E obj)"

definition mig010_updateObjects :: "('db, 'v, 'model, 'ver, 'z) mig_env_scheme \<Rightarrow> 'db migration" where
  "mig010_updateObjects E = copy_objects_from E
     (\<lambda>value. case dec_obj E value of
        Inl e \<Rightarrow> Inl e
      | Inr obj \<Rightarrow> (case PatchObjectWrite (Some obj) of
            Inl e \<Rightarrow> Inl e
          | Inr None \<Rightarrow> Inl nil_deref
          | Inr (Some obj) \<Rightarrow> enc_obj E obj))"

fun copy_relations ::
  "('db, 'v, 'model, 'ver, 'z) mig_env_scheme \<Rightarrow> (bytes \<times> 'v) list \<Rightarrow> 'db \<Rightarrow> derror option \<times> 'db" where
  "copy_relations E [] w = (None, w)"
| "copy_relations E ((key, value) # es) w = (case mg_json_rel E value of
      Inl e \<Rightarrow> (Some e, w)
    | Inr rel \<Rightarrow> (case enc_rel E rel of
          Inl e \<Rightarrow> (Some e, w)
        | Inr val \<Rightarrow> (case mig_SetKey E w RelationsObjPath (relation_ObjKey rel) val of
              (Some e, w) \<Rightarrow> (Some e, w)
            | (None, w) \<Rightarrow> (case mig_SetKey E w RelationsSubPath (relation_SubKey rel) val of
                  (Some e, w) \<Rightarrow> (Some e, w)
                | (None, w) \<Rightarrow> copy_relations E es w))))"

definition updateEncodingRelations :: "('db, 'v, 'model, 'ver, 'z) mig_env_scheme \<Rightarrow> 'db migration" where
  "updateEncodingRelations E ro rw = (case ro of
      None \<Rightarrow> (None, rw)
    | Some ro \<Rightarrow> copy_tx E (\<lambda>ro w. case mig_SetBucket E ro RelationsObjPath of
          Inl e \<Rightarrow> (Some e, w)
        | Inr b \<Rightarrow> copy_relations E (bolt_entries E ro b) w) ro rw)"

definition key_not_found :: "bytes \<Rightarrow> derror" where
  "key_not_found key = AErr [] NotFound (key @ '' not found'')"

fun copy_keys :: "('db, 'v, 'z) bolt_scheme \<Rightarrow> 'db \<Rightarrow> path \<Rightarrow> path \<Rightarrow> bytes list \<Rightarrow> 'db \<Rightarrow> derror option \<times> 'db" where
  "copy_keys E ro rb wb [] w = (None, w)"
| "copy_keys E ro rb wb (key # keys) w = (case bolt_get E ro rb key of
      None \<Rightarrow> (Some (key_not_found key), w)
    | Some v \<Rightarrow> (case bolt_put E w wb key v of
          Inl e \<Rightarrow> (Some e, w)
        | Inr w' \<Rightarrow> copy_keys E ro rb wb keys w'))"

definition mig009_updateManifest :: "('db, 'v, 'z) bolt_scheme \<Rightarrow> path \<Rightarrow> path \<Rightarrow> 'db migration" where
  "mig009_updateManifest E oldPath newPath ro rw = (case ro of
      None \<Rightarrow> (None, rw)
    | Some ro \<Rightarrow> copy_tx E (\<lambda>ro w. case mig_SetBucket E ro oldPath of
          Inl e \<Rightarrow> (Some e, w)
        | Inr rb \<Rightarrow> (case mig_SetBucket E w newPath of
              Inl e \<Rightarrow> (Some e, w)
            | Inr wb \<Rightarrow> copy_keys E ro rb wb [BodyKey, ModelKey, MetadataKey] w)) ro rw)"

section \<open>Migrations\<close>

fun run_steps :: "'db migration list \<Rightarrow> 'db migration" where
  "run_steps [] ro rw = (None, rw)"
| "run_steps (fn # fns) ro rw = (case fn ro rw of
      (Some e, rw') \<Rightarrow> (Some e, rw')
    | (None, rw') \<Rightarrow> run_steps fns ro rw')"

definition data_buckets :: "('db, 'v, 'z) bolt_scheme \<Rightarrow> 'db migration list" where
  "data_buckets E = [mig_CreateBucket E ObjectsPath, mig_CreateBucket E RelationsObjPath, mig_CreateBucket E RelationsSubPath]"

definition mig004_Migrate :: "('db, 'v, 'model, 'ver, 'z) mig_env_scheme \<Rightarrow> 'db migration" where
  "mig004_Migrate E = run_steps
     ([mig_CreateBucket E SystemPath, mig_CreateBucket E ManifestPathV1, MigrateModelV1 E] @ data_buckets E)"

definition mig005_Migrate :: "('db, 'v, 'model, 'ver, 'z) mig_env_scheme \<Rightarrow> 'db migration" where
  "mig005_Migrate E = run_steps
     ([mig_CreateBucket E SystemPath, mig_CreateBucket E ManifestPathV1, MigrateModelV1 E] @ data_buckets E)"

definition mig006_Migrate :: "('db, 'v, 'model, 'ver, 'z) mig_env_scheme \<Rightarrow> 'db migration" where
  "mig006_Migrate E = run_steps
     ([mig_CreateBucket E SystemPath, mig_CreateBucket E ManifestPathV1, MigrateModelV1 E] @ data_buckets E)"

definition mig007_Migrate :: "('db, 'v, 'model, 'ver, 'z) mig_env_scheme \<Rightarrow> 'db migration" where
  "mig007_Migrate E = run_steps
     [mig_DeleteBucket E SystemPath, mig_CreateBucket E SystemPath,
      mig_DeleteBucket E ManifestPathV1, mig_CreateBucket E ManifestPathV1, mig007_updateManifest E ManifestPathV1,
      mig_DeleteBucket E ObjectsPath, mig_CreateBucket E ObjectsPath, updateEncodingObjects E,
      mig_DeleteBucket E RelationsObjPath, mig_CreateBucket E RelationsObjPath,
      mig_DeleteBucket E RelationsSubPath, mig_CreateBucket E RelationsSubPath, updateEncodingRelations E]"

definition mig008_Migrate :: "('db, 'v, 'model, 'ver, 'z) mig_env_scheme \<Rightarrow> 'db migration" where
  "mig008_Migrate E = run_steps
     ([mig_CreateBucket E SystemPath, mig_CreateBucket E ManifestPathV1, MigrateModelV1 E] @ data_buckets E)"

definition mig009_Migrate :: "('db, 'v, 'model, 'ver, 'z) mig_env_scheme \<Rightarrow> 'db migration" where
  "mig009_Migrate E = run_steps
     ([mig_CreateBucket E SystemPath, mig_DeleteBucket E ManifestPathV1, mig_CreateBucket E ManifestPathV2,
       mig009_updateManifest E ManifestPathV1 ManifestPathV2] @ data_buckets E)"

definition mig010_Migrate :: "('db, 'v, 'model, 'ver, 'z) mig_env_scheme \<Rightarrow> 'db migration" where
  "mig010_Migrate E = run_steps
     [mig_CreateBucket E SystemPath, mig_CreateBucket E ManifestPathV2, mig_CreateBucket E ObjectsPath,
      mig010_updateObjects E, mig_CreateBucket E RelationsObjPath, mig_CreateBucket E RelationsSubPath]"

definition migMap :: "('db, 'v, 'model, 'ver, 'z) mig_env_scheme \<Rightarrow> (string \<times> 'db migration) list" where
  "migMap E = [(''0.0.4'', mig004_Migrate E), (''0.0.5'', mig005_Migrate E), (''0.0.6'', mig006_Migrate E),
     (''0.0.7'', mig007_Migrate E), (''0.0.8'', mig008_Migrate E), (''0.0.9'', mig009_Migrate E),
     (''0.0.10'', mig010_Migrate E)]"

definition mig_execute :: "('db, 'v, 'model, 'ver, 'z) mig_env_scheme \<Rightarrow> 'ver \<Rightarrow> 'db migration" where
  "mig_execute E newVersion ro rw = (case map_of (migMap E) (sv_String E newVersion) of
      None \<Rightarrow> (Some ErrNotExist, rw)
    | Some fnMigrate \<Rightarrow> fnMigrate ro rw)"

text \<open>The live file as opening it leaves it: a file that is not there is created.\<close>

definition live :: "('db, 'v, 'model, 'ver, 'z) mig_env_scheme \<Rightarrow> 'db mig_files \<Rightarrow> 'db" where
  "live E files = (case mf_db files of None \<Rightarrow> os_empty E | Some db \<Rightarrow> db)"

definition set_version_sync ::
  "('db, 'v, 'model, 'ver, 'z) mig_env_scheme \<Rightarrow> 'ver \<Rightarrow> derror option \<times> 'db \<Rightarrow> derror option \<times> 'db" where
  "set_version_sync E version r = (case r of
      (Some e, rw) \<Rightarrow> (Some e, rw)
    | (None, rw) \<Rightarrow> (case SetVersion E rw version of
          (Some e, rw') \<Rightarrow> (Some e, rw')
        | (None, rw') \<Rightarrow> (os_sync E, rw')))"

definition mig_create :: "('db, 'v, 'model, 'ver, 'z) mig_env_scheme \<Rightarrow> 'ver \<Rightarrow> 'db mig_files \<Rightarrow> derror option \<times> 'db mig_files" where
  "mig_create E version files = (case os_open E of
      Some e \<Rightarrow> (Some e, files)
    | None \<Rightarrow> (case set_version_sync E version (mig_execute E version None (live E files)) of
          (err, db) \<Rightarrow> (err, files\<lparr>mf_db := Some db\<rparr>)))"

definition mig_migrate ::
  "('db, 'v, 'model, 'ver, 'z) mig_env_scheme \<Rightarrow> 'ver \<Rightarrow> 'ver \<Rightarrow> 'db mig_files \<Rightarrow> derror option \<times> 'db mig_files" where
  "mig_migrate E curVersion nextVersion files = (case os_open E of
      Some e \<Rightarrow> (Some e, files)
    | None \<Rightarrow>
        (let db = live E files; cur = sv_String E curVersion; files = files\<lparr>mf_db := Some db\<rparr> in
         case os_backup E cur of
           Some e \<Rightarrow> (Some e, files)
         | None \<Rightarrow>
             (let files = files\<lparr>mf_backup := (mf_backup files)(cur \<mapsto> db)\<rparr> in
              case os_open_ro E cur of
                Some e \<Rightarrow> (Some e, files)
              | None \<Rightarrow> (case set_version_sync E nextVersion (mig_execute E nextVersion (Some db) db) of
                    (err, db') \<Rightarrow> (err, files\<lparr>mf_db := Some db'\<rparr>)))))"

definition getCurrent :: "('db, 'v, 'model, 'ver, 'z) mig_env_scheme \<Rightarrow> 'db mig_files \<Rightarrow> 'ver option result" where
  "getCurrent E files = (case os_open E of Some e \<Rightarrow> Inl e | None \<Rightarrow> GetVersion E (live E files))"

section \<open>The schema version\<close>

definition ErrDirectorySchemaVersionHigher :: "string \<Rightarrow> derror" where
  "ErrDirectorySchemaVersionHigher msg = AErr ''E20054'' FailedPrecondition msg"

definition ErrDirectorySchemaUpdateRequired :: derror where
  "ErrDirectorySchemaUpdateRequired = AErr ''E20055'' FailedPrecondition ''directory schema update required''"

definition ErrUnknown :: derror where
  "ErrUnknown = AErr ''E99999'' Unknown ''unexpected error occurred''"

text \<open>The error, if the version is not the required one, and the files.\<close>

definition CheckSchemaVersion ::
  "('db, 'v, 'model, 'ver, 'z) mig_env_scheme \<Rightarrow> 'ver \<Rightarrow> 'db mig_files \<Rightarrow> derror option \<times> 'db mig_files" where
  "CheckSchemaVersion E reqVersion files =
     (if mf_db files = None then mig_create E reqVersion files
      else case getCurrent E files of
          Inl e \<Rightarrow> (Some e, files)
        | Inr None \<Rightarrow> (Some nil_deref, files)
        | Inr (Some curVersion) \<Rightarrow>
            (if sv_Equal E curVersion reqVersion then None
             else if sv_LessThan E curVersion reqVersion then Some ErrDirectorySchemaUpdateRequired
             else if sv_GreaterThan E curVersion reqVersion
             then Some (ErrDirectorySchemaVersionHigher (sv_String E curVersion))
             else Some ErrUnknown, files))"

text \<open>The loop of \<open>Migrate\<close>; it may not end, which is the result None.\<close>

partial_function (option) Migrate_loop ::
  "('db, 'v, 'model, 'ver, 'z) mig_env_scheme \<Rightarrow> 'ver \<Rightarrow> 'ver \<Rightarrow> 'db mig_files \<Rightarrow> (derror option \<times> 'db mig_files) option" where
  "Migrate_loop E reqVersion curVersion files =
     (case mig_migrate E curVersion (sv_IncPatch E curVersion) files of
        (Some e, files) \<Rightarrow> Some (Some e, files)
      | (None, files) \<Rightarrow> (case getCurrent E files of
            Inl e \<Rightarrow> Some (Some e, files)
          | Inr None \<Rightarrow> Some (Some nil_deref, files)
          | Inr (Some curVersion) \<Rightarrow>
              (if sv_Equal E curVersion reqVersion then Some (None, files)
               else Migrate_loop E reqVersion curVersion files)))"

definition Migrate_body ::
  "('db, 'v, 'model, 'ver, 'z) mig_env_scheme \<Rightarrow> 'ver \<Rightarrow> 'db mig_files \<Rightarrow> (derror option \<times> 'db mig_files) option" where
  "Migrate_body E reqVersion files =
     (let files' = files\<lparr>mf_db := Some (live E files)\<rparr> in
      case getCurrent E files of
        Inl e \<Rightarrow> Some (Some e, files)
      | Inr None \<Rightarrow> Some (Some nil_deref, files')
      | Inr (Some curVersion) \<Rightarrow>
          (if sv_Equal E curVersion reqVersion then Some (None, files') else Migrate_loop E reqVersion curVersion files'))"

text \<open>A panic is recovered, and the unnamed result is then nil.\<close>

definition recovered :: "derror option \<Rightarrow> derror option" where
  "recovered err = (case err of Some (Panic _) \<Rightarrow> None | _ \<Rightarrow> err)"

definition mig_Migrate ::
  "('db, 'v, 'model, 'ver, 'z) mig_env_scheme \<Rightarrow> 'ver \<Rightarrow> 'db mig_files \<Rightarrow> (derror option \<times> 'db mig_files) option" where
  "mig_Migrate E reqVersion files = map_option (\<lambda>(err, files). (recovered err, files)) (Migrate_body E reqVersion files)"

text \<open>The file \<open>openBoltDB\<close> opens: None while the migration does not end, otherwise the error or the database.\<close>

definition openBoltDB ::
  "('db, 'v, 'model, 'ver, 'z) mig_env_scheme \<Rightarrow> 'ver \<Rightarrow> 'db mig_files \<Rightarrow> ('db result \<times> 'db mig_files) option" where
  "openBoltDB E schemaVersion files =
     (let opened = (\<lambda>files. case os_open E of Some e \<Rightarrow> (Inl e, files) | None \<Rightarrow> (Inr (live E files), files)) in
      case CheckSchemaVersion E schemaVersion files of
        (None, files) \<Rightarrow> Some (opened files)
      | (Some e, files) \<Rightarrow>
          (if e \<noteq> ErrDirectorySchemaUpdateRequired then Some (Inl e, files)
           else case mig_Migrate E schemaVersion files of
               None \<Rightarrow> None
             | Some (Some e, files) \<Rightarrow> Some (Inl e, files)
             | Some (None, files) \<Rightarrow> (case CheckSchemaVersion E schemaVersion files of
                   (Some e, files) \<Rightarrow> Some (Inl e, files)
                 | (None, files) \<Rightarrow> Some (opened files))))"

section \<open>What a step keeps\<close>

text \<open>A step that succeeds on a valid file leaves it valid, and the buckets in \<open>P\<close> with what they hold.\<close>

definition kept :: "('db, 'v, 'z) bolt_scheme \<Rightarrow> path set \<Rightarrow> 'db \<Rightarrow> 'db \<Rightarrow> bool" where
  "kept E P db db' \<longleftrightarrow> bolt_valid E db' \<and> (\<forall>q \<in> P. bolt_has E db q \<longrightarrow>
     bolt_has E db' q \<and> map_of (bolt_entries E db' q) = map_of (bolt_entries E db q))"

definition keeps :: "('db, 'v, 'z) bolt_scheme \<Rightarrow> path set \<Rightarrow> ('db \<Rightarrow> derror option \<times> 'db) \<Rightarrow> bool" where
  "keeps E P f \<longleftrightarrow> (\<forall>db db'. bolt_valid E db \<longrightarrow> f db = (None, db') \<longrightarrow> kept E P db db')"

lemma kept_refl: "bolt_valid E db \<Longrightarrow> kept E P db db"
  by (simp add: kept_def)

lemma kept_trans: "kept E P a b \<Longrightarrow> kept E P b c \<Longrightarrow> kept E P a c"
  by (simp add: kept_def)

lemma kept_mono: "kept E P a b \<Longrightarrow> Q \<subseteq> P \<Longrightarrow> kept E Q a b"
  by (auto simp: kept_def)

lemma keepsI: "(\<And>db db'. bolt_valid E db \<Longrightarrow> f db = (None, db') \<Longrightarrow> kept E P db db') \<Longrightarrow> keeps E P f"
  by (simp add: keeps_def)

lemma keepsD: "keeps E P f \<Longrightarrow> bolt_valid E db \<Longrightarrow> f db = (None, db') \<Longrightarrow> kept E P db db'"
  by (simp add: keeps_def)

lemma keeps_mono: "keeps E P f \<Longrightarrow> Q \<subseteq> P \<Longrightarrow> keeps E Q f"
  using kept_mono by (fastforce simp: keeps_def)

lemma keeps_valid: "keeps E P f \<Longrightarrow> bolt_valid E db \<Longrightarrow> f db = (None, db') \<Longrightarrow> bolt_valid E db'"
  using keepsD by (fastforce simp: kept_def)

lemma keeps_db_Update: "keeps E P f \<Longrightarrow> keeps E P (\<lambda>db. db_Update E db f)"
  by (rule keepsI) (auto simp: db_Update_def split: option.splits prod.splits dest: keepsD)

lemma copy_tx_ok: "copy_tx E f ro rw = (None, w) \<Longrightarrow> f ro rw = (None, w)"
  by (auto simp: copy_tx_def split: option.splits prod.splits)

lemma keeps_None: "keeps E P (\<lambda>db. (None, db))"
  by (rule keepsI) (simp add: kept_refl)

lemma keeps_Some: "keeps E P (\<lambda>db. (Some e, db))"
  by (rule keepsI) simp

lemma keeps_seq:
  assumes "keeps E P f" "keeps E P g"
  shows "keeps E P (\<lambda>db. case f db of (Some e, db) \<Rightarrow> (Some e, db) | (None, db) \<Rightarrow> g db)"
proof (rule keepsI)
  fix db db' assume v: "bolt_valid E db" and run: "(case f db of (Some e, db) \<Rightarrow> (Some e, db) | (None, db) \<Rightarrow> g db) = (None, db')"
  then obtain d where d: "f db = (None, d)" "g d = (None, db')" by (auto split: prod.splits option.splits)
  note k = keepsD [OF assms(1) v d(1)]
  from kept_trans [OF k keepsD [OF assms(2) _ d(2)]] k show "kept E P db db'" by (simp add: kept_def)
qed

lemma keeps_run_steps:
  "(\<And>fn. fn \<in> set fns \<Longrightarrow> keeps E P (fn ro)) \<Longrightarrow> keeps E P (run_steps fns ro)"
proof (induction fns)
  case Nil
  show ?case by (rule keepsI) (simp add: kept_refl)
next
  case (Cons fn fns)
  then have "keeps E P (\<lambda>db. case fn ro db of (Some e, db) \<Rightarrow> (Some e, db) | (None, db) \<Rightarrow> run_steps fns ro db)"
    by (intro keeps_seq) simp_all
  then show ?case by (simp add: keeps_def)
qed

context bolt_engine
begin

lemma kept_put:
  assumes h: "bolt_has B db p" and v: "bolt_valid B db" and p: "bolt_put B db p k x = Inr db'" and "p \<notin> P"
  shows "kept B P db db'"
  using assms(4) by (auto simp: kept_def put_valid [OF v h p] put_has [OF v h p] put_entries [OF v h p])

lemma mig_SetBucket_eq:
  "bolt_valid B db \<Longrightarrow> mig_SetBucket B db p = (if p \<noteq> [] \<and> bolt_has B db p then Inr p else Inl ErrNotExist)"
  by (simp add: mig_SetBucket_def SetBucket_eq)

lemma keeps_SetKey: "p \<notin> P \<Longrightarrow> keeps B P (\<lambda>db. mig_SetKey B db p k v)"
  by (rule keepsI) (auto simp: mig_SetKey_def mig_SetBucket_eq split: sum.splits if_splits intro: kept_put)

lemma keeps_CreateBucket: "keeps B P (mig_CreateBucket B p ro)"
proof -
  have "keeps B P (\<lambda>db. case CreateBucket B db p of (Inl e, db') \<Rightarrow> (Some e, db') | (Inr _, db') \<Rightarrow> (None, db'))"
  proof (rule keepsI)
    fix db db' assume v: "bolt_valid B db"
      and "(case CreateBucket B db p of (Inl e, db') \<Rightarrow> (Some e, db') | (Inr _, db') \<Rightarrow> (None, db')) = (None, db')"
    then obtain q where "CreateBucket B db p = (Inr q, db')" by (auto split: prod.splits sum.splits)
    from CreateBucket_post [OF v this] show "kept B P db db'" by (simp add: kept_def)
  qed
  from keeps_db_Update [OF this] show ?thesis by (simp add: keeps_def mig_CreateBucket_def)
qed

lemma CreateBucket_has_iff:
  assumes "bolt_valid B rw" "mig_CreateBucket B p ro rw = (None, rw')"
  shows "bolt_has B rw' r \<longleftrightarrow> bolt_has B rw r \<or> r \<noteq> [] \<and> prefix r p"
proof -
  obtain q where "CreateBucket B rw p = (Inr q, rw')"
    using assms(2) by (auto simp: mig_CreateBucket_def db_Update_def split: prod.splits sum.splits option.splits)
  from CreateBucket_post(2) [OF assms(1) this] show ?thesis .
qed

lemma DeleteBucket_spec:
  assumes "bolt_valid B rw" "mig_DeleteBucket B p ro rw = (None, rw')" "p \<noteq> []"
  shows "bolt_valid B rw'" "bolt_has B rw' q \<longleftrightarrow> bolt_has B rw q \<and> \<not> prefix p q"
    "\<not> prefix p q \<Longrightarrow> bolt_entries B rw' q = bolt_entries B rw q"
  using DeleteBucket_post [OF assms(1,3)] assms(2)
  by (auto simp: mig_DeleteBucket_def db_Update_def split: prod.splits option.splits)

lemma keeps_DeleteBucket: "p \<noteq> [] \<Longrightarrow> \<forall>q \<in> P. \<not> prefix p q \<Longrightarrow> keeps B P (mig_DeleteBucket B p ro)"
  by (rule keepsI) (auto simp: kept_def DeleteBucket_spec)

lemma keeps_copy_objects: "ObjectsPath \<notin> P \<Longrightarrow> keeps B P (copy_objects B recode es)"
proof (induction es)
  case Nil
  show ?case by (rule keepsI) (simp add: kept_refl)
next
  case (Cons e es)
  obtain k v where e: "e = (k, v)" by fastforce
  show ?case
  proof (cases "recode v")
    case (Inr val)
    from Cons have "keeps B P (\<lambda>w. case mig_SetKey B w ObjectsPath k val of (Some e, w) \<Rightarrow> (Some e, w) | (None, w) \<Rightarrow> copy_objects B recode es w)"
      by (intro keeps_seq keeps_SetKey) simp_all
    then show ?thesis by (simp add: keeps_def e Inr)
  qed (simp add: keeps_def e)
qed

lemma keeps_objects_from:
  assumes "ObjectsPath \<notin> P"
  shows "keeps B P (copy_objects_from B recode ro)"
proof (cases ro)
  case (Some r)
  have "keeps B P (\<lambda>w. case mig_SetBucket B r ObjectsPath of Inl e \<Rightarrow> (Some e, w)
        | Inr b \<Rightarrow> copy_objects B recode (bolt_entries B r b) w)"
    using keeps_copy_objects [OF assms] by (cases "mig_SetBucket B r ObjectsPath") (simp_all add: keeps_def)
  from keepsD [OF this] show ?thesis by (auto simp: keeps_def copy_objects_from_def Some dest!: copy_tx_ok)
qed (simp add: keeps_def copy_objects_from_def kept_refl)

text \<open>Copying keys: what the backup has under them is then in the new bucket, and nothing else changes.\<close>

lemma copy_keys_spec:
  assumes "bolt_valid B w" "bolt_has B w wb" "copy_keys B ro rb wb keys w = (None, w')" "bolt_valid B ro" "wb \<notin> P"
  shows "kept B P w w' \<and> bolt_has B w' wb \<and> (\<forall>q. bolt_has B w' q \<longrightarrow> bolt_has B w q) \<and>
    (\<forall>k \<in> set keys. map_of (bolt_entries B w' wb) k = map_of (bolt_entries B ro rb) k \<and> map_of (bolt_entries B ro rb) k \<noteq> None) \<and>
    (\<forall>k. k \<notin> set keys \<longrightarrow> map_of (bolt_entries B w' wb) k = map_of (bolt_entries B w wb) k)"
  using assms(1-3)
proof (induction keys arbitrary: w)
  case (Cons key keys)
  obtain v w1 where v: "map_of (bolt_entries B ro rb) key = Some v" "bolt_put B w wb key v = Inr w1"
    "copy_keys B ro rb wb keys w1 = (None, w')"
    using Cons.prems(3) by (auto simp: get_entries [OF assms(4)] split: option.splits sum.splits)
  note put = put_valid [OF Cons.prems(1,2) v(2)] put_has [OF Cons.prems(1,2) v(2)] put_entries [OF Cons.prems(1,2) v(2)]
  have k: "kept B P w w1" by (rule kept_put [OF Cons.prems(2,1) v(2) assms(5)])
  from put Cons.prems(2) have h1: "bolt_has B w1 wb" by simp
  note IH = Cons.IH [OF put(1) h1 v(3)]
  show ?case
  proof (intro conjI)
    show "kept B P w w'" using IH kept_trans [OF k] by blast
    show "bolt_has B w' wb" "\<forall>q. bolt_has B w' q \<longrightarrow> bolt_has B w q" using IH put(2) by blast+
    show "\<forall>ka \<in> set (key # keys). map_of (bolt_entries B w' wb) ka = map_of (bolt_entries B ro rb) ka \<and>
        map_of (bolt_entries B ro rb) ka \<noteq> None"
    proof
      fix ka assume ka: "ka \<in> set (key # keys)"
      show "map_of (bolt_entries B w' wb) ka = map_of (bolt_entries B ro rb) ka \<and> map_of (bolt_entries B ro rb) ka \<noteq> None"
      proof (cases "ka \<in> set keys")
        case False
        with ka have "ka = key" by simp
        with False IH put(3) v(1) show ?thesis by simp
      qed (use IH in blast)
    qed
    show "\<forall>ka. ka \<notin> set (key # keys) \<longrightarrow> map_of (bolt_entries B w' wb) ka = map_of (bolt_entries B w wb) ka"
      using IH put(3) by simp
  qed
qed (simp add: kept_refl)

lemma keeps_mig009_updateManifest:
  assumes "bolt_valid B r" "new \<notin> P"
  shows "keeps B P (mig009_updateManifest B old new (Some r))"
proof -
  have "keeps B P (\<lambda>w. case mig_SetBucket B r old of Inl e \<Rightarrow> (Some e, w)
        | Inr rb \<Rightarrow> (case mig_SetBucket B w new of Inl e \<Rightarrow> (Some e, w)
            | Inr wb \<Rightarrow> copy_keys B r rb wb [BodyKey, ModelKey, MetadataKey] w))"
    by (rule keepsI) (auto simp: mig_SetBucket_eq assms(1) simp del: copy_keys.simps split: if_splits
        dest: copy_keys_spec [OF _ _ _ assms])
  from keepsD [OF this] show ?thesis by (auto simp: keeps_def mig009_updateManifest_def dest!: copy_tx_ok)
qed

end

section \<open>The version moves on\<close>

text \<open>What is assumed of the version library and of strings as values.\<close>

definition version_laws :: "('db, 'v, 'model, 'ver, 'z) mig_env_scheme \<Rightarrow> bool" where
  "version_laws E \<longleftrightarrow> (\<forall>v. sv_New E (sv_String E v) = Some v) \<and> (\<forall>v. sv_Patch E (sv_IncPatch E v) = sv_Patch E v + 1) \<and>
     (\<forall>s. mg_to_string E (mg_of_string E s) = s)"

lemma put_version_spec:
  assumes "bolt_engine E" "bolt_valid E rw" "bolt_has E rw SystemPath" "put_version E s rw = (None, rw')"
  shows "bolt_has E rw' SystemPath" "map_of (bolt_entries E rw' SystemPath) versionKey = Some (mg_of_string E s)"
    "SystemPath \<notin> P \<Longrightarrow> kept E P rw rw'" "bolt_valid E rw'" "bolt_has E rw' q = bolt_has E rw q"
proof -
  have s: "SystemPath \<noteq> []" by (simp add: SystemPath_def)
  obtain p: "bolt_put E rw SystemPath versionKey (mg_of_string E s) = Inr rw'"
    using assms(4) bolt_engine.mig_SetBucket_eq [OF assms(1,2)] assms(3) s
    by (auto simp: put_version_def db_Update_def split: option.splits prod.splits sum.splits)
  note put = bolt_engine.put_valid [OF assms(1-3) p] bolt_engine.put_has [OF assms(1-3) p] bolt_engine.put_entries [OF assms(1-3) p]
  show "bolt_has E rw' SystemPath" "map_of (bolt_entries E rw' SystemPath) versionKey = Some (mg_of_string E s)"
    "bolt_valid E rw'" "bolt_has E rw' q = bolt_has E rw q"
    using put assms(3) by simp_all
  show "SystemPath \<notin> P \<Longrightarrow> kept E P rw rw'" by (rule bolt_engine.kept_put [OF assms(1,3,2) p])
qed

lemma GetVersion_after:
  assumes "bolt_engine E" "version_laws E" "bolt_valid E db" "bolt_has E db SystemPath"
    and "map_of (bolt_entries E db SystemPath) versionKey = Some (mg_of_string E (sv_String E v))"
    and "GetVersion E db = Inr r"
  shows "r = Some v"
proof -
  have "SystemPath \<noteq> []" by (simp add: SystemPath_def)
  with assms bolt_engine.mig_SetBucket_eq [OF assms(1,3)] bolt_engine.get_entries [OF assms(1,3)] show ?thesis
    by (auto simp: GetVersion_def db_View_def version_laws_def split: option.splits)
qed

section \<open>Every migration leaves a system bucket\<close>

lemma keeps_MigrateModel:
  assumes "bolt_engine E" "p \<notin> P"
  shows "keeps E P (MigrateModel_at E p ro)"
proof (rule keepsI)
  fix rw rw' assume v: "bolt_valid E rw" and run: "MigrateModel_at E p ro rw = (None, rw')"
  show "kept E P rw rw'"
  proof (cases ro)
    case None
    with run v show ?thesis by (simp add: MigrateModel_at_def kept_refl)
  next
    case (Some r)
    with run obtain m where "db_Update E rw (\<lambda>tx. case SetAny E (enc_model E) tx p ModelKey m of
        (Inl e, tx') \<Rightarrow> (Some e, tx') | (Inr _, tx') \<Rightarrow> (None, tx')) = (None, rw')"
      by (auto simp: MigrateModel_at_def split: sum.splits)
    then obtain x where "SetAny E (enc_model E) rw p ModelKey m = (Inr x, rw')"
      by (auto simp: db_Update_def split: option.splits prod.splits sum.splits)
    then obtain buf where "bolt_has E rw p" "bolt_put E rw p ModelKey buf = Inr rw'"
      using bolt_engine.SetBucket_eq [OF assms(1) v]
      by (auto simp: SetAny_def SetKey_def split: sum.splits prod.splits option.splits if_splits)
    from bolt_engine.kept_put [OF assms(1) this(1) v this(2) assms(2)] show ?thesis .
  qed
qed

lemma keeps_mig007_updateManifest:
  assumes "bolt_engine E" "p \<notin> P"
  shows "keeps E P (mig007_updateManifest E p ro)"
proof (cases ro)
  case (Some r)
  note sk = bolt_engine.keeps_SetKey [OF assms]
  have b: "keeps E P (encodeBody E r b p)" for b
    using sk by (cases "mg_json_body E (bolt_get E r b BodyKey)"; cases "enc_body E (projr (mg_json_body E (bolt_get E r b BodyKey)))")
      (simp_all add: encodeBody_def keeps_def)
  have m: "keeps E P (encodeMetaData E r b p)" for b
    using sk by (cases "mg_json_md E (bolt_get E r b MetadataKey)"; cases "enc_md E (projr (mg_json_md E (bolt_get E r b MetadataKey)))")
      (simp_all add: encodeMetaData_def keeps_def)
  have "keeps E P (\<lambda>w. case encodeBody E r b p w of (Some e, w) \<Rightarrow> (Some e, w)
      | (None, w) \<Rightarrow> (case encodeMetaData E r b p w of (Some e, w) \<Rightarrow> (Some e, w)
        | (None, w) \<Rightarrow> mig_SetKey E w p ModelKey (case bolt_get E r b ModelKey of None \<Rightarrow> mg_nil E | Some v \<Rightarrow> v)))" for b
    by (intro keeps_seq b m sk)
  then have "keeps E P (\<lambda>w. case mig_SetBucket E r p of Inl e \<Rightarrow> (Some e, w)
      | Inr b \<Rightarrow> (case encodeBody E r b p w of (Some e, w) \<Rightarrow> (Some e, w)
      | (None, w) \<Rightarrow> (case encodeMetaData E r b p w of (Some e, w) \<Rightarrow> (Some e, w)
        | (None, w) \<Rightarrow> mig_SetKey E w p ModelKey (case bolt_get E r b ModelKey of None \<Rightarrow> mg_nil E | Some v \<Rightarrow> v))))"
    by (cases "mig_SetBucket E r p") (simp_all add: keeps_Some)
  from keepsD [OF this] show ?thesis by (auto simp: keeps_def mig007_updateManifest_def Some dest!: copy_tx_ok)
qed (simp add: keeps_def mig007_updateManifest_def kept_refl)

lemma keeps_copy_relations:
  assumes "bolt_engine E" "RelationsObjPath \<notin> P" "RelationsSubPath \<notin> P"
  shows "keeps E P (copy_relations E es)"
proof (induction es)
  case Nil
  show ?case by (rule keepsI) (simp add: kept_refl)
next
  case (Cons e es)
  obtain k v where e: "e = (k, v)" by fastforce
  have "keeps E P (\<lambda>w. case mig_SetKey E w RelationsObjPath (relation_ObjKey rel) val of (Some e, w) \<Rightarrow> (Some e, w)
      | (None, w) \<Rightarrow> (case mig_SetKey E w RelationsSubPath (relation_SubKey rel) val of (Some e, w) \<Rightarrow> (Some e, w)
        | (None, w) \<Rightarrow> copy_relations E es w))" for rel val
    using assms by (intro keeps_seq Cons.IH bolt_engine.keeps_SetKey)
  then show ?case
    by (cases "mg_json_rel E v"; cases "enc_rel E (projr (mg_json_rel E v))") (simp_all add: keeps_def e)
qed

lemma keeps_updateEncodingRelations:
  assumes "bolt_engine E" "RelationsObjPath \<notin> P" "RelationsSubPath \<notin> P"
  shows "keeps E P (updateEncodingRelations E ro)"
proof (cases ro)
  case (Some r)
  have "keeps E P (\<lambda>w. case mig_SetBucket E r RelationsObjPath of Inl e \<Rightarrow> (Some e, w)
        | Inr b \<Rightarrow> copy_relations E (bolt_entries E r b) w)"
    using keeps_copy_relations [OF assms] by (cases "mig_SetBucket E r RelationsObjPath") (simp_all add: keeps_def)
  from keepsD [OF this] show ?thesis by (auto simp: keeps_def updateEncodingRelations_def Some dest!: copy_tx_ok)
qed (simp add: keeps_def updateEncodingRelations_def kept_refl)

lemma path_neq:
  "ManifestPathV1 \<noteq> SystemPath" "ManifestPathV2 \<noteq> SystemPath" "ObjectsPath \<noteq> SystemPath"
  "RelationsObjPath \<noteq> SystemPath" "RelationsSubPath \<noteq> SystemPath"
  "\<not> prefix ManifestPathV1 SystemPath" "\<not> prefix ObjectsPath SystemPath" "\<not> prefix RelationsObjPath SystemPath"
  "\<not> prefix RelationsSubPath SystemPath"
  "ManifestPathV1 \<noteq> []" "ObjectsPath \<noteq> []" "RelationsObjPath \<noteq> []" "RelationsSubPath \<noteq> []" "SystemPath \<noteq> []"
  by (simp_all add: path_defs)

lemma steps_system:
  assumes "bolt_engine E" "bolt_valid E rw" "run_steps (mig_CreateBucket E SystemPath # fns) ro rw = (None, rw')"
    and "\<And>fn. fn \<in> set fns \<Longrightarrow> keeps E {SystemPath} (fn ro)"
  shows "bolt_valid E rw' \<and> bolt_has E rw' SystemPath"
proof -
  obtain w where w: "mig_CreateBucket E SystemPath ro rw = (None, w)" "run_steps fns ro w = (None, rw')"
    using assms(3) by (auto split: prod.splits option.splits)
  have v: "bolt_valid E w" by (rule keeps_valid [OF bolt_engine.keeps_CreateBucket [OF assms(1)] assms(2) w(1)])
  have "bolt_has E w SystemPath"
    using bolt_engine.CreateBucket_has_iff [OF assms(1,2) w(1)] by (simp add: path_neq)
  moreover have k: "keeps E {SystemPath} (run_steps fns ro)" by (rule keeps_run_steps) (rule assms(4))
  have "kept E {SystemPath} w rw'" by (rule keepsD [OF k v]) (rule w(2))
  ultimately show ?thesis by (auto simp: kept_def)
qed

lemma keeps_system:
  assumes "bolt_engine E"
  shows "keeps E {SystemPath} (mig_CreateBucket E p ro)" "keeps E {SystemPath} (MigrateModelV1 E ro)"
    "keeps E {SystemPath} (mig007_updateManifest E ManifestPathV1 ro)" "keeps E {SystemPath} (updateEncodingObjects E ro)"
    "keeps E {SystemPath} (mig010_updateObjects E ro)" "keeps E {SystemPath} (updateEncodingRelations E ro)"
    "keeps E {SystemPath} (mig_DeleteBucket E ManifestPathV1 ro)" "keeps E {SystemPath} (mig_DeleteBucket E ObjectsPath ro)"
    "keeps E {SystemPath} (mig_DeleteBucket E RelationsObjPath ro)" "keeps E {SystemPath} (mig_DeleteBucket E RelationsSubPath ro)"
    "bolt_valid E r \<Longrightarrow> keeps E {SystemPath} (mig009_updateManifest E ManifestPathV1 ManifestPathV2 (Some r))"
  using bolt_engine.keeps_CreateBucket [OF assms] keeps_MigrateModel [OF assms] keeps_mig007_updateManifest [OF assms]
    bolt_engine.keeps_objects_from [OF assms] keeps_updateEncodingRelations [OF assms]
    bolt_engine.keeps_DeleteBucket [OF assms] bolt_engine.keeps_mig009_updateManifest [OF assms]
  by (simp_all add: MigrateModelV1_def updateEncodingObjects_def mig010_updateObjects_def path_neq)

lemma execute_system:
  assumes "bolt_engine E" "bolt_valid E r" "bolt_valid E rw" "mig_execute E v (Some r) rw = (None, rw')"
  shows "bolt_valid E rw' \<and> bolt_has E rw' SystemPath \<and> sv_String E v \<in> fst ` set (migMap E)"
proof -
  obtain m where m: "map_of (migMap E) (sv_String E v) = Some m" "m (Some r) rw = (None, rw')"
    using assms(4) by (auto simp: mig_execute_def split: option.splits)
  note K = keeps_system [OF assms(1)] and S = steps_system [OF assms(1)]
  have model: "bolt_valid E rw' \<and> bolt_has E rw' SystemPath"
    if "run_steps ([mig_CreateBucket E SystemPath, mig_CreateBucket E ManifestPathV1, MigrateModelV1 E] @ data_buckets E) (Some r) rw = (None, rw')"
    by (rule S [OF assms(3) that [unfolded append.simps]]) (auto simp: data_buckets_def K)
  have m9: "bolt_valid E rw' \<and> bolt_has E rw' SystemPath" if "mig009_Migrate E (Some r) rw = (None, rw')"
    by (rule S [OF assms(3) that [unfolded mig009_Migrate_def append.simps]]) (auto simp: data_buckets_def K assms(2))
  have m10: "bolt_valid E rw' \<and> bolt_has E rw' SystemPath" if "mig010_Migrate E (Some r) rw = (None, rw')"
    by (rule S [OF assms(3) that [unfolded mig010_Migrate_def]]) (auto simp: K)
  have m7: "bolt_valid E rw' \<and> bolt_has E rw' SystemPath" if run: "mig007_Migrate E (Some r) rw = (None, rw')"
  proof -
    obtain w where w: "mig_DeleteBucket E SystemPath (Some r) rw = (None, w)"
      "run_steps (mig_CreateBucket E SystemPath # [mig_DeleteBucket E ManifestPathV1, mig_CreateBucket E ManifestPathV1,
        mig007_updateManifest E ManifestPathV1, mig_DeleteBucket E ObjectsPath, mig_CreateBucket E ObjectsPath, updateEncodingObjects E,
        mig_DeleteBucket E RelationsObjPath, mig_CreateBucket E RelationsObjPath, mig_DeleteBucket E RelationsSubPath,
        mig_CreateBucket E RelationsSubPath, updateEncodingRelations E]) (Some r) w = (None, rw')"
      using run unfolding mig007_Migrate_def
      by (cases "mig_DeleteBucket E SystemPath (Some r) rw"; cases "fst (mig_DeleteBucket E SystemPath (Some r) rw)")
        (simp_all only: run_steps.simps prod.case option.case fst_conv, auto)
    have v: "bolt_valid E w" by (rule bolt_engine.DeleteBucket_spec(1) [OF assms(1,3) w(1)]) (simp add: path_neq)
    show ?thesis by (rule S [OF v w(2)]) (auto simp: K)
  qed
  have "bolt_valid E rw' \<and> bolt_has E rw' SystemPath"
    using m model m7 m9 m10
    by (auto simp: migMap_def mig004_Migrate_def mig005_Migrate_def mig006_Migrate_def mig008_Migrate_def split: if_splits)
  moreover have "sv_String E v \<in> fst ` set (migMap E)" using m(1) by (metis map_of_SomeD fst_conv image_eqI)
  ultimately show ?thesis by blast
qed

text \<open>A migration that succeeds leaves the file at the next version, and the backup at what it was.\<close>

lemma migrate_ok:
  assumes "bolt_engine E" "bolt_valid E (live E files)" "mig_migrate E cur next files = (None, files')"
  obtains db w where "mf_db files' = Some db" "bolt_valid E db" "bolt_has E db SystemPath"
    "map_of (bolt_entries E db SystemPath) versionKey = Some (mg_of_string E (sv_String E next))"
    "sv_String E next \<in> fst ` set (migMap E)" "mf_backup files' = (mf_backup files)(sv_String E cur \<mapsto> live E files)"
    "mig_execute E next (Some (live E files)) (live E files) = (None, w)" "bolt_valid E w"
    "\<And>P. SystemPath \<notin> P \<Longrightarrow> kept E P w db" "\<And>q. bolt_has E db q = bolt_has E w q"
proof -
  let ?db = "live E files"
  obtain w db where w: "mig_execute E next (Some ?db) ?db = (None, w)" "put_version E (sv_String E next) w = (None, db)"
    "mf_db files' = Some db" "mf_backup files' = (mf_backup files)(sv_String E cur \<mapsto> ?db)"
    using assms(3)
    by (auto simp: mig_migrate_def set_version_sync_def SetVersion_def Let_def split: option.splits prod.splits)
  note x = execute_system [OF assms(1,2,2) w(1)]
  have v: "bolt_valid E w" "bolt_has E w SystemPath" using x by auto
  note p = put_version_spec [OF assms(1) v w(2)]
  show thesis by (rule that [OF w(3) p(4,1,2) _ w(4,1) v(1) p(3,5)]) (use x in auto)
qed

section \<open>The loop ends\<close>

lemma bounded_patch:
  assumes "version_laws E"
  shows "\<exists>n. \<forall>v. sv_String E v \<in> fst ` set (migMap E) \<longrightarrow> sv_Patch E v \<le> n"
proof -
  have "inj (sv_String E)" using assms by (metis version_laws_def injI option.inject)
  then have "finite {v. sv_String E v \<in> fst ` set (migMap E)}"
    using finite_vimageI [of "fst ` set (migMap E)" "sv_String E"] by (simp add: vimage_def)
  then have "finite (sv_Patch E ` {v. sv_String E v \<in> fst ` set (migMap E)})" by simp
  then obtain n where "\<forall>x \<in> sv_Patch E ` {v. sv_String E v \<in> fst ` set (migMap E)}. x \<le> n"
    using finite_nat_set_iff_bounded_le by metis
  then show ?thesis by blast
qed

definition at_version :: "('db, 'v, 'model, 'ver, 'z) mig_env_scheme \<Rightarrow> 'ver \<Rightarrow> 'db mig_files \<Rightarrow> bool" where
  "at_version E req files \<longleftrightarrow> (\<exists>db v. mf_db files = Some db \<and> GetVersion E db = Inr (Some v) \<and> sv_Equal E v req)"

lemma migrate_keeps_file: "mf_db files \<noteq> None \<Longrightarrow> mf_db (snd (mig_migrate E cur next files)) \<noteq> None"
  by (auto simp: mig_migrate_def Let_def split: option.splits prod.splits)

lemma Migrate_loop_returns:
  assumes "bolt_engine E" "version_laws E" "\<forall>v. sv_String E v \<in> fst ` set (migMap E) \<longrightarrow> sv_Patch E v \<le> n"
    and "bolt_valid E (live E files)" "mf_db files \<noteq> None"
  shows "\<exists>err files'. Migrate_loop E req cur files = Some (err, files') \<and> (err = None \<longrightarrow> at_version E req files') \<and> mf_db files' \<noteq> None"
  using assms(4,5)
proof (induction "n - sv_Patch E cur" arbitrary: cur files rule: less_induct)
  case less
  obtain err f1 where run: "mig_migrate E cur (sv_IncPatch E cur) files = (err, f1)" by fastforce
  then have keep: "mf_db f1 \<noteq> None" using migrate_keeps_file [OF less.prems(2), of E cur "sv_IncPatch E cur"] by simp
  show ?case
  proof (cases err)
    case (Some e)
    with run keep show ?thesis by (subst Migrate_loop.simps) simp
  next
    case None
    from migrate_ok [OF assms(1) less.prems(1) run [unfolded None]] obtain db where db: "mf_db f1 = Some db" "bolt_valid E db"
      "bolt_has E db SystemPath"
      "map_of (bolt_entries E db SystemPath) versionKey = Some (mg_of_string E (sv_String E (sv_IncPatch E cur)))"
      "sv_String E (sv_IncPatch E cur) \<in> fst ` set (migMap E)" by metis
    have live: "live E f1 = db" by (simp add: live_def db(1))
    show ?thesis
    proof (cases "getCurrent E f1")
      case (Inl e)
      with run None keep show ?thesis by (subst Migrate_loop.simps) simp
    next
      case (Inr r)
      then have g: "GetVersion E db = Inr r" by (simp add: getCurrent_def live split: option.splits)
      with GetVersion_after [OF assms(1,2) db(2-4)] have r: "r = Some (sv_IncPatch E cur)" by simp
      have less': "n - sv_Patch E (sv_IncPatch E cur) < n - sv_Patch E cur"
        using assms(2,3) db(5) by (metis version_laws_def add_diff_cancel_right' diff_less_mono2 less_add_one order_less_le_trans)
      show ?thesis
      proof (cases "sv_Equal E (sv_IncPatch E cur) req")
        case True
        then have "at_version E req f1" using db(1,2) g r by (auto simp: at_version_def)
        with run None Inr r True keep show ?thesis by (subst Migrate_loop.simps) simp
      next
        case False
        from less.hyps [OF less', of f1] db(2) live keep obtain err' f2 where
          "Migrate_loop E req (sv_IncPatch E cur) f1 = Some (err', f2)" "err' = None \<longrightarrow> at_version E req f2" "mf_db f2 \<noteq> None" by auto
        with run None Inr r False show ?thesis by (subst Migrate_loop.simps) simp
      qed
    qed
  qed
qed

lemma Migrate_body_returns:
  assumes "bolt_engine E" "version_laws E" "bolt_valid E (live E files)" "mf_db files \<noteq> None"
  shows "\<exists>err files'. Migrate_body E req files = Some (err, files') \<and> (err = None \<longrightarrow> at_version E req files') \<and> mf_db files' \<noteq> None"
proof -
  let ?f = "files\<lparr>mf_db := Some (live E files)\<rparr>"
  have live: "live E ?f = live E files" by (simp add: live_def)
  obtain n where n: "\<forall>v. sv_String E v \<in> fst ` set (migMap E) \<longrightarrow> sv_Patch E v \<le> n" using bounded_patch [OF assms(2)] by blast
  show ?thesis
  proof (cases "getCurrent E files")
    case (Inr r)
    then have g: "GetVersion E (live E files) = Inr r" by (simp add: getCurrent_def split: option.splits)
    show ?thesis
    proof (cases r)
      case (Some v)
      show ?thesis
      proof (cases "sv_Equal E v req")
        case True
        then have "at_version E req ?f" using g Some assms(3) by (auto simp: at_version_def)
        with Inr Some True show ?thesis by (simp add: Migrate_body_def)
      next
        case False
        with Migrate_loop_returns [OF assms(1,2) n, of ?f req v] Inr Some assms(3) live show ?thesis
          by (simp add: Migrate_body_def)
      qed
    qed (simp add: Migrate_body_def Inr)
  qed (use assms(4) in \<open>simp add: Migrate_body_def\<close>)
qed

section \<open>The manifest moves\<close>

lemma run_steps_Cons_ok:
  assumes "run_steps (fn # fns) ro rw = (None, rw')"
  obtains w where "fn ro rw = (None, w)" "run_steps fns ro w = (None, rw')"
  using assms by (auto split: prod.splits option.splits)

lemma data_buckets_ok:
  assumes "bolt_engine E" "bolt_valid E rw" "run_steps (data_buckets E) ro rw = (None, rw')"
  shows "kept E UNIV rw rw'" "\<not> bolt_has E rw ManifestPathV1 \<Longrightarrow> \<not> bolt_has E rw' ManifestPathV1"
proof -
  have "keeps E UNIV (run_steps (data_buckets E) ro)"
    by (rule keeps_run_steps) (auto simp: data_buckets_def bolt_engine.keeps_CreateBucket [OF assms(1)])
  from keepsD [OF this assms(2,3)] show "kept E UNIV rw rw'" .
  obtain a b where a: "mig_CreateBucket E ObjectsPath ro rw = (None, a)" "mig_CreateBucket E RelationsObjPath ro a = (None, b)"
    "mig_CreateBucket E RelationsSubPath ro b = (None, rw')"
    using assms(3) unfolding data_buckets_def by (auto split: prod.splits option.splits)
  note K = bolt_engine.keeps_CreateBucket [OF assms(1)] and H = bolt_engine.CreateBucket_has_iff [OF assms(1)]
  have va: "bolt_valid E a" by (rule keeps_valid [OF K assms(2) a(1)])
  have vb: "bolt_valid E b" by (rule keeps_valid [OF K va a(2)])
  assume "\<not> bolt_has E rw ManifestPathV1"
  then show "\<not> bolt_has E rw' ManifestPathV1"
    using H [OF assms(2) a(1)] H [OF va a(2)] H [OF vb a(3)] by (simp add: path_defs)
qed

lemma mig009_ok:
  assumes "bolt_engine E" "bolt_valid E db" "mig009_Migrate E (Some db) db = (None, db')"
  shows "\<forall>k \<in> {BodyKey, ModelKey, MetadataKey}. map_of (bolt_entries E db' ManifestPathV2) k = map_of (bolt_entries E db ManifestPathV1) k \<and>
      map_of (bolt_entries E db ManifestPathV1) k \<noteq> None"
    and "\<not> bolt_has E db' ManifestPathV1" "bolt_has E db' ManifestPathV2"
    and "kept E {ObjectsPath, RelationsObjPath, RelationsSubPath} db db'"
proof -
  let ?D = "{ObjectsPath, RelationsObjPath, RelationsSubPath}"
  note K = bolt_engine.keeps_CreateBucket [OF assms(1)] and H = bolt_engine.CreateBucket_has_iff [OF assms(1)]
  obtain w1 w2 w3 w4 where w: "mig_CreateBucket E SystemPath (Some db) db = (None, w1)"
    "mig_DeleteBucket E ManifestPathV1 (Some db) w1 = (None, w2)" "mig_CreateBucket E ManifestPathV2 (Some db) w2 = (None, w3)"
    "mig009_updateManifest E ManifestPathV1 ManifestPathV2 (Some db) w3 = (None, w4)"
    "run_steps (data_buckets E) (Some db) w4 = (None, db')"
    using assms(3) unfolding mig009_Migrate_def append.simps by (elim run_steps_Cons_ok) (rule that)
  have k1: "kept E UNIV db w1" and v1: "bolt_valid E w1" using keepsD [OF K assms(2) w(1), of UNIV] by (simp_all add: kept_def)
  have "keeps E ?D (mig_DeleteBucket E ManifestPathV1 (Some db))"
    by (rule bolt_engine.keeps_DeleteBucket [OF assms(1)]) (auto simp: path_defs)
  from keepsD [OF this v1 w(2)] have k2: "kept E ?D w1 w2" .
  note d = bolt_engine.DeleteBucket_spec [OF assms(1) v1 w(2) path_neq(10)]
  have k3: "kept E UNIV w2 w3" and v3: "bolt_valid E w3" using keepsD [OF K d(1) w(3), of UNIV] by (simp_all add: kept_def)
  have h3: "bolt_has E w3 ManifestPathV2" "\<not> bolt_has E w3 ManifestPathV1"
    using H [OF d(1) w(3)] d(2) by (simp_all add: path_defs)
  have "copy_keys E db ManifestPathV1 ManifestPathV2 [BodyKey, ModelKey, MetadataKey] w3 = (None, w4)"
    using copy_tx_ok [OF w(4) [unfolded mig009_updateManifest_def option.case]] h3(1)
    by (simp add: bolt_engine.mig_SetBucket_eq [OF assms(1)] assms(2) v3 del: copy_keys.simps split: if_splits)
  from bolt_engine.copy_keys_spec [OF assms(1) v3 h3(1) this assms(2), of ?D]
  have c: "kept E ?D w3 w4" "bolt_has E w4 ManifestPathV2" "\<forall>q. bolt_has E w4 q \<longrightarrow> bolt_has E w3 q"
    "\<forall>k \<in> {BodyKey, ModelKey, MetadataKey}. map_of (bolt_entries E w4 ManifestPathV2) k = map_of (bolt_entries E db ManifestPathV1) k \<and>
      map_of (bolt_entries E db ManifestPathV1) k \<noteq> None"
    by (simp_all add: path_defs)
  then have v4: "bolt_valid E w4" by (simp add: kept_def)
  note e = data_buckets_ok [OF assms(1) v4 w(5)]
  have "map_of (bolt_entries E db' ManifestPathV2) = map_of (bolt_entries E w4 ManifestPathV2)" "bolt_has E db' ManifestPathV2"
    using e(1) c(2) by (simp_all add: kept_def)
  with c(4) show "\<forall>k \<in> {BodyKey, ModelKey, MetadataKey}. map_of (bolt_entries E db' ManifestPathV2) k = map_of (bolt_entries E db ManifestPathV1) k \<and>
      map_of (bolt_entries E db ManifestPathV1) k \<noteq> None" "bolt_has E db' ManifestPathV2" by simp_all
  show "\<not> bolt_has E db' ManifestPathV1" by (rule e(2)) (use c(3) h3(2) in blast)
  have "kept E ?D db w1" "kept E ?D w2 w3" "kept E ?D w4 db'" using k1 k3 e(1) by (auto intro: kept_mono)
  then show "kept E ?D db db'" using k2 c(1) by (blast intro: kept_trans)
qed

end
