(* ===== verification/Spec2Isabelle.thy ===== *)
theory Spec2Isabelle
  imports PgProps SyncProps AuthzProps MigProps
begin

text \<open>
  \<^bold>\<open>Verification of the eamerald directory.\<close>

  The program stores objects and relations, a manifest with the authorization model, and answers
  reads, checks and access decisions over them. Its core is the directory under
  \<^verbatim>\<open>src/internal/eds\<close>: gRPC services (\<^verbatim>\<open>pkg/directory/v3\<close>) call a domain layer (\<^verbatim>\<open>pkg/ds\<close>), which
  runs inside transactions of a storage interface (\<^verbatim>\<open>pkg/store\<close>); the backend is BoltDB
  (\<^verbatim>\<open>pkg/bdb\<close>). Decisions are logged by \<^verbatim>\<open>src/internal/adl\<close>.
\<close>

end
